(* ===== verification/Bridge_Prelude.thy ===== *)
theory Bridge_Prelude
  imports
    Main
    "HOL-Library.Word"
    "HOL-Library.AList"
    "HOL-Library.Monad_Syntax"
    "HOL-Library.List_Lexorder"
    "HOL-Library.Multiset"
begin

text \<open>
  The shared vocabulary of the development: machine integers and byte slices, Go errors, Go maps,
  the shape of an effectful Go function, and the generic lemmas every component uses.

  \<^item> A Go \<^verbatim>\<open>uint64\<close> is a \<open>64 word\<close>, a \<^verbatim>\<open>byte\<close> an \<open>8 word\<close>, a byte slice (and a Go string used as
    a raw byte key) a list of those; a \<^verbatim>\<open>big.Int\<close> and a Go \<^verbatim>\<open>int\<close> read as a number is an \<open>int\<close>.
  \<^item> A pointer that the code compares with \<^verbatim>\<open>nil\<close> is an \<open>option\<close>.
  \<^item> A pair \<^verbatim>\<open>(value, error)\<close> is a sum, \<open>Inl\<close> the error; a lone \<^verbatim>\<open>error\<close> is an \<open>option\<close>.
  \<^item> A function that reads or writes state has type \<open>prog\<close>: it takes the state and returns the
    result with the new state, or \<open>None\<close> when the Go code panics.
\<close>

section \<open>Collections of facts\<close>

named_theorems wp_simps \<open>weakest-precondition equations of the program combinators\<close>
named_theorems wp_intros \<open>introduction rules for weakest preconditions of called operations\<close>

section \<open>Types\<close>

type_synonym u64 = "64 word"
type_synonym u32 = "32 word"
type_synonym byte = "8 word"
type_synonym bytes = "byte list"
type_synonym ('s, 'a) prog = "'s \<Rightarrow> ('a \<times> 's) option"
type_synonym ('k, 'v) gomap = "('k \<times> 'v) list"

section \<open>Go errors\<close>

text \<open>
  A sentinel made by \<^verbatim>\<open>errors.New\<close> is identified by its package and its text (texts are unique
  inside a package); \<^verbatim>\<open>fmt.Errorf("%w suffix", ...)\<close> wraps one; any other error is plain text.
\<close>

datatype go_error =
    Sentinel string string
  | Wrapped go_error string
  | Plain string

primrec Error :: "go_error \<Rightarrow> string" where
  "Error (Sentinel pkg txt) = txt"
| "Error (Wrapped e suffix) = Error e @ suffix"
| "Error (Plain txt) = txt"

fun errors_Is :: "go_error \<Rightarrow> go_error \<Rightarrow> bool" where
  "errors_Is (Wrapped e suffix) t = (Wrapped e suffix = t \<or> errors_Is e t)"
| "errors_Is e t = (e = t)"

lemma errors_Is_refl [simp]: "errors_Is e e"
  by (cases e) simp_all

lemma errors_Is_Wrapped [simp]: "errors_Is (Wrapped e s) e"
  by simp

section \<open>Numbers as text\<close>

definition digit :: "nat \<Rightarrow> char" where
  "digit n = char_of (if n < 10 then 48 + n else 87 + n)"

fun dec :: "nat \<Rightarrow> string" where
  "dec n = (if n < 10 then [digit n] else dec (n div 10) @ [digit (n mod 10)])"

declare dec.simps [simp del]

definition dec_int :: "int \<Rightarrow> string" where
  "dec_int i = (if i < 0 then ''-'' @ dec (nat (- i)) else dec (nat i))"

definition dec_u64 :: "u64 \<Rightarrow> string" where
  "dec_u64 w = dec (unat w)"

definition quoted :: "string \<Rightarrow> string" where
  "quoted s = CHR 0x27 # s @ [CHR 0x27]"

text \<open>\<^verbatim>\<open>hex.EncodeToString\<close>: two lower-case hexadecimal digits per byte.\<close>

definition hex_byte :: "byte \<Rightarrow> string" where
  "hex_byte b = [digit (unat b div 16), digit (unat b mod 16)]"

definition hexEncode :: "bytes \<Rightarrow> string" where
  "hexEncode bs = concat (map hex_byte bs)"

lemma unat_byte_less [simp]: "unat (b :: byte) < 256"
  using unsigned_less [of b, where 'a = nat] by simp

text \<open>\<^verbatim>\<open>string(b)\<close>: the same bytes read as characters.\<close>

definition string_of_bytes :: "bytes \<Rightarrow> string" where
  "string_of_bytes bs = map (\<lambda>b. char_of (unat b)) bs"

lemma digit_inj:
  assumes "m < 16" "n < 16" "digit m = digit n"
  shows "m = n"
proof -
  have "of_char (digit m) = (of_char (digit n) :: nat)"
    using assms(3) by simp
  then show ?thesis
    using assms(1,2) by (auto simp: digit_def split: if_splits)
qed

lemma hex_byte_inj [simp]: "hex_byte a = hex_byte b \<longleftrightarrow> a = b"
proof
  assume *: "hex_byte a = hex_byte b"
  have ub: "unat a < 256" "unat b < 256"
    by simp_all
  have "unat a div 16 = unat b div 16"
    using * ub by (intro digit_inj) (auto simp: hex_byte_def less_mult_imp_div_less)
  moreover have "unat a mod 16 = unat b mod 16"
    using * by (intro digit_inj) (auto simp: hex_byte_def)
  ultimately have "unat a = unat b"
    by (metis div_mult_mod_eq)
  then show "a = b" by (simp add: word_unat_eq_iff)
qed simp

lemma length_hex_byte [simp]: "length (hex_byte b) = 2"
  by (simp add: hex_byte_def)

lemma hexEncode_simps [simp]:
  "hexEncode [] = []"
  "hexEncode (b # bs) = hex_byte b @ hexEncode bs"
  by (simp_all add: hexEncode_def)

lemma length_hexEncode [simp]: "length (hexEncode bs) = 2 * length bs"
  by (induction bs) simp_all

lemma hexEncode_inj [simp]: "hexEncode xs = hexEncode ys \<longleftrightarrow> xs = ys"
proof (induction xs arbitrary: ys)
  case Nil
  show ?case by (cases ys) (simp_all add: hex_byte_def)
next
  case (Cons x xs)
  show ?case
  proof (cases ys)
    case Nil
    then show ?thesis by (simp add: hex_byte_def)
  next
    case (Cons y zs)
    then show ?thesis using Cons.IH [of zs] by (simp add: append_eq_append_conv)
  qed
qed

lemma string_of_bytes_inj [simp]: "string_of_bytes xs = string_of_bytes ys \<longleftrightarrow> xs = ys"
proof
  have "inj (\<lambda>b::byte. char_of (unat b))"
  proof (rule injI)
    fix a b :: byte
    assume "char_of (unat a) = (char_of (unat b) :: char)"
    then have "unat a mod 256 = unat b mod 256"
      by (metis of_char_of)
    moreover have "unat a < 256" "unat b < 256"
      by simp_all
    ultimately show "a = b" by (simp add: word_unat_eq_iff)
  qed
  then show "string_of_bytes xs = string_of_bytes ys \<Longrightarrow> xs = ys"
    by (simp add: string_of_bytes_def)
qed simp

section \<open>Big-endian numbers\<close>

text \<open>\<^verbatim>\<open>big.NewInt(0).SetBytes\<close>, and \<^verbatim>\<open>binary.BigEndian.PutUint64\<close> with its inverse.\<close>

definition setBytes :: "bytes \<Rightarrow> nat" where
  "setBytes bs = foldl (\<lambda>n b. 256 * n + unat b) 0 bs"

text \<open>The same number in binary representation, for evaluation.\<close>

definition setBytesInt :: "bytes \<Rightarrow> int" where
  "setBytesInt bs = foldl (\<lambda>n b. 256 * n + uint b) 0 bs"

lemma setBytesInt_eq: "setBytesInt bs = int (setBytes bs)"
  by (induction bs rule: rev_induct) (simp_all add: setBytesInt_def setBytes_def)

fun be_bytes :: "nat \<Rightarrow> nat \<Rightarrow> bytes" where
  "be_bytes 0 n = []"
| "be_bytes (Suc k) n = be_bytes k (n div 256) @ [of_nat (n mod 256)]"

definition putUint64 :: "u64 \<Rightarrow> bytes" where
  "putUint64 w = be_bytes 8 (unat w)"

lemma setBytes_Nil [simp]: "setBytes [] = 0"
  by (simp add: setBytes_def)

lemma setBytes_snoc [simp]: "setBytes (bs @ [b]) = 256 * setBytes bs + unat b"
  by (simp add: setBytes_def)

lemma setBytes_less: "setBytes bs < 256 ^ length bs"
proof (induction bs rule: rev_induct)
  case (snoc b bs)
  have "unat b < 256" by simp
  with snoc have "256 * setBytes bs + unat b < 256 * (setBytes bs + 1)" by simp
  also have "\<dots> \<le> 256 * 256 ^ length bs" using snoc by (intro mult_le_mono) simp_all
  finally show ?case by simp
qed simp

lemma length_be_bytes [simp]: "length (be_bytes k n) = k"
  by (induction k arbitrary: n) simp_all

lemma setBytes_be_bytes: "n < 256 ^ k \<Longrightarrow> setBytes (be_bytes k n) = n"
proof (induction k arbitrary: n)
  case (Suc k)
  have "n div 256 < 256 ^ k" using Suc.prems by (simp add: less_mult_imp_div_less mult.commute)
  then have "setBytes (be_bytes k (n div 256)) = n div 256" by (rule Suc.IH)
  moreover have "unat (of_nat (n mod 256) :: byte) = n mod 256"
    by (simp add: unat_of_nat)
  ultimately show ?case by simp
qed simp

lemma setBytes_putUint64 [simp]: "setBytes (putUint64 w) = unat w"
  using unsigned_less [of w, where 'a = nat] by (simp add: putUint64_def setBytes_be_bytes)

lemma putUint64_inj [simp]: "putUint64 a = putUint64 b \<longleftrightarrow> a = b"
proof
  assume "putUint64 a = putUint64 b"
  then have "setBytes (putUint64 a) = setBytes (putUint64 b)" by simp
  then show "a = b" by (simp add: word_unat_eq_iff)
qed simp

lemma length_putUint64 [simp]: "length (putUint64 w) = 8"
  by (simp add: putUint64_def)

text \<open>Conversions between \<^verbatim>\<open>big.Int\<close>, \<^verbatim>\<open>int64\<close> and \<^verbatim>\<open>uint64\<close> that keep the low 64 bits.\<close>

definition bigInt64 :: "int \<Rightarrow> int" where
  "bigInt64 q = sint (word_of_int q :: u64)"

definition bigUint64 :: "int \<Rightarrow> u64" where
  "bigUint64 q = word_of_int \<bar>q\<bar>"

lemma bigInt64_small: "0 \<le> q \<Longrightarrow> q < 2 ^ 63 \<Longrightarrow> bigInt64 q = q"
  by (simp add: bigInt64_def signed_of_int signed_take_bit_int_eq_self)

lemma u64_inc: "(n::u64) < m \<Longrightarrow> unat (n + 1) = Suc (unat n)"
  using unsigned_less [of m, where 'a = nat]
  by (simp add: word_less_nat_alt unat_word_ariths(1))

section \<open>Go maps\<close>

text \<open>
  A Go map is an association list without duplicate keys. Its iteration order is unspecified, so
  every \<^verbatim>\<open>range\<close> over a map takes the order the runtime picked as an argument: a function that
  permutes the entries.
\<close>

abbreviation gm_get :: "('k, 'v) gomap \<Rightarrow> 'k \<Rightarrow> 'v option" where
  "gm_get m k \<equiv> map_of m k"

abbreviation gm_set :: "'k \<Rightarrow> 'v \<Rightarrow> ('k, 'v) gomap \<Rightarrow> ('k, 'v) gomap" where
  "gm_set k v m \<equiv> AList.update k v m"

definition wf_map :: "('k, 'v) gomap \<Rightarrow> bool" where
  "wf_map m \<longleftrightarrow> distinct (map fst m)"

definition range_order :: "('a list \<Rightarrow> 'a list) \<Rightarrow> bool" where
  "range_order ord \<longleftrightarrow> (\<forall>xs. mset (ord xs) = mset xs)"

lemma wf_map_Nil [simp]: "wf_map []"
  by (simp add: wf_map_def)

lemma wf_map_set [simp]: "wf_map m \<Longrightarrow> wf_map (gm_set k v m)"
  by (simp add: wf_map_def distinct_update)

lemma gm_get_set [simp]: "gm_get (gm_set k v m) k' = (if k' = k then Some v else gm_get m k')"
  by (simp add: update_conv')

lemma gm_keys_set [simp]: "fst ` set (gm_set k v m) = insert k (fst ` set m)"
  by (simp add: dom_update)

lemma range_order_id [simp]: "range_order id"
  by (simp add: range_order_def)

lemma range_order_rev [simp]: "range_order rev"
  by (simp add: range_order_def)

lemma range_order_set [simp]: "range_order ord \<Longrightarrow> set (ord xs) = set xs"
  unfolding range_order_def by (metis set_mset_mset)

lemma range_order_length [simp]: "range_order ord \<Longrightarrow> length (ord xs) = length xs"
  unfolding range_order_def by (metis size_mset)

lemma range_order_distinct [simp]: "range_order ord \<Longrightarrow> distinct (ord xs) = distinct xs"
  unfolding range_order_def by (metis mset_eq_imp_distinct_iff)

section \<open>Weakest preconditions\<close>

text \<open>
  \<open>wpg b m Q\<close>: the result of \<open>m\<close> satisfies \<open>Q\<close>, where a panic counts as \<open>b\<close>. With \<open>b = True\<close> it
  is the liberal precondition \<open>wlp\<close> (if the computation returns, \<open>Q\<close> holds), with \<open>b = False\<close>
  the strict one \<open>wp\<close> (it returns, and \<open>Q\<close> holds). The equations push it through the combinators.
\<close>

definition wpg :: "bool \<Rightarrow> 'a option \<Rightarrow> ('a \<Rightarrow> bool) \<Rightarrow> bool" where
  "wpg b m Q \<longleftrightarrow> (case m of None \<Rightarrow> b | Some x \<Rightarrow> Q x)"

abbreviation wlp :: "'a option \<Rightarrow> ('a \<Rightarrow> bool) \<Rightarrow> bool" where
  "wlp m Q \<equiv> wpg True m Q"

abbreviation wp :: "'a option \<Rightarrow> ('a \<Rightarrow> bool) \<Rightarrow> bool" where
  "wp m Q \<equiv> wpg False m Q"

lemma wpg_Some [wp_simps, simp]: "wpg b (Some x) Q \<longleftrightarrow> Q x"
  by (simp add: wpg_def)

lemma wpg_None [wp_simps, simp]: "wpg b None Q \<longleftrightarrow> b"
  by (simp add: wpg_def)

lemma wpg_bind [wp_simps]: "wpg b (m \<bind> f) Q \<longleftrightarrow> wpg b m (\<lambda>x. wpg b (f x) Q)"
  by (cases m) simp_all

lemma wpg_if [wp_simps]: "wpg b (if c then m else n) Q \<longleftrightarrow> (if c then wpg b m Q else wpg b n Q)"
  by simp

lemma wpg_case_sum [wp_simps]:
  "wpg b (case x of Inl a \<Rightarrow> f a | Inr c \<Rightarrow> g c) Q \<longleftrightarrow>
     (case x of Inl a \<Rightarrow> wpg b (f a) Q | Inr c \<Rightarrow> wpg b (g c) Q)"
  by (cases x) simp_all

lemma wpg_case_option [wp_simps]:
  "wpg b (case x of None \<Rightarrow> m | Some c \<Rightarrow> g c) Q \<longleftrightarrow>
     (case x of None \<Rightarrow> wpg b m Q | Some c \<Rightarrow> wpg b (g c) Q)"
  by (cases x) simp_all

lemma wpg_case_prod [wp_simps]:
  "wpg b (case p of (x, y) \<Rightarrow> f x y) Q \<longleftrightarrow> (case p of (x, y) \<Rightarrow> wpg b (f x y) Q)"
  by (cases p) simp

lemma wpg_Let [wp_simps]: "wpg b (let x = a in f x) Q \<longleftrightarrow> wpg b (f a) Q"
  by (simp add: Let_def)

lemma wpg_mono: "wpg b m P \<Longrightarrow> (\<And>x. m = Some x \<Longrightarrow> P x \<Longrightarrow> Q x) \<Longrightarrow> wpg b m Q"
  by (cases m) simp_all

lemma wlp_iff: "wlp m Q \<longleftrightarrow> (\<forall>x. m = Some x \<longrightarrow> Q x)"
  by (cases m) simp_all

lemma wp_iff: "wp m Q \<longleftrightarrow> (\<exists>x. m = Some x \<and> Q x)"
  by (cases m) simp_all

lemma wlp_D: "wlp m Q \<Longrightarrow> m = Some x \<Longrightarrow> Q x"
  by simp

lemma wlp_I: "(\<And>x. m = Some x \<Longrightarrow> Q x) \<Longrightarrow> wlp m Q"
  by (simp add: wlp_iff)

lemma wlp_True [simp]: "wlp m (\<lambda>_. True)"
  by (simp add: wlp_iff)

lemma wpg_I: "(m = None \<Longrightarrow> b) \<Longrightarrow> (\<And>x. m = Some x \<Longrightarrow> Q x) \<Longrightarrow> wpg b m Q"
  by (cases m) simp_all

lemma wp_wlp: "wp m Q \<Longrightarrow> wlp m Q"
  by (cases m) simp_all

lemma wp_conj: "wp m P \<Longrightarrow> wlp m Q \<Longrightarrow> wp m (\<lambda>x. P x \<and> Q x)"
  by (cases m) simp_all

lemma bind_Some_conv: "(m \<bind> f) = Some y \<longleftrightarrow> (\<exists>x. m = Some x \<and> f x = Some y)"
  by (cases m) simp_all

text \<open>An operation that never panics.\<close>

definition never_panics :: "('s, 'a) prog \<Rightarrow> bool" where
  "never_panics f \<longleftrightarrow> (\<forall>s. f s \<noteq> None)"

text \<open>A computation that returns; its own predicate, so that the simplifier does not open it.\<close>

definition returns :: "'a option \<Rightarrow> bool" where
  "returns m \<longleftrightarrow> m \<noteq> None"

lemma returns_Some [simp]: "returns (Some x)"
  by (simp add: returns_def)

lemma returns_None [simp]: "\<not> returns None"
  by (simp add: returns_def)

lemma returns_bind [intro]: "returns m \<Longrightarrow> (\<And>x. m = Some x \<Longrightarrow> returns (f x)) \<Longrightarrow> returns (m \<bind> f)"
  by (cases m) simp_all

lemma never_panics_returns: "never_panics f \<longleftrightarrow> (\<forall>s. returns (f s))"
  by (simp add: never_panics_def returns_def)

lemma returns_ex: "returns m \<longleftrightarrow> (\<exists>x y. m = Some (x, y))"
  by (cases m) (auto simp: returns_def)

lemma never_panics_wpg: "never_panics f \<Longrightarrow> wpg b (f s) Q \<longleftrightarrow> wlp (f s) Q"
  by (metis never_panics_def option.exhaust wpg_Some)

end
