(* ===== verification/Transfer_Batch.thy ===== *)
theory Transfer_Batch
  imports Bridge_Prelude
begin

text \<open>
  The chain-agnostic batch of \<^verbatim>\<open>bridge/clients/batch.go\<close>, with the status bytes of
  \<^verbatim>\<open>clients/constants.go\<close> and the shared errors of \<^verbatim>\<open>clients/errors.go\<close>. The lemmas give the closed
  form of the two in-place loops of \<open>ResolveNewDeposits\<close> and show what \<open>Clone\<close> keeps.
\<close>

section \<open>Constants and errors\<close>

definition Executed :: byte where
  "Executed = 3"

definition Rejected :: byte where
  "Rejected = 4"

definition ErrInvalidValue :: go_error where
  "ErrInvalidValue = Sentinel ''clients'' ''invalid value''"

definition clients_ErrNilLogger :: go_error where
  "clients_ErrNilLogger = Sentinel ''clients'' ''nil logger''"

definition ErrNilDataGetter :: go_error where
  "ErrNilDataGetter = Sentinel ''clients'' ''nil data getter''"

definition clients_ErrNilPrivateKey :: go_error where
  "clients_ErrNilPrivateKey = Sentinel ''clients'' ''nil private key''"

definition clients_ErrNilBatch :: go_error where
  "clients_ErrNilBatch = Sentinel ''clients'' ''nil batch''"

definition ErrNilTokensMapper :: go_error where
  "ErrNilTokensMapper = Sentinel ''clients'' ''nil tokens mapper''"

definition clients_ErrNilStatusHandler :: go_error where
  "clients_ErrNilStatusHandler = Sentinel ''clients'' ''nil status handler''"

definition ErrNilAddressConverter :: go_error where
  "ErrNilAddressConverter = Sentinel ''clients'' ''nil address converter''"

definition ErrMultisigContractPaused :: go_error where
  "ErrMultisigContractPaused = Sentinel ''clients'' ''multisig contract paused''"

section \<open>Data\<close>

record DepositTransfer =
  Nonce :: u64
  ToBytes :: bytes
  DisplayableTo :: string
  FromBytes :: bytes
  DisplayableFrom :: string
  TokenBytes :: bytes
  ConvertedTokenBytes :: bytes
  DisplayableToken :: string
  Amount :: "int option"

record TransferBatch =
  ID :: u64
  Deposits :: "DepositTransfer list"
  Statuses :: bytes

section \<open>Operations\<close>

text \<open>\<^verbatim>\<open>%v\<close> of a \<^verbatim>\<open>*big.Int\<close> prints the number, or \<^verbatim>\<open><nil>\<close>.\<close>

definition amountString :: "int option \<Rightarrow> string" where
  "amountString a = (case a of None \<Rightarrow> ''<nil>'' | Some i \<Rightarrow> dec_int i)"

definition DepositTransfer_String :: "DepositTransfer \<Rightarrow> string" where
  "DepositTransfer_String dt =
     ''to: '' @ DisplayableTo dt @ '', from: '' @ DisplayableFrom dt @
     '', token address: '' @ DisplayableToken dt @ '', amount: '' @ amountString (Amount dt) @
     '', deposit nonce: '' @ dec_u64 (Nonce dt)"

text \<open>A deep copy: every byte slice is copied, a missing amount becomes zero.\<close>

definition DepositTransfer_Clone :: "DepositTransfer \<Rightarrow> DepositTransfer" where
  "DepositTransfer_Clone dt =
     \<lparr> Nonce = Nonce dt,
       ToBytes = ToBytes dt,
       DisplayableTo = DisplayableTo dt,
       FromBytes = FromBytes dt,
       DisplayableFrom = DisplayableFrom dt,
       TokenBytes = TokenBytes dt,
       ConvertedTokenBytes = ConvertedTokenBytes dt,
       DisplayableToken = DisplayableToken dt,
       Amount = (case Amount dt of None \<Rightarrow> Some 0 | Some i \<Rightarrow> Some i) \<rparr>"

fun cloneDeposits :: "DepositTransfer list \<Rightarrow> DepositTransfer list \<Rightarrow> DepositTransfer list" where
  "cloneDeposits acc [] = acc"
| "cloneDeposits acc (dt # dts) = cloneDeposits (acc @ [DepositTransfer_Clone dt]) dts"

definition TransferBatch_Clone :: "TransferBatch \<Rightarrow> TransferBatch" where
  "TransferBatch_Clone tb =
     \<lparr> ID = ID tb, Deposits = cloneDeposits [] (Deposits tb), Statuses = Statuses tb \<rparr>"

fun depositsString :: "string \<Rightarrow> DepositTransfer list \<Rightarrow> string" where
  "depositsString str [] = str"
| "depositsString str (dt # dts) =
     depositsString (str @ [char_of (10::nat)] @ ''  '' @ DepositTransfer_String dt) dts"

definition TransferBatch_String :: "TransferBatch \<Rightarrow> string" where
  "TransferBatch_String tb =
     depositsString (''Batch id '' @ dec_u64 (ID tb) @ '':'') (Deposits tb) @
     [char_of (10::nat)] @ ''Statuses: '' @ hexEncode (Statuses tb)"

text \<open>
  \<open>rejectLoop\<close> is the loop \<^verbatim>\<open>for i := newNumDeposits; i < oldLen; i++\<close>, \<open>appendLoop\<close> the loop
  \<^verbatim>\<open>for newNumDeposits > len(tb.Statuses)\<close>. A negative count indexes the slice below zero and panics.
\<close>

function rejectLoop :: "nat \<Rightarrow> nat \<Rightarrow> bytes \<Rightarrow> bytes" where
  "rejectLoop i oldLen st = (if i < oldLen then rejectLoop (Suc i) oldLen (st[i := Rejected]) else st)"
  by pat_completeness auto
termination
  by (relation "measure (\<lambda>(i, oldLen, st). oldLen - i)") auto

function appendLoop :: "nat \<Rightarrow> bytes \<Rightarrow> bytes" where
  "appendLoop n st = (if n > length st then appendLoop n (st @ [Rejected]) else st)"
  by pat_completeness auto
termination
  by (relation "measure (\<lambda>(n, st). n - length st)") auto

declare rejectLoop.simps [simp del] appendLoop.simps [simp del]

definition ResolveNewDeposits :: "int \<Rightarrow> TransferBatch \<Rightarrow> TransferBatch option" where
  "ResolveNewDeposits newNumDeposits tb =
     (let oldLen = length (Statuses tb) in
      if newNumDeposits = int oldLen then Some tb
      else if newNumDeposits < 0 then None
      else Some (tb\<lparr>Statuses := appendLoop (nat newNumDeposits)
                     (rejectLoop (nat newNumDeposits) oldLen (Statuses tb))\<rparr>))"

section \<open>Lemmas\<close>

lemma cloneDeposits_map: "cloneDeposits acc dts = acc @ map DepositTransfer_Clone dts"
  by (induction dts arbitrary: acc) simp_all

lemma DepositTransfer_Clone_id: "Amount dt \<noteq> None \<Longrightarrow> DepositTransfer_Clone dt = dt"
  by (auto simp: DepositTransfer_Clone_def)

lemma TransferBatch_Clone_id:
  assumes "\<And>dt. dt \<in> set (Deposits tb) \<Longrightarrow> Amount dt \<noteq> None"
  shows "TransferBatch_Clone tb = tb"
proof -
  have "map DepositTransfer_Clone (Deposits tb) = Deposits tb"
    using assms by (intro map_idI DepositTransfer_Clone_id)
  then show ?thesis by (simp add: TransferBatch_Clone_def cloneDeposits_map)
qed

lemma rejectLoop_gen:
  "length st = n \<Longrightarrow> i \<le> n \<Longrightarrow> rejectLoop i n st = take i st @ replicate (n - i) Rejected"
proof (induction i n st rule: rejectLoop.induct)
  case (1 i n st)
  show ?case
  proof (cases "i < n")
    case True
    have "rejectLoop i n st = rejectLoop (Suc i) n (st[i := Rejected])"
      using True by (simp add: rejectLoop.simps [of i n st])
    also have "\<dots> = take (Suc i) (st[i := Rejected]) @ replicate (n - Suc i) Rejected"
      using True "1.prems" by (intro "1.IH") simp_all
    also have "\<dots> = take i st @ Rejected # replicate (n - Suc i) Rejected"
      using True "1.prems" by (simp add: take_Suc_conv_app_nth)
    also have "Rejected # replicate (n - Suc i) Rejected = replicate (n - i) Rejected"
      using True by (metis Suc_diff_Suc replicate_Suc)
    finally show ?thesis .
  next
    case False
    with "1.prems" show ?thesis by (simp add: rejectLoop.simps [of n n st])
  qed
qed

lemma rejectLoop_closed:
  "i \<le> length st \<Longrightarrow> rejectLoop i (length st) st = take i st @ replicate (length st - i) Rejected"
  by (rule rejectLoop_gen) simp_all

lemma rejectLoop_beyond: "length st \<le> i \<Longrightarrow> rejectLoop i (length st) st = st"
  by (simp add: rejectLoop.simps)

lemma appendLoop_closed: "appendLoop n st = st @ replicate (n - length st) Rejected"
proof (induction n st rule: appendLoop.induct)
  case (1 n st)
  show ?case
  proof (cases "length st < n")
    case True
    then have "appendLoop n st = (st @ [Rejected]) @ replicate (n - Suc (length st)) Rejected"
      using "1.IH" by (simp add: appendLoop.simps [of n st])
    with True show ?thesis
      by (metis Suc_diff_Suc append.assoc append_Cons append_Nil replicate_Suc)
  qed (simp add: appendLoop.simps)
qed

lemma ResolveNewDeposits_closed:
  "ResolveNewDeposits (int n) tb =
     Some (tb\<lparr>Statuses := take n (Statuses tb) @
        replicate (max n (length (Statuses tb)) - min n (length (Statuses tb))) Rejected\<rparr>)"
proof (cases "n \<le> length (Statuses tb)")
  case True
  then show ?thesis
    by (auto simp: ResolveNewDeposits_def Let_def rejectLoop_closed appendLoop_closed)
next
  case False
  then show ?thesis
    by (simp add: ResolveNewDeposits_def Let_def rejectLoop_beyond appendLoop_closed max_def min_def)
qed

lemma ResolveNewDeposits_frame:
  "ResolveNewDeposits n tb = Some tb' \<Longrightarrow> ID tb' = ID tb \<and> Deposits tb' = Deposits tb"
  by (auto simp: ResolveNewDeposits_def Let_def split: if_splits)

lemma ResolveNewDeposits_length:
  "ResolveNewDeposits (int n) tb = Some tb' \<Longrightarrow> length (Statuses tb') = max n (length (Statuses tb))"
  by (auto simp: ResolveNewDeposits_closed min_def max_def)

end
