(* ===== verification/Core_Types.thy ===== *)
theory Core_Types
  imports Transfer_Batch
begin

text \<open>
  The package \<^verbatim>\<open>bridge/core\<close>: metric names (\<^verbatim>\<open>constants.go\<close>), the relayer messages
  (\<^verbatim>\<open>messages.go\<close>), and the interfaces of \<^verbatim>\<open>types.go\<close> that components call through. An interface value
  is a record of operations over a world \<open>'w\<close>, the state every object of the process shares.
\<close>

section \<open>Metrics\<close>

definition MetricNumBatches :: string where
  "MetricNumBatches = ''num batches''"

definition MetricLastError :: string where
  "MetricLastError = ''last encountered error''"

definition MetricCurrentStateMachineStep :: string where
  "MetricCurrentStateMachineStep = ''current state machine step''"

definition MetricNumEthClientRequests :: string where
  "MetricNumEthClientRequests = ''num ethereum client requests''"

definition MetricNumEthClientTransactions :: string where
  "MetricNumEthClientTransactions = ''num ethereum client transactions''"

definition MetricLastQueriedEthereumBlockNumber :: string where
  "MetricLastQueriedEthereumBlockNumber = ''ethereum last queried block number''"

definition MetricEthereumClientStatus :: string where
  "MetricEthereumClientStatus = ''ethereum client status''"

definition MetricLastEthereumClientError :: string where
  "MetricLastEthereumClientError = ''ethereum client last encountered error''"

definition MetricLastQueriedMultiversXBlockNumber :: string where
  "MetricLastQueriedMultiversXBlockNumber = ''multiversx last queried block number''"

definition MetricMultiversXClientStatus :: string where
  "MetricMultiversXClientStatus = ''multiversx client status''"

definition MetricLastMultiversXClientError :: string where
  "MetricLastMultiversXClientError = ''multiversx client last encountered error''"

definition MetricRelayerP2PAddresses :: string where
  "MetricRelayerP2PAddresses = ''relayer P2P addresses''"

definition MetricConnectedP2PAddresses :: string where
  "MetricConnectedP2PAddresses = ''connected P2P addresses''"

definition MetricLastBlockNonce :: string where
  "MetricLastBlockNonce = ''last block nonce''"

definition PersistedMetrics :: "string list" where
  "PersistedMetrics =
     [MetricNumBatches, MetricNumEthClientRequests, MetricNumEthClientTransactions,
      MetricLastQueriedEthereumBlockNumber, MetricLastQueriedMultiversXBlockNumber,
      MetricEthereumClientStatus, MetricMultiversXClientStatus, MetricLastEthereumClientError,
      MetricLastMultiversXClientError, MetricLastBlockNonce]"

lemmas metric_defs =
  MetricNumBatches_def MetricLastError_def MetricCurrentStateMachineStep_def
  MetricNumEthClientRequests_def MetricNumEthClientTransactions_def
  MetricLastQueriedEthereumBlockNumber_def MetricEthereumClientStatus_def
  MetricLastEthereumClientError_def MetricLastQueriedMultiversXBlockNumber_def
  MetricMultiversXClientStatus_def MetricLastMultiversXClientError_def
  MetricRelayerP2PAddresses_def MetricConnectedP2PAddresses_def MetricLastBlockNonce_def

section \<open>Gas price selectors\<close>

definition EthFastGasPrice :: string where
  "EthFastGasPrice = ''FastGasPrice''"

definition EthSafeGasPrice :: string where
  "EthSafeGasPrice = ''SafeGasPrice''"

definition EthProposeGasPrice :: string where
  "EthProposeGasPrice = ''ProposeGasPrice''"

definition WebServerOffString :: string where
  "WebServerOffString = ''off''"

section \<open>Messages between relayers\<close>

record SignedMessage =
  msg_Payload :: bytes
  msg_PublicKeyBytes :: bytes
  msg_Signature :: bytes
  msg_Nonce :: u64

record EthereumSignature =
  eth_Signature :: bytes
  eth_MessageHash :: bytes

text \<open>The key under which a message is stored: the public key followed by the payload.\<close>

definition UniqueID :: "SignedMessage \<Rightarrow> bytes" where
  "UniqueID msg = msg_PublicKeyBytes msg @ msg_Payload msg"

lemma UniqueID_eq:
  assumes "length (msg_PublicKeyBytes m) = length (msg_PublicKeyBytes m')"
  shows "UniqueID m = UniqueID m' \<longleftrightarrow>
    msg_PublicKeyBytes m = msg_PublicKeyBytes m' \<and> msg_Payload m = msg_Payload m'"
  using assms by (simp add: UniqueID_def append_eq_append_conv)

section \<open>Interfaces\<close>

record 'w StatusHandler =
  sh_SetIntMetric :: "string \<Rightarrow> int \<Rightarrow> 'w \<Rightarrow> 'w"
  sh_AddIntMetric :: "string \<Rightarrow> int \<Rightarrow> 'w \<Rightarrow> 'w"
  sh_SetStringMetric :: "string \<Rightarrow> string \<Rightarrow> 'w \<Rightarrow> 'w"

record AddressConverter =
  ToHexString :: "bytes \<Rightarrow> string"
  ToHexStringWithPrefix :: "bytes \<Rightarrow> string"
  ToBech32String :: "bytes \<Rightarrow> string"

type_synonym StepIdentifier = string

record 's Step =
  step_Execute :: "('s, StepIdentifier) prog"
  step_Identifier :: StepIdentifier

type_synonym 's MachineStates = "(StepIdentifier, 's Step option) gomap"

section \<open>HTTP answers\<close>

text \<open>An HTTP answer; reading its body gives the data read so far and possibly an error.\<close>

datatype http_body = NoBody | Body string "go_error option"

record http_response =
  rsp_StatusCode :: int
  rsp_Status :: string
  rsp_Body :: http_body

fun readAll :: "http_body \<Rightarrow> string \<times> go_error option" where
  "readAll NoBody = ([], None)"
| "readAll (Body text err) = (text, err)"

section \<open>Logging\<close>

text \<open>
  The levels the code logs at, and the values it passes as extras. \<^verbatim>\<open>LogLevel.String\<close> belongs to
  the logger package and stays a parameter of its users.
\<close>

datatype LogLevel = LogTrace | LogDebug | LogInfo | LogWarning | LogError

datatype log_value =
    LBytes bytes
  | LString string
  | LUint64 u64
  | LBool bool
  | LError "go_error option"

fun convertObjectToString :: "log_value \<Rightarrow> string" where
  "convertObjectToString (LBytes b) = hexEncode b"
| "convertObjectToString (LString s) = s"
| "convertObjectToString (LUint64 n) = dec_u64 n"
| "convertObjectToString (LBool b) = (if b then ''true'' else ''false'')"
| "convertObjectToString (LError e) = (case e of None \<Rightarrow> ''<nil>'' | Some err \<Rightarrow> Error err)"

end
