(* ===== verification/Batch_Validator.thy ===== *)
theory Batch_Validator
  imports Core_Types
begin

text \<open>
  The names of the supported chains, \<^verbatim>\<open>clients/chain/chain.go\<close>, the address converter,
  \<^verbatim>\<open>core/converters/converters.go\<close>, and the batch validator, \<^verbatim>\<open>clients/batchValidator\<close>, with its
  disabled variant and its factory. The HTTP client, the JSON encoder and the Bech32 encoder are
  parameters.
\<close>

section \<open>Chain names\<close>

type_synonym Chain = string

definition MultiversX :: Chain where "MultiversX = ''msx''"

definition Ethereum :: Chain where "Ethereum = ''Ethereum''"

definition Bsc :: Chain where "Bsc = ''Bsc''"

definition Polygon :: Chain where "Polygon = ''Polygon''"

lemmas chain_defs = MultiversX_def Ethereum_def Bsc_def Polygon_def

text \<open>\<^verbatim>\<open>strings.ToLower\<close> on ASCII text; the supported names are ASCII.\<close>

definition char_lower :: "char \<Rightarrow> char" where
  "char_lower c = (if 65 \<le> (of_char c :: nat) \<and> of_char c \<le> (90 :: nat) then char_of ((of_char c :: nat) + 32) else c)"

definition Chain_ToLower :: "Chain \<Rightarrow> string" where
  "Chain_ToLower c = map char_lower c"

definition EvmCompatibleChainToMultiversXName :: "Chain \<Rightarrow> string" where
  "EvmCompatibleChainToMultiversXName c = c @ ''ToMultiversX''"

definition MultiversXToEvmCompatibleChainName :: "Chain \<Rightarrow> string" where
  "MultiversXToEvmCompatibleChainName c = ''MultiversXTo'' @ c"

definition BaseLogId :: "Chain \<Rightarrow> string" where
  "BaseLogId c = c @ ''MultiversX-Base''"

definition MultiversXClientLogId :: "Chain \<Rightarrow> string" where
  "MultiversXClientLogId c = c @ ''MultiversX-MultiversXClient''"

definition MultiversXDataGetterLogId :: "Chain \<Rightarrow> string" where
  "MultiversXDataGetterLogId c = c @ ''MultiversX-MultiversXDataGetter''"

definition EvmCompatibleChainClientLogId :: "Chain \<Rightarrow> string" where
  "EvmCompatibleChainClientLogId c = c @ ''MultiversX-'' @ c @ ''Client''"

definition MultiversXRoleProviderLogId :: "Chain \<Rightarrow> string" where
  "MultiversXRoleProviderLogId c = c @ ''MultiversX-MultiversXRoleProvider''"

definition EvmCompatibleChainRoleProviderLogId :: "Chain \<Rightarrow> string" where
  "EvmCompatibleChainRoleProviderLogId c = c @ ''MultiversX-'' @ c @ ''RoleProvider''"

definition BroadcasterLogId :: "Chain \<Rightarrow> string" where
  "BroadcasterLogId c = c @ ''MultiversX-Broadcaster''"

section \<open>The address converter\<close>

definition hexPrefix :: string where "hexPrefix = ''0x''"

definition ac_ToHexString :: "bytes \<Rightarrow> string" where
  "ac_ToHexString addressBytes = hexEncode addressBytes"

definition ac_ToHexStringWithPrefix :: "bytes \<Rightarrow> string" where
  "ac_ToHexStringWithPrefix addressBytes = hexPrefix @ hexEncode addressBytes"

text \<open>
  The Bech32 converter of the MultiversX library is created first, which can fail; its \<^verbatim>\<open>Encode\<close> is
  the parameter \<open>converter\<close>.
\<close>

definition NewAddressConverter :: "go_error + (bytes \<Rightarrow> string) \<Rightarrow> go_error + AddressConverter" where
  "NewAddressConverter newBech32PubkeyConverter =
     (case newBech32PubkeyConverter of
        Inl err \<Rightarrow> Inl err
      | Inr converter \<Rightarrow> Inr \<lparr> ToHexString = ac_ToHexString, ToHexStringWithPrefix = ac_ToHexStringWithPrefix,
          ToBech32String = converter \<rparr>)"

definition TrimWhiteSpaceCharacters :: "string \<Rightarrow> string" where
  "TrimWhiteSpaceCharacters input =
     (let cutset = {CHR 0x0A, CHR 0x09, CHR '' ''} in
      rev (dropWhile (\<lambda>c. c \<in> cutset) (rev (dropWhile (\<lambda>c. c \<in> cutset) input))))"

section \<open>The batch validator\<close>

definition bv_minRequestTime :: int where
  "bv_minRequestTime = 1000000"

record ArgsBatchValidator =
  arg_SourceChain :: Chain
  arg_DestinationChain :: Chain
  arg_bv_RequestURL :: string
  arg_bv_RequestTime :: int

record batchValidator =
  bv_requestURL :: string
  bv_requestTime :: int

definition bv_checkArgs :: "(string \<Rightarrow> string) \<Rightarrow> ArgsBatchValidator \<Rightarrow> go_error option" where
  "bv_checkArgs quote args =
     (if arg_SourceChain args \<notin> {Ethereum, Bsc, Polygon, MultiversX}
        then Some (Wrapped ErrInvalidValue ('': '' @ quote (arg_SourceChain args)))
      else if arg_DestinationChain args \<notin> {Ethereum, Bsc, Polygon, MultiversX}
        then Some (Wrapped ErrInvalidValue ('': '' @ quote (arg_DestinationChain args)))
      else if arg_bv_RequestTime args < bv_minRequestTime
        then Some (Wrapped ErrInvalidValue '' in checkArgs for value RequestTime'')
      else None)"

definition NewBatchValidator :: "(string \<Rightarrow> string) \<Rightarrow> ArgsBatchValidator \<Rightarrow> go_error + batchValidator" where
  "NewBatchValidator quote args =
     (case bv_checkArgs quote args of
        Some err \<Rightarrow> Inl err
      | None \<Rightarrow> Inr \<lparr> bv_requestURL = arg_bv_RequestURL args @ ''/'' @ Chain_ToLower (arg_SourceChain args) @ ''/'' @
                       Chain_ToLower (arg_DestinationChain args),
                     bv_requestTime = arg_bv_RequestTime args \<rparr>)"

record microserviceResponse =
  msr_Valid :: bool

record microserviceBadRequestBody =
  msb_StatusCode :: int
  msb_Message :: string
  msb_Error :: string

record ('r, 'w) bv_env =
  bv_marshal :: "TransferBatch option \<Rightarrow> go_error + string"
  bv_newRequest :: "string \<Rightarrow> string \<Rightarrow> go_error + 'r"
  bv_do :: "int \<Rightarrow> 'r \<Rightarrow> ('w, go_error + http_response) prog"
  bv_closeBody :: "http_response \<Rightarrow> 'w \<Rightarrow> 'w"
  bv_unmarshal :: "string \<Rightarrow> go_error + microserviceResponse"
  bv_unmarshalBad :: "string \<Rightarrow> go_error + microserviceBadRequestBody"

text \<open>
  The header is set before the error of the request constructor is looked at: on an error the
  request is a nil pointer, and the method call on its header panics.
\<close>

definition bv_doRequestReturningBytes ::
  "('r, 'w) bv_env \<Rightarrow> batchValidator \<Rightarrow> string \<Rightarrow> ('w, go_error + string) prog" where
  "bv_doRequestReturningBytes env bv batch w =
     (case bv_newRequest env (bv_requestURL bv) batch of
        Inl err \<Rightarrow> None
      | Inr request \<Rightarrow> do {
          (r, w) \<leftarrow> bv_do env (bv_requestTime bv) request w;
          (case r of
             Inl err \<Rightarrow> Some (Inl err, w)
           | Inr response \<Rightarrow>
               (if rsp_StatusCode response = 400 \<and> rsp_Body response \<noteq> NoBody
                then (case bv_unmarshalBad env (fst (readAll (rsp_Body response))) of
                        Inl err \<Rightarrow> Some (Inl (Wrapped err '' during bad response unmarshal''), w)
                      | Inr badResponse \<Rightarrow>
                          Some (Inl (Plain (''got status '' @ rsp_Status response @ '': '' @ msb_Message badResponse)), w))
                else if rsp_StatusCode response \<noteq> 200
                then Some (Inl (Plain (''got status '' @ rsp_Status response)), w)
                else do {
                  let w = bv_closeBody env response w;
                  (case readAll (rsp_Body response) of
                     (body, Some err) \<Rightarrow> Some (Inl err, w)
                   | (body, None) \<Rightarrow> Some (Inr body, w))
                }))
        })"

definition bv_doRequest :: "('r, 'w) bv_env \<Rightarrow> batchValidator \<Rightarrow> string \<Rightarrow> ('w, go_error + string) prog" where
  "bv_doRequest env bv batch w = do {
     (r, w) \<leftarrow> bv_doRequestReturningBytes env bv batch w;
     (case r of Inl err \<Rightarrow> Some (Inl err, w) | Inr responseAsBytes \<Rightarrow> Some (Inr responseAsBytes, w))
   }"

definition bv_ValidateBatch ::
  "('r, 'w) bv_env \<Rightarrow> batchValidator \<Rightarrow> TransferBatch option \<Rightarrow> ('w, go_error + bool) prog" where
  "bv_ValidateBatch env bv batch w =
     (case bv_marshal env batch of
        Inl err \<Rightarrow> Some (Inl (Wrapped err '' during request marshal''), w)
      | Inr body \<Rightarrow> do {
          (r, w) \<leftarrow> bv_doRequest env bv body w;
          (case r of
             Inl err \<Rightarrow> Some (Inl (Wrapped err '' while executing request''), w)
           | Inr responseAsBytes \<Rightarrow>
               (if length responseAsBytes = 0 then Some (Inl (Plain ''empty response''), w)
                else (case bv_unmarshal env responseAsBytes of
                        Inl err \<Rightarrow> Some (Inl (Wrapped err '' during response unmarshal''), w)
                      | Inr response \<Rightarrow> Some (Inr (msr_Valid response), w))))
        })"

definition disabled_ValidateBatch :: "TransferBatch option \<Rightarrow> ('w, go_error + bool) prog" where
  "disabled_ValidateBatch batch w = Some (Inr True, w)"

definition CreateBatchValidator :: "(string \<Rightarrow> string) \<Rightarrow> ('r, 'w) bv_env \<Rightarrow> ArgsBatchValidator \<Rightarrow> bool
    \<Rightarrow> go_error + (TransferBatch option \<Rightarrow> ('w, go_error + bool) prog)" where
  "CreateBatchValidator quote env args enabled =
     (if enabled
      then (case NewBatchValidator quote args of Inl err \<Rightarrow> Inl err | Inr bv \<Rightarrow> Inr (bv_ValidateBatch env bv))
      else Inr disabled_ValidateBatch)"

section \<open>Properties\<close>

text \<open>
  C37. A validator created with validation enabled accepts a batch only when the batch could be
  encoded, the request was sent to the URL of exactly this pair of supported chains, the service
  answered with status 200 and a fully read, non-empty body, and that body decodes to a positive
  answer; on every such answer it accepts.
\<close>

theorem batch_accepted_iff:
  assumes "CreateBatchValidator quote env args True = Inr validate"
  shows "(validate batch w = Some (Inr True, w')) \<longleftrightarrow>
    (\<exists>body request response text w1.
      bv_marshal env batch = Inr body \<and>
      {arg_SourceChain args, arg_DestinationChain args} \<subseteq> {Ethereum, Bsc, Polygon, MultiversX} \<and>
      bv_newRequest env (arg_bv_RequestURL args @ ''/'' @ Chain_ToLower (arg_SourceChain args) @ ''/'' @
        Chain_ToLower (arg_DestinationChain args)) body = Inr request \<and>
      bv_do env (arg_bv_RequestTime args) request w = Some (Inr response, w1) \<and> rsp_StatusCode response = 200 \<and>
      readAll (rsp_Body response) = (text, None) \<and> text \<noteq> [] \<and>
      bv_unmarshal env text = Inr \<lparr> msr_Valid = True \<rparr> \<and> w' = bv_closeBody env response w1)"
proof -
  obtain bv where bv: "NewBatchValidator quote args = Inr bv" and v: "validate = bv_ValidateBatch env bv"
    using assms by (auto simp: CreateBatchValidator_def split: sum.splits)
  have chains: "{arg_SourceChain args, arg_DestinationChain args} \<subseteq> {Ethereum, Bsc, Polygon, MultiversX}"
    and url: "bv_requestURL bv = arg_bv_RequestURL args @ ''/'' @ Chain_ToLower (arg_SourceChain args) @ ''/'' @
        Chain_ToLower (arg_DestinationChain args)" and time: "bv_requestTime bv = arg_bv_RequestTime args"
    using bv by (auto simp: NewBatchValidator_def bv_checkArgs_def split: option.splits if_splits)
  have valid: "bv_unmarshal env t = Inr \<lparr>msr_Valid = True\<rparr> \<longleftrightarrow> (\<exists>r. bv_unmarshal env t = Inr r \<and> msr_Valid r)" for t
    by (metis (full_types) microserviceResponse.select_convs(1) microserviceResponse.surjective unit.exhaust)
  show ?thesis
    unfolding v url [symmetric] time [symmetric] valid using chains
    by (auto simp: bv_ValidateBatch_def bv_doRequest_def bv_doRequestReturningBytes_def Let_def
      split: sum.splits option.splits prod.splits if_splits bind_splits)
qed

definition demo_bv_args :: ArgsBatchValidator where
  "demo_bv_args = \<lparr> arg_SourceChain = ''Ethereum'', arg_DestinationChain = ''msx'', arg_bv_RequestURL = ''http://v'',
     arg_bv_RequestTime = 2000000 \<rparr>"

text \<open>A service that accepts every batch sent to the path of Ethereum and MultiversX.\<close>

definition demo_bv_env :: "(string, nat) bv_env" where
  "demo_bv_env = \<lparr> bv_marshal = (\<lambda>batch. Inr ''batch''),
     bv_newRequest = (\<lambda>url body. if url = ''http://v/ethereum/msx'' then Inr body else Inl (Plain ''bad url'')),
     bv_do = (\<lambda>timeout request w. Some (Inr \<lparr> rsp_StatusCode = 200, rsp_Status = ''200 OK'', rsp_Body = Body ''yes'' None \<rparr>, w)),
     bv_closeBody = (\<lambda>response w. w + 1),
     bv_unmarshal = (\<lambda>b. Inr \<lparr> msr_Valid = (b = ''yes'') \<rparr>),
     bv_unmarshalBad = (\<lambda>b. Inl (Plain ''bad'')) \<rparr>"

definition demo_bv :: batchValidator where
  "demo_bv = \<lparr> bv_requestURL = ''http://v/ethereum/msx'', bv_requestTime = 2000000 \<rparr>"

lemma demo_bv_new: "NewBatchValidator id demo_bv_args = Inr demo_bv"
  by code_simp

lemma demo_bv_create: "CreateBatchValidator id demo_bv_env demo_bv_args True = Inr (bv_ValidateBatch demo_bv_env demo_bv)"
  by (simp add: CreateBatchValidator_def demo_bv_new)

theorem batch_accepted_iff_witness:
  "bv_ValidateBatch demo_bv_env demo_bv None 0 = Some (Inr True, 1)"
proof -
  have "Chain_ToLower ''Ethereum'' = ''ethereum''" "Chain_ToLower ''msx'' = ''msx''"
    by code_simp+
  then show ?thesis
    unfolding batch_accepted_iff [OF demo_bv_create]
    by (simp add: demo_bv_env_def demo_bv_args_def chain_defs)
qed

text \<open>
  When the HTTP library refuses to build the request, for instance because the configured URL
  does not parse, the validator does not return the error: the call panics, for every batch that
  can be encoded.
\<close>

theorem unbuildable_request_panics:
  assumes "bv_marshal env batch = Inr body" "bv_newRequest env (bv_requestURL bv) body = Inl err"
  shows "bv_ValidateBatch env bv batch w = None"
  using assms by (simp add: bv_ValidateBatch_def bv_doRequest_def bv_doRequestReturningBytes_def)

theorem unbuildable_request_panics_witness:
  "bv_ValidateBatch demo_bv_env (demo_bv\<lparr>bv_requestURL := ''%'' @ bv_requestURL demo_bv\<rparr>) None 0 = None"
  by (rule unbuildable_request_panics [of _ _ "''batch''" _ "Plain ''bad url''"])
    (simp_all add: demo_bv_env_def demo_bv_def)

end
