(* ===== verification/Mx_Data_Getter.thy ===== *)
theory Mx_Data_Getter
  imports Transfer_Batch Core_Types
begin

text \<open>
  The queries a relayer sends to the multisig contract on MultiversX,
  \<^verbatim>\<open>clients/multiversx/mxClientDataGetter.go\<close> and \<^verbatim>\<open>queryResponseError.go\<close>, and the token mappers of
  \<^verbatim>\<open>clients/multiversx/mappers\<close> that use them. The proxy to the chain and the query builder of the SDK
  are parameters: a builder is the list of the calls made on it, in order, and \<open>ToVmValueRequest\<close>
  turns it into a request.
\<close>

section \<open>Errors and function names\<close>

definition mx_errNilLogger :: go_error where
  "mx_errNilLogger = Sentinel ''multiversx'' ''nil logger''"

definition errNilProxy :: go_error where
  "errNilProxy = Sentinel ''multiversx'' ''nil proxy''"

definition errNilAddressHandler :: go_error where
  "errNilAddressHandler = Sentinel ''multiversx'' ''nil address handler''"

definition errNilRequest :: go_error where
  "errNilRequest = Sentinel ''multiversx'' ''nil request''"

definition errInvalidNumberOfArguments :: go_error where
  "errInvalidNumberOfArguments = Sentinel ''multiversx'' ''invalid number of arguments''"

definition errNotUint64Bytes :: go_error where
  "errNotUint64Bytes = Sentinel ''multiversx'' ''provided bytes do not represent a valid uint64 number''"

definition errInvalidGasValue :: go_error where
  "errInvalidGasValue = Sentinel ''multiversx'' ''invalid gas value''"

definition errNoStatusForBatchID :: go_error where
  "errNoStatusForBatchID = Sentinel ''multiversx'' ''no status for batch ID''"

definition errBatchNotFinished :: go_error where
  "errBatchNotFinished = Sentinel ''multiversx'' ''batch not finished''"

definition errMalformedBatchResponse :: go_error where
  "errMalformedBatchResponse = Sentinel ''multiversx'' ''malformed batch response''"

definition errNilRoleProvider :: go_error where
  "errNilRoleProvider = Sentinel ''multiversx'' ''nil role provider''"

definition errRelayerNotWhitelisted :: go_error where
  "errRelayerNotWhitelisted = Sentinel ''multiversx'' ''relayer not whitelisted''"

definition errNilNodeStatusResponse :: go_error where
  "errNilNodeStatusResponse = Sentinel ''multiversx'' ''nil node status response''"

definition ErrNoPendingBatchAvailable :: go_error where
  "ErrNoPendingBatchAvailable = Sentinel ''multiversx'' ''no pending batch available''"

definition errUnknownToken :: go_error where
  "errUnknownToken = Sentinel ''mappers'' ''unknown token''"

definition okCodeAfterExecution :: string where
  "okCodeAfterExecution = ''ok''"

definition internalError :: string where
  "internalError = ''internal error''"

definition getCurrentTxBatchFuncName :: string where
  "getCurrentTxBatchFuncName = ''getCurrentTxBatch''"

definition wasTransferActionProposedFuncName :: string where
  "wasTransferActionProposedFuncName = ''wasTransferActionProposed''"

definition wasActionExecutedFuncName :: string where
  "wasActionExecutedFuncName = ''wasActionExecuted''"

definition getActionIdForTransferBatchFuncName :: string where
  "getActionIdForTransferBatchFuncName = ''getActionIdForTransferBatch''"

definition wasSetCurrentTransactionBatchStatusActionProposedFuncName :: string where
  "wasSetCurrentTransactionBatchStatusActionProposedFuncName = ''wasSetCurrentTransactionBatchStatusActionProposed''"

definition getStatusesAfterExecutionFuncName :: string where
  "getStatusesAfterExecutionFuncName = ''getStatusesAfterExecution''"

definition getActionIdForSetCurrentTransactionBatchStatusFuncName :: string where
  "getActionIdForSetCurrentTransactionBatchStatusFuncName = ''getActionIdForSetCurrentTransactionBatchStatus''"

definition getTokenIdForErc20AddressFuncName :: string where
  "getTokenIdForErc20AddressFuncName = ''getTokenIdForErc20Address''"

definition getErc20AddressForTokenIdFuncName :: string where
  "getErc20AddressForTokenIdFuncName = ''getErc20AddressForTokenId''"

definition quorumReachedFuncName :: string where
  "quorumReachedFuncName = ''quorumReached''"

definition getLastExecutedEthBatchIdFuncName :: string where
  "getLastExecutedEthBatchIdFuncName = ''getLastExecutedEthBatchId''"

definition getLastExecutedEthTxId :: string where
  "getLastExecutedEthTxId = ''getLastExecutedEthTxId''"

definition signedFuncName :: string where
  "signedFuncName = ''signed''"

definition getAllStakedRelayersFuncName :: string where
  "getAllStakedRelayersFuncName = ''getAllStakedRelayers''"

definition isPausedFuncName :: string where
  "isPausedFuncName = ''isPaused''"

section \<open>The proxy and the builders\<close>

text \<open>An \<^verbatim>\<open>AddressHandler\<close> of the SDK, by what its accessors return.\<close>

record address =
  AddressBytes :: bytes
  AddressAsBech32String :: string

datatype builder_call =
    BAddress address
  | BCallerAddress address
  | BFunction string
  | BArgAddress address
  | BArgBytes bytes
  | BArgInt64 int
  | BArgBigInt "int option"

type_synonym builder = "builder_call list"

record VmValueRequest =
  req_Address :: string
  req_FuncName :: string
  req_CallerAddr :: string
  req_Args :: "string list"

record VmOutput =
  ReturnCode :: string
  ReturnMessage :: string
  ReturnData :: "bytes list"

text \<open>
  The proxy calls of \<^verbatim>\<open>interface.go\<close> that the code makes and the builder of the SDK. Queries and the
  network configuration are answered with a pointer (\<open>None\<close> when it is nil); the shard lookup returns the shard and an
  error side by side; the network status is read for its nonce only.
\<close>

record NetworkConfig =
  nc_ChainID :: string
  nc_MinTransactionVersion :: u32
  nc_MinGasPrice :: u64

record 'w Proxy =
  ExecuteVMQuery :: "VmValueRequest \<Rightarrow> ('w, go_error + VmOutput option) prog"
  GetNetworkStatus :: "u32 \<Rightarrow> ('w, go_error + u64 option) prog"
  GetShardOfAddress :: "string \<Rightarrow> ('w, u32 \<times> go_error option) prog"
  GetNetworkConfig :: "('w, go_error + NetworkConfig option) prog"
  ToVmValueRequest :: "builder \<Rightarrow> go_error + VmValueRequest option"

section \<open>Query errors\<close>

record queryResponseError =
  qre_code :: string
  qre_message :: string
  qre_function :: string
  qre_arguments :: "string list"
  qre_address :: string

text \<open>\<^verbatim>\<open>%v\<close> of a slice of strings.\<close>

fun joinSpace :: "string list \<Rightarrow> string" where
  "joinSpace [] = []"
| "joinSpace [x] = x"
| "joinSpace (x # xs) = x @ '' '' @ joinSpace xs"

definition qre_Error :: "queryResponseError \<Rightarrow> string" where
  "qre_Error err =
     ''got response code '' @ quoted (qre_code err) @ '' and message '' @ quoted (qre_message err) @
     '' while querying function '' @ quoted (qre_function err) @ '' with arguments ['' @
     joinSpace (qre_arguments err) @ ''] and address '' @ qre_address err"

definition NewQueryResponseError :: "string \<Rightarrow> string \<Rightarrow> string \<Rightarrow> string \<Rightarrow> string list \<Rightarrow> go_error" where
  "NewQueryResponseError code message function address arguments =
     Plain (qre_Error \<lparr> qre_code = code, qre_message = message, qre_function = function,
       qre_arguments = arguments, qre_address = address \<rparr>)"

section \<open>The data getter\<close>

record 'w ArgsMXClientDataGetter =
  arg_dg_MultisigContractAddress :: "address option"
  arg_dg_RelayerAddress :: "address option"
  arg_dg_Proxy :: "'w Proxy option"
  arg_dg_Log :: "unit option"

record 'w mxClientDataGetter =
  dg_multisigContractAddress :: address
  dg_relayerAddress :: address
  dg_proxy :: "'w Proxy"
  dg_wasShardIDFetched :: bool
  dg_shardID :: u32

definition NewMXClientDataGetter :: "'w ArgsMXClientDataGetter \<Rightarrow> go_error + 'w mxClientDataGetter" where
  "NewMXClientDataGetter args =
     (if arg_dg_Log args = None then Inl mx_errNilLogger
      else (case arg_dg_Proxy args of
        None \<Rightarrow> Inl errNilProxy
      | Some proxy \<Rightarrow>
     (case arg_dg_RelayerAddress args of
        None \<Rightarrow> Inl (Wrapped errNilAddressHandler '' for the RelayerAddress argument'')
      | Some relayer \<Rightarrow>
     (case arg_dg_MultisigContractAddress args of
        None \<Rightarrow> Inl (Wrapped errNilAddressHandler '' for the MultisigContractAddress argument'')
      | Some multisig \<Rightarrow>
          Inr \<lparr> dg_multisigContractAddress = multisig, dg_relayerAddress = relayer, dg_proxy = proxy,
            dg_wasShardIDFetched = False, dg_shardID = 0 \<rparr>))))"

definition ExecuteQueryReturningBytes ::
  "'w mxClientDataGetter \<Rightarrow> VmValueRequest option \<Rightarrow> ('w, go_error + bytes list) prog" where
  "ExecuteQueryReturningBytes dg request w =
     (case request of
        None \<Rightarrow> Some (Inl errNilRequest, w)
      | Some request \<Rightarrow> do {
          (r, w) \<leftarrow> ExecuteVMQuery (dg_proxy dg) request w;
          (case r of
             Inl err \<Rightarrow> Some (Inl err, w)
           | Inr None \<Rightarrow> None
           | Inr (Some response) \<Rightarrow>
               (if ReturnCode response \<noteq> okCodeAfterExecution
                then Some (Inl (NewQueryResponseError (ReturnCode response) (ReturnMessage response)
                       (req_FuncName request) (req_Address request) (req_Args request)), w)
                else Some (Inr (ReturnData response), w)))
        })"

text \<open>The shard is remembered once a lookup succeeded; a failed lookup overwrites the field only.\<close>

definition getShardID :: "('w mxClientDataGetter \<times> 'w, u32 \<times> go_error option) prog" where
  "getShardID = (\<lambda>(dg, w).
     if dg_wasShardIDFetched dg then Some ((dg_shardID dg, None), (dg, w))
     else do {
       (r, w) \<leftarrow> GetShardOfAddress (dg_proxy dg) (AddressAsBech32String (dg_multisigContractAddress dg)) w;
       let dg = dg\<lparr>dg_shardID := fst r\<rparr>;
       let dg = (if snd r = None then dg\<lparr>dg_wasShardIDFetched := True\<rparr> else dg);
       Some ((dg_shardID dg, snd r), (dg, w))
     })"

definition GetCurrentNonce :: "('w mxClientDataGetter \<times> 'w, go_error + u64) prog" where
  "GetCurrentNonce s = do {
     (r, s) \<leftarrow> getShardID s;
     (case r of
        (_, Some err) \<Rightarrow> Some (Inl err, s)
      | (shardID, None) \<Rightarrow> do {
          (r, w) \<leftarrow> GetNetworkStatus (dg_proxy (fst s)) shardID (snd s);
          (case r of
             Inl err \<Rightarrow> Some (Inl err, (fst s, w))
           | Inr None \<Rightarrow> Some (Inl errNilNodeStatusResponse, (fst s, w))
           | Inr (Some nonce) \<Rightarrow> Some (Inr nonce, (fst s, w)))
        })
   }"

text \<open>
  \<^verbatim>\<open>strconv.ParseBool\<close> of a decimal number accepts the digits 1 and 0 only; its error names the text.
\<close>

definition parseBool :: "bytes \<Rightarrow> string \<Rightarrow> string \<Rightarrow> string list \<Rightarrow> go_error + bool" where
  "parseBool buff funcName address args =
     (case buff of
        [] \<Rightarrow> Inr False
      | b # _ \<Rightarrow>
          (if b = 1 then Inr True
           else if b = 0 then Inr False
           else Inl (NewQueryResponseError internalError
                  (''error converting the received bytes to bool, strconv.ParseBool: parsing '' @
                   [CHR 0x22] @ dec (unat b) @ [CHR 0x22] @ '': invalid syntax'') funcName address args)))"

definition ExecuteQueryReturningBool ::
  "'w mxClientDataGetter \<Rightarrow> VmValueRequest option \<Rightarrow> ('w, go_error + bool) prog" where
  "ExecuteQueryReturningBool dg request w = do {
     (r, w) \<leftarrow> ExecuteQueryReturningBytes dg request w;
     (case r of
        Inl err \<Rightarrow> Some (Inl err, w)
      | Inr [] \<Rightarrow> Some (Inr False, w)
      | Inr (buff # _) \<Rightarrow>
          (case request of
             None \<Rightarrow> None
           | Some request \<Rightarrow> Some (parseBool buff (req_FuncName request) (req_Address request) (req_Args request), w)))
   }"

definition parseUInt64FromByteSlice :: "bytes \<Rightarrow> go_error + u64" where
  "parseUInt64FromByteSlice bs =
     (let num = setBytes bs in
      if num \<ge> 2 ^ 64 then Inl errNotUint64Bytes else Inr (of_nat num))"

lemma parseUInt64FromByteSlice_code [code]:
  "parseUInt64FromByteSlice bs =
     (let num = setBytesInt bs in if num \<ge> 2 ^ 64 then Inl errNotUint64Bytes else Inr (of_int num))"
  by (simp add: parseUInt64FromByteSlice_def setBytesInt_eq)

definition ExecuteQueryReturningUint64 ::
  "'w mxClientDataGetter \<Rightarrow> VmValueRequest option \<Rightarrow> ('w, go_error + u64) prog" where
  "ExecuteQueryReturningUint64 dg request w = do {
     (r, w) \<leftarrow> ExecuteQueryReturningBytes dg request w;
     (case r of
        Inl err \<Rightarrow> Some (Inl err, w)
      | Inr [] \<Rightarrow> Some (Inr 0, w)
      | Inr (buff # _) \<Rightarrow>
          (if length buff = 0 then Some (Inr 0, w)
           else (case parseUInt64FromByteSlice buff of
             Inl err \<Rightarrow>
               (case request of
                  None \<Rightarrow> None
                | Some request \<Rightarrow> Some (Inl (NewQueryResponseError internalError (Error err) (req_FuncName request)
                    (req_Address request) (req_Args request)), w))
           | Inr num \<Rightarrow> Some (Inr num, w))))
   }"

definition executeQueryFromBuilder :: "'w mxClientDataGetter \<Rightarrow> builder \<Rightarrow> ('w, go_error + bytes list) prog" where
  "executeQueryFromBuilder dg builder w =
     (case ToVmValueRequest (dg_proxy dg) builder of
        Inl err \<Rightarrow> Some (Inl err, w)
      | Inr request \<Rightarrow> ExecuteQueryReturningBytes dg request w)"

definition executeQueryUint64FromBuilder :: "'w mxClientDataGetter \<Rightarrow> builder \<Rightarrow> ('w, go_error + u64) prog" where
  "executeQueryUint64FromBuilder dg builder w =
     (case ToVmValueRequest (dg_proxy dg) builder of
        Inl err \<Rightarrow> Some (Inl err, w)
      | Inr request \<Rightarrow> ExecuteQueryReturningUint64 dg request w)"

definition executeQueryBoolFromBuilder :: "'w mxClientDataGetter \<Rightarrow> builder \<Rightarrow> ('w, go_error + bool) prog" where
  "executeQueryBoolFromBuilder dg builder w =
     (case ToVmValueRequest (dg_proxy dg) builder of
        Inl err \<Rightarrow> Some (Inl err, w)
      | Inr request \<Rightarrow> ExecuteQueryReturningBool dg request w)"

definition createDefaultVmQueryBuilder :: "'w mxClientDataGetter \<Rightarrow> builder" where
  "createDefaultVmQueryBuilder dg = [BAddress (dg_multisigContractAddress dg), BCallerAddress (dg_relayerAddress dg)]"

text \<open>A conversion \<^verbatim>\<open>int64(x)\<close> of an unsigned number reads its bits as a signed one.\<close>

definition addBatchInfo :: "builder \<Rightarrow> TransferBatch \<Rightarrow> builder" where
  "addBatchInfo builder batch =
     builder @ concat (map (\<lambda>dt. [BArgBytes (FromBytes dt), BArgBytes (ToBytes dt),
       BArgBytes (ConvertedTokenBytes dt), BArgBigInt (Amount dt), BArgInt64 (sint (Nonce dt))]) (Deposits batch))"

definition GetCurrentBatchAsDataBytes :: "'w mxClientDataGetter \<Rightarrow> ('w, go_error + bytes list) prog" where
  "GetCurrentBatchAsDataBytes dg =
     executeQueryFromBuilder dg (createDefaultVmQueryBuilder dg @ [BFunction getCurrentTxBatchFuncName])"

definition GetTokenIdForErc20Address :: "'w mxClientDataGetter \<Rightarrow> bytes \<Rightarrow> ('w, go_error + bytes list) prog" where
  "GetTokenIdForErc20Address dg erc20Address =
     executeQueryFromBuilder dg (createDefaultVmQueryBuilder dg @
       [BFunction getTokenIdForErc20AddressFuncName, BArgBytes erc20Address])"

definition GetERC20AddressForTokenId :: "'w mxClientDataGetter \<Rightarrow> bytes \<Rightarrow> ('w, go_error + bytes list) prog" where
  "GetERC20AddressForTokenId dg tokenId =
     executeQueryFromBuilder dg (createDefaultVmQueryBuilder dg @
       [BFunction getErc20AddressForTokenIdFuncName, BArgBytes tokenId])"

definition WasProposedTransfer :: "'w mxClientDataGetter \<Rightarrow> TransferBatch option \<Rightarrow> ('w, go_error + bool) prog" where
  "WasProposedTransfer dg batch w =
     (case batch of
        None \<Rightarrow> Some (Inl clients_ErrNilBatch, w)
      | Some batch \<Rightarrow>
          executeQueryBoolFromBuilder dg (addBatchInfo (createDefaultVmQueryBuilder dg @
            [BFunction wasTransferActionProposedFuncName, BArgInt64 (sint (ID batch))]) batch) w)"

definition WasExecuted :: "'w mxClientDataGetter \<Rightarrow> u64 \<Rightarrow> ('w, go_error + bool) prog" where
  "WasExecuted dg actionID =
     executeQueryBoolFromBuilder dg (createDefaultVmQueryBuilder dg @
       [BFunction wasActionExecutedFuncName, BArgInt64 (sint actionID)])"

definition GetActionIDForProposeTransfer ::
  "'w mxClientDataGetter \<Rightarrow> TransferBatch option \<Rightarrow> ('w, go_error + u64) prog" where
  "GetActionIDForProposeTransfer dg batch w =
     (case batch of
        None \<Rightarrow> Some (Inl clients_ErrNilBatch, w)
      | Some batch \<Rightarrow>
          executeQueryUint64FromBuilder dg (addBatchInfo (createDefaultVmQueryBuilder dg @
            [BFunction getActionIdForTransferBatchFuncName, BArgInt64 (sint (ID batch))]) batch) w)"

definition WasProposedSetStatus :: "'w mxClientDataGetter \<Rightarrow> TransferBatch option \<Rightarrow> ('w, go_error + bool) prog" where
  "WasProposedSetStatus dg batch w =
     (case batch of
        None \<Rightarrow> Some (Inl clients_ErrNilBatch, w)
      | Some batch \<Rightarrow>
          executeQueryBoolFromBuilder dg (createDefaultVmQueryBuilder dg @
            [BFunction wasSetCurrentTransactionBatchStatusActionProposedFuncName, BArgInt64 (sint (ID batch))] @
            map (\<lambda>stat. BArgBytes [stat]) (Statuses batch)) w)"

definition getStatusFromBuff :: "bytes \<Rightarrow> go_error + byte" where
  "getStatusFromBuff buff = (if length buff = 0 then Inl errMalformedBatchResponse else Inr (last buff))"

fun statusResults :: "nat \<Rightarrow> bytes list \<Rightarrow> go_error + bytes" where
  "statusResults i [] = Inr []"
| "statusResults i (v # vs) =
     (case getStatusFromBuff v of
        Inl err \<Rightarrow> Inl (Wrapped err ('' for result index '' @ dec i))
      | Inr b \<Rightarrow> (case statusResults (Suc i) vs of Inl err \<Rightarrow> Inl err | Inr bs \<Rightarrow> Inr (b # bs)))"

definition GetTransactionsStatuses :: "'w mxClientDataGetter \<Rightarrow> u64 \<Rightarrow> ('w, go_error + bytes) prog" where
  "GetTransactionsStatuses dg batchID w = do {
     (r, w) \<leftarrow> executeQueryFromBuilder dg (createDefaultVmQueryBuilder dg @
       [BFunction getStatusesAfterExecutionFuncName, BArgInt64 (sint batchID)]) w;
     Some (case r of
        Inl err \<Rightarrow> Inl err
      | Inr [] \<Rightarrow> Inl (Wrapped errNoStatusForBatchID ('' for batch ID '' @ dec_u64 batchID))
      | Inr (v # vs) \<Rightarrow>
          (case parseBool v getStatusesAfterExecutionFuncName
                  (AddressAsBech32String (dg_multisigContractAddress dg)) [] of
             Inl err \<Rightarrow> Inl err
           | Inr isFinished \<Rightarrow>
               if \<not> isFinished then Inl (Wrapped errBatchNotFinished ('' for batch ID '' @ dec_u64 batchID))
               else (case statusResults 0 vs of
                       Inl err \<Rightarrow> Inl err
                     | Inr results \<Rightarrow>
                         if length results = 0
                         then Inl (Wrapped errMalformedBatchResponse '' status is finished, no results are given'')
                         else Inr results)), w)
   }"

definition GetActionIDForSetStatusOnPendingTransfer ::
  "'w mxClientDataGetter \<Rightarrow> TransferBatch option \<Rightarrow> ('w, go_error + u64) prog" where
  "GetActionIDForSetStatusOnPendingTransfer dg batch w =
     (case batch of
        None \<Rightarrow> Some (Inl clients_ErrNilBatch, w)
      | Some batch \<Rightarrow>
          executeQueryUint64FromBuilder dg (createDefaultVmQueryBuilder dg @
            [BFunction getActionIdForSetCurrentTransactionBatchStatusFuncName, BArgInt64 (sint (ID batch))] @
            map (\<lambda>stat. BArgBytes [stat]) (Statuses batch)) w)"

definition QuorumReached :: "'w mxClientDataGetter \<Rightarrow> u64 \<Rightarrow> ('w, go_error + bool) prog" where
  "QuorumReached dg actionID =
     executeQueryBoolFromBuilder dg (createDefaultVmQueryBuilder dg @
       [BFunction quorumReachedFuncName, BArgInt64 (sint actionID)])"

definition GetLastExecutedEthBatchID :: "'w mxClientDataGetter \<Rightarrow> ('w, go_error + u64) prog" where
  "GetLastExecutedEthBatchID dg =
     executeQueryUint64FromBuilder dg (createDefaultVmQueryBuilder dg @ [BFunction getLastExecutedEthBatchIdFuncName])"

definition GetLastExecutedEthTxID :: "'w mxClientDataGetter \<Rightarrow> ('w, go_error + u64) prog" where
  "GetLastExecutedEthTxID dg =
     executeQueryUint64FromBuilder dg (createDefaultVmQueryBuilder dg @ [BFunction getLastExecutedEthTxId])"

definition WasSigned :: "'w mxClientDataGetter \<Rightarrow> u64 \<Rightarrow> ('w, go_error + bool) prog" where
  "WasSigned dg actionID =
     executeQueryBoolFromBuilder dg (createDefaultVmQueryBuilder dg @
       [BFunction signedFuncName, BArgAddress (dg_relayerAddress dg), BArgInt64 (sint actionID)])"

definition GetAllStakedRelayers :: "'w mxClientDataGetter \<Rightarrow> ('w, go_error + bytes list) prog" where
  "GetAllStakedRelayers dg =
     executeQueryFromBuilder dg (createDefaultVmQueryBuilder dg @ [BFunction getAllStakedRelayersFuncName])"

definition IsPaused :: "'w mxClientDataGetter \<Rightarrow> ('w, go_error + bool) prog" where
  "IsPaused dg = executeQueryBoolFromBuilder dg (createDefaultVmQueryBuilder dg @ [BFunction isPausedFuncName])"

section \<open>The token mappers\<close>

definition erc20ToMultiversX_ConvertToken :: "'w mxClientDataGetter \<Rightarrow> bytes \<Rightarrow> ('w, go_error + bytes) prog" where
  "erc20ToMultiversX_ConvertToken dg sourceBytes w = do {
     (r, w) \<leftarrow> GetTokenIdForErc20Address dg sourceBytes w;
     (case r of
        Inl err \<Rightarrow> Some (Inl err, w)
      | Inr [] \<Rightarrow> Some (Inl (Wrapped errUnknownToken ('' for provided '' @ hexEncode sourceBytes)), w)
      | Inr (token # _) \<Rightarrow> Some (Inr token, w))
   }"

definition multiversXToErc20_ConvertToken :: "'w mxClientDataGetter \<Rightarrow> bytes \<Rightarrow> ('w, go_error + bytes) prog" where
  "multiversXToErc20_ConvertToken dg sourceBytes w = do {
     (r, w) \<leftarrow> GetERC20AddressForTokenId dg sourceBytes w;
     (case r of
        Inl err \<Rightarrow> Some (Inl err, w)
      | Inr [] \<Rightarrow> Some (Inl (Wrapped errUnknownToken ('' for provided '' @ hexEncode sourceBytes)), w)
      | Inr (token # _) \<Rightarrow> Some (Inr token, w))
   }"

definition NewErc20ToMultiversXMapper :: "'w mxClientDataGetter option \<Rightarrow> go_error + (bytes \<Rightarrow> ('w, go_error + bytes) prog)" where
  "NewErc20ToMultiversXMapper dg =
     (case dg of None \<Rightarrow> Inl ErrNilDataGetter | Some dg \<Rightarrow> Inr (erc20ToMultiversX_ConvertToken dg))"

definition NewMultiversXToErc20Mapper :: "'w mxClientDataGetter option \<Rightarrow> go_error + (bytes \<Rightarrow> ('w, go_error + bytes) prog)" where
  "NewMultiversXToErc20Mapper dg =
     (case dg of None \<Rightarrow> Inl ErrNilDataGetter | Some dg \<Rightarrow> Inr (multiversXToErc20_ConvertToken dg))"

text \<open>
  Both clients convert the tokens of a batch with a cache that lives as long as the loop over its
  deposits.
\<close>

definition convertCached :: "(bytes \<Rightarrow> ('w, go_error + bytes) prog) \<Rightarrow> (string, bytes) gomap \<Rightarrow> string \<Rightarrow> bytes
    \<Rightarrow> ('w, go_error + bytes) prog" where
  "convertCached ConvertToken cachedTokens displayableToken tokenBytes w =
     (case gm_get cachedTokens displayableToken of
        Some stored \<Rightarrow> Some (Inr stored, w)
      | None \<Rightarrow> ConvertToken tokenBytes w)"

section \<open>Lemmas\<close>

text \<open>The contract answered \<open>values\<close> to the query a builder stands for.\<close>

definition contract_answers :: "'w mxClientDataGetter \<Rightarrow> builder \<Rightarrow> 'w \<Rightarrow> bytes list \<Rightarrow> 'w \<Rightarrow> bool" where
  "contract_answers dg builder w values w' \<longleftrightarrow>
     (\<exists>request response. ToVmValueRequest (dg_proxy dg) builder = Inr (Some request) \<and>
        ExecuteVMQuery (dg_proxy dg) request w = Some (Inr (Some response), w') \<and>
        ReturnCode response = ''ok'' \<and> ReturnData response = values)"

lemma query_bytes_iff:
  "executeQueryFromBuilder dg builder w = Some (Inr values, w') \<longleftrightarrow> contract_answers dg builder w values w'"
  by (auto simp: contract_answers_def executeQueryFromBuilder_def ExecuteQueryReturningBytes_def
    okCodeAfterExecution_def split: sum.splits option.splits bind_splits)

lemma parseBool_iff:
  "parseBool buff f a args = Inr v \<longleftrightarrow> (buff = [] \<or> hd buff \<in> {0, 1}) \<and> v = (buff \<noteq> [] \<and> hd buff = 1)"
  by (cases buff) (auto simp: parseBool_def)

text \<open>The first bytes of an answer that is read as a truth value: none, a zero or a one.\<close>

definition answers_bool :: "bytes list \<Rightarrow> bool \<Rightarrow> bool" where
  "answers_bool values v \<longleftrightarrow>
     (case values of [] \<Rightarrow> \<not> v | buff # _ \<Rightarrow> (buff = [] \<or> hd buff \<in> {0, 1}) \<and> v = (buff \<noteq> [] \<and> hd buff = 1))"

lemma query_bool_iff:
  "executeQueryBoolFromBuilder dg builder w = Some (Inr v, w') \<longleftrightarrow>
     (\<exists>values. contract_answers dg builder w values w' \<and> answers_bool values v)"
  by (auto simp: contract_answers_def executeQueryBoolFromBuilder_def ExecuteQueryReturningBool_def
    ExecuteQueryReturningBytes_def okCodeAfterExecution_def answers_bool_def parseBool_iff
    split: sum.splits option.splits bind_splits list.splits)

lemma parseUInt64FromByteSlice_iff: "parseUInt64FromByteSlice bs = Inr n \<longleftrightarrow> setBytes bs = unat n"
proof
  assume "parseUInt64FromByteSlice bs = Inr n"
  then have *: "setBytes bs < 2 ^ 64" "n = of_nat (setBytes bs)"
    by (simp_all add: parseUInt64FromByteSlice_def Let_def split: if_splits)
  then show "setBytes bs = unat n"
    by (simp add: unat_of_nat)
next
  assume "setBytes bs = unat n"
  moreover have "unat n < 2 ^ 64"
    using unsigned_less [of n, where 'a = nat] by simp
  ultimately show "parseUInt64FromByteSlice bs = Inr n"
    by (simp add: parseUInt64FromByteSlice_def)
qed

lemma parseUInt64_putUint64 [simp]: "parseUInt64FromByteSlice (putUint64 n) = Inr n"
  by (simp add: parseUInt64FromByteSlice_iff)

lemma parseUInt64FromByteSlice_Inl:
  "parseUInt64FromByteSlice bs = Inl err \<longleftrightarrow> 2 ^ 64 \<le> setBytes bs \<and> err = errNotUint64Bytes"
  by (auto simp: parseUInt64FromByteSlice_def Let_def)

lemma u64_bound [simp]: "\<not> 18446744073709551616 \<le> unat (n :: u64)"
  using unsigned_less [of n, where 'a = nat] by simp

definition first_number :: "bytes list \<Rightarrow> nat" where
  "first_number values = (case values of [] \<Rightarrow> 0 | buff # _ \<Rightarrow> setBytes buff)"

lemma query_u64_iff:
  "executeQueryUint64FromBuilder dg builder w = Some (Inr n, w') \<longleftrightarrow>
     (\<exists>values. contract_answers dg builder w values w' \<and> first_number values = unat n)"
  by (auto simp: contract_answers_def executeQueryUint64FromBuilder_def ExecuteQueryReturningUint64_def
    ExecuteQueryReturningBytes_def okCodeAfterExecution_def first_number_def parseUInt64FromByteSlice_iff
    parseUInt64FromByteSlice_Inl word_unat_eq_iff
    split: sum.splits option.splits bind_splits list.splits)

lemma statusResults_ok: "[] \<notin> set vs \<Longrightarrow> statusResults i vs = Inr (map last vs)"
  by (induction vs arbitrary: i) (auto simp: getStatusFromBuff_def)

lemma statusResults_malformed: "[] \<in> set vs \<Longrightarrow> \<exists>err. statusResults i vs = Inl err \<and> errors_Is err errMalformedBatchResponse"
proof (induction vs arbitrary: i)
  case (Cons v vs)
  show ?case
  proof (cases "v = []")
    case False
    then obtain err where "statusResults (Suc i) vs = Inl err" "errors_Is err errMalformedBatchResponse"
      using Cons by auto
    then show ?thesis using False by (simp add: getStatusFromBuff_def)
  qed (simp add: getStatusFromBuff_def)
qed simp

lemma statusResults_iff: "statusResults i vs = Inr bs \<longleftrightarrow> [] \<notin> set vs \<and> bs = map last vs"
  using statusResults_ok [of vs i] statusResults_malformed [of vs i] by (cases "[] \<in> set vs") auto

text \<open>
  The getter is only as reliable as the proxy: when the calls of the proxy return, and none
  answers with a nil pointer, no query of the getter panics.
\<close>

definition proxy_returns :: "'w Proxy \<Rightarrow> bool" where
  "proxy_returns p \<longleftrightarrow>
     (\<forall>request w. \<exists>r w'. ExecuteVMQuery p request w = Some (r, w') \<and> r \<noteq> Inr None) \<and>
     (\<forall>shard. never_panics (GetNetworkStatus p shard)) \<and> (\<forall>a. never_panics (GetShardOfAddress p a)) \<and>
     (\<forall>w. \<exists>r w'. GetNetworkConfig p w = Some (r, w') \<and> r \<noteq> Inr None)"

lemma proxy_returns_query:
  assumes "proxy_returns (dg_proxy dg)"
  shows "ExecuteQueryReturningBytes dg request w \<noteq> None"
proof (cases request)
  case (Some req)
  obtain r w' where "ExecuteVMQuery (dg_proxy dg) req w = Some (r, w')" "r \<noteq> Inr None"
    using assms unfolding proxy_returns_def by meson
  then show ?thesis
    using Some by (auto simp: ExecuteQueryReturningBytes_def split: sum.splits option.splits)
qed (simp add: ExecuteQueryReturningBytes_def)

lemma query_request_present:
  "ExecuteQueryReturningBytes dg None w = Some (Inr v, w') \<longleftrightarrow> False"
  by (simp add: ExecuteQueryReturningBytes_def)

lemma queries_return:
  assumes "proxy_returns (dg_proxy dg)"
  shows "never_panics (executeQueryFromBuilder dg b)"
    and "never_panics (executeQueryUint64FromBuilder dg b)"
    and "never_panics (executeQueryBoolFromBuilder dg b)"
proof -
  have q: "\<exists>r w'. ExecuteQueryReturningBytes dg request w = Some (r, w')" for request w
    using proxy_returns_query [OF assms, of request w] by auto
  show "never_panics (executeQueryFromBuilder dg b)"
    using q by (auto simp: never_panics_def executeQueryFromBuilder_def split: sum.splits)
  show "never_panics (executeQueryUint64FromBuilder dg b)"
    unfolding never_panics_def
  proof
    fix w
    show "executeQueryUint64FromBuilder dg b w \<noteq> None"
    proof (cases "ToVmValueRequest (dg_proxy dg) b")
      case (Inr request)
      obtain r w' where r: "ExecuteQueryReturningBytes dg request w = Some (r, w')"
        using q by blast
      show ?thesis
        using Inr r by (cases request) (auto simp: executeQueryUint64FromBuilder_def ExecuteQueryReturningUint64_def
          query_request_present split: sum.splits list.splits)
    qed (simp add: executeQueryUint64FromBuilder_def)
  qed
  show "never_panics (executeQueryBoolFromBuilder dg b)"
    unfolding never_panics_def
  proof
    fix w
    show "executeQueryBoolFromBuilder dg b w \<noteq> None"
    proof (cases "ToVmValueRequest (dg_proxy dg) b")
      case (Inr request)
      obtain r w' where r: "ExecuteQueryReturningBytes dg request w = Some (r, w')"
        using q by blast
      show ?thesis
        using Inr r by (cases request) (auto simp: executeQueryBoolFromBuilder_def ExecuteQueryReturningBool_def
          query_request_present split: sum.splits list.splits)
    qed (simp add: executeQueryBoolFromBuilder_def)
  qed
qed

lemma convertCached_function:
  assumes "\<And>w. \<exists>w'. f t w = Some (Inr (tok t), w')"
    and "\<And>v. gm_get cache (key t) = Some v \<Longrightarrow> v = tok t"
  shows "\<exists>w'. convertCached f cache (key t) t w = Some (Inr (tok t), w')"
  using assms by (auto simp: convertCached_def split: option.splits)

lemma convertCached_returns: "(\<And>t w. returns (f t w)) \<Longrightarrow> returns (convertCached f cache disp t w)"
  by (simp add: convertCached_def split: option.splits)

section \<open>The contract of a token mapper\<close>

text \<open>
  Both mappers answer with the first value of their query and report an unknown token when there is
  none.
\<close>

locale tokens_mapper =
  fixes query :: "bytes \<Rightarrow> ('w, go_error + bytes list) prog"
    and ConvertToken :: "bytes \<Rightarrow> ('w, go_error + bytes) prog"
  assumes found: "query source w = Some (Inr (token # rest), w') \<Longrightarrow> ConvertToken source w = Some (Inr token, w')"
    and unknown: "query source w = Some (Inr [], w') \<Longrightarrow>
      ConvertToken source w = Some (Inl (Wrapped errUnknownToken ('' for provided '' @ hexEncode source)), w')"
    and failed: "query source w = Some (Inl err, w') \<Longrightarrow> ConvertToken source w = Some (Inl err, w')"
    and panicked: "query source w = None \<Longrightarrow> ConvertToken source w = None"
begin

lemma converted_iff:
  "ConvertToken source w = Some (Inr token, w') \<longleftrightarrow> (\<exists>rest. query source w = Some (Inr (token # rest), w'))"
proof (cases "query source w")
  case None
  then show ?thesis using panicked by simp
next
  case (Some p)
  obtain r w1 where p: "p = (r, w1)" by (cases p)
  show ?thesis
  proof (cases r)
    case (Inl err)
    then show ?thesis using Some p failed by simp
  next
    case (Inr vs)
    then show ?thesis using Some p found unknown by (cases vs) auto
  qed
qed

lemma mapper_returns: "never_panics (query source) \<Longrightarrow> never_panics (ConvertToken source)"
  unfolding never_panics_def
  by (metis found unknown failed list.exhaust not_Some_eq old.prod.exhaust old.sum.exhaust)

end

interpretation erc20_mapper: tokens_mapper "GetTokenIdForErc20Address dg" "erc20ToMultiversX_ConvertToken dg" for dg
  by unfold_locales (simp_all add: erc20ToMultiversX_ConvertToken_def)

interpretation esdt_mapper: tokens_mapper "GetERC20AddressForTokenId dg" "multiversXToErc20_ConvertToken dg" for dg
  by unfold_locales (simp_all add: multiversXToErc20_ConvertToken_def)

section \<open>Properties\<close>

text \<open>
  The getter reports that the quorum is reached, that an action was executed, or that this relayer
  signed it, exactly when the contract answered the query for this action with code ok and a first
  value that starts with the byte one; a failed or differently coded answer never counts as a yes.
\<close>

theorem yes_only_from_contract:
  "(QuorumReached dg a w = Some (Inr True, w') \<longleftrightarrow>
      (\<exists>bs rest. contract_answers dg (createDefaultVmQueryBuilder dg @ [BFunction ''quorumReached'', BArgInt64 (sint a)]) w ((1 # bs) # rest) w')) \<and>
   (WasExecuted dg a w = Some (Inr True, w') \<longleftrightarrow>
      (\<exists>bs rest. contract_answers dg (createDefaultVmQueryBuilder dg @ [BFunction ''wasActionExecuted'', BArgInt64 (sint a)]) w ((1 # bs) # rest) w')) \<and>
   (WasSigned dg a w = Some (Inr True, w') \<longleftrightarrow>
      (\<exists>bs rest. contract_answers dg (createDefaultVmQueryBuilder dg @ [BFunction ''signed'', BArgAddress (dg_relayerAddress dg), BArgInt64 (sint a)])
         w ((1 # bs) # rest) w'))"
proof -
  have "answers_bool vs True \<longleftrightarrow> (\<exists>bs rest. vs = (1 # bs) # rest)" for vs
    by (auto simp: answers_bool_def neq_Nil_conv split: list.splits)
  then show ?thesis
    by (auto simp: QuorumReached_def WasExecuted_def WasSigned_def query_bool_iff quorumReachedFuncName_def
      wasActionExecutedFuncName_def signedFuncName_def)
qed

text \<open>
  The statuses of a batch are returned exactly when the contract answered that the batch is
  finished, with one non-empty value per transaction and at least one of them; they are then the last
  bytes of these values, in order.
\<close>

theorem GetTransactionsStatuses_iff:
  "GetTransactionsStatuses dg batchID w = Some (Inr statuses, w') \<longleftrightarrow>
     (\<exists>bs vs. contract_answers dg (createDefaultVmQueryBuilder dg @ [BFunction ''getStatusesAfterExecution'', BArgInt64 (sint batchID)])
        w ((1 # bs) # vs) w' \<and> vs \<noteq> [] \<and> [] \<notin> set vs \<and> statuses = map last vs)"
proof -
  let ?q = "createDefaultVmQueryBuilder dg @ [BFunction ''getStatusesAfterExecution'', BArgInt64 (sint batchID)]"
  have "GetTransactionsStatuses dg batchID w = Some (Inr statuses, w') \<longleftrightarrow>
     (\<exists>v vs. executeQueryFromBuilder dg ?q w = Some (Inr (v # vs), w') \<and>
        parseBool v getStatusesAfterExecutionFuncName (AddressAsBech32String (dg_multisigContractAddress dg)) [] = Inr True \<and>
        statusResults 0 vs = Inr statuses \<and> statuses \<noteq> [])"
    unfolding GetTransactionsStatuses_def getStatusesAfterExecutionFuncName_def
    by (cases "executeQueryFromBuilder dg ?q w") (auto split: sum.splits list.splits if_splits)
  moreover have "parseBool v f addr [] = Inr True \<longleftrightarrow> (\<exists>bs. v = 1 # bs)" for v f addr
    by (cases v) (auto simp: parseBool_iff)
  ultimately show ?thesis
    unfolding query_bytes_iff statusResults_iff by (metis map_is_Nil_conv)
qed

text \<open>
  The shard of the contract is looked up until one lookup succeeds and never again: after a
  success the getter answers from memory, without a call to the proxy, always with the same shard;
  after a failure it will look again, and the error is returned.
\<close>

lemma shard_looked_up_once:
  assumes "getShardID (dg, w) = Some ((shard, err), (dg', w'))"
  shows "(err = None \<longrightarrow> (\<forall>w1. getShardID (dg', w1) = Some ((shard, None), (dg', w1)))) \<and>
    (err \<noteq> None \<longrightarrow> \<not> dg_wasShardIDFetched dg' \<and>
       GetShardOfAddress (dg_proxy dg) (AddressAsBech32String (dg_multisigContractAddress dg)) w = Some ((shard, err), w')) \<and>
    dg_proxy dg' = dg_proxy dg \<and> dg_multisigContractAddress dg' = dg_multisigContractAddress dg \<and> dg_relayerAddress dg' = dg_relayerAddress dg"
proof (cases "dg_wasShardIDFetched dg")
  case True
  then show ?thesis using assms by (auto simp: getShardID_def)
next
  case False
  obtain r w1 where "GetShardOfAddress (dg_proxy dg) (AddressAsBech32String (dg_multisigContractAddress dg)) w = Some (r, w1)"
    using assms False by (cases "GetShardOfAddress (dg_proxy dg) (AddressAsBech32String (dg_multisigContractAddress dg)) w") (auto simp: getShardID_def)
  then show ?thesis
    using assms False by (cases r) (auto simp: getShardID_def Let_def split: if_splits)
qed

end
