(* ===== verification/Bridge_Executor.thy ===== *)
theory Bridge_Executor
  imports Core_Types
begin

text \<open>
  The bridge executor of \<^verbatim>\<open>bridge/bridges/ethMultiversX/bridgeExecutor.go\<close>, the object both
  half-bridges drive. Its record has the fields of the Go struct; its operations act on the pair of
  the executor and the world \<open>'w\<close> that the clients, the status handler and the other goroutines
  share. The clients are the interfaces of \<^verbatim>\<open>interface.go\<close>, records of operations.
\<close>

section \<open>Errors and constants\<close>

definition ErrNilBatch :: go_error where
  "ErrNilBatch = Sentinel ''ethmultiversx'' ''nil batch''"

definition ErrInvalidDepositNonce :: go_error where
  "ErrInvalidDepositNonce = Sentinel ''ethmultiversx'' ''invalid deposit nonce''"

definition ErrNilLogger :: go_error where
  "ErrNilLogger = Sentinel ''ethmultiversx'' ''nil logger''"

definition ErrNilMultiversXClient :: go_error where
  "ErrNilMultiversXClient = Sentinel ''ethmultiversx'' ''nil MultiversX client''"

definition ErrNilEthereumClient :: go_error where
  "ErrNilEthereumClient = Sentinel ''ethmultiversx'' ''nil Ethereum client''"

definition ErrNilTopologyProvider :: go_error where
  "ErrNilTopologyProvider = Sentinel ''ethmultiversx'' ''nil topology provider''"

definition ErrInvalidDuration :: go_error where
  "ErrInvalidDuration = Sentinel ''ethmultiversx'' ''invalid duration''"

definition ErrNilExecutor :: go_error where
  "ErrNilExecutor = Sentinel ''ethmultiversx'' ''nil bridge executor''"

definition ErrDuplicatedStepIdentifier :: go_error where
  "ErrDuplicatedStepIdentifier =
     Sentinel ''ethmultiversx'' ''duplicated step identifier used in multiple steps''"

definition ErrNilStatusHandler :: go_error where
  "ErrNilStatusHandler = Sentinel ''ethmultiversx'' ''nil status handler''"

definition ErrBatchNotFound :: go_error where
  "ErrBatchNotFound = Sentinel ''ethmultiversx'' ''batch not found''"

definition ErrNilSignaturesHolder :: go_error where
  "ErrNilSignaturesHolder = Sentinel ''ethmultiversx'' ''nil signatures holder''"

definition ErrNilBatchValidator :: go_error where
  "ErrNilBatchValidator = Sentinel ''ethmultiversx'' ''nil batch validator''"

definition InvalidActionID :: u64 where
  "InvalidActionID = 0"

text \<open>Durations are counted in nanoseconds, as \<^verbatim>\<open>time.Duration\<close>.\<close>

definition second :: int where
  "second = 1000000000"

definition durationLimit :: int where
  "durationLimit = second"

definition splits :: nat where
  "splits = 10"

definition minRetries :: u64 where
  "minRetries = 1"

datatype ClientStatus = Available | Unavailable

fun ClientStatus_String :: "ClientStatus \<Rightarrow> string" where
  "ClientStatus_String Available = ''Available''"
| "ClientStatus_String Unavailable = ''Unavailable''"

section \<open>Interfaces of the clients\<close>

record 'w MultiversXClient =
  mx_GetPending :: "('w, go_error + TransferBatch option) prog"
  mx_WasProposedTransfer :: "TransferBatch option \<Rightarrow> ('w, go_error + bool) prog"
  mx_QuorumReached :: "u64 \<Rightarrow> ('w, go_error + bool) prog"
  mx_WasExecuted :: "u64 \<Rightarrow> ('w, go_error + bool) prog"
  mx_GetActionIDForProposeTransfer :: "TransferBatch option \<Rightarrow> ('w, go_error + u64) prog"
  mx_WasProposedSetStatus :: "TransferBatch option \<Rightarrow> ('w, go_error + bool) prog"
  mx_GetActionIDForSetStatusOnPendingTransfer :: "TransferBatch option \<Rightarrow> ('w, go_error + u64) prog"
  mx_GetLastExecutedEthBatchID :: "('w, go_error + u64) prog"
  mx_GetLastExecutedEthTxID :: "('w, go_error + u64) prog"
  mx_ProposeSetStatus :: "TransferBatch option \<Rightarrow> ('w, go_error + string) prog"
  mx_ProposeTransfer :: "TransferBatch option \<Rightarrow> ('w, go_error + string) prog"
  mx_Sign :: "u64 \<Rightarrow> ('w, go_error + string) prog"
  mx_WasSigned :: "u64 \<Rightarrow> ('w, go_error + bool) prog"
  mx_PerformAction :: "u64 \<Rightarrow> TransferBatch option \<Rightarrow> ('w, go_error + string) prog"
  mx_CheckClientAvailability :: "('w, go_error option) prog"

record 'w EthereumClient =
  eth_GetBatch :: "u64 \<Rightarrow> ('w, go_error + TransferBatch option) prog"
  eth_WasExecuted :: "u64 \<Rightarrow> ('w, go_error + bool) prog"
  eth_GenerateMessageHash :: "TransferBatch option \<Rightarrow> (go_error + bytes) option"
  eth_BroadcastSignatureForMessageHash :: "bytes \<Rightarrow> ('w, unit) prog"
  eth_ExecuteTransfer :: "bytes \<Rightarrow> TransferBatch option \<Rightarrow> int \<Rightarrow> ('w, go_error + string) prog"
  eth_GetTransactionsStatuses :: "u64 \<Rightarrow> ('w, go_error + bytes) prog"
  eth_GetQuorumSize :: "('w, go_error + int) prog"
  eth_IsQuorumReached :: "bytes \<Rightarrow> ('w, go_error + bool) prog"
  eth_CheckClientAvailability :: "('w, go_error option) prog"

section \<open>The executor\<close>

text \<open>
  \<open>ex_waitTimer d\<close> stands for the \<^verbatim>\<open>select\<close> between a timer of duration \<open>d\<close> and the end of the
  context (true when the timer fired first), \<open>ex_levelString\<close> for \<^verbatim>\<open>LogLevel.String\<close>. The arguments
  struct \<^verbatim>\<open>ArgsBridgeExecutor\<close> holds pointers that may be nil, hence the options.
\<close>

record 'w bridgeExecutor =
  ex_levelString :: "LogLevel \<Rightarrow> string"
  ex_topologyProvider :: "('w, bool) prog"
  ex_multiversXClient :: "'w MultiversXClient"
  ex_ethereumClient :: "'w EthereumClient"
  ex_timeForWaitOnEthereum :: int
  ex_waitTimer :: "int \<Rightarrow> ('w, bool) prog"
  ex_statusHandler :: "'w StatusHandler"
  ex_ClearStoredSignatures :: "'w \<Rightarrow> 'w"
  ex_batchValidator :: "TransferBatch \<Rightarrow> ('w, go_error + bool) prog"
  ex_maxQuorumRetriesOnEthereum :: u64
  ex_maxQuorumRetriesOnMultiversX :: u64
  ex_maxRetriesOnWasProposed :: u64
  ex_batch :: "TransferBatch option"
  ex_actionID :: u64
  ex_msgHash :: bytes
  ex_quorumRetriesOnEthereum :: u64
  ex_quorumRetriesOnMultiversX :: u64
  ex_retriesOnWasProposed :: u64

type_synonym 'w bstate = "'w bridgeExecutor \<times> 'w"

record 'w ArgsBridgeExecutor =
  arg_Log :: "(LogLevel \<Rightarrow> string) option"
  arg_TopologyProvider :: "('w, bool) prog option"
  arg_MultiversXClient :: "'w MultiversXClient option"
  arg_EthereumClient :: "'w EthereumClient option"
  arg_TimeForWaitOnEthereum :: int
  arg_WaitTimer :: "int \<Rightarrow> ('w, bool) prog"
  arg_StatusHandler :: "'w StatusHandler option"
  arg_SignaturesHolder :: "('w \<Rightarrow> 'w) option"
  arg_BatchValidator :: "(TransferBatch \<Rightarrow> ('w, go_error + bool) prog) option"
  arg_MaxQuorumRetriesOnEthereum :: u64
  arg_MaxQuorumRetriesOnMultiversX :: u64
  arg_MaxRestriesOnWasProposed :: u64

definition invalidRetries :: "string \<Rightarrow> u64 \<Rightarrow> go_error" where
  "invalidRetries name got =
     Wrapped ErrInvalidValue ('' for args.'' @ name @ '', got: '' @ dec_u64 got @
       '', minimum: '' @ dec_u64 minRetries)"

definition checkArgs :: "'w ArgsBridgeExecutor \<Rightarrow> go_error option" where
  "checkArgs args =
     (if arg_Log args = None then Some ErrNilLogger
      else if arg_MultiversXClient args = None then Some ErrNilMultiversXClient
      else if arg_EthereumClient args = None then Some ErrNilEthereumClient
      else if arg_TopologyProvider args = None then Some ErrNilTopologyProvider
      else if arg_StatusHandler args = None then Some ErrNilStatusHandler
      else if arg_TimeForWaitOnEthereum args < durationLimit then Some ErrInvalidDuration
      else if arg_SignaturesHolder args = None then Some ErrNilSignaturesHolder
      else if arg_BatchValidator args = None then Some ErrNilBatchValidator
      else if arg_MaxQuorumRetriesOnEthereum args < minRetries
        then Some (invalidRetries ''MaxQuorumRetriesOnEthereum'' (arg_MaxQuorumRetriesOnEthereum args))
      else if arg_MaxQuorumRetriesOnMultiversX args < minRetries
        then Some (invalidRetries ''MaxQuorumRetriesOnMultiversX'' (arg_MaxQuorumRetriesOnMultiversX args))
      else if arg_MaxRestriesOnWasProposed args < minRetries
        then Some (invalidRetries ''MaxRestriesOnWasProposed'' (arg_MaxRestriesOnWasProposed args))
      else None)"

definition createBridgeExecutor :: "'w ArgsBridgeExecutor \<Rightarrow> 'w bridgeExecutor" where
  "createBridgeExecutor args =
     \<lparr> ex_levelString = the (arg_Log args),
       ex_topologyProvider = the (arg_TopologyProvider args),
       ex_multiversXClient = the (arg_MultiversXClient args),
       ex_ethereumClient = the (arg_EthereumClient args),
       ex_timeForWaitOnEthereum = arg_TimeForWaitOnEthereum args,
       ex_waitTimer = arg_WaitTimer args,
       ex_statusHandler = the (arg_StatusHandler args),
       ex_ClearStoredSignatures = the (arg_SignaturesHolder args),
       ex_batchValidator = the (arg_BatchValidator args),
       ex_maxQuorumRetriesOnEthereum = arg_MaxQuorumRetriesOnEthereum args,
       ex_maxQuorumRetriesOnMultiversX = arg_MaxQuorumRetriesOnMultiversX args,
       ex_maxRetriesOnWasProposed = arg_MaxRestriesOnWasProposed args,
       ex_batch = None,
       ex_actionID = 0,
       ex_msgHash = replicate 32 0,
       ex_quorumRetriesOnEthereum = 0,
       ex_quorumRetriesOnMultiversX = 0,
       ex_retriesOnWasProposed = 0 \<rparr>"

definition NewBridgeExecutor :: "'w ArgsBridgeExecutor \<Rightarrow> go_error + 'w bridgeExecutor" where
  "NewBridgeExecutor args =
     (case checkArgs args of
        Some err \<Rightarrow> Inl err
      | None \<Rightarrow> Inr (createBridgeExecutor args))"

section \<open>Operations\<close>

text \<open>A call of a world operation through one of the executor's interfaces.\<close>

definition callw :: "('w bridgeExecutor \<Rightarrow> ('w, 'a) prog) \<Rightarrow> ('w bstate, 'a) prog" where
  "callw f = (\<lambda>(ex, w). do { (r, w) \<leftarrow> f ex w; Some (r, (ex, w)) })"

fun appendExtras :: "string \<Rightarrow> log_value list \<Rightarrow> string" where
  "appendExtras msg (k # v # rest) =
     appendExtras (msg @ '' '' @ convertObjectToString k @ '' = '' @ convertObjectToString v) rest"
| "appendExtras msg rest = msg"

definition setExecutionMessageInStatusHandler ::
  "LogLevel \<Rightarrow> string \<Rightarrow> log_value list \<Rightarrow> 'w bstate \<Rightarrow> 'w bstate" where
  "setExecutionMessageInStatusHandler level message extras = (\<lambda>(ex, w).
     (ex, sh_SetStringMetric (ex_statusHandler ex) MetricLastError
            (appendExtras (ex_levelString ex level @ '': '' @ message) extras) w))"

definition PrintInfo :: "LogLevel \<Rightarrow> string \<Rightarrow> log_value list \<Rightarrow> 'w bstate \<Rightarrow> 'w bstate" where
  "PrintInfo logLevel message extras s =
     (if logLevel = LogWarning \<or> logLevel = LogError
      then setExecutionMessageInStatusHandler logLevel message extras s else s)"

definition MyTurnAsLeader :: "('w bstate, bool) prog" where
  "MyTurnAsLeader = callw ex_topologyProvider"

text \<open>\<^verbatim>\<open>batch.ID\<close> is read whenever the error is nil, so a nil batch without an error panics here.\<close>

definition GetBatchFromMultiversX :: "('w bstate, go_error + TransferBatch option) prog" where
  "GetBatchFromMultiversX = (\<lambda>(ex, w). do {
     (r, w) \<leftarrow> mx_GetPending (ex_multiversXClient ex) w;
     (case r of
        Inl err \<Rightarrow> Some (Inl err, (ex, w))
      | Inr None \<Rightarrow> None
      | Inr (Some batch) \<Rightarrow>
          (let w = sh_SetIntMetric (ex_statusHandler ex) MetricNumBatches (sint (ID batch - 1)) w in
           Some (Inr (Some batch), (ex, w))))
   })"

definition StoreBatchFromMultiversX :: "TransferBatch option \<Rightarrow> ('w bstate, go_error option) prog" where
  "StoreBatchFromMultiversX batch = (\<lambda>(ex, w).
     (case batch of
        None \<Rightarrow> Some (Some ErrNilBatch, (ex, w))
      | Some b \<Rightarrow> Some (None, (ex\<lparr>ex_batch := Some b\<rparr>, w))))"

definition GetStoredBatch :: "'w bstate \<Rightarrow> TransferBatch option" where
  "GetStoredBatch s = ex_batch (fst s)"

definition GetLastExecutedEthBatchIDFromMultiversX :: "('w bstate, go_error + u64) prog" where
  "GetLastExecutedEthBatchIDFromMultiversX = (\<lambda>(ex, w). do {
     (r, w) \<leftarrow> mx_GetLastExecutedEthBatchID (ex_multiversXClient ex) w;
     (case r of
        Inl err \<Rightarrow> Some (Inl err, (ex, w))
      | Inr batchID \<Rightarrow>
          (let w = sh_SetIntMetric (ex_statusHandler ex) MetricNumBatches (sint batchID) w in
           Some (Inr batchID, (ex, w))))
   })"

fun verifyDepositNonces_loop :: "u64 \<Rightarrow> DepositTransfer list \<Rightarrow> go_error option" where
  "verifyDepositNonces_loop startNonce [] = None"
| "verifyDepositNonces_loop startNonce (dt # dts) =
     (if Nonce dt \<noteq> startNonce
      then Some (Wrapped ErrInvalidDepositNonce ('' for deposit '' @ DepositTransfer_String dt @
             '', expected: '' @ dec_u64 startNonce))
      else verifyDepositNonces_loop (startNonce + 1) dts)"

definition verifyDepositNonces :: "u64 \<Rightarrow> TransferBatch \<Rightarrow> go_error option" where
  "verifyDepositNonces lastNonce batch = verifyDepositNonces_loop (lastNonce + 1) (Deposits batch)"

definition VerifyLastDepositNonceExecutedOnEthereumBatch :: "('w bstate, go_error option) prog" where
  "VerifyLastDepositNonceExecutedOnEthereumBatch = (\<lambda>(ex, w).
     (case ex_batch ex of
        None \<Rightarrow> Some (Some ErrNilBatch, (ex, w))
      | Some batch \<Rightarrow> do {
          (r, w) \<leftarrow> mx_GetLastExecutedEthTxID (ex_multiversXClient ex) w;
          (case r of
             Inl err \<Rightarrow> Some (Some err, (ex, w))
           | Inr lastNonce \<Rightarrow> Some (verifyDepositNonces lastNonce batch, (ex, w)))
        }))"

definition GetAndStoreActionIDForProposeTransferOnMultiversX :: "('w bstate, go_error + u64) prog" where
  "GetAndStoreActionIDForProposeTransferOnMultiversX = (\<lambda>(ex, w).
     (case ex_batch ex of
        None \<Rightarrow> Some (Inl ErrNilBatch, (ex, w))
      | Some batch \<Rightarrow> do {
          (r, w) \<leftarrow> mx_GetActionIDForProposeTransfer (ex_multiversXClient ex) (Some batch) w;
          (case r of
             Inl err \<Rightarrow> Some (Inl err, (ex, w))
           | Inr actionID \<Rightarrow> Some (Inr actionID, (ex\<lparr>ex_actionID := actionID\<rparr>, w)))
        }))"

definition GetAndStoreActionIDForProposeSetStatusFromMultiversX :: "('w bstate, go_error + u64) prog" where
  "GetAndStoreActionIDForProposeSetStatusFromMultiversX = (\<lambda>(ex, w).
     (case ex_batch ex of
        None \<Rightarrow> Some (Inl ErrNilBatch, (ex, w))
      | Some batch \<Rightarrow> do {
          (r, w) \<leftarrow> mx_GetActionIDForSetStatusOnPendingTransfer (ex_multiversXClient ex) (Some batch) w;
          (case r of
             Inl err \<Rightarrow> Some (Inl err, (ex, w))
           | Inr actionID \<Rightarrow> Some (Inr actionID, (ex\<lparr>ex_actionID := actionID\<rparr>, w)))
        }))"

definition GetStoredActionID :: "'w bstate \<Rightarrow> u64" where
  "GetStoredActionID s = ex_actionID (fst s)"

text \<open>
  Operations that need the stored batch return \<open>ErrNilBatch\<close> without calling the client when none
  is stored.
\<close>

definition withBatch :: "('w bridgeExecutor \<Rightarrow> TransferBatch \<Rightarrow> ('w, go_error + 'a) prog)
    \<Rightarrow> ('w bstate, go_error + 'a) prog" where
  "withBatch f = (\<lambda>(ex, w).
     (case ex_batch ex of
        None \<Rightarrow> Some (Inl ErrNilBatch, (ex, w))
      | Some batch \<Rightarrow> callw (\<lambda>ex. f ex batch) (ex, w)))"

definition WasTransferProposedOnMultiversX :: "('w bstate, go_error + bool) prog" where
  "WasTransferProposedOnMultiversX =
     withBatch (\<lambda>ex batch. mx_WasProposedTransfer (ex_multiversXClient ex) (Some batch))"

text \<open>The transaction hash a sending operation returns is only logged.\<close>

definition dropHash :: "('s, go_error + string) prog \<Rightarrow> ('s, go_error option) prog" where
  "dropHash f = (\<lambda>s. do {
     (r, s) \<leftarrow> f s;
     Some (case r of Inl err \<Rightarrow> Some err | Inr hash \<Rightarrow> None, s)
   })"

definition ProposeTransferOnMultiversX :: "('w bstate, go_error option) prog" where
  "ProposeTransferOnMultiversX =
     dropHash (withBatch (\<lambda>ex batch. mx_ProposeTransfer (ex_multiversXClient ex) (Some batch)))"

definition ProcessMaxRetriesOnWasTransferProposedOnMultiversX :: "('w bstate, bool) prog" where
  "ProcessMaxRetriesOnWasTransferProposedOnMultiversX = (\<lambda>(ex, w).
     (if ex_retriesOnWasProposed ex < ex_maxRetriesOnWasProposed ex
      then Some (False, (ex\<lparr>ex_retriesOnWasProposed := ex_retriesOnWasProposed ex + 1\<rparr>, w))
      else Some (True, (ex, w))))"

definition ResetRetriesOnWasTransferProposedOnMultiversX :: "'w bstate \<Rightarrow> 'w bstate" where
  "ResetRetriesOnWasTransferProposedOnMultiversX = (\<lambda>(ex, w). (ex\<lparr>ex_retriesOnWasProposed := 0\<rparr>, w))"

definition WasSetStatusProposedOnMultiversX :: "('w bstate, go_error + bool) prog" where
  "WasSetStatusProposedOnMultiversX =
     withBatch (\<lambda>ex batch. mx_WasProposedSetStatus (ex_multiversXClient ex) (Some batch))"

definition ProposeSetStatusOnMultiversX :: "('w bstate, go_error option) prog" where
  "ProposeSetStatusOnMultiversX =
     dropHash (withBatch (\<lambda>ex batch. mx_ProposeSetStatus (ex_multiversXClient ex) (Some batch)))"

definition WasActionSignedOnMultiversX :: "('w bstate, go_error + bool) prog" where
  "WasActionSignedOnMultiversX = callw (\<lambda>ex. mx_WasSigned (ex_multiversXClient ex) (ex_actionID ex))"

definition SignActionOnMultiversX :: "('w bstate, go_error option) prog" where
  "SignActionOnMultiversX =
     dropHash (callw (\<lambda>ex. mx_Sign (ex_multiversXClient ex) (ex_actionID ex)))"

definition ProcessQuorumReachedOnMultiversX :: "('w bstate, go_error + bool) prog" where
  "ProcessQuorumReachedOnMultiversX =
     callw (\<lambda>ex. mx_QuorumReached (ex_multiversXClient ex) (ex_actionID ex))"

definition waitWithContextSucceeded :: "('w bstate, bool) prog" where
  "waitWithContextSucceeded =
     callw (\<lambda>ex. ex_waitTimer ex (ex_timeForWaitOnEthereum ex div int splits))"

definition WasTransferPerformedOnEthereum :: "('w bstate, go_error + bool) prog" where
  "WasTransferPerformedOnEthereum =
     withBatch (\<lambda>ex batch. eth_WasExecuted (ex_ethereumClient ex) (ID batch))"

text \<open>The loop of \<open>WaitForTransferConfirmation\<close>: the rounds left, and whether it was performed.\<close>

fun waitForTransferConfirmation_loop :: "nat \<Rightarrow> bool \<Rightarrow> ('w bstate, unit) prog" where
  "waitForTransferConfirmation_loop 0 wasPerformed s = Some ((), s)"
| "waitForTransferConfirmation_loop (Suc n) wasPerformed s =
     (if wasPerformed then Some ((), s)
      else do {
        (waited, s) \<leftarrow> waitWithContextSucceeded s;
        (if waited then do {
           (r, s) \<leftarrow> WasTransferPerformedOnEthereum s;
           waitForTransferConfirmation_loop n (case r of Inl err \<Rightarrow> False | Inr b \<Rightarrow> b) s
         }
         else waitForTransferConfirmation_loop n wasPerformed s)
      })"

definition WaitForTransferConfirmation :: "('w bstate, unit) prog" where
  "WaitForTransferConfirmation = waitForTransferConfirmation_loop splits False"

definition GetBatchStatusesFromEthereum :: "('w bstate, go_error + bytes) prog" where
  "GetBatchStatusesFromEthereum =
     withBatch (\<lambda>ex batch. eth_GetTransactionsStatuses (ex_ethereumClient ex) (ID batch))"

fun waitAndReturnFinalBatchStatuses_loop :: "nat \<Rightarrow> ('w bstate, bytes) prog" where
  "waitAndReturnFinalBatchStatuses_loop 0 s = Some ([], s)"
| "waitAndReturnFinalBatchStatuses_loop (Suc n) s = do {
     (waited, s) \<leftarrow> waitWithContextSucceeded s;
     (if \<not> waited then Some ([], s)
      else do {
        (r, s) \<leftarrow> GetBatchStatusesFromEthereum s;
        (case r of
           Inl err \<Rightarrow> waitAndReturnFinalBatchStatuses_loop n s
         | Inr statuses \<Rightarrow>
             (if length statuses = 0 then waitAndReturnFinalBatchStatuses_loop n s
              else Some (statuses, s)))
      })
   }"

definition WaitAndReturnFinalBatchStatuses :: "('w bstate, bytes) prog" where
  "WaitAndReturnFinalBatchStatuses = waitAndReturnFinalBatchStatuses_loop splits"

definition WasActionPerformedOnMultiversX :: "('w bstate, go_error + bool) prog" where
  "WasActionPerformedOnMultiversX =
     callw (\<lambda>ex. mx_WasExecuted (ex_multiversXClient ex) (ex_actionID ex))"

definition PerformActionOnMultiversX :: "('w bstate, go_error option) prog" where
  "PerformActionOnMultiversX =
     dropHash (withBatch (\<lambda>ex batch. mx_PerformAction (ex_multiversXClient ex) (ex_actionID ex) (Some batch)))"

text \<open>The batch is updated through the stored pointer; without one the method call panics.\<close>

definition ResolveNewDepositsStatuses :: "u64 \<Rightarrow> ('w bstate, unit) prog" where
  "ResolveNewDepositsStatuses numDeposits = (\<lambda>(ex, w).
     (case ex_batch ex of
        None \<Rightarrow> None
      | Some batch \<Rightarrow> do {
          batch \<leftarrow> ResolveNewDeposits (sint numDeposits) batch;
          Some ((), (ex\<lparr>ex_batch := Some batch\<rparr>, w))
        }))"

definition ProcessMaxQuorumRetriesOnMultiversX :: "('w bstate, bool) prog" where
  "ProcessMaxQuorumRetriesOnMultiversX = (\<lambda>(ex, w).
     (if ex_quorumRetriesOnMultiversX ex < ex_maxQuorumRetriesOnMultiversX ex
      then Some (False, (ex\<lparr>ex_quorumRetriesOnMultiversX := ex_quorumRetriesOnMultiversX ex + 1\<rparr>, w))
      else Some (True, (ex, w))))"

definition ResetRetriesCountOnMultiversX :: "'w bstate \<Rightarrow> 'w bstate" where
  "ResetRetriesCountOnMultiversX = (\<lambda>(ex, w). (ex\<lparr>ex_quorumRetriesOnMultiversX := 0\<rparr>, w))"

definition GetAndStoreBatchFromEthereum :: "u64 \<Rightarrow> ('w bstate, go_error option) prog" where
  "GetAndStoreBatchFromEthereum nonce = (\<lambda>(ex, w). do {
     (r, w) \<leftarrow> eth_GetBatch (ex_ethereumClient ex) nonce w;
     (case r of
        Inl err \<Rightarrow> Some (Some err, (ex, w))
      | Inr None \<Rightarrow> None
      | Inr (Some batch) \<Rightarrow>
          (if ID batch \<noteq> nonce \<or> length (Deposits batch) = 0
           then Some (Some (Wrapped ErrBatchNotFound ('', requested nonce: '' @ dec_u64 nonce @
                  '', fetched nonce: '' @ dec_u64 (ID batch) @
                  '', num deposits: '' @ dec (length (Deposits batch)))), (ex, w))
           else Some (None, (ex\<lparr>ex_batch := Some batch\<rparr>, w))))
   })"

definition SignTransferOnEthereum :: "('w bstate, go_error option) prog" where
  "SignTransferOnEthereum = (\<lambda>(ex, w).
     (case ex_batch ex of
        None \<Rightarrow> Some (Some ErrNilBatch, (ex, w))
      | Some batch \<Rightarrow> do {
          r \<leftarrow> eth_GenerateMessageHash (ex_ethereumClient ex) (Some batch);
          (case r of
             Inl err \<Rightarrow> Some (Some err, (ex, w))
           | Inr hash \<Rightarrow> do {
               (_, w) \<leftarrow> eth_BroadcastSignatureForMessageHash (ex_ethereumClient ex) hash w;
               Some (None, (ex\<lparr>ex_msgHash := hash\<rparr>, w))
             })
        }))"

definition PerformTransferOnEthereum :: "('w bstate, go_error option) prog" where
  "PerformTransferOnEthereum = (\<lambda>(ex, w).
     (case ex_batch ex of
        None \<Rightarrow> Some (Some ErrNilBatch, (ex, w))
      | Some batch \<Rightarrow> do {
          (r, w) \<leftarrow> eth_GetQuorumSize (ex_ethereumClient ex) w;
          (case r of
             Inl err \<Rightarrow> Some (Some err, (ex, w))
           | Inr quorumSize \<Rightarrow>
               dropHash (callw (\<lambda>ex. eth_ExecuteTransfer (ex_ethereumClient ex) (ex_msgHash ex)
                                        (Some batch) (bigInt64 quorumSize))) (ex, w))
        }))"

definition ProcessQuorumReachedOnEthereum :: "('w bstate, go_error + bool) prog" where
  "ProcessQuorumReachedOnEthereum =
     callw (\<lambda>ex. eth_IsQuorumReached (ex_ethereumClient ex) (ex_msgHash ex))"

definition ProcessMaxQuorumRetriesOnEthereum :: "('w bstate, bool) prog" where
  "ProcessMaxQuorumRetriesOnEthereum = (\<lambda>(ex, w).
     (if ex_quorumRetriesOnEthereum ex < ex_maxQuorumRetriesOnEthereum ex
      then Some (False, (ex\<lparr>ex_quorumRetriesOnEthereum := ex_quorumRetriesOnEthereum ex + 1\<rparr>, w))
      else Some (True, (ex, w))))"

definition ResetRetriesCountOnEthereum :: "'w bstate \<Rightarrow> 'w bstate" where
  "ResetRetriesCountOnEthereum = (\<lambda>(ex, w). (ex\<lparr>ex_quorumRetriesOnEthereum := 0\<rparr>, w))"

definition ClearStoredP2PSignaturesForEthereum :: "'w bstate \<Rightarrow> 'w bstate" where
  "ClearStoredP2PSignaturesForEthereum = (\<lambda>(ex, w). (ex, ex_ClearStoredSignatures ex w))"

definition ValidateBatch :: "TransferBatch \<Rightarrow> ('w bstate, go_error + bool) prog" where
  "ValidateBatch batch = callw (\<lambda>ex. ex_batchValidator ex batch)"

definition CheckMultiversXClientAvailability :: "('w bstate, go_error option) prog" where
  "CheckMultiversXClientAvailability = callw (\<lambda>ex. mx_CheckClientAvailability (ex_multiversXClient ex))"

definition CheckEthereumClientAvailability :: "('w bstate, go_error option) prog" where
  "CheckEthereumClientAvailability = callw (\<lambda>ex. eth_CheckClientAvailability (ex_ethereumClient ex))"

end
