(* ===== verification/Mx_Client.thy ===== *)
theory Mx_Client
  imports Mx_Data_Getter Batch_Validator Bridge_Executor
begin

text \<open>
  The MultiversX client, \<^verbatim>\<open>clients/multiversx/client.go\<close>, and the transaction handler it sends with,
  \<^verbatim>\<open>transactionHandler.go\<close>. The nonce handler, the key and signer, the transaction data builder and the
  JSON encoding belong to the SDK and are parameters. The last section makes the client an instance
  of the interface that the bridge executor calls.
\<close>

section \<open>Transactions\<close>

record FrontendTransaction =
  tx_ChainID :: string
  tx_Version :: u32
  tx_GasLimit :: u64
  tx_GasPrice :: u64
  tx_Nonce :: u64
  tx_Data :: bytes
  tx_Sender :: string
  tx_Receiver :: string
  tx_Value :: string
  tx_Signature :: string

record 'w NonceTransactionsHandler =
  nth_GetNonce :: "address \<Rightarrow> ('w, go_error + u64) prog"
  nth_SendTransaction :: "FrontendTransaction \<Rightarrow> ('w, go_error + string) prog"
  nth_Close :: "('w, go_error option) prog"

record 'w transactionHandler =
  th_proxy :: "'w Proxy"
  th_relayerAddress :: address
  th_multisigAddressAsBech32 :: string
  th_nonceTxHandler :: "'w NonceTransactionsHandler"
  th_signWithPrivateKey :: "bytes \<Rightarrow> go_error + bytes"
  th_IsWhitelisted :: "'w \<Rightarrow> address \<Rightarrow> bool"
  th_ToDataBytes :: "builder \<Rightarrow> go_error + bytes"
  th_marshalTx :: "FrontendTransaction \<Rightarrow> go_error + bytes"

definition signTransactionWithPrivateKey ::
  "'w transactionHandler \<Rightarrow> FrontendTransaction \<Rightarrow> go_error + FrontendTransaction" where
  "signTransactionWithPrivateKey th tx =
     (let tx = tx\<lparr>tx_Signature := []\<rparr> in
      case th_marshalTx th tx of
        Inl err \<Rightarrow> Inl err
      | Inr bs \<Rightarrow>
          (case th_signWithPrivateKey th bs of
             Inl err \<Rightarrow> Inl err
           | Inr signature \<Rightarrow> Inr (tx\<lparr>tx_Signature := hexEncode signature\<rparr>)))"

definition signTransaction ::
  "'w transactionHandler \<Rightarrow> builder \<Rightarrow> u64 \<Rightarrow> ('w, go_error + FrontendTransaction) prog" where
  "signTransaction th builder gasLimit w = do {
     (r, w) \<leftarrow> GetNetworkConfig (th_proxy th) w;
     (case r of
        Inl err \<Rightarrow> Some (Inl err, w)
      | Inr networkConfig \<Rightarrow> do {
          (r, w) \<leftarrow> nth_GetNonce (th_nonceTxHandler th) (th_relayerAddress th) w;
          (case r of
             Inl err \<Rightarrow> Some (Inl err, w)
           | Inr nonce \<Rightarrow>
               (case th_ToDataBytes th builder of
                  Inl err \<Rightarrow> Some (Inl err, w)
                | Inr dataBytes \<Rightarrow>
                    (case networkConfig of
                       None \<Rightarrow> None
                     | Some nc \<Rightarrow>
                         Some (signTransactionWithPrivateKey th
                           \<lparr> tx_ChainID = nc_ChainID nc, tx_Version = nc_MinTransactionVersion nc, tx_GasLimit = gasLimit,
                             tx_GasPrice = nc_MinGasPrice nc, tx_Nonce = nonce, tx_Data = dataBytes,
                             tx_Sender = AddressAsBech32String (th_relayerAddress th),
                             tx_Receiver = th_multisigAddressAsBech32 th, tx_Value = ''0'', tx_Signature = [] \<rparr>, w))))
        })
   }"

definition SendTransactionReturnHash ::
  "'w transactionHandler \<Rightarrow> builder \<Rightarrow> u64 \<Rightarrow> ('w, go_error + string) prog" where
  "SendTransactionReturnHash th builder gasLimit w =
     (if \<not> th_IsWhitelisted th w (th_relayerAddress th) then Some (Inl errRelayerNotWhitelisted, w)
      else do {
        (r, w) \<leftarrow> signTransaction th builder gasLimit w;
        (case r of
           Inl err \<Rightarrow> Some (Inl err, w)
         | Inr tx \<Rightarrow> nth_SendTransaction (th_nonceTxHandler th) tx w)
      })"

section \<open>The client\<close>

definition proposeTransferFuncName :: string where
  "proposeTransferFuncName = ''proposeMultiTransferEsdtBatch''"

definition proposeSetStatusFuncName :: string where
  "proposeSetStatusFuncName = ''proposeEsdtSafeSetCurrentTransactionBatchStatus''"

definition signFuncName :: string where
  "signFuncName = ''sign''"

definition performActionFuncName :: string where
  "performActionFuncName = ''performAction''"

definition mx_minAllowedDelta :: u64 where
  "mx_minAllowedDelta = 1"

record MultiversXGasMapConfig =
  gas_Sign :: u64
  gas_ProposeTransferBase :: u64
  gas_ProposeTransferForEach :: u64
  gas_ProposeStatusBase :: u64
  gas_ProposeStatusForEach :: u64
  gas_PerformActionBase :: u64
  gas_PerformActionForEach :: u64

text \<open>The relayer's key: its public part as bytes, and signing with it.\<close>

record private_key =
  pk_publicBytes :: "go_error + bytes"
  pk_sign :: "bytes \<Rightarrow> go_error + bytes"

record 'w mx_ClientArgs =
  ca_GasMapConfig :: MultiversXGasMapConfig
  ca_Proxy :: "'w Proxy option"
  ca_Log :: "unit option"
  ca_RelayerPrivateKey :: "private_key option"
  ca_MultisigContractAddress :: "address option"
  ca_IntervalToResendTxsInSeconds :: u64
  ca_TokensMapper :: "(bytes \<Rightarrow> ('w, go_error + bytes) prog) option"
  ca_RoleProvider :: "('w \<Rightarrow> address \<Rightarrow> bool) option"
  ca_StatusHandler :: "'w StatusHandler option"
  ca_AllowDelta :: u64

record 'w mx_client =
  mc_getter :: "'w mxClientDataGetter"
  mc_txHandler :: "'w transactionHandler"
  mc_tokensMapper :: "bytes \<Rightarrow> ('w, go_error + bytes) prog"
  mc_gasMapConfig :: MultiversXGasMapConfig
  mc_addressConverter :: AddressConverter
  mc_statusHandler :: "'w StatusHandler"
  mc_allowDelta :: u64
  mc_lastNonce :: u64
  mc_retriesAvailabilityCheck :: u64

text \<open>The fields of the gas map in declaration order, as \<^verbatim>\<open>reflect\<close> walks them.\<close>

definition gasMapFields :: "MultiversXGasMapConfig \<Rightarrow> (string \<times> u64) list" where
  "gasMapFields gasMap =
     [(''Sign'', gas_Sign gasMap), (''ProposeTransferBase'', gas_ProposeTransferBase gasMap),
      (''ProposeTransferForEach'', gas_ProposeTransferForEach gasMap),
      (''ProposeStatusBase'', gas_ProposeStatusBase gasMap),
      (''ProposeStatusForEach'', gas_ProposeStatusForEach gasMap),
      (''PerformActionBase'', gas_PerformActionBase gasMap),
      (''PerformActionForEach'', gas_PerformActionForEach gasMap)]"

fun checkGasFields :: "(string \<times> u64) list \<Rightarrow> go_error option" where
  "checkGasFields [] = None"
| "checkGasFields ((name, fieldVal) # others) =
     (if fieldVal = 0 then Some (Wrapped errInvalidGasValue ('' for field '' @ name)) else checkGasFields others)"

definition checkGasMapValues :: "MultiversXGasMapConfig \<Rightarrow> go_error option" where
  "checkGasMapValues gasMap = checkGasFields (gasMapFields gasMap)"

definition mx_checkArgs :: "'w mx_ClientArgs \<Rightarrow> go_error option" where
  "mx_checkArgs args =
     (if ca_Proxy args = None then Some errNilProxy
      else if ca_RelayerPrivateKey args = None then Some clients_ErrNilPrivateKey
      else if ca_MultisigContractAddress args = None
        then Some (Wrapped errNilAddressHandler '' for the MultisigContractAddress argument'')
      else if ca_Log args = None then Some clients_ErrNilLogger
      else if ca_TokensMapper args = None then Some ErrNilTokensMapper
      else if ca_RoleProvider args = None then Some errNilRoleProvider
      else if ca_StatusHandler args = None then Some clients_ErrNilStatusHandler
      else if ca_AllowDelta args < mx_minAllowedDelta
        then Some (Wrapped ErrInvalidValue ('' for args.AllowedDelta, got: '' @ dec_u64 (ca_AllowDelta args) @
               '', minimum: '' @ dec_u64 mx_minAllowedDelta))
      else checkGasMapValues (ca_GasMapConfig args))"

text \<open>The constructors of the SDK that \<^verbatim>\<open>NewClient\<close> calls, and the encoders its handlers use.\<close>

record 'w mx_sdk =
  sdk_NewNonceTransactionHandler :: "'w Proxy \<Rightarrow> int \<Rightarrow> go_error + 'w NonceTransactionsHandler"
  sdk_NewAddressFromBytes :: "bytes \<Rightarrow> address"
  sdk_NewBech32PubkeyConverter :: "go_error + (bytes \<Rightarrow> string)"
  sdk_ToDataBytes :: "builder \<Rightarrow> go_error + bytes"
  sdk_marshalTx :: "FrontendTransaction \<Rightarrow> go_error + bytes"

definition mx_NewClient :: "'w mx_sdk \<Rightarrow> 'w mx_ClientArgs \<Rightarrow> go_error + 'w mx_client" where
  "mx_NewClient sdk args =
     (case mx_checkArgs args of
        Some err \<Rightarrow> Inl err
      | None \<Rightarrow>
     (case sdk_NewNonceTransactionHandler sdk (the (ca_Proxy args))
             (sint (1000000000 * ca_IntervalToResendTxsInSeconds args)) of
        Inl err \<Rightarrow> Inl err
      | Inr nonceTxsHandler \<Rightarrow>
     (case pk_publicBytes (the (ca_RelayerPrivateKey args)) of
        Inl err \<Rightarrow> Inl err
      | Inr publicKeyBytes \<Rightarrow>
     (let relayerAddress = sdk_NewAddressFromBytes sdk publicKeyBytes;
          multisig = the (ca_MultisigContractAddress args) in
      case NewMXClientDataGetter \<lparr> arg_dg_MultisigContractAddress = Some multisig,
             arg_dg_RelayerAddress = Some relayerAddress, arg_dg_Proxy = ca_Proxy args, arg_dg_Log = Some () \<rparr> of
        Inl err \<Rightarrow> Inl err
      | Inr getter \<Rightarrow>
     (case NewAddressConverter (sdk_NewBech32PubkeyConverter sdk) of
        Inl err \<Rightarrow> Inl ErrNilAddressConverter
      | Inr addressConverter \<Rightarrow>
          Inr \<lparr> mc_getter = getter,
            mc_txHandler = \<lparr> th_proxy = the (ca_Proxy args), th_relayerAddress = relayerAddress,
              th_multisigAddressAsBech32 = AddressAsBech32String multisig, th_nonceTxHandler = nonceTxsHandler,
              th_signWithPrivateKey = pk_sign (the (ca_RelayerPrivateKey args)),
              th_IsWhitelisted = the (ca_RoleProvider args), th_ToDataBytes = sdk_ToDataBytes sdk,
              th_marshalTx = sdk_marshalTx sdk \<rparr>,
            mc_tokensMapper = the (ca_TokensMapper args), mc_gasMapConfig = ca_GasMapConfig args,
            mc_addressConverter = addressConverter, mc_statusHandler = the (ca_StatusHandler args),
            mc_allowDelta = ca_AllowDelta args, mc_lastNonce = 0, mc_retriesAvailabilityCheck = 0 \<rparr>)))))"

definition emptyResponse :: "bytes list \<Rightarrow> bool" where
  "emptyResponse response \<longleftrightarrow> length response = 0 \<or> (length response = 1 \<and> length (response ! 0) = 0)"

text \<open>
  The loop over the transfers of a response, seven fields each: the block nonce and the last field
  are ignored. The converted token is remembered per token for the rest of the loop.
\<close>

fun responseDeposits :: "'w mx_client \<Rightarrow> nat \<Rightarrow> (string, bytes) gomap \<Rightarrow> bytes list
    \<Rightarrow> ('w, go_error + DepositTransfer list) prog" where
  "responseDeposits c transferIndex cachedTokens [] w = Some (Inr [], w)"
| "responseDeposits c transferIndex cachedTokens (blockNonce # nonce # from # to # token # amount # status # rest) w =
     (case parseUInt64FromByteSlice nonce of
        Inl errParse \<Rightarrow>
          Some (Inl (Wrapped errParse ('' while parsing the deposit nonce, transfer index '' @ dec transferIndex)), w)
      | Inr depositNonce \<Rightarrow>
          (let deposit = \<lparr> Nonce = depositNonce, ToBytes = to,
                 DisplayableTo = ToHexStringWithPrefix (mc_addressConverter c) to,
                 FromBytes = from, DisplayableFrom = ToBech32String (mc_addressConverter c) from,
                 TokenBytes = token, ConvertedTokenBytes = [], DisplayableToken = string_of_bytes token,
                 Amount = Some (int (setBytes amount)) \<rparr> in
           do {
             (r, w) \<leftarrow> convertCached (mc_tokensMapper c) cachedTokens (DisplayableToken deposit) (TokenBytes deposit) w;
             (case r of
                Inl err \<Rightarrow>
                  Some (Inl (Wrapped err ('' while converting token bytes, transfer index '' @ dec transferIndex)), w)
              | Inr converted \<Rightarrow> do {
                  (r, w) \<leftarrow> responseDeposits c (Suc transferIndex)
                              (gm_set (DisplayableToken deposit) converted cachedTokens) rest w;
                  (case r of
                     Inl err \<Rightarrow> Some (Inl err, w)
                   | Inr deposits \<Rightarrow> Some (Inr (deposit\<lparr>ConvertedTokenBytes := converted\<rparr> # deposits), w))
                })
           }))"
| "responseDeposits c transferIndex cachedTokens _ w = None"

definition createPendingBatchFromResponse ::
  "'w mx_client \<Rightarrow> bytes list \<Rightarrow> ('w, go_error + TransferBatch option) prog" where
  "createPendingBatchFromResponse c responseData w =
     (let dataLen = int (length responseData) in
      if \<not> ((dataLen - 1) mod 7 = 0 \<and> dataLen > 1)
      then Some (Inl (Wrapped errInvalidNumberOfArguments ('', got '' @ dec_int dataLen @ '' argument(s)'')), w)
      else (case parseUInt64FromByteSlice (responseData ! 0) of
        Inl err \<Rightarrow> Some (Inl (Wrapped err '' while parsing batch ID''), w)
      | Inr batchID \<Rightarrow> do {
          (r, w) \<leftarrow> responseDeposits c 0 [] (drop 1 responseData) w;
          (case r of
             Inl err \<Rightarrow> Some (Inl err, w)
           | Inr deposits \<Rightarrow>
               Some (Inr (Some \<lparr> ID = batchID, Deposits = deposits, Statuses = replicate (length deposits) 0 \<rparr>), w))
        }))"

definition mxc_GetPending :: "'w mx_client \<Rightarrow> ('w, go_error + TransferBatch option) prog" where
  "mxc_GetPending c w = do {
     (r, w) \<leftarrow> GetCurrentBatchAsDataBytes (mc_getter c) w;
     (case r of
        Inl err \<Rightarrow> Some (Inl err, w)
      | Inr responseData \<Rightarrow>
          (if emptyResponse responseData then Some (Inl ErrNoPendingBatchAvailable, w)
           else createPendingBatchFromResponse c responseData w))
   }"

definition createCommonTxDataBuilder :: "string \<Rightarrow> int \<Rightarrow> builder" where
  "createCommonTxDataBuilder funcName ident = [BFunction funcName, BArgInt64 ident]"

definition checkIsPaused :: "'w mx_client \<Rightarrow> ('w, go_error option) prog" where
  "checkIsPaused c w = do {
     (r, w) \<leftarrow> IsPaused (mc_getter c) w;
     (case r of
        Inl err \<Rightarrow> Some (Some (Wrapped err '' in client.ExecuteTransfer''), w)
      | Inr isPaused \<Rightarrow>
          Some (if isPaused then Some (Wrapped ErrMultisigContractPaused '' in client.ExecuteTransfer'') else None, w))
   }"

definition mxc_ProposeSetStatus :: "'w mx_client \<Rightarrow> TransferBatch option \<Rightarrow> ('w, go_error + string) prog" where
  "mxc_ProposeSetStatus c batch w =
     (case batch of
        None \<Rightarrow> Some (Inl clients_ErrNilBatch, w)
      | Some batch \<Rightarrow> do {
          (err, w) \<leftarrow> checkIsPaused c w;
          (case err of
             Some err \<Rightarrow> Some (Inl err, w)
           | None \<Rightarrow>
               SendTransactionReturnHash (mc_txHandler c)
                 (createCommonTxDataBuilder proposeSetStatusFuncName (sint (ID batch)) @
                  map (\<lambda>stat. BArgBytes [stat]) (Statuses batch))
                 (gas_ProposeStatusBase (mc_gasMapConfig c) +
                  of_nat (length (Deposits batch)) * gas_ProposeStatusForEach (mc_gasMapConfig c)) w)
        })"

definition mxc_ProposeTransfer :: "'w mx_client \<Rightarrow> TransferBatch option \<Rightarrow> ('w, go_error + string) prog" where
  "mxc_ProposeTransfer c batch w =
     (case batch of
        None \<Rightarrow> Some (Inl clients_ErrNilBatch, w)
      | Some batch \<Rightarrow> do {
          (err, w) \<leftarrow> checkIsPaused c w;
          (case err of
             Some err \<Rightarrow> Some (Inl err, w)
           | None \<Rightarrow>
               SendTransactionReturnHash (mc_txHandler c)
                 (createCommonTxDataBuilder proposeTransferFuncName (sint (ID batch)) @
                  concat (map (\<lambda>dt. [BArgBytes (FromBytes dt), BArgBytes (ToBytes dt),
                    BArgBytes (ConvertedTokenBytes dt), BArgBigInt (Amount dt), BArgInt64 (sint (Nonce dt))])
                    (Deposits batch)))
                 (gas_ProposeTransferBase (mc_gasMapConfig c) +
                  of_nat (length (Deposits batch)) * gas_ProposeTransferForEach (mc_gasMapConfig c)) w)
        })"

definition mxc_Sign :: "'w mx_client \<Rightarrow> u64 \<Rightarrow> ('w, go_error + string) prog" where
  "mxc_Sign c actionID w = do {
     (err, w) \<leftarrow> checkIsPaused c w;
     (case err of
        Some err \<Rightarrow> Some (Inl err, w)
      | None \<Rightarrow> SendTransactionReturnHash (mc_txHandler c) (createCommonTxDataBuilder signFuncName (sint actionID))
                 (gas_Sign (mc_gasMapConfig c)) w)
   }"

definition mxc_PerformAction :: "'w mx_client \<Rightarrow> u64 \<Rightarrow> TransferBatch option \<Rightarrow> ('w, go_error + string) prog" where
  "mxc_PerformAction c actionID batch w =
     (case batch of
        None \<Rightarrow> Some (Inl clients_ErrNilBatch, w)
      | Some batch \<Rightarrow> do {
          (err, w) \<leftarrow> checkIsPaused c w;
          (case err of
             Some err \<Rightarrow> Some (Inl err, w)
           | None \<Rightarrow>
               SendTransactionReturnHash (mc_txHandler c) (createCommonTxDataBuilder performActionFuncName (sint actionID))
                 (gas_PerformActionBase (mc_gasMapConfig c) +
                  of_nat (length (Statuses batch)) * gas_PerformActionForEach (mc_gasMapConfig c)) w)
        })"

definition mx_setStatusForAvailabilityCheck :: "'w mx_client \<Rightarrow> ClientStatus \<Rightarrow> string \<Rightarrow> u64 \<Rightarrow> 'w \<Rightarrow> 'w" where
  "mx_setStatusForAvailabilityCheck c status message nonce w =
     (let sh = mc_statusHandler c;
          w = sh_SetStringMetric sh MetricMultiversXClientStatus (ClientStatus_String status) w;
          w = sh_SetStringMetric sh MetricLastMultiversXClientError message w in
      sh_SetIntMetric sh MetricLastBlockNonce (sint nonce) w)"

definition mx_incrementRetriesAvailabilityCheck :: "'w mx_client \<Rightarrow> 'w mx_client" where
  "mx_incrementRetriesAvailabilityCheck c = c\<lparr>mc_retriesAvailabilityCheck := mc_retriesAvailabilityCheck c + 1\<rparr>"

definition mxc_CheckClientAvailability :: "('w mx_client \<times> 'w, go_error option) prog" where
  "mxc_CheckClientAvailability = (\<lambda>(c, w). do {
     (r, (getter, w)) \<leftarrow> GetCurrentNonce (mc_getter c, w);
     let c = c\<lparr>mc_getter := getter\<rparr>;
     (case r of
        Inl err \<Rightarrow> Some (Some err, (c, mx_setStatusForAvailabilityCheck c Unavailable (Error err) 0 w))
      | Inr currentNonce \<Rightarrow> do {
          let c = (if currentNonce \<noteq> mc_lastNonce c
                   then c\<lparr>mc_retriesAvailabilityCheck := 0, mc_lastNonce := currentNonce\<rparr> else c);
          let w = (if mc_retriesAvailabilityCheck c > mc_allowDelta c
                   then mx_setStatusForAvailabilityCheck c Unavailable
                          (''nonce '' @ dec_u64 currentNonce @ '' fetched for '' @
                           dec_u64 (mc_retriesAvailabilityCheck c) @ '' times in a row'') currentNonce w
                   else mx_setStatusForAvailabilityCheck c Available [] currentNonce w);
          Some (None, (mx_incrementRetriesAvailabilityCheck c, w))
        })
   })"

definition mxc_Close :: "'w mx_client \<Rightarrow> ('w, go_error option) prog" where
  "mxc_Close c = nth_Close (th_nonceTxHandler (mc_txHandler c))"

section \<open>The client behind the executor's interface\<close>

text \<open>
  The world that the executor's clients share holds the fields of this client that change; \<open>cells\<close>
  reads them there and \<open>put\<close> stores them back. Only the availability check touches them.
\<close>

record mx_cells =
  cell_wasShardIDFetched :: bool
  cell_shardID :: u32
  cell_lastNonce :: u64
  cell_mxRetries :: u64

definition mx_load :: "mx_cells \<Rightarrow> 'w mx_client \<Rightarrow> 'w mx_client" where
  "mx_load m c = c\<lparr>mc_getter := (mc_getter c)\<lparr>dg_wasShardIDFetched := cell_wasShardIDFetched m, dg_shardID := cell_shardID m\<rparr>,
     mc_lastNonce := cell_lastNonce m, mc_retriesAvailabilityCheck := cell_mxRetries m\<rparr>"

definition mx_store :: "'w mx_client \<Rightarrow> mx_cells" where
  "mx_store c = \<lparr> cell_wasShardIDFetched = dg_wasShardIDFetched (mc_getter c), cell_shardID = dg_shardID (mc_getter c),
     cell_lastNonce = mc_lastNonce c, cell_mxRetries = mc_retriesAvailabilityCheck c \<rparr>"

definition mx_client_interface ::
  "('w \<Rightarrow> mx_cells) \<Rightarrow> (mx_cells \<Rightarrow> 'w \<Rightarrow> 'w) \<Rightarrow> 'w mx_client \<Rightarrow> 'w MultiversXClient" where
  "mx_client_interface cells put c = \<lparr>
     mx_GetPending = mxc_GetPending c,
     mx_WasProposedTransfer = WasProposedTransfer (mc_getter c),
     mx_QuorumReached = QuorumReached (mc_getter c),
     mx_WasExecuted = WasExecuted (mc_getter c),
     mx_GetActionIDForProposeTransfer = GetActionIDForProposeTransfer (mc_getter c),
     mx_WasProposedSetStatus = WasProposedSetStatus (mc_getter c),
     mx_GetActionIDForSetStatusOnPendingTransfer = GetActionIDForSetStatusOnPendingTransfer (mc_getter c),
     mx_GetLastExecutedEthBatchID = GetLastExecutedEthBatchID (mc_getter c),
     mx_GetLastExecutedEthTxID = GetLastExecutedEthTxID (mc_getter c),
     mx_ProposeSetStatus = mxc_ProposeSetStatus c,
     mx_ProposeTransfer = mxc_ProposeTransfer c,
     mx_Sign = mxc_Sign c,
     mx_WasSigned = WasSigned (mc_getter c),
     mx_PerformAction = mxc_PerformAction c,
     mx_CheckClientAvailability = (\<lambda>w. do {
       (err, (c, w)) \<leftarrow> mxc_CheckClientAvailability (mx_load (cells w) c, w);
       Some (err, put (mx_store c) w)
     }) \<rparr>"

end
