(* ===== verification/Relayer_Config.thy ===== *)
theory Relayer_Config
  imports Batch_Validator Mx_Client
begin

text \<open>
  The configuration of a relayer, \<^verbatim>\<open>config/config.go\<close>, the logger that prefixes its lines,
  \<^verbatim>\<open>core/loggerWithIdentifier.go\<close>, and the timer, \<^verbatim>\<open>core/timer/ntpTimer.go\<close>. A configuration struct of
  a library (antiflood, storage, marshalizer) is a value of the opaque type \<open>'l\<close>.
\<close>

section \<open>Configuration\<close>

record GasStationConfig =
  gsc_Enabled :: bool
  gsc_URL :: string
  gsc_PollingIntervalInSeconds :: int
  gsc_RequestRetryDelayInSeconds :: int
  gsc_MaxFetchRetries :: int
  gsc_RequestTimeInSeconds :: int
  gsc_MaximumAllowedGasPrice :: int
  gsc_GasPriceSelector :: string
  gsc_GasPriceMultiplier :: int

record EthereumConfig =
  ecf_Chain :: Chain
  ecf_NetworkAddress :: string
  ecf_MultisigContractAddress :: string
  ecf_SafeContractAddress :: string
  ecf_PrivateKeyFile :: string
  ecf_IntervalToResendTxsInSeconds :: u64
  ecf_GasLimitBase :: u64
  ecf_GasLimitForEach :: u64
  ecf_GasStation :: GasStationConfig
  ecf_MaxRetriesOnQuorumReached :: u64
  ecf_IntervalToWaitForTransferInSeconds :: u64
  ecf_MaxBlocksDelta :: u64

record MultiversXConfig =
  mcf_NetworkAddress :: string
  mcf_MultisigContractAddress :: string
  mcf_PrivateKeyFile :: string
  mcf_IntervalToResendTxsInSeconds :: u64
  mcf_GasMap :: MultiversXGasMapConfig
  mcf_MaxRetriesOnQuorumReached :: u64
  mcf_MaxRetriesOnWasTransferProposed :: u64
  mcf_ProxyCacherExpirationSeconds :: u64
  mcf_ProxyRestAPIEntityType :: string
  mcf_ProxyMaxNoncesDelta :: int
  mcf_ProxyFinalityCheck :: bool

record 'l ConfigP2P =
  pcf_Port :: string
  pcf_InitialPeerList :: "string list"
  pcf_ProtocolID :: string
  pcf_AntifloodConfig :: 'l

record RoleProviderConfig =
  rpc_PollingIntervalInMillis :: u64

record 'l ConfigRelayer =
  rcf_Marshalizer :: 'l
  rcf_RoleProvider :: RoleProviderConfig
  rcf_StatusMetricsStorage :: 'l

record ConfigStateMachine =
  smc_StepDurationInMillis :: u64
  smc_IntervalForLeaderInSeconds :: u64

record ContextFlagsConfig =
  flg_WorkingDir :: string
  flg_LogLevel :: string
  flg_DisableAnsiColor :: bool
  flg_ConfigurationFile :: string
  flg_ConfigurationApiFile :: string
  flg_SaveLogFile :: bool
  flg_EnableLogName :: bool
  flg_RestApiInterface :: string
  flg_EnablePprof :: bool

record WebServerAntifloodConfig =
  wac_SimultaneousRequests :: u32
  wac_SameSourceRequests :: u32
  wac_SameSourceResetIntervalInSec :: u32

record AntifloodConfig =
  afc_Enabled :: bool
  afc_WebServer :: WebServerAntifloodConfig

record BatchValidatorConfig =
  bvc_Enabled :: bool
  bvc_URL :: string
  bvc_RequestTimeInSeconds :: int

record ApiLoggingConfig =
  alc_LoggingEnabled :: bool
  alc_ThresholdInMicroSeconds :: int

record RouteConfig =
  rte_Name :: string
  rte_Open :: bool

record APIPackageConfig =
  apc_Routes :: "RouteConfig list"

record ApiRoutesConfig =
  arc_Logging :: ApiLoggingConfig
  arc_APIPackages :: "(string, APIPackageConfig) gomap"

record LogsConfig =
  lgc_LogFileLifeSpanInSec :: int
  lgc_LogFileLifeSpanInMB :: int

record PeersRatingConfig =
  prc_TopRatedCacheCapacity :: int
  prc_BadRatedCacheCapacity :: int

record 'l Config =
  cfg_Eth :: EthereumConfig
  cfg_MultiversX :: MultiversXConfig
  cfg_P2P :: "'l ConfigP2P"
  cfg_StateMachine :: "(string, ConfigStateMachine) gomap"
  cfg_Relayer :: "'l ConfigRelayer"
  cfg_Logs :: LogsConfig
  cfg_Antiflood :: AntifloodConfig
  cfg_BatchValidator :: BatchValidatorConfig
  cfg_PeersRatingConfig :: PeersRatingConfig

record 'l Configs =
  cfg_GeneralConfig :: "'l Config"
  cfg_ApiRoutesConfig :: ApiRoutesConfig
  cfg_FlagsConfig :: ContextFlagsConfig

text \<open>
  \<^verbatim>\<open>time.Duration(n) * unit\<close>: the product of 64-bit integers, counted in nanoseconds, wraps around.
\<close>

definition duration :: "int \<Rightarrow> int \<Rightarrow> int" where
  "duration n unit = bigInt64 (n * unit)"

definition millisecond :: int where
  "millisecond = 1000000"

lemma duration_exact: "0 \<le> n \<Longrightarrow> 0 < unit \<Longrightarrow> n * unit < 2 ^ 63 \<Longrightarrow> duration n unit = n * unit"
  by (simp add: duration_def bigInt64_small)

section \<open>The logger with an identifier\<close>

record LogLine =
  line_LogLevel :: LogLevel
  line_Message :: string
  line_Args :: "string list"

text \<open>The library's logger; what it writes is part of the world.\<close>

record 'w Logger =
  lg_Trace :: "string \<Rightarrow> log_value list \<Rightarrow> 'w \<Rightarrow> 'w"
  lg_Debug :: "string \<Rightarrow> log_value list \<Rightarrow> 'w \<Rightarrow> 'w"
  lg_Info :: "string \<Rightarrow> log_value list \<Rightarrow> 'w \<Rightarrow> 'w"
  lg_Warn :: "string \<Rightarrow> log_value list \<Rightarrow> 'w \<Rightarrow> 'w"
  lg_Error :: "string \<Rightarrow> log_value list \<Rightarrow> 'w \<Rightarrow> 'w"
  lg_Log :: "LogLevel \<Rightarrow> string \<Rightarrow> log_value list \<Rightarrow> 'w \<Rightarrow> 'w"
  lg_LogLine :: "LogLine \<Rightarrow> 'w \<Rightarrow> 'w"
  lg_SetLevel :: "LogLevel \<Rightarrow> 'w \<Rightarrow> 'w"
  lg_GetLevel :: "'w \<Rightarrow> LogLevel"

record 'w loggerWithIdentifier =
  lwi_logger :: "'w Logger"
  lwi_identifier :: string

definition NewLoggerWithIdentifier :: "'w Logger option \<Rightarrow> string \<Rightarrow> 'w loggerWithIdentifier option" where
  "NewLoggerWithIdentifier logger identifier =
     (case logger of None \<Rightarrow> None | Some l \<Rightarrow> Some \<lparr> lwi_logger = l, lwi_identifier = identifier \<rparr>)"

definition formatMessage :: "'w loggerWithIdentifier \<Rightarrow> string \<Rightarrow> string" where
  "formatMessage l message = lwi_identifier l @ '' '' @ message"

definition lwi_Trace :: "'w loggerWithIdentifier \<Rightarrow> string \<Rightarrow> log_value list \<Rightarrow> 'w \<Rightarrow> 'w" where
  "lwi_Trace l message args = lg_Trace (lwi_logger l) (formatMessage l message) args"

definition lwi_Debug :: "'w loggerWithIdentifier \<Rightarrow> string \<Rightarrow> log_value list \<Rightarrow> 'w \<Rightarrow> 'w" where
  "lwi_Debug l message args = lg_Debug (lwi_logger l) (formatMessage l message) args"

definition lwi_Info :: "'w loggerWithIdentifier \<Rightarrow> string \<Rightarrow> log_value list \<Rightarrow> 'w \<Rightarrow> 'w" where
  "lwi_Info l message args = lg_Info (lwi_logger l) (formatMessage l message) args"

definition lwi_Warn :: "'w loggerWithIdentifier \<Rightarrow> string \<Rightarrow> log_value list \<Rightarrow> 'w \<Rightarrow> 'w" where
  "lwi_Warn l message args = lg_Warn (lwi_logger l) (formatMessage l message) args"

definition lwi_Error :: "'w loggerWithIdentifier \<Rightarrow> string \<Rightarrow> log_value list \<Rightarrow> 'w \<Rightarrow> 'w" where
  "lwi_Error l message args = lg_Error (lwi_logger l) (formatMessage l message) args"

text \<open>The text is formatted here and once more by \<^verbatim>\<open>Error\<close>.\<close>

definition lwi_LogIfError :: "'w loggerWithIdentifier \<Rightarrow> go_error option \<Rightarrow> log_value list \<Rightarrow> 'w \<Rightarrow> 'w" where
  "lwi_LogIfError l err args w =
     (case err of None \<Rightarrow> w | Some e \<Rightarrow> lwi_Error l (formatMessage l (Error e)) args w)"

definition lwi_Log :: "'w loggerWithIdentifier \<Rightarrow> LogLevel \<Rightarrow> string \<Rightarrow> log_value list \<Rightarrow> 'w \<Rightarrow> 'w" where
  "lwi_Log l level message args = lg_Log (lwi_logger l) level (formatMessage l message) args"

text \<open>The line is a pointer and its message is changed in place: the caller's line comes back too.\<close>

definition lwi_LogLine :: "'w loggerWithIdentifier \<Rightarrow> LogLine option \<Rightarrow> 'w \<Rightarrow> LogLine option \<times> 'w" where
  "lwi_LogLine l line w =
     (case line of
        None \<Rightarrow> (None, w)
      | Some ln \<Rightarrow>
          (let ln = ln\<lparr>line_Message := formatMessage l (line_Message ln)\<rparr> in
           (Some ln, lg_LogLine (lwi_logger l) ln w)))"

definition lwi_SetLevel :: "'w loggerWithIdentifier \<Rightarrow> LogLevel \<Rightarrow> 'w \<Rightarrow> 'w" where
  "lwi_SetLevel l = lg_SetLevel (lwi_logger l)"

definition lwi_GetLevel :: "'w loggerWithIdentifier \<Rightarrow> 'w \<Rightarrow> LogLevel" where
  "lwi_GetLevel l = lg_GetLevel (lwi_logger l)"

text \<open>An error is logged with the identifier twice, every other message with the identifier once.\<close>

lemma LogIfError_prefix_twice:
  "lwi_LogIfError l (Some e) args w =
     lg_Error (lwi_logger l) (lwi_identifier l @ '' '' @ lwi_identifier l @ '' '' @ Error e) args w"
  by (simp add: lwi_LogIfError_def lwi_Error_def formatMessage_def)

section \<open>The timer\<close>

text \<open>The NTP library: its configuration and the operations of its synchronised clock.\<close>

record NTPConfig =
  ntp_Hosts :: "string list"
  ntp_Port :: int
  ntp_Version :: int
  ntp_TimeoutMilliseconds :: int
  ntp_SyncPeriodSeconds :: int

definition defaultNTPConfig :: NTPConfig where
  "defaultNTPConfig = \<lparr>
     ntp_Hosts = [''time.google.com'', ''time.cloudflare.com'', ''time.apple.com'', ''time.windows.com''],
     ntp_Port = 123, ntp_Version = 0, ntp_TimeoutMilliseconds = 100, ntp_SyncPeriodSeconds = 3600 \<rparr>"

record 'w SyncTimer =
  sync_CurrentTimeUnix :: "'w \<Rightarrow> int"
  sync_StartSyncingTime :: "'w \<Rightarrow> 'w"
  sync_Close :: "('w, go_error option) prog"

record 'w ntpTimer =
  ntpSyncTimer :: "'w SyncTimer"

definition NewNTPTimer :: "(NTPConfig \<Rightarrow> 'w SyncTimer) \<Rightarrow> 'w ntpTimer" where
  "NewNTPTimer NewSyncTime = \<lparr> ntpSyncTimer = NewSyncTime defaultNTPConfig \<rparr>"

definition NowUnix :: "'w ntpTimer \<Rightarrow> 'w \<Rightarrow> int" where
  "NowUnix n = sync_CurrentTimeUnix (ntpSyncTimer n)"

definition timer_Start :: "'w ntpTimer \<Rightarrow> 'w \<Rightarrow> 'w" where
  "timer_Start n = sync_StartSyncingTime (ntpSyncTimer n)"

definition timer_Close :: "'w ntpTimer \<Rightarrow> ('w, go_error option) prog" where
  "timer_Close n = sync_Close (ntpSyncTimer n)"

end
