(* ===== verification/Eth_Wrappers.thy ===== *)
theory Eth_Wrappers
  imports Core_Types
begin

text \<open>
  The layer between the Ethereum client and the generated contract bindings:
  \<^verbatim>\<open>clients/ethereum/wrappers\<close>, which counts the requests, and \<^verbatim>\<open>clients/ethereum/erc20ContractsHolder.go\<close>,
  which keeps one binding per token. The bindings and the blockchain client are parameters. An Ethereum
  address is its byte string, a \<^verbatim>\<open>*big.Int\<close> that may be nil an optional integer.
\<close>

section \<open>Errors\<close>

definition errNilErc20Contract :: go_error where
  "errNilErc20Contract = Sentinel ''wrappers'' ''nil ERC20 contract''"

definition errNilBlockchainClient :: go_error where
  "errNilBlockchainClient = Sentinel ''wrappers'' ''nil blockchain client''"

definition errNilMultiSigContract :: go_error where
  "errNilMultiSigContract = Sentinel ''wrappers'' ''nil multi sig contract''"

definition errNilEthClient :: go_error where
  "errNilEthClient = Sentinel ''ethereum'' ''nil eth client''"

section \<open>The contract and the blockchain client\<close>

record contract_Batch =
  cb_Nonce :: "int option"
  cb_BlockNumber :: u64
  cb_LastUpdatedBlockNumber :: u64
  cb_DepositsCount :: "16 word"

record contract_Deposit =
  cd_Nonce :: "int option"
  cd_TokenAddress :: bytes
  cd_Amount :: "int option"
  cd_Depositor :: bytes
  cd_Recipient :: bytes
  cd_Status :: byte

text \<open>The options of a transaction, and the lists the contract executes.\<close>

record TransactOpts =
  opt_Nonce :: int
  opt_Value :: int
  opt_GasLimit :: u64
  opt_GasPrice :: int

record argListsBatch =
  al_tokens :: "bytes list"
  al_recipients :: "bytes list"
  al_amounts :: "int list"
  al_nonces :: "int list"

text \<open>\<open>ExecuteTransfer\<close> answers with the hash of the transaction, \<open>None\<close> for a nil transaction.\<close>

record 'w multiSigContract =
  ms_GetBatch :: "int \<Rightarrow> ('w, go_error + contract_Batch) prog"
  ms_GetBatchDeposits :: "int \<Rightarrow> ('w, go_error + contract_Deposit list) prog"
  ms_GetRelayers :: "('w, go_error + bytes list) prog"
  ms_WasBatchExecuted :: "int \<Rightarrow> ('w, go_error + bool) prog"
  ms_ExecuteTransfer :: "TransactOpts \<Rightarrow> argListsBatch \<Rightarrow> int \<Rightarrow> bytes list \<Rightarrow> ('w, go_error + string option) prog"
  ms_Quorum :: "('w, go_error + int option) prog"
  ms_GetStatusesAfterExecution :: "int \<Rightarrow> ('w, go_error + bytes) prog"
  ms_Paused :: "('w, go_error + bool) prog"

record 'w blockchainClient =
  bcl_BlockNumber :: "('w, go_error + u64) prog"
  bcl_NonceAt :: "bytes \<Rightarrow> int \<Rightarrow> ('w, go_error + u64) prog"
  bcl_ChainID :: "('w, go_error + int option) prog"
  bcl_BalanceAt :: "bytes \<Rightarrow> ('w, go_error + int option) prog"

section \<open>The chain wrapper\<close>

record 'w ethereumChainWrapper =
  ecw_StatusHandler :: "'w StatusHandler"
  ecw_multiSigContract :: "'w multiSigContract"
  ecw_blockchainClient :: "'w blockchainClient"

record 'w ArgsEthereumChainWrapper =
  arg_ecw_StatusHandler :: "'w StatusHandler option"
  arg_ecw_MultiSigContract :: "'w multiSigContract option"
  arg_ecw_BlockchainClient :: "'w blockchainClient option"

definition ecw_checkArgs :: "'w ArgsEthereumChainWrapper \<Rightarrow> go_error option" where
  "ecw_checkArgs args =
     (if arg_ecw_StatusHandler args = None then Some clients_ErrNilStatusHandler
      else if arg_ecw_MultiSigContract args = None then Some errNilMultiSigContract
      else if arg_ecw_BlockchainClient args = None then Some errNilBlockchainClient
      else None)"

definition NewEthereumChainWrapper :: "'w ArgsEthereumChainWrapper \<Rightarrow> go_error + 'w ethereumChainWrapper" where
  "NewEthereumChainWrapper args =
     (case ecw_checkArgs args of
        Some err \<Rightarrow> Inl err
      | None \<Rightarrow> Inr \<lparr> ecw_StatusHandler = the (arg_ecw_StatusHandler args),
          ecw_multiSigContract = the (arg_ecw_MultiSigContract args),
          ecw_blockchainClient = the (arg_ecw_BlockchainClient args) \<rparr>)"

definition ecw_count :: "'w ethereumChainWrapper \<Rightarrow> string \<Rightarrow> 'w \<Rightarrow> 'w" where
  "ecw_count wrapper metric w = sh_AddIntMetric (ecw_StatusHandler wrapper) metric 1 w"

definition ecw_GetBatch :: "'w ethereumChainWrapper \<Rightarrow> int \<Rightarrow> ('w, go_error + contract_Batch) prog" where
  "ecw_GetBatch wrapper batchNonce w =
     ms_GetBatch (ecw_multiSigContract wrapper) batchNonce (ecw_count wrapper MetricNumEthClientRequests w)"

definition ecw_GetBatchDeposits :: "'w ethereumChainWrapper \<Rightarrow> int \<Rightarrow> ('w, go_error + contract_Deposit list) prog" where
  "ecw_GetBatchDeposits wrapper batchNonce w =
     ms_GetBatchDeposits (ecw_multiSigContract wrapper) batchNonce (ecw_count wrapper MetricNumEthClientRequests w)"

definition ecw_GetRelayers :: "'w ethereumChainWrapper \<Rightarrow> ('w, go_error + bytes list) prog" where
  "ecw_GetRelayers wrapper w = ms_GetRelayers (ecw_multiSigContract wrapper) (ecw_count wrapper MetricNumEthClientRequests w)"

definition ecw_WasBatchExecuted :: "'w ethereumChainWrapper \<Rightarrow> int \<Rightarrow> ('w, go_error + bool) prog" where
  "ecw_WasBatchExecuted wrapper batchNonce w =
     ms_WasBatchExecuted (ecw_multiSigContract wrapper) batchNonce (ecw_count wrapper MetricNumEthClientRequests w)"

definition ecw_ChainID :: "'w ethereumChainWrapper \<Rightarrow> ('w, go_error + int option) prog" where
  "ecw_ChainID wrapper w = bcl_ChainID (ecw_blockchainClient wrapper) (ecw_count wrapper MetricNumEthClientRequests w)"

definition ecw_BlockNumber :: "'w ethereumChainWrapper \<Rightarrow> ('w, go_error + u64) prog" where
  "ecw_BlockNumber wrapper w = do {
     (r, w) \<leftarrow> bcl_BlockNumber (ecw_blockchainClient wrapper) (ecw_count wrapper MetricNumEthClientRequests w);
     (case r of
        Inl err \<Rightarrow> Some (Inl err, w)
      | Inr val \<Rightarrow> Some (Inr val, sh_SetIntMetric (ecw_StatusHandler wrapper) MetricLastQueriedEthereumBlockNumber (sint val) w))
   }"

definition ecw_NonceAt :: "'w ethereumChainWrapper \<Rightarrow> bytes \<Rightarrow> int \<Rightarrow> ('w, go_error + u64) prog" where
  "ecw_NonceAt wrapper account blockNumber w =
     bcl_NonceAt (ecw_blockchainClient wrapper) account blockNumber (ecw_count wrapper MetricNumEthClientRequests w)"

definition ecw_ExecuteTransfer :: "'w ethereumChainWrapper \<Rightarrow> TransactOpts \<Rightarrow> argListsBatch \<Rightarrow> int \<Rightarrow> bytes list
    \<Rightarrow> ('w, go_error + string option) prog" where
  "ecw_ExecuteTransfer wrapper opts argLists batchNonce signatures w =
     ms_ExecuteTransfer (ecw_multiSigContract wrapper) opts argLists batchNonce signatures
       (ecw_count wrapper MetricNumEthClientTransactions w)"

definition ecw_Quorum :: "'w ethereumChainWrapper \<Rightarrow> ('w, go_error + int option) prog" where
  "ecw_Quorum wrapper w = ms_Quorum (ecw_multiSigContract wrapper) (ecw_count wrapper MetricNumEthClientRequests w)"

definition ecw_GetStatusesAfterExecution :: "'w ethereumChainWrapper \<Rightarrow> int \<Rightarrow> ('w, go_error + bytes) prog" where
  "ecw_GetStatusesAfterExecution wrapper batchID w =
     ms_GetStatusesAfterExecution (ecw_multiSigContract wrapper) batchID (ecw_count wrapper MetricNumEthClientRequests w)"

definition ecw_BalanceAt :: "'w ethereumChainWrapper \<Rightarrow> bytes \<Rightarrow> ('w, go_error + int option) prog" where
  "ecw_BalanceAt wrapper account w =
     bcl_BalanceAt (ecw_blockchainClient wrapper) account (ecw_count wrapper MetricNumEthClientRequests w)"

definition ecw_IsPaused :: "'w ethereumChainWrapper \<Rightarrow> ('w, go_error + bool) prog" where
  "ecw_IsPaused wrapper w = ms_Paused (ecw_multiSigContract wrapper) w"

text \<open>The interface \<^verbatim>\<open>ClientWrapper\<close> that the client uses, and the chain wrapper behind it.\<close>

record 'w ClientWrapper =
  cw_StatusHandler :: "'w StatusHandler"
  cw_GetBatch :: "int \<Rightarrow> ('w, go_error + contract_Batch) prog"
  cw_GetBatchDeposits :: "int \<Rightarrow> ('w, go_error + contract_Deposit list) prog"
  cw_GetRelayers :: "('w, go_error + bytes list) prog"
  cw_WasBatchExecuted :: "int \<Rightarrow> ('w, go_error + bool) prog"
  cw_ChainID :: "('w, go_error + int option) prog"
  cw_BlockNumber :: "('w, go_error + u64) prog"
  cw_NonceAt :: "bytes \<Rightarrow> int \<Rightarrow> ('w, go_error + u64) prog"
  cw_ExecuteTransfer :: "TransactOpts \<Rightarrow> argListsBatch \<Rightarrow> int \<Rightarrow> bytes list \<Rightarrow> ('w, go_error + string option) prog"
  cw_Quorum :: "('w, go_error + int option) prog"
  cw_GetStatusesAfterExecution :: "int \<Rightarrow> ('w, go_error + bytes) prog"
  cw_BalanceAt :: "bytes \<Rightarrow> ('w, go_error + int option) prog"
  cw_IsPaused :: "('w, go_error + bool) prog"

definition chain_wrapper :: "'w ethereumChainWrapper \<Rightarrow> 'w ClientWrapper" where
  "chain_wrapper wrapper = \<lparr> cw_StatusHandler = ecw_StatusHandler wrapper, cw_GetBatch = ecw_GetBatch wrapper,
     cw_GetBatchDeposits = ecw_GetBatchDeposits wrapper, cw_GetRelayers = ecw_GetRelayers wrapper,
     cw_WasBatchExecuted = ecw_WasBatchExecuted wrapper, cw_ChainID = ecw_ChainID wrapper,
     cw_BlockNumber = ecw_BlockNumber wrapper, cw_NonceAt = ecw_NonceAt wrapper,
     cw_ExecuteTransfer = ecw_ExecuteTransfer wrapper, cw_Quorum = ecw_Quorum wrapper,
     cw_GetStatusesAfterExecution = ecw_GetStatusesAfterExecution wrapper, cw_BalanceAt = ecw_BalanceAt wrapper,
     cw_IsPaused = ecw_IsPaused wrapper \<rparr>"

section \<open>The ERC20 contracts\<close>

text \<open>A binding of one token: the balance of an account.\<close>

type_synonym 'w genericErc20Contract = "bytes \<Rightarrow> ('w, go_error + int option) prog"

record 'w erc20ContractWrapper =
  ew_statusHandler :: "'w StatusHandler"
  ew_erc20Contract :: "'w genericErc20Contract"

definition NewErc20ContractWrapper ::
  "'w StatusHandler option \<Rightarrow> 'w genericErc20Contract option \<Rightarrow> go_error + 'w erc20ContractWrapper" where
  "NewErc20ContractWrapper statusHandler erc20Contract =
     (case erc20Contract of
        None \<Rightarrow> Inl errNilErc20Contract
      | Some k \<Rightarrow>
     (case statusHandler of
        None \<Rightarrow> Inl clients_ErrNilStatusHandler
      | Some sh \<Rightarrow> Inr \<lparr> ew_statusHandler = sh, ew_erc20Contract = k \<rparr>))"

definition wrapper_BalanceOf :: "'w erc20ContractWrapper \<Rightarrow> bytes \<Rightarrow> ('w, go_error + int option) prog" where
  "wrapper_BalanceOf wrapper account w =
     ew_erc20Contract wrapper account (sh_AddIntMetric (ew_statusHandler wrapper) MetricNumEthClientRequests 1 w)"

text \<open>
  The holder creates the binding of a token on its first use; \<open>newGenericErc20\<close> is the constructor of
  the generated binding, \<open>addressString\<close> prints an address.
\<close>

record 'w erc20SafeContractsHolder =
  eh_contracts :: "(bytes, 'w erc20ContractWrapper) gomap"
  eh_statusHandler :: "'w StatusHandler"

definition NewErc20SafeContractsHolder ::
  "'e option \<Rightarrow> 'w StatusHandler option \<Rightarrow> go_error + 'w erc20SafeContractsHolder" where
  "NewErc20SafeContractsHolder ethClient statusHandler =
     (case ethClient of
        None \<Rightarrow> Inl errNilEthClient
      | Some e \<Rightarrow>
     (case statusHandler of
        None \<Rightarrow> Inl clients_ErrNilStatusHandler
      | Some sh \<Rightarrow> Inr \<lparr> eh_contracts = [], eh_statusHandler = sh \<rparr>))"

definition holder_BalanceOf :: "(bytes \<Rightarrow> go_error + 'w genericErc20Contract) \<Rightarrow> (bytes \<Rightarrow> string) \<Rightarrow> bytes \<Rightarrow> bytes
    \<Rightarrow> ('w erc20SafeContractsHolder \<times> 'w, go_error + int option) prog" where
  "holder_BalanceOf newGenericErc20 addressString erc20Address address = (\<lambda>(h, w).
     case (case gm_get (eh_contracts h) erc20Address of
             Some wrapper \<Rightarrow> Inr (wrapper, h)
           | None \<Rightarrow>
          (case newGenericErc20 erc20Address of
             Inl err \<Rightarrow> Inl (Wrapped err ('' for '' @ addressString erc20Address))
           | Inr contractInstance \<Rightarrow>
          (case NewErc20ContractWrapper (Some (eh_statusHandler h)) (Some contractInstance) of
             Inl err \<Rightarrow> Inl err
           | Inr wrapper \<Rightarrow> Inr (wrapper, h\<lparr>eh_contracts := gm_set erc20Address wrapper (eh_contracts h)\<rparr>)))) of
       Inl err \<Rightarrow> Some (Inl err, (h, w))
     | Inr (wrapper, h) \<Rightarrow> do {
         (r, w) \<leftarrow> wrapper_BalanceOf wrapper address w;
         Some (r, (h, w))
       })"

definition holds_own :: "(bytes \<Rightarrow> go_error + 'w genericErc20Contract) \<Rightarrow> 'w erc20SafeContractsHolder \<Rightarrow> bool" where
  "holds_own new h \<longleftrightarrow> (\<forall>a k. gm_get (eh_contracts h) a = Some k \<longrightarrow>
     ew_statusHandler k = eh_statusHandler h \<and> new a = Inr (ew_erc20Contract k))"

text \<open>
  The holder is transparent: as long as it holds only bindings it made itself, a balance asked
  through it is the one the token's own binding reports, after counting one request; it adds at most
  the binding of the asked token and afterwards again holds only its own bindings.
\<close>

theorem holder_transparent:
  assumes "holds_own new h" "new token = Inr binding"
  shows "\<exists>h'. holder_BalanceOf new addressString token account (h, w) =
      map_option (\<lambda>(r, w'). (r, (h', w')))
        (binding account (sh_AddIntMetric (eh_statusHandler h) MetricNumEthClientRequests 1 w)) \<and>
    holds_own new h' \<and> eh_statusHandler h' = eh_statusHandler h \<and>
    (\<forall>a. a \<noteq> token \<longrightarrow> gm_get (eh_contracts h') a = gm_get (eh_contracts h) a)"
proof -
  have lift: "(m \<bind> (\<lambda>(r, w). Some (r, (h', w)))) = map_option (\<lambda>(r, w'). (r, (h', w'))) m"
    for m :: "('x \<times> 'w) option" and h' :: "'w erc20SafeContractsHolder"
    by (cases m) auto
  show ?thesis
  proof (cases "gm_get (eh_contracts h) token")
    case None
    let ?k = "\<lparr> ew_statusHandler = eh_statusHandler h, ew_erc20Contract = binding \<rparr>"
    show ?thesis
      using assms None
      by (intro exI [of _ "h\<lparr>eh_contracts := gm_set token ?k (eh_contracts h)\<rparr>"])
        (auto simp: holder_BalanceOf_def NewErc20ContractWrapper_def wrapper_BalanceOf_def lift holds_own_def)
  next
    case (Some k)
    then have "ew_statusHandler k = eh_statusHandler h" "ew_erc20Contract k = binding"
      using assms by (auto simp: holds_own_def)
    then show ?thesis
      using assms(1) Some by (intro exI [of _ h]) (auto simp: holder_BalanceOf_def wrapper_BalanceOf_def lift)
  qed
qed

theorem holder_transparent_witness:
  "\<exists>h'. holder_BalanceOf (\<lambda>a. Inr (\<lambda>acc w. Some (Inr (Some 5), w))) hexEncode [1] [2]
      (\<lparr> eh_contracts = [], eh_statusHandler = \<lparr> sh_SetIntMetric = (\<lambda>k v w. w), sh_AddIntMetric = (\<lambda>k v w. w + v),
         sh_SetStringMetric = (\<lambda>k v w. w) \<rparr> \<rparr>, 0) = Some (Inr (Some 5), (h', 1)) \<and> gm_get (eh_contracts h') [3] = None"
  using holder_transparent [of "\<lambda>a. Inr (\<lambda>acc w. Some (Inr (Some 5), w))"
      "\<lparr> eh_contracts = [], eh_statusHandler = \<lparr> sh_SetIntMetric = (\<lambda>k v w. w), sh_AddIntMetric = (\<lambda>k v w. w + v),
         sh_SetStringMetric = (\<lambda>k v w. w) \<rparr> \<rparr>" "[1]" "\<lambda>acc w. Some (Inr (Some 5), w)" hexEncode "[2]" "0 :: int"]
  by (auto simp: holds_own_def)

end
