(* ===== verification/Eth_Client.thy ===== *)
theory Eth_Client
  imports Eth_Wrappers Mx_Data_Getter Bridge_Executor
begin

text \<open>
  The Ethereum client, \<^verbatim>\<open>clients/ethereum/client.go\<close>. The functions of go-ethereum it calls (addresses,
  ABI packing, hashing, signing, the transactor) are parameters. The last section makes the client an
  instance of the interface that the bridge executor calls.
\<close>

section \<open>Errors and constants\<close>

definition errQuorumNotReached :: go_error where
  "errQuorumNotReached = Sentinel ''ethereum'' ''quorum not reached''"

definition errInsufficientErc20Balance :: go_error where
  "errInsufficientErc20Balance = Sentinel ''ethereum'' ''insufficient ERC20 balance''"

definition errInsufficientBalance :: go_error where
  "errInsufficientBalance = Sentinel ''ethereum'' ''insufficient balance''"

definition errPublicKeyCast :: go_error where
  "errPublicKeyCast = Sentinel ''ethereum'' ''error casting public key to ECDSA''"

definition errNilClientWrapper :: go_error where
  "errNilClientWrapper = Sentinel ''ethereum'' ''nil client wrapper''"

definition errNilERC20ContractsHandler :: go_error where
  "errNilERC20ContractsHandler = Sentinel ''ethereum'' ''nil ERC20 contracts handler''"

definition errNilBroadcaster :: go_error where
  "errNilBroadcaster = Sentinel ''ethereum'' ''nil broadcaster''"

definition eth_errNilSignaturesHolder :: go_error where
  "eth_errNilSignaturesHolder = Sentinel ''ethereum'' ''nil signatures holder''"

definition errNilGasHandler :: go_error where
  "errNilGasHandler = Sentinel ''ethereum'' ''nil gas handler''"

definition errInvalidGasLimit :: go_error where
  "errInvalidGasLimit = Sentinel ''ethereum'' ''invalid gas limit''"

definition errDepositsAndBatchDepositsCountDiffer :: go_error where
  "errDepositsAndBatchDepositsCountDiffer = Sentinel ''ethereum'' ''deposits and batch.DepositsCount differs''"

text \<open>The byte 0x19, then the text that the signed-message format of Ethereum prescribes.\<close>

definition messagePrefix :: bytes where
  "messagePrefix = map (\<lambda>c. of_nat (of_char c)) ([CHR 0x19] @ ''Ethereum Signed Message:'' @ [CHR 0x0A] @ ''32'')"

definition minQuorumValue :: u64 where
  "minQuorumValue = 1"

definition eth_minAllowedDelta :: u64 where
  "eth_minAllowedDelta = 1"

section \<open>The client\<close>

text \<open>
  The library functions: \<open>lib_NewType\<close> builds an ABI type from its name, \<open>lib_Pack\<close> packs the values by
  named types, \<open>lib_SignHash\<close> signs with the relayer's key, \<open>lib_NewKeyedTransactor\<close> prepares a
  transaction for a chain.
\<close>

record 't eth_lib =
  lib_BytesToAddress :: "bytes \<Rightarrow> bytes"
  lib_AddressString :: "bytes \<Rightarrow> string"
  lib_NewType :: "string \<Rightarrow> go_error + 't"
  lib_Pack :: "(string \<times> 't) list \<Rightarrow> argListsBatch \<Rightarrow> int \<Rightarrow> string \<Rightarrow> go_error + bytes"
  lib_Keccak256Hash :: "bytes \<Rightarrow> bytes"
  lib_SignHash :: "bytes \<Rightarrow> go_error + bytes"
  lib_NewKeyedTransactor :: "int option \<Rightarrow> go_error option"

text \<open>The relayer's address stands for its key pair; the public part of a key is always an ECDSA key.\<close>

record ('t, 'w) ArgsEthereumClient =
  ae_ClientWrapper :: "'w ClientWrapper option"
  ae_Erc20ContractsHandler :: "(bytes \<Rightarrow> bytes \<Rightarrow> ('w, go_error + int option) prog) option"
  ae_Log :: "unit option"
  ae_AddressConverter :: "AddressConverter option"
  ae_Broadcaster :: "(bytes \<Rightarrow> bytes \<Rightarrow> ('w, unit) prog) option"
  ae_PrivateKey :: "bytes option"
  ae_TokensMapper :: "(bytes \<Rightarrow> ('w, go_error + bytes) prog) option"
  ae_SignatureHolder :: "(bytes \<Rightarrow> 'w \<Rightarrow> bytes list) option"
  ae_SafeContractAddress :: bytes
  ae_GasHandler :: "('w \<Rightarrow> go_error + int) option"
  ae_TransferGasLimitBase :: u64
  ae_TransferGasLimitForEach :: u64
  ae_AllowDelta :: u64

record ('t, 'w) eth_client =
  ec_lib :: "'t eth_lib"
  ec_clientWrapper :: "'w ClientWrapper"
  ec_BalanceOf :: "bytes \<Rightarrow> bytes \<Rightarrow> ('w, go_error + int option) prog"
  ec_addressConverter :: AddressConverter
  ec_BroadcastSignature :: "bytes \<Rightarrow> bytes \<Rightarrow> ('w, unit) prog"
  ec_relayerAddress :: bytes
  ec_tokensMapper :: "bytes \<Rightarrow> ('w, go_error + bytes) prog"
  ec_Signatures :: "bytes \<Rightarrow> 'w \<Rightarrow> bytes list"
  ec_safeContractAddress :: bytes
  ec_GetCurrentGasPrice :: "'w \<Rightarrow> go_error + int"
  ec_transferGasLimitBase :: u64
  ec_transferGasLimitForEach :: u64
  ec_allowDelta :: u64
  ec_lastBlockNumber :: u64
  ec_retriesAvailabilityCheck :: u64

definition eth_checkArgs :: "('t, 'w) ArgsEthereumClient \<Rightarrow> go_error option" where
  "eth_checkArgs args =
     (if ae_ClientWrapper args = None then Some errNilClientWrapper
      else if ae_Erc20ContractsHandler args = None then Some errNilERC20ContractsHandler
      else if ae_Log args = None then Some clients_ErrNilLogger
      else if ae_AddressConverter args = None then Some ErrNilAddressConverter
      else if ae_Broadcaster args = None then Some errNilBroadcaster
      else if ae_PrivateKey args = None then Some clients_ErrNilPrivateKey
      else if ae_TokensMapper args = None then Some ErrNilTokensMapper
      else if ae_SignatureHolder args = None then Some eth_errNilSignaturesHolder
      else if ae_GasHandler args = None then Some errNilGasHandler
      else if ae_TransferGasLimitBase args = 0 then Some errInvalidGasLimit
      else if ae_TransferGasLimitForEach args = 0 then Some errInvalidGasLimit
      else if ae_AllowDelta args < eth_minAllowedDelta
        then Some (Wrapped ErrInvalidValue ('' for args.AllowedDelta, got: '' @ dec_u64 (ae_AllowDelta args) @
               '', minimum: '' @ dec_u64 eth_minAllowedDelta))
      else None)"

definition NewEthereumClient :: "'t eth_lib \<Rightarrow> ('t, 'w) ArgsEthereumClient \<Rightarrow> go_error + ('t, 'w) eth_client" where
  "NewEthereumClient lib args =
     (case eth_checkArgs args of
        Some err \<Rightarrow> Inl err
      | None \<Rightarrow> Inr \<lparr> ec_lib = lib, ec_clientWrapper = the (ae_ClientWrapper args),
          ec_BalanceOf = the (ae_Erc20ContractsHandler args), ec_addressConverter = the (ae_AddressConverter args),
          ec_BroadcastSignature = the (ae_Broadcaster args), ec_relayerAddress = the (ae_PrivateKey args),
          ec_tokensMapper = the (ae_TokensMapper args), ec_Signatures = the (ae_SignatureHolder args),
          ec_safeContractAddress = ae_SafeContractAddress args, ec_GetCurrentGasPrice = the (ae_GasHandler args),
          ec_transferGasLimitBase = ae_TransferGasLimitBase args,
          ec_transferGasLimitForEach = ae_TransferGasLimitForEach args, ec_allowDelta = ae_AllowDelta args,
          ec_lastBlockNumber = 0, ec_retriesAvailabilityCheck = 0 \<rparr>)"

section \<open>Reading a batch\<close>

text \<open>The loop over the fetched deposits; a nil nonce or amount is dereferenced, which panics.\<close>

fun fetchedDeposits :: "('t, 'w) eth_client \<Rightarrow> (string, bytes) gomap \<Rightarrow> contract_Deposit list
    \<Rightarrow> ('w, go_error + DepositTransfer list) prog" where
  "fetchedDeposits c cachedTokens [] w = Some (Inr [], w)"
| "fetchedDeposits c cachedTokens (deposit # deposits) w =
     (case (cd_Nonce deposit, cd_Amount deposit) of
        (Some nonce, Some amount) \<Rightarrow>
          (let displayable = ToHexString (ec_addressConverter c) (cd_TokenAddress deposit) in
           do {
             (r, w) \<leftarrow> convertCached (ec_tokensMapper c) cachedTokens displayable (cd_TokenAddress deposit) w;
             (case r of
                Inl err \<Rightarrow> Some (Inl err, w)
              | Inr converted \<Rightarrow> do {
                  (r, w) \<leftarrow> fetchedDeposits c (gm_set displayable converted cachedTokens) deposits w;
                  (case r of
                     Inl err \<Rightarrow> Some (Inl err, w)
                   | Inr rest \<Rightarrow>
                       Some (Inr (\<lparr> Nonce = bigUint64 nonce, ToBytes = cd_Recipient deposit,
                         DisplayableTo = ToBech32String (ec_addressConverter c) (cd_Recipient deposit),
                         FromBytes = cd_Depositor deposit,
                         DisplayableFrom = ToHexString (ec_addressConverter c) (cd_Depositor deposit),
                         TokenBytes = cd_TokenAddress deposit, ConvertedTokenBytes = converted,
                         DisplayableToken = displayable, Amount = Some amount \<rparr> # rest), w))
                })
           })
      | _ \<Rightarrow> None)"

definition ethc_GetBatch :: "('t, 'w) eth_client \<Rightarrow> u64 \<Rightarrow> ('w, go_error + TransferBatch option) prog" where
  "ethc_GetBatch c nonce w = do {
     (r, w) \<leftarrow> cw_GetBatch (ec_clientWrapper c) (uint nonce) w;
     (case r of
        Inl err \<Rightarrow> Some (Inl err, w)
      | Inr batch \<Rightarrow> do {
          (r, w) \<leftarrow> cw_GetBatchDeposits (ec_clientWrapper c) (uint nonce) w;
          (case r of
             Inl err \<Rightarrow> Some (Inl err, w)
           | Inr deposits \<Rightarrow>
               (if uint (cb_DepositsCount batch) \<noteq> int (length deposits)
                then Some (Inl (Wrapped errDepositsAndBatchDepositsCountDiffer ('', batch.DepositsCount: '' @
                       dec (unat (cb_DepositsCount batch)) @ '', fetched deposits len: '' @ dec (length deposits))), w)
                else (case cb_Nonce batch of
                  None \<Rightarrow> None
                | Some batchNonce \<Rightarrow> do {
                    (r, w) \<leftarrow> fetchedDeposits c [] deposits w;
                    (case r of
                       Inl err \<Rightarrow> Some (Inl err, w)
                     | Inr ds \<Rightarrow>
                         Some (Inr (Some \<lparr> ID = bigUint64 batchNonce, Deposits = ds,
                           Statuses = replicate (length ds) 0 \<rparr>), w))
                  })))
        })
   }"

definition ethc_WasExecuted :: "('t, 'w) eth_client \<Rightarrow> u64 \<Rightarrow> ('w, go_error + bool) prog" where
  "ethc_WasExecuted c batchID = cw_WasBatchExecuted (ec_clientWrapper c) (uint batchID)"

section \<open>Message hashes and signatures\<close>

definition BroadcastSignatureForMessageHash :: "('t, 'w) eth_client \<Rightarrow> bytes \<Rightarrow> ('w, unit) prog" where
  "BroadcastSignatureForMessageHash c msgHash w =
     (case lib_SignHash (ec_lib c) msgHash of
        Inl err \<Rightarrow> Some ((), w)
      | Inr signature \<Rightarrow> ec_BroadcastSignature c signature msgHash w)"

definition generateTransferArgs :: "'t eth_lib \<Rightarrow> go_error + (string \<times> 't) list" where
  "generateTransferArgs lib =
     (case lib_NewType lib ''address[]'' of
        Inl err \<Rightarrow> Inl err
      | Inr addressesType \<Rightarrow>
     (case lib_NewType lib ''uint256[]'' of
        Inl err \<Rightarrow> Inl err
      | Inr uint256ArrayType \<Rightarrow>
     (case lib_NewType lib ''uint256'' of
        Inl err \<Rightarrow> Inl err
      | Inr uint256Type \<Rightarrow>
     (case lib_NewType lib ''string'' of
        Inl err \<Rightarrow> Inl err
      | Inr stringType \<Rightarrow>
          Inr [(''recipients'', addressesType), (''tokens'', addressesType), (''amounts'', uint256ArrayType),
            (''nonces'', uint256ArrayType), (''nonce'', uint256Type), (''executeTransfer'', stringType)]))))"

text \<open>The four parallel lists of a batch; a nil amount panics. It never returns an error.\<close>

fun extractDeposits :: "'t eth_lib \<Rightarrow> DepositTransfer list \<Rightarrow> argListsBatch option" where
  "extractDeposits lib [] = Some \<lparr> al_tokens = [], al_recipients = [], al_amounts = [], al_nonces = [] \<rparr>"
| "extractDeposits lib (dt # dts) =
     (case Amount dt of
        None \<Rightarrow> None
      | Some amount \<Rightarrow> do {
          arg \<leftarrow> extractDeposits lib dts;
          Some \<lparr> al_tokens = lib_BytesToAddress lib (ConvertedTokenBytes dt) # al_tokens arg,
            al_recipients = lib_BytesToAddress lib (ToBytes dt) # al_recipients arg,
            al_amounts = amount # al_amounts arg, al_nonces = uint (Nonce dt) # al_nonces arg \<rparr>
        })"

definition extractList :: "('t, 'w) eth_client \<Rightarrow> TransferBatch \<Rightarrow> argListsBatch option" where
  "extractList c batch = extractDeposits (ec_lib c) (Deposits batch)"

definition ethc_GenerateMessageHash :: "('t, 'w) eth_client \<Rightarrow> TransferBatch option \<Rightarrow> (go_error + bytes) option" where
  "ethc_GenerateMessageHash c batch =
     (case batch of
        None \<Rightarrow> Some (Inl clients_ErrNilBatch)
      | Some batch \<Rightarrow>
     (case generateTransferArgs (ec_lib c) of
        Inl err \<Rightarrow> Some (Inl err)
      | Inr args \<Rightarrow> do {
          argLists \<leftarrow> extractList c batch;
          Some (case lib_Pack (ec_lib c) args argLists (uint (ID batch)) ''ExecuteBatchedTransfer'' of
                  Inl err \<Rightarrow> Inl err
                | Inr pack \<Rightarrow>
                    Inr (lib_Keccak256Hash (ec_lib c) (messagePrefix @ lib_Keccak256Hash (ec_lib c) pack)))
        }))"

section \<open>Executing a transfer\<close>

definition ethc_getNonce :: "('t, 'w) eth_client \<Rightarrow> bytes \<Rightarrow> ('w, go_error + int) prog" where
  "ethc_getNonce c fromAddress w = do {
     (r, w) \<leftarrow> cw_BlockNumber (ec_clientWrapper c) w;
     (case r of
        Inl err \<Rightarrow> Some (Inl (Wrapped err '' in getNonce, BlockNumber call''), w)
      | Inr blockNonce \<Rightarrow> do {
          (r, w) \<leftarrow> cw_NonceAt (ec_clientWrapper c) fromAddress (sint blockNonce) w;
          (case r of Inl err \<Rightarrow> Some (Inl err, w) | Inr nonce \<Rightarrow> Some (Inr (sint nonce), w))
        })
   }"

text \<open>The sums per token; the map holds pointers to the running totals.\<close>

fun addTransfers :: "(bytes, int) gomap \<Rightarrow> bytes list \<Rightarrow> int list \<Rightarrow> (bytes, int) gomap option" where
  "addTransfers transfers [] amounts = Some transfers"
| "addTransfers transfers (token # tokens) (amount # amounts) =
     (let existing = (case gm_get transfers token of None \<Rightarrow> 0 | Some e \<Rightarrow> e) in
      addTransfers (gm_set token (existing + amount) transfers) tokens amounts)"
| "addTransfers transfers (token # tokens) [] = None"

definition getCumulatedTransfers :: "bytes list \<Rightarrow> int list \<Rightarrow> (bytes, int) gomap option" where
  "getCumulatedTransfers tokens amounts = addTransfers [] tokens amounts"

fun checkTransfers :: "('t, 'w) eth_client \<Rightarrow> (bytes \<times> int) list \<Rightarrow> ('w, go_error option) prog" where
  "checkTransfers c [] w = Some (None, w)"
| "checkTransfers c ((erc20Address, required) # transfers) w = do {
     (r, w) \<leftarrow> ec_BalanceOf c erc20Address (ec_safeContractAddress c) w;
     (case r of
        Inl err \<Rightarrow>
          Some (Some (Wrapped err ('' for address '' @ lib_AddressString (ec_lib c) (ec_safeContractAddress c) @
            '' for ERC20 token '' @ lib_AddressString (ec_lib c) erc20Address)), w)
      | Inr None \<Rightarrow> None
      | Inr (Some existingBalance) \<Rightarrow>
          (if required > existingBalance
           then Some (Some (Wrapped errInsufficientErc20Balance ('', existing: '' @ dec_int existingBalance @
                  '', required: '' @ dec_int required @ '' for ERC20 token '' @ lib_AddressString (ec_lib c) erc20Address @
                  '' and address '' @ lib_AddressString (ec_lib c) (ec_safeContractAddress c))), w)
           else checkTransfers c transfers w))
   }"

text \<open>\<open>ord\<close> is the order in which the runtime walks the map.\<close>

definition checkCumulatedTransfers :: "((bytes \<times> int) list \<Rightarrow> (bytes \<times> int) list) \<Rightarrow> ('t, 'w) eth_client
    \<Rightarrow> (bytes, int) gomap \<Rightarrow> ('w, go_error option) prog" where
  "checkCumulatedTransfers ord c transfers = checkTransfers c (ord transfers)"

definition checkAvailableTokens :: "((bytes \<times> int) list \<Rightarrow> (bytes \<times> int) list) \<Rightarrow> ('t, 'w) eth_client
    \<Rightarrow> bytes list \<Rightarrow> int list \<Rightarrow> ('w, go_error option) prog" where
  "checkAvailableTokens ord c tokens amounts w = do {
     transfers \<leftarrow> getCumulatedTransfers tokens amounts;
     checkCumulatedTransfers ord c transfers w
   }"

definition checkRelayerFundsForFee :: "('t, 'w) eth_client \<Rightarrow> int \<Rightarrow> ('w, go_error option) prog" where
  "checkRelayerFundsForFee c transferFee w = do {
     (r, w) \<leftarrow> cw_BalanceAt (ec_clientWrapper c) (ec_relayerAddress c) w;
     (case r of
        Inl err \<Rightarrow> Some (Some err, w)
      | Inr None \<Rightarrow> None
      | Inr (Some existingBalance) \<Rightarrow>
          Some (if transferFee > existingBalance
                then Some (Wrapped errInsufficientBalance ('', existing: '' @ dec_int existingBalance @
                       '', required: '' @ dec_int transferFee))
                else None, w))
   }"

text \<open>
  The second half of the transfer, from the signatures on: slicing with a negative quorum panics, and
  so does reading the hash of a nil transaction.
\<close>

definition sendTransfer :: "((bytes \<times> int) list \<Rightarrow> (bytes \<times> int) list) \<Rightarrow> ('t, 'w) eth_client \<Rightarrow> bytes \<Rightarrow> TransferBatch
    \<Rightarrow> int \<Rightarrow> TransactOpts \<Rightarrow> ('w, go_error + string) prog" where
  "sendTransfer ord c msgHash batch quorum auth w =
     (let signatures = ec_Signatures c msgHash w in
      if int (length signatures) < quorum
      then Some (Inl (Wrapped errQuorumNotReached ('' num signatures: '' @ dec (length signatures) @ '', quorum: '' @
             dec_int quorum)), w)
      else if int (length signatures) > quorum \<and> quorum < 0 then None
      else do {
        let signatures = take (nat quorum) signatures;
        argLists \<leftarrow> extractList c batch;
        (err, w) \<leftarrow> checkAvailableTokens ord c (al_tokens argLists) (al_amounts argLists) w;
        (case err of
           Some err \<Rightarrow> Some (Inl err, w)
         | None \<Rightarrow> do {
             (err, w) \<leftarrow> checkRelayerFundsForFee c (sint (opt_GasLimit auth) * opt_GasPrice auth) w;
             (case err of
                Some err \<Rightarrow> Some (Inl err, w)
              | None \<Rightarrow> do {
                  (r, w) \<leftarrow> cw_ExecuteTransfer (ec_clientWrapper c) auth argLists (uint (ID batch)) signatures w;
                  (case r of
                     Inl err \<Rightarrow> Some (Inl err, w)
                   | Inr None \<Rightarrow> None
                   | Inr (Some txHash) \<Rightarrow> Some (Inr txHash, w))
                })
           })
      })"

definition ethc_ExecuteTransfer :: "((bytes \<times> int) list \<Rightarrow> (bytes \<times> int) list) \<Rightarrow> ('t, 'w) eth_client \<Rightarrow> bytes
    \<Rightarrow> TransferBatch option \<Rightarrow> int \<Rightarrow> ('w, go_error + string) prog" where
  "ethc_ExecuteTransfer ord c msgHash batch quorum w =
     (case batch of
        None \<Rightarrow> Some (Inl clients_ErrNilBatch, w)
      | Some batch \<Rightarrow> do {
          (r, w) \<leftarrow> cw_IsPaused (ec_clientWrapper c) w;
          (case r of
             Inl err \<Rightarrow> Some (Inl (Wrapped err '' in client.ExecuteTransfer''), w)
           | Inr True \<Rightarrow> Some (Inl (Wrapped ErrMultisigContractPaused '' in client.ExecuteTransfer''), w)
           | Inr False \<Rightarrow> do {
               (r, w) \<leftarrow> ethc_getNonce c (ec_relayerAddress c) w;
               (case r of
                  Inl err \<Rightarrow> Some (Inl err, w)
                | Inr nonce \<Rightarrow> do {
                    (r, w) \<leftarrow> cw_ChainID (ec_clientWrapper c) w;
                    (case r of
                       Inl err \<Rightarrow> Some (Inl err, w)
                     | Inr chainId \<Rightarrow>
                         (case lib_NewKeyedTransactor (ec_lib c) chainId of
                            Some err \<Rightarrow> Some (Inl err, w)
                          | None \<Rightarrow>
                              (case ec_GetCurrentGasPrice c w of
                                 Inl err \<Rightarrow> Some (Inl err, w)
                               | Inr gasPrice \<Rightarrow>
                                   sendTransfer ord c msgHash batch quorum
                                     \<lparr> opt_Nonce = nonce, opt_Value = 0,
                                       opt_GasLimit = ec_transferGasLimitBase c +
                                         of_nat (length (Deposits batch)) * ec_transferGasLimitForEach c,
                                       opt_GasPrice = gasPrice \<rparr> w)))
                  })
             })
        })"

section \<open>Availability, statuses and the quorum\<close>

text \<open>The metrics written are the MultiversX ones, on the handler of the Ethereum client.\<close>

definition eth_setStatusForAvailabilityCheck :: "('t, 'w) eth_client \<Rightarrow> ClientStatus \<Rightarrow> string \<Rightarrow> u64 \<Rightarrow> 'w \<Rightarrow> 'w" where
  "eth_setStatusForAvailabilityCheck c status message nonce w =
     (let sh = cw_StatusHandler (ec_clientWrapper c);
          w = sh_SetStringMetric sh MetricMultiversXClientStatus (ClientStatus_String status) w;
          w = sh_SetStringMetric sh MetricLastMultiversXClientError message w in
      sh_SetIntMetric sh MetricLastBlockNonce (sint nonce) w)"

definition eth_incrementRetriesAvailabilityCheck :: "('t, 'w) eth_client \<Rightarrow> ('t, 'w) eth_client" where
  "eth_incrementRetriesAvailabilityCheck c = c\<lparr>ec_retriesAvailabilityCheck := ec_retriesAvailabilityCheck c + 1\<rparr>"

definition ethc_CheckClientAvailability :: "(('t, 'w) eth_client \<times> 'w, go_error option) prog" where
  "ethc_CheckClientAvailability = (\<lambda>(c, w). do {
     (r, w) \<leftarrow> cw_BlockNumber (ec_clientWrapper c) w;
     (case r of
        Inl err \<Rightarrow> Some (Some err, (c, eth_setStatusForAvailabilityCheck c Unavailable (Error err) 0 w))
      | Inr currentBlock \<Rightarrow> do {
          let c = (if currentBlock \<noteq> ec_lastBlockNumber c
                   then c\<lparr>ec_retriesAvailabilityCheck := 0, ec_lastBlockNumber := currentBlock\<rparr> else c);
          let w = (if ec_retriesAvailabilityCheck c > ec_allowDelta c
                   then eth_setStatusForAvailabilityCheck c Unavailable
                          (''block '' @ dec_u64 currentBlock @ '' fetched for '' @
                           dec_u64 (ec_retriesAvailabilityCheck c) @ '' times in a row'') currentBlock w
                   else eth_setStatusForAvailabilityCheck c Available [] currentBlock w);
          Some (None, (eth_incrementRetriesAvailabilityCheck c, w))
        })
   })"

definition ethc_GetTransactionsStatuses :: "('t, 'w) eth_client \<Rightarrow> u64 \<Rightarrow> ('w, go_error + bytes) prog" where
  "ethc_GetTransactionsStatuses c batchId = cw_GetStatusesAfterExecution (ec_clientWrapper c) (uint batchId)"

definition ethc_GetQuorumSize :: "('t, 'w) eth_client \<Rightarrow> ('w, go_error + int option) prog" where
  "ethc_GetQuorumSize c = cw_Quorum (ec_clientWrapper c)"

definition ethc_IsQuorumReached :: "('t, 'w) eth_client \<Rightarrow> bytes \<Rightarrow> ('w, go_error + bool) prog" where
  "ethc_IsQuorumReached c msgHash w =
     (let signatures = ec_Signatures c msgHash w in
      do {
        (r, w) \<leftarrow> cw_Quorum (ec_clientWrapper c) w;
        (case r of
           Inl err \<Rightarrow> Some (Inl (Wrapped err '' in IsQuorumReached, Quorum call''), w)
         | Inr None \<Rightarrow> None
         | Inr (Some quorum) \<Rightarrow>
             (if bigUint64 quorum < minQuorumValue
              then Some (Inl (Wrapped ErrInvalidValue ('' in IsQuorumReached, minQuorum '' @ dec_u64 minQuorumValue @
                     '', got: '' @ dec_int quorum)), w)
              else Some (Inr (int (length signatures) \<ge> bigInt64 quorum), w)))
      })"

section \<open>The client behind the executor's interface\<close>

text \<open>
  The fields that change live in the world, read by \<open>cells\<close> and stored by \<open>put\<close>, as for the other
  client. The executor dereferences the quorum size at once, so a nil one panics there.
\<close>

record eth_cells =
  cell_lastBlockNumber :: u64
  cell_ethRetries :: u64

definition eth_load :: "eth_cells \<Rightarrow> ('t, 'w) eth_client \<Rightarrow> ('t, 'w) eth_client" where
  "eth_load m c = c\<lparr>ec_lastBlockNumber := cell_lastBlockNumber m, ec_retriesAvailabilityCheck := cell_ethRetries m\<rparr>"

definition eth_store :: "('t, 'w) eth_client \<Rightarrow> eth_cells" where
  "eth_store c = \<lparr> cell_lastBlockNumber = ec_lastBlockNumber c, cell_ethRetries = ec_retriesAvailabilityCheck c \<rparr>"

definition eth_client_interface :: "((bytes \<times> int) list \<Rightarrow> (bytes \<times> int) list) \<Rightarrow> ('w \<Rightarrow> eth_cells)
    \<Rightarrow> (eth_cells \<Rightarrow> 'w \<Rightarrow> 'w) \<Rightarrow> ('t, 'w) eth_client \<Rightarrow> 'w EthereumClient" where
  "eth_client_interface ord cells put c = \<lparr>
     eth_GetBatch = ethc_GetBatch c,
     eth_WasExecuted = ethc_WasExecuted c,
     eth_GenerateMessageHash = ethc_GenerateMessageHash c,
     eth_BroadcastSignatureForMessageHash = BroadcastSignatureForMessageHash c,
     eth_ExecuteTransfer = ethc_ExecuteTransfer ord c,
     eth_GetTransactionsStatuses = ethc_GetTransactionsStatuses c,
     eth_GetQuorumSize = (\<lambda>w. do {
       (r, w) \<leftarrow> ethc_GetQuorumSize c w;
       (case r of Inl err \<Rightarrow> Some (Inl err, w) | Inr None \<Rightarrow> None | Inr (Some q) \<Rightarrow> Some (Inr q, w))
     }),
     eth_IsQuorumReached = ethc_IsQuorumReached c,
     eth_CheckClientAvailability = (\<lambda>w. do {
       (err, (c, w)) \<leftarrow> ethc_CheckClientAvailability (eth_load (cells w) c, w);
       Some (err, put (eth_store c) w)
     }) \<rparr>"

end
