(* ===== verification/Leader_Topology.thy ===== *)
theory Leader_Topology
  imports Core_Types
begin

text \<open>
  The choice of the leader (\<^verbatim>\<open>bridges/ethMultiversX/topology\<close>): a hash of the current interval picks
  one of the sorted public keys. SHA-256 is a parameter; the code relies on it returning at least
  eight bytes.
\<close>

section \<open>Operations\<close>

definition errNilPublicKeysProvider :: go_error where
  "errNilPublicKeysProvider = Sentinel ''topology'' ''nil public keys provider''"

definition errInvalidIntervalForLeader :: go_error where
  "errInvalidIntervalForLeader = Sentinel ''topology'' ''invalid interval for leader''"

definition errNilTimer :: go_error where
  "errNilTimer = Sentinel ''topology'' ''nil timer''"

definition errEmptyAddress :: go_error where
  "errEmptyAddress = Sentinel ''topology'' ''empty address''"

definition topology_errNilLogger :: go_error where
  "topology_errNilLogger = Sentinel ''topology'' ''nil logger''"

definition topology_errNilAddressConverter :: go_error where
  "topology_errNilAddressConverter = Sentinel ''topology'' ''nil address converter''"

text \<open>\<^verbatim>\<open>binary.BigEndian.Uint64\<close> reads the first eight bytes and panics on fewer.\<close>

definition beUint64 :: "bytes \<Rightarrow> u64 option" where
  "beUint64 bs = (if length bs < 8 then None else Some (of_nat (setBytes (take 8 bs))))"

definition randomInt :: "(bytes \<Rightarrow> bytes) \<Rightarrow> u64 \<Rightarrow> u64 \<Rightarrow> u64 option" where
  "randomInt sha256 seed maxValue =
     (if maxValue = 0 then Some 0
      else do {
        result \<leftarrow> beUint64 (sha256 (putUint64 seed));
        Some (result mod maxValue)
      })"

text \<open>
  \<open>goDiv\<close> is the division of \<^verbatim>\<open>int64\<close>: it truncates toward zero and panics on a zero divisor.
  \<open>seconds\<close> is \<^verbatim>\<open>int64(d.Seconds())\<close> of a duration in nanoseconds, exact for the whole seconds the
  configuration holds (\<^verbatim>\<open>Seconds\<close> goes through a \<^verbatim>\<open>float64\<close>).
\<close>

definition goDiv :: "int \<Rightarrow> int \<Rightarrow> int option" where
  "goDiv a b = (if b = 0 then None else Some (sgn a * sgn b * (\<bar>a\<bar> div \<bar>b\<bar>)))"

definition seconds :: "int \<Rightarrow> int" where
  "seconds d = sgn d * (\<bar>d\<bar> div 1000000000)"

record 'w topologyHandler =
  top_publicKeysProvider :: "'w \<Rightarrow> bytes list"
  top_timer :: "'w \<Rightarrow> int"
  top_intervalForLeader :: int
  top_addressBytes :: bytes

record 'w ArgsTopologyHandler =
  arg_PublicKeysProvider :: "('w \<Rightarrow> bytes list) option"
  arg_Timer :: "('w \<Rightarrow> int) option"
  arg_IntervalForLeader :: int
  arg_AddressBytes :: bytes
  arg_top_Log :: "unit option"
  arg_top_AddressConverter :: "AddressConverter option"

definition topology_checkArgs :: "'w ArgsTopologyHandler \<Rightarrow> go_error option" where
  "topology_checkArgs args =
     (if arg_PublicKeysProvider args = None then Some errNilPublicKeysProvider
      else if arg_Timer args = None then Some errNilTimer
      else if seconds (arg_IntervalForLeader args) \<le> 0 then Some errInvalidIntervalForLeader
      else if length (arg_AddressBytes args) = 0 then Some errEmptyAddress
      else if arg_top_Log args = None then Some topology_errNilLogger
      else if arg_top_AddressConverter args = None then Some topology_errNilAddressConverter
      else None)"

definition NewTopologyHandler :: "'w ArgsTopologyHandler \<Rightarrow> go_error + 'w topologyHandler" where
  "NewTopologyHandler args =
     (case topology_checkArgs args of
        Some err \<Rightarrow> Inl err
      | None \<Rightarrow> Inr \<lparr> top_publicKeysProvider = the (arg_PublicKeysProvider args),
                     top_timer = the (arg_Timer args),
                     top_intervalForLeader = arg_IntervalForLeader args,
                     top_addressBytes = arg_AddressBytes args \<rparr>)"

definition topology_MyTurnAsLeader :: "(bytes \<Rightarrow> bytes) \<Rightarrow> 'w topologyHandler \<Rightarrow> ('w, bool) prog" where
  "topology_MyTurnAsLeader sha256 t w =
     (let sortedPublicKeys = top_publicKeysProvider t w in
      if length sortedPublicKeys = 0 then Some (False, w)
      else do {
        let numberOfPeers = length sortedPublicKeys;
        slot \<leftarrow> goDiv (top_timer t w) (seconds (top_intervalForLeader t));
        let seed = word_of_int slot;
        index \<leftarrow> randomInt sha256 seed (of_nat numberOfPeers);
        (if unat index < length sortedPublicKeys
         then Some (sortedPublicKeys ! unat index = top_addressBytes t, w) else None)
      })"

section \<open>Interface: sorted public keys\<close>

text \<open>A provider of public keys returns them strictly sorted by \<^verbatim>\<open>bytes.Compare\<close>.\<close>

locale sorted_keys_provider =
  fixes inv :: "'s \<Rightarrow> bool"
    and keys :: "'s \<Rightarrow> bytes list"
  assumes keys_sorted: "inv s \<Longrightarrow> sorted_wrt (<) (keys s)"
begin

lemma keys_distinct: "inv s \<Longrightarrow> distinct (keys s)"
  using keys_sorted [of s] strict_sorted_iff by blast

text \<open>The list is determined by the set of keys, so relayers that agree on the set agree on the list.\<close>

lemma keys_unique: "inv s \<Longrightarrow> inv s' \<Longrightarrow> set (keys s) = set (keys s') \<Longrightarrow> keys s = keys s'"
  using keys_sorted strict_sorted_iff by (metis sorted_distinct_set_unique)

end

lemma strict_sorted_of_set: "sorted_wrt (<) (xs :: bytes list) \<Longrightarrow> sorted_list_of_set (set xs) = xs"
  by (simp add: strict_sorted_iff sorted_list_of_set.idem_if_sorted_distinct)

text \<open>\<^verbatim>\<open>sort.Slice\<close> with \<^verbatim>\<open>bytes.Compare\<close> on the keys of a map, met in the order \<open>ord\<close>.\<close>

definition sortedKeys :: "((bytes \<times> 'v) list \<Rightarrow> (bytes \<times> 'v) list) \<Rightarrow> (bytes, 'v) gomap \<Rightarrow> bytes list" where
  "sortedKeys ord m = sort (map fst (ord m))"

lemma sortedKeys_sorted:
  assumes "range_order ord" "wf_map m"
  shows "sorted_wrt (<) (sortedKeys ord m)" and "set (sortedKeys ord m) = fst ` set m"
proof -
  have "mset (map fst (ord m)) = mset (map fst m)"
    using assms(1) by (simp add: range_order_def)
  then have "distinct (map fst (ord m))"
    using assms(2) unfolding wf_map_def by (metis mset_eq_imp_distinct_iff)
  then show "sorted_wrt (<) (sortedKeys ord m)"
    by (simp add: sortedKeys_def strict_sorted_iff)
  show "set (sortedKeys ord m) = fst ` set m"
    using assms(1) by (simp add: sortedKeys_def)
qed

section \<open>Properties\<close>

lemma randomInt_bound:
  assumes "\<And>m. 8 \<le> length (sha256 m)" "maxValue \<noteq> 0"
  shows "\<exists>r. randomInt sha256 seed maxValue = Some r \<and> r < maxValue"
proof -
  obtain x where "beUint64 (sha256 (putUint64 seed)) = Some x"
    using assms(1) [of "putUint64 seed"] by (auto simp: beUint64_def)
  moreover have "x mod maxValue < maxValue"
    using assms(2) by (simp add: word_mod_less_divisor word_gt_0)
  ultimately show ?thesis using assms(2) by (auto simp: randomInt_def)
qed

text \<open>On a list of keys, the key the interval selects is the leader's; the choice does not panic.\<close>

lemma MyTurnAsLeader_selects:
  assumes "\<And>m. 8 \<le> length (sha256 m)" and "keys \<noteq> []" "length keys < 2 ^ 63"
  obtains i where "i < length keys"
    and "\<And>t w. top_publicKeysProvider t w = keys \<Longrightarrow>
      goDiv (top_timer t w) (seconds (top_intervalForLeader t)) = Some slot \<Longrightarrow>
      topology_MyTurnAsLeader sha256 t w = Some (keys ! i = top_addressBytes t, w)"
proof -
  have n: "unat (of_nat (length keys) :: u64) = length keys"
    using assms(3) by (simp add: unat_of_nat)
  then have "(of_nat (length keys) :: u64) \<noteq> 0"
    using assms(2) by (metis length_0_conv unsigned_0)
  then obtain r where r: "randomInt sha256 (word_of_int slot) (of_nat (length keys)) = Some r"
    "r < of_nat (length keys)"
    using randomInt_bound [of sha256 "of_nat (length keys)" "word_of_int slot", OF assms(1)] by blast
  then have "unat r < length keys" using n by (simp add: word_less_nat_alt)
  then show thesis
    using r(1) assms(2) by (intro that [of "unat r"]) (simp_all add: topology_MyTurnAsLeader_def Let_def)
qed

text \<open>
  C35. Take relayers with handlers built by \<^verbatim>\<open>NewTopologyHandler\<close>, whose addresses are, one each, the
  keys of a non-empty set \<open>K\<close>. In worlds where each of them is given the keys of \<open>K\<close>, sorted, and where
  their clocks fall into the same leader interval, exactly one of them is the leader: asked whether it
  is its turn, this relayer is told yes and every other one is told no, and no call panics.
\<close>

theorem topology_unique_leader:
  fixes t :: "'r \<Rightarrow> 'w topologyHandler" and w :: "'r \<Rightarrow> 'w"
  assumes "\<And>m. 8 \<le> length (sha256 m)"
    and "\<And>r. r \<in> R \<Longrightarrow> NewTopologyHandler (args r) = Inr (t r)"
    and "bij_betw (\<lambda>r. arg_AddressBytes (args r)) R K" "finite K" "K \<noteq> {}" "card K < 2 ^ 63"
    and "\<And>r. r \<in> R \<Longrightarrow> sorted_wrt (<) (top_publicKeysProvider (t r) (w r))"
    and "\<And>r. r \<in> R \<Longrightarrow> set (top_publicKeysProvider (t r) (w r)) = K"
    and "\<And>r. r \<in> R \<Longrightarrow>
      goDiv (top_timer (t r) (w r)) (seconds (top_intervalForLeader (t r))) = Some slot"
  shows "\<exists>!leader. leader \<in> R \<and>
    (\<forall>r\<in>R. topology_MyTurnAsLeader sha256 (t r) (w r) = Some (r = leader, w r))"
proof -
  let ?keys = "sorted_list_of_set K"
  have keys: "top_publicKeysProvider (t r) (w r) = ?keys" if "r \<in> R" for r
    using strict_sorted_of_set [OF assms(7) [OF that]] assms(8) [OF that] by simp
  have addr: "top_addressBytes (t r) = arg_AddressBytes (args r)" if "r \<in> R" for r
    using assms(2) [OF that, symmetric] by (simp add: NewTopologyHandler_def split: option.splits)
  have "?keys \<noteq> []" "length ?keys < 2 ^ 63" using assms(4-6) by simp_all
  with assms(1) obtain i where i: "i < length ?keys" and select: "\<And>(t :: 'w topologyHandler) w. top_publicKeysProvider t w = ?keys \<Longrightarrow>
      goDiv (top_timer t w) (seconds (top_intervalForLeader t)) = Some slot \<Longrightarrow>
      topology_MyTurnAsLeader sha256 t w = Some (?keys ! i = top_addressBytes t, w)"
    using MyTurnAsLeader_selects [of sha256 ?keys slot] by metis
  have turn: "topology_MyTurnAsLeader sha256 (t r) (w r) = Some (?keys ! i = arg_AddressBytes (args r), w r)"
    if "r \<in> R" for r
    using select [OF keys [OF that] assms(9) [OF that]] addr [OF that] by simp
  obtain l where l: "l \<in> R" "arg_AddressBytes (args l) = ?keys ! i"
    using nth_mem [OF i] assms(3,4) by (auto simp: bij_betw_def)
  have "?keys ! i = arg_AddressBytes (args r) \<longleftrightarrow> r = l" if "r \<in> R" for r
    using assms(3) l that by (metis bij_betw_def inj_onD)
  then show ?thesis using turn l(1) by (intro ex1I [of _ l]) auto
qed

definition demo_topologyArgs :: "nat \<Rightarrow> unit ArgsTopologyHandler" where
  "demo_topologyArgs r = \<lparr> arg_PublicKeysProvider = Some (\<lambda>_. [[1], [2], [3]]), arg_Timer = Some (\<lambda>_. 700 + int r),
     arg_IntervalForLeader = 12000000000, arg_AddressBytes = [of_nat r], arg_top_Log = Some (),
     arg_top_AddressConverter = Some \<lparr> ToHexString = (\<lambda>_. []), ToHexStringWithPrefix = (\<lambda>_. []), ToBech32String = (\<lambda>_. []) \<rparr> \<rparr>"

lemma demo_slot: "r \<in> {1, 2, 3} \<Longrightarrow> (700 + int r) div 12 = 58"
  by auto

theorem topology_unique_leader_witness:
  "\<exists>!leader. leader \<in> {1, 2, 3 :: nat} \<and>
     (\<forall>r\<in>{1, 2, 3}. topology_MyTurnAsLeader (\<lambda>m. m @ replicate 24 0)
        (projr (NewTopologyHandler (demo_topologyArgs r))) () = Some (r = leader, ()))"
  using topology_unique_leader [of "\<lambda>m. m @ replicate 24 0" "{1, 2, 3}" demo_topologyArgs
      "\<lambda>r. projr (NewTopologyHandler (demo_topologyArgs r))" "{[1], [2], [3]}" "\<lambda>_. ()" 58]
  by (simp add: demo_topologyArgs_def NewTopologyHandler_def topology_checkArgs_def seconds_def goDiv_def
      bij_betw_def inj_on_def demo_slot)

end
