(* ===== verification/Relayer_P2P.thy ===== *)
theory Relayer_P2P
  imports Leader_Topology
begin

text \<open>
  The messages between relayers, \<^verbatim>\<open>bridge/p2p\<close>: signing and checking of messages, protection against
  replays, the broadcaster, the peer denial evaluator and the status adapter. Marshalling, signing,
  the antiflood components and the network messenger are libraries and appear as the operations the
  code calls.
\<close>

section \<open>Errors\<close>

definition ErrPeerNotWhitelisted :: go_error where
  "ErrPeerNotWhitelisted = Sentinel ''p2p'' ''current peer is not whitelisted''"

definition p2p_ErrNilLogger :: go_error where
  "p2p_ErrNilLogger = Sentinel ''p2p'' ''nil logger''"

definition ErrNilKeyGenerator :: go_error where
  "ErrNilKeyGenerator = Sentinel ''p2p'' ''nil key generator''"

definition p2p_ErrNilPrivateKey :: go_error where
  "p2p_ErrNilPrivateKey = Sentinel ''p2p'' ''nil private key''"

definition ErrNilSingleSigner :: go_error where
  "ErrNilSingleSigner = Sentinel ''p2p'' ''nil single signer''"

definition ErrNilMultiversXRoleProvider :: go_error where
  "ErrNilMultiversXRoleProvider = Sentinel ''p2p'' ''nil MultiversX role provider''"

definition ErrNilMessenger :: go_error where
  "ErrNilMessenger = Sentinel ''p2p'' ''nil network messenger''"

definition ErrInvalidSize :: go_error where
  "ErrInvalidSize = Sentinel ''p2p'' ''invalid size''"

definition ErrNilSignatureProcessor :: go_error where
  "ErrNilSignatureProcessor = Sentinel ''p2p'' ''nil signature processor''"

definition ErrNonceTooLowInReceivedMessage :: go_error where
  "ErrNonceTooLowInReceivedMessage = Sentinel ''p2p'' ''nonce too low in received message''"

definition ErrEmptyName :: go_error where
  "ErrEmptyName = Sentinel ''p2p'' ''empty name''"

definition ErrNilBroadcastClient :: go_error where
  "ErrNilBroadcastClient = Sentinel ''p2p'' ''nil broadcast client''"

definition p2p_ErrNilStatusHandler :: go_error where
  "p2p_ErrNilStatusHandler = Sentinel ''p2p'' ''nil status handler''"

definition ErrNilMessage :: go_error where
  "ErrNilMessage = Sentinel ''p2p'' ''nil message''"

definition ErrNilAntifloodComponents :: go_error where
  "ErrNilAntifloodComponents = Sentinel ''p2p'' ''nil antiflood components''"

definition ErrNilBlackListIDsCache :: go_error where
  "ErrNilBlackListIDsCache = Sentinel ''p2p'' ''nil blacklist cache''"

definition ErrNilBlackListedPublicKeysCache :: go_error where
  "ErrNilBlackListedPublicKeysCache = Sentinel ''p2p'' ''nil blacklist public keys cache''"

section \<open>Nonces of public keys\<close>

text \<open>A missing map entry reads as zero.\<close>

type_synonym noncesOfPublicKeys = "(bytes, u64) gomap"

definition newNoncesOfPublicKeys :: noncesOfPublicKeys where
  "newNoncesOfPublicKeys = []"

definition nonce_of :: "noncesOfPublicKeys \<Rightarrow> bytes \<Rightarrow> u64" where
  "nonce_of nonces pk = (case gm_get nonces pk of None \<Rightarrow> 0 | Some n \<Rightarrow> n)"

definition processNonce :: "SignedMessage \<Rightarrow> noncesOfPublicKeys \<Rightarrow> go_error option \<times> noncesOfPublicKeys" where
  "processNonce msg nonces =
     (let oldNonce = nonce_of nonces (msg_PublicKeyBytes msg) in
      if oldNonce \<ge> msg_Nonce msg then (Some ErrNonceTooLowInReceivedMessage, nonces)
      else (None, gm_set (msg_PublicKeyBytes msg) (msg_Nonce msg) nonces))"

definition nonces_SortedPublicKeys ::
  "((bytes \<times> u64) list \<Rightarrow> (bytes \<times> u64) list) \<Rightarrow> noncesOfPublicKeys \<Rightarrow> bytes list" where
  "nonces_SortedPublicKeys ord nonces = sortedKeys ord nonces"

section \<open>Message handling\<close>

definition absolutMaxSliceSize :: nat where
  "absolutMaxSliceSize = 1024"

definition joinTopicSuffix :: string where
  "joinTopicSuffix = ''_join''"

definition signTopicSuffix :: string where
  "signTopicSuffix = ''_sign''"

definition defaultTopicIdentifier :: string where
  "defaultTopicIdentifier = ''default''"

definition joinTopicMessage :: bytes where
  "joinTopicMessage = map (\<lambda>c. of_nat (of_char c)) ''join topic''"

record MessageP2P =
  p2p_Data :: bytes
  p2p_Topic :: string
  p2p_Peer :: bytes
  p2p_SeqNo :: bytes

text \<open>
  The libraries: JSON marshalling of the two message types, the key generator and signer, the
  antiflood handler and the duration it is asked to blacklist a peer for, the network messenger; and the two providers of the relayer itself, reading its
  current whitelists.
\<close>

record 'w p2p_env =
  marshalSigned :: "SignedMessage \<Rightarrow> go_error + bytes"
  unmarshalSigned :: "bytes \<Rightarrow> go_error + SignedMessage"
  marshalEth :: "EthereumSignature \<Rightarrow> go_error + bytes"
  unmarshalEth :: "bytes \<Rightarrow> go_error + EthereumSignature"
  PublicKeyFromByteArray :: "bytes \<Rightarrow> go_error + bytes"
  singleSigner_Verify :: "bytes \<Rightarrow> bytes \<Rightarrow> bytes \<Rightarrow> go_error option"
  singleSigner_Sign :: "bytes \<Rightarrow> bytes \<Rightarrow> go_error + bytes"
  CanProcessMessage :: "MessageP2P \<Rightarrow> bytes \<Rightarrow> ('w, go_error option) prog"
  CanProcessMessagesOnTopic :: "bytes \<Rightarrow> string \<Rightarrow> nat \<Rightarrow> nat \<Rightarrow> bytes \<Rightarrow> ('w, go_error option) prog"
  InvalidMessageBlacklistDuration :: int
  BlacklistPeer :: "bytes \<Rightarrow> string \<Rightarrow> int \<Rightarrow> 'w \<Rightarrow> 'w"
  messenger_CreateTopic :: "string \<Rightarrow> bool \<Rightarrow> ('w, go_error option) prog"
  messenger_RegisterMessageProcessor :: "string \<Rightarrow> string \<Rightarrow> ('w, go_error option) prog"
  messenger_Broadcast :: "string \<Rightarrow> bytes \<Rightarrow> 'w \<Rightarrow> 'w"
  messenger_SendToConnectedPeer :: "string \<Rightarrow> bytes \<Rightarrow> bytes \<Rightarrow> ('w, go_error option) prog"
  messenger_Close :: "('w, go_error option) prog"
  env_IsWhitelisted :: "'w \<Rightarrow> bytes \<Rightarrow> bool"
  env_VerifyEthSignature :: "'w \<Rightarrow> bytes \<Rightarrow> bytes \<Rightarrow> go_error option"

record 'w BroadcastClient =
  bc_ProcessNewMessage :: "SignedMessage option \<Rightarrow> EthereumSignature option \<Rightarrow> 'w \<Rightarrow> 'w"
  bc_AllStoredSignatures :: "'w \<Rightarrow> SignedMessage list"

record 'w broadcaster =
  br_env :: "'w p2p_env"
  br_counter :: u64
  br_publicKeyBytes :: bytes
  br_privateKey :: bytes
  br_nonces :: noncesOfPublicKeys
  br_name :: string
  br_clients :: "'w BroadcastClient list"
  br_joinTopicName :: string
  br_signTopicName :: string

type_synonym 'w p2p_state = "'w broadcaster \<times> 'w"

definition checkLengths :: "SignedMessage \<Rightarrow> go_error option" where
  "checkLengths msg =
     (if length (msg_PublicKeyBytes msg) > absolutMaxSliceSize
        then Some (Wrapped ErrInvalidSize '' for PublicKeyBytes field'')
      else if length (msg_Signature msg) > absolutMaxSliceSize
        then Some (Wrapped ErrInvalidSize '' for Signature field'')
      else if length (msg_Payload msg) > absolutMaxSliceSize
        then Some (Wrapped ErrInvalidSize '' for Payload field'')
      else None)"

definition canProcessMessage :: "MessageP2P option \<Rightarrow> bytes \<Rightarrow> ('w p2p_state, go_error option) prog" where
  "canProcessMessage message fromConnectedPeer = (\<lambda>(b, w).
     (case message of
        None \<Rightarrow> Some (Some ErrNilMessage, (b, w))
      | Some m \<Rightarrow> do {
          (err, w) \<leftarrow> CanProcessMessage (br_env b) m fromConnectedPeer w;
          (case err of
             Some e \<Rightarrow> Some (Some (Wrapped e ('' on resolver topic '' @ p2p_Topic m)), (b, w))
           | None \<Rightarrow> do {
               (err, w) \<leftarrow> CanProcessMessagesOnTopic (br_env b) fromConnectedPeer (p2p_Topic m) 1
                             (length (p2p_Data m)) (p2p_SeqNo m) w;
               (case err of
                  Some e \<Rightarrow> Some (Some (Wrapped e ('' on resolver topic '' @ p2p_Topic m)), (b, w))
                | None \<Rightarrow> Some (None, (b, w)))
             })
        }))"

definition blacklistBoth :: "MessageP2P \<Rightarrow> bytes \<Rightarrow> string \<Rightarrow> 'w p2p_state \<Rightarrow> 'w p2p_state" where
  "blacklistBoth message fromConnectedPeer reason = (\<lambda>(b, w).
     (let d = InvalidMessageBlacklistDuration (br_env b) in
      (b, BlacklistPeer (br_env b) fromConnectedPeer reason d
            (BlacklistPeer (br_env b) (p2p_Peer message) reason d w))))"

definition preProcessMessage :: "MessageP2P \<Rightarrow> bytes \<Rightarrow> ('w p2p_state, go_error + SignedMessage) prog" where
  "preProcessMessage message fromConnectedPeer = (\<lambda>(b, w).
     (case unmarshalSigned (br_env b) (p2p_Data message) of
        Inl err \<Rightarrow> Some (Inl err, blacklistBoth message fromConnectedPeer
                       (''unmarshalable data got on request topic '' @ p2p_Topic message) (b, w))
      | Inr msg \<Rightarrow>
     (case checkLengths msg of
        Some err \<Rightarrow> Some (Inl err, (b, w))
      | None \<Rightarrow>
     (case PublicKeyFromByteArray (br_env b) (msg_PublicKeyBytes msg) of
        Inl err \<Rightarrow> Some (Inl err, (b, w))
      | Inr pk \<Rightarrow>
          (let msgWithNonce = msg_Payload msg @ putUint64 (msg_Nonce msg) in
           case singleSigner_Verify (br_env b) pk msgWithNonce (msg_Signature msg) of
             Some err \<Rightarrow> Some (Inl err, blacklistBoth message fromConnectedPeer
                            (''unverifiable signature on request topic '' @ p2p_Topic message) (b, w))
           | None \<Rightarrow> Some (Inr msg, (b, w)))))))"

text \<open>The counter is incremented first and wraps around.\<close>

definition createMessage :: "bytes \<Rightarrow> ('w p2p_state, go_error + SignedMessage) prog" where
  "createMessage payload = (\<lambda>(b, w).
     (let nonce = br_counter b + 1;
          b = b\<lparr>br_counter := nonce\<rparr>;
          msgWithNonce = payload @ putUint64 nonce in
      case singleSigner_Sign (br_env b) (br_privateKey b) msgWithNonce of
        Inl err \<Rightarrow> Some (Inl err, (b, w))
      | Inr sig \<Rightarrow> Some (Inr \<lparr> msg_Payload = payload, msg_PublicKeyBytes = br_publicKeyBytes b,
                              msg_Signature = sig, msg_Nonce = nonce \<rparr>, (b, w))))"

section \<open>The broadcaster\<close>

record 'w ArgsBroadcaster =
  arg_br_Messenger :: "unit option"
  arg_br_Log :: "unit option"
  arg_br_MultiversXRoleProvider :: "unit option"
  arg_br_SignatureProcessor :: "unit option"
  arg_br_KeyGen :: "unit option"
  arg_br_SingleSigner :: "unit option"
  arg_br_PrivateKey :: "bytes option"
  arg_br_Name :: string
  arg_br_AntifloodComponents :: "unit option"
  arg_br_env :: "'w p2p_env"

definition p2p_checkArgs :: "'w ArgsBroadcaster \<Rightarrow> go_error option" where
  "p2p_checkArgs args =
     (if length (arg_br_Name args) = 0 then Some ErrEmptyName
      else if arg_br_Log args = None then Some p2p_ErrNilLogger
      else if arg_br_KeyGen args = None then Some ErrNilKeyGenerator
      else if arg_br_PrivateKey args = None then Some p2p_ErrNilPrivateKey
      else if arg_br_SingleSigner args = None then Some ErrNilSingleSigner
      else if arg_br_MultiversXRoleProvider args = None then Some ErrNilMultiversXRoleProvider
      else if arg_br_Messenger args = None then Some ErrNilMessenger
      else if arg_br_SignatureProcessor args = None then Some ErrNilSignatureProcessor
      else if arg_br_AntifloodComponents args = None then Some ErrNilAntifloodComponents
      else None)"

text \<open>
  \<open>now\<close> is \<^verbatim>\<open>time.Now().UnixNano()\<close>, \<open>toPublic\<close> the private key's \<^verbatim>\<open>GeneratePublic().ToByteArray()\<close>.
\<close>

definition NewBroadcaster ::
  "int \<Rightarrow> (bytes \<Rightarrow> go_error + bytes) \<Rightarrow> 'w ArgsBroadcaster \<Rightarrow> go_error + 'w broadcaster" where
  "NewBroadcaster now toPublic args =
     (case p2p_checkArgs args of
        Some err \<Rightarrow> Inl err
      | None \<Rightarrow>
          (case toPublic (the (arg_br_PrivateKey args)) of
             Inl err \<Rightarrow> Inl err
           | Inr pk \<Rightarrow>
               Inr \<lparr> br_env = arg_br_env args, br_counter = word_of_int now, br_publicKeyBytes = pk,
                     br_privateKey = the (arg_br_PrivateKey args), br_nonces = newNoncesOfPublicKeys,
                     br_name = arg_br_Name args, br_clients = [],
                     br_joinTopicName = arg_br_Name args @ joinTopicSuffix,
                     br_signTopicName = arg_br_Name args @ signTopicSuffix \<rparr>))"

fun registerTopics :: "string list \<Rightarrow> ('w p2p_state, go_error option) prog" where
  "registerTopics [] s = Some (None, s)"
| "registerTopics (topic # topics) (b, w) = do {
     (err, w) \<leftarrow> messenger_CreateTopic (br_env b) topic True w;
     (if err \<noteq> None then Some (err, (b, w))
      else do {
        (err, w) \<leftarrow> messenger_RegisterMessageProcessor (br_env b) topic defaultTopicIdentifier w;
        (if err \<noteq> None then Some (err, (b, w)) else registerTopics topics (b, w))
      })
   }"

definition RegisterOnTopics :: "('w p2p_state, go_error option) prog" where
  "RegisterOnTopics s = registerTopics [br_joinTopicName (fst s), br_signTopicName (fst s)] s"

definition getEthereumSignature :: "SignedMessage \<Rightarrow> 'w p2p_state \<Rightarrow> go_error + EthereumSignature" where
  "getEthereumSignature msg = (\<lambda>(b, w).
     (case unmarshalEth (br_env b) (msg_Payload msg) of
        Inl err \<Rightarrow> Inl err
      | Inr ethSignature \<Rightarrow>
          (case env_VerifyEthSignature (br_env b) w (eth_Signature ethSignature) (eth_MessageHash ethSignature) of
             Some err \<Rightarrow> Inl err
           | None \<Rightarrow> Inr ethSignature)))"

definition notifyClients :: "SignedMessage \<Rightarrow> EthereumSignature \<Rightarrow> 'w p2p_state \<Rightarrow> 'w p2p_state" where
  "notifyClients msg ethMsg = (\<lambda>(b, w).
     (b, fold (\<lambda>c. bc_ProcessNewMessage c (Some msg) (Some ethMsg)) (br_clients b) w))"

definition processSignMessage :: "SignedMessage \<Rightarrow> 'w p2p_state \<Rightarrow> 'w p2p_state" where
  "processSignMessage msg s =
     (case getEthereumSignature msg s of
        Inl err \<Rightarrow> s
      | Inr ethSignature \<Rightarrow> notifyClients msg ethSignature s)"

definition retrieveUniqueMessages :: "'w p2p_state \<Rightarrow> (bytes, SignedMessage) gomap" where
  "retrieveUniqueMessages = (\<lambda>(b, w).
     fold (\<lambda>c m. fold (\<lambda>msg. gm_set (UniqueID msg) msg) (bc_AllStoredSignatures c w) m) (br_clients b) [])"

definition sendSignedMessageToPeer :: "SignedMessage \<Rightarrow> bytes \<Rightarrow> ('w p2p_state, go_error option) prog" where
  "sendSignedMessageToPeer msg peerId = (\<lambda>(b, w).
     (case marshalSigned (br_env b) msg of
        Inl err \<Rightarrow> Some (Some err, (b, w))
      | Inr buff \<Rightarrow> do {
          (err, w) \<leftarrow> messenger_SendToConnectedPeer (br_env b) (br_signTopicName b) buff peerId w;
          Some (err, (b, w))
        }))"

text \<open>A failure to send one message is logged and the loop goes on.\<close>

fun sendAll :: "bytes \<Rightarrow> SignedMessage list \<Rightarrow> ('w p2p_state, unit) prog" where
  "sendAll peerId [] s = Some ((), s)"
| "sendAll peerId (msg # msgs) s = do {
     (err, s) \<leftarrow> sendSignedMessageToPeer msg peerId s;
     sendAll peerId msgs s
   }"

definition broadcastCurrentSignatures ::
  "((bytes \<times> SignedMessage) list \<Rightarrow> (bytes \<times> SignedMessage) list) \<Rightarrow> bytes \<Rightarrow>
     ('w p2p_state, go_error option) prog" where
  "broadcastCurrentSignatures ord peerId s = do {
     (_, s) \<leftarrow> sendAll peerId (map snd (ord (retrieveUniqueMessages s))) s;
     Some (None, s)
   }"

definition processJoinMessage ::
  "((bytes \<times> SignedMessage) list \<Rightarrow> (bytes \<times> SignedMessage) list) \<Rightarrow> MessageP2P \<Rightarrow> ('w p2p_state, unit) prog" where
  "processJoinMessage ord message s = do {
     (err, s) \<leftarrow> broadcastCurrentSignatures ord (p2p_Peer message) s;
     Some ((), s)
   }"

definition ProcessReceivedMessage ::
  "((bytes \<times> SignedMessage) list \<Rightarrow> (bytes \<times> SignedMessage) list) \<Rightarrow> MessageP2P \<Rightarrow> bytes \<Rightarrow>
     ('w p2p_state, go_error option) prog" where
  "ProcessReceivedMessage ord message fromConnectedPeer s = do {
     (r, s) \<leftarrow> preProcessMessage message fromConnectedPeer s;
     (case r of
        Inl err \<Rightarrow> Some (Some err, s)
      | Inr msg \<Rightarrow>
          (if \<not> env_IsWhitelisted (br_env (fst s)) (snd s) (msg_PublicKeyBytes msg)
           then Some (Some (Wrapped ErrPeerNotWhitelisted ('' for peer: '' @
                  hexEncode (msg_PublicKeyBytes msg))), s)
           else
             (case processNonce msg (br_nonces (fst s)) of
                (Some err, _) \<Rightarrow> Some (Some err, s)
              | (None, nonces) \<Rightarrow> do {
                  let s = ((fst s)\<lparr>br_nonces := nonces\<rparr>, snd s);
                  (err, s) \<leftarrow> canProcessMessage (Some message) fromConnectedPeer s;
                  (if err \<noteq> None then Some (err, s)
                   else if p2p_Topic message = br_joinTopicName (fst s) then do {
                     (_, s) \<leftarrow> processJoinMessage ord message s;
                     Some (None, s) }
                   else if p2p_Topic message = br_signTopicName (fst s)
                     then Some (None, processSignMessage msg s)
                   else Some (None, s))
                }))) }"

definition broadcastMessage :: "bytes \<Rightarrow> string \<Rightarrow> ('w p2p_state, go_error option) prog" where
  "broadcastMessage payload topic s = do {
     (r, s) \<leftarrow> createMessage payload s;
     (case r of
        Inl err \<Rightarrow> Some (Some err, s)
      | Inr msg \<Rightarrow>
          (case marshalSigned (br_env (fst s)) msg of
             Inl err \<Rightarrow> Some (Some err, s)
           | Inr buff \<Rightarrow> Some (None, (fst s, messenger_Broadcast (br_env (fst s)) topic buff (snd s)))))
   }"

text \<open>A marshalling error is only logged: the broadcast goes on with an empty payload.\<close>

definition BroadcastSignature :: "bytes \<Rightarrow> bytes \<Rightarrow> ('w p2p_state, unit) prog" where
  "BroadcastSignature signature messageHash s = do {
     let payload = (case marshalEth (br_env (fst s)) \<lparr> eth_Signature = signature, eth_MessageHash = messageHash \<rparr> of
                      Inl err \<Rightarrow> [] | Inr payload \<Rightarrow> payload);
     (err, s) \<leftarrow> broadcastMessage payload (br_signTopicName (fst s)) s;
     Some ((), s)
   }"

definition BroadcastJoinTopic :: "('w p2p_state, unit) prog" where
  "BroadcastJoinTopic s = do {
     (err, s) \<leftarrow> broadcastMessage joinTopicMessage (br_joinTopicName (fst s)) s;
     Some ((), s)
   }"

definition AddBroadcastClient :: "'w BroadcastClient option \<Rightarrow> 'w broadcaster \<Rightarrow> go_error option \<times> 'w broadcaster" where
  "AddBroadcastClient client b =
     (case client of
        None \<Rightarrow> (Some ErrNilBroadcastClient, b)
      | Some c \<Rightarrow> (None, b\<lparr>br_clients := br_clients b @ [c]\<rparr>))"

definition broadcaster_Close :: "('w p2p_state, go_error option) prog" where
  "broadcaster_Close = (\<lambda>(b, w). do { (err, w) \<leftarrow> messenger_Close (br_env b) w; Some (err, (b, w)) })"

section \<open>Peer denial and status\<close>

text \<open>The two caches of denied peers are library components over the world.\<close>

record 'w peerDenialEvaluator =
  blackListIDs_Has :: "'w \<Rightarrow> bytes \<Rightarrow> bool"
  blackListIDs_Upsert :: "bytes \<Rightarrow> int \<Rightarrow> ('w, go_error option) prog"
  blackListedPublicKeys_Has :: "'w \<Rightarrow> bytes \<Rightarrow> bool"

definition NewPeerDenialEvaluator ::
  "(('w \<Rightarrow> bytes \<Rightarrow> bool) \<times> (bytes \<Rightarrow> int \<Rightarrow> ('w, go_error option) prog)) option \<Rightarrow>
     ('w \<Rightarrow> bytes \<Rightarrow> bool) option \<Rightarrow> go_error + 'w peerDenialEvaluator" where
  "NewPeerDenialEvaluator blackListIDsCache blackListedPublicKeysCache =
     (case blackListIDsCache of
        None \<Rightarrow> Inl ErrNilBlackListIDsCache
      | Some (has, upsert) \<Rightarrow>
          (case blackListedPublicKeysCache of
             None \<Rightarrow> Inl ErrNilBlackListedPublicKeysCache
           | Some hasPk \<Rightarrow> Inr \<lparr> blackListIDs_Has = has, blackListIDs_Upsert = upsert,
                                blackListedPublicKeys_Has = hasPk \<rparr>))"

definition IsDenied :: "'w peerDenialEvaluator \<Rightarrow> 'w \<Rightarrow> bytes \<Rightarrow> bool" where
  "IsDenied p w pid = (if blackListIDs_Has p w pid then True else blackListedPublicKeys_Has p w pid)"

definition UpsertPeerID :: "'w peerDenialEvaluator \<Rightarrow> bytes \<Rightarrow> int \<Rightarrow> ('w, go_error option) prog" where
  "UpsertPeerID p pid duration = blackListIDs_Upsert p pid duration"

definition NewStatusHandlerAdapter :: "'w StatusHandler option \<Rightarrow> 'm option \<Rightarrow> go_error + 'w StatusHandler \<times> 'm" where
  "NewStatusHandlerAdapter handler messenger =
     (case handler of
        None \<Rightarrow> Inl p2p_ErrNilStatusHandler
      | Some h \<Rightarrow> (case messenger of None \<Rightarrow> Inl ErrNilMessenger | Some m \<Rightarrow> Inr (h, m)))"

fun joinStrings :: "string \<Rightarrow> string list \<Rightarrow> string" where
  "joinStrings sep [] = []"
| "joinStrings sep [x] = x"
| "joinStrings sep (x # xs) = x @ sep @ joinStrings sep xs"

definition adapter_Execute :: "'w StatusHandler \<Rightarrow> ('w \<Rightarrow> string list) \<Rightarrow> ('w \<Rightarrow> string list) \<Rightarrow>
    ('w, go_error option) prog" where
  "adapter_Execute handler addresses connectedAddresses w =
     (let w = sh_SetStringMetric handler MetricRelayerP2PAddresses (joinStrings '' '' (addresses w)) w;
          w = sh_SetStringMetric handler MetricConnectedP2PAddresses (joinStrings '' '' (connectedAddresses w)) w in
      Some (None, w))"

section \<open>Nonces only grow\<close>

lemma nonce_of_set [simp]:
  "nonce_of (gm_set pk n nonces) pk' = (if pk' = pk then n else nonce_of nonces pk')"
  by (simp add: nonce_of_def)

lemma processNonce_None:
  "processNonce msg nonces = (None, nonces') \<longleftrightarrow>
     nonce_of nonces (msg_PublicKeyBytes msg) < msg_Nonce msg \<and>
     nonces' = gm_set (msg_PublicKeyBytes msg) (msg_Nonce msg) nonces"
  by (auto simp: processNonce_def Let_def)

lemma processNonce_Some:
  "processNonce msg nonces = (Some err, nonces') \<longleftrightarrow>
     msg_Nonce msg \<le> nonce_of nonces (msg_PublicKeyBytes msg) \<and>
     err = ErrNonceTooLowInReceivedMessage \<and> nonces' = nonces"
  by (auto simp: processNonce_def Let_def)

lemma processNonce_mono: "nonce_of nonces pk \<le> nonce_of (snd (processNonce msg nonces)) pk"
  by (auto simp: processNonce_def Let_def)

interpretation nonce_keys: sorted_keys_provider
  "\<lambda>nonces. range_order ord \<and> wf_map nonces" "nonces_SortedPublicKeys ord"
  for ord :: "(bytes \<times> u64) list \<Rightarrow> (bytes \<times> u64) list"
  by unfold_locales (auto simp: nonces_SortedPublicKeys_def intro: sortedKeys_sorted)

section \<open>What a received message does\<close>

definition blacklisted :: "MessageP2P \<Rightarrow> bytes \<Rightarrow> 'w p2p_state \<Rightarrow> 'w p2p_state \<Rightarrow> bool" where
  "blacklisted message peer s s' \<longleftrightarrow> s' = s \<or> (\<exists>reason. s' = blacklistBoth message peer reason s)"

lemma blacklisted_simps [simp]:
  "blacklisted message peer s s" "blacklisted message peer s (blacklistBoth message peer reason s)"
  by (auto simp: blacklisted_def)

lemma preProcessMessage_cases:
  assumes "preProcessMessage message peer s = Some (r, s')"
  obtains err where "r = Inl err" "blacklisted message peer s s'"
  | msg pk where "r = Inr msg" "s' = s" "unmarshalSigned (br_env (fst s)) (p2p_Data message) = Inr msg"
      "checkLengths msg = None" "PublicKeyFromByteArray (br_env (fst s)) (msg_PublicKeyBytes msg) = Inr pk"
      "singleSigner_Verify (br_env (fst s)) pk (msg_Payload msg @ putUint64 (msg_Nonce msg))
         (msg_Signature msg) = None"
proof -
  obtain b w where s: "s = (b, w)" by (cases s)
  show thesis
  proof (cases "unmarshalSigned (br_env b) (p2p_Data message)")
    case (Inl e)
    with assms show ?thesis by (intro that(1) [of e]) (auto simp: preProcessMessage_def s)
  next
    case (Inr msg)
    with assms have "(\<exists>err. r = Inl err \<and> blacklisted message peer s s') \<or> r = Inr msg \<and> s' = s \<and>
        checkLengths msg = None \<and> (\<exists>pk. PublicKeyFromByteArray (br_env b) (msg_PublicKeyBytes msg) = Inr pk \<and>
        singleSigner_Verify (br_env b) pk (msg_Payload msg @ putUint64 (msg_Nonce msg)) (msg_Signature msg) = None)"
      by (auto simp: preProcessMessage_def Let_def s split: sum.splits option.splits)
    with Inr that show ?thesis by (auto simp: s)
  qed
qed

lemma fst_sendSignedMessageToPeer: "sendSignedMessageToPeer msg p s = Some (r, s') \<Longrightarrow> fst s' = fst s"
  by (cases s) (auto simp: sendSignedMessageToPeer_def bind_Some_conv split: sum.splits prod.splits)

lemma fst_sendAll: "sendAll p msgs s = Some (r, s') \<Longrightarrow> fst s' = fst s"
proof (induction msgs arbitrary: s)
  case (Cons m ms)
  then show ?case by (auto simp: bind_Some_conv split: prod.splits dest!: fst_sendSignedMessageToPeer)
qed simp

lemma fst_canProcessMessage:
  assumes "canProcessMessage m p s = Some (r, s')"
  shows "fst s' = fst s"
proof -
  have "wlp (canProcessMessage m p s) (\<lambda>(_, s'). fst s' = fst s)"
    by (cases s) (auto simp: canProcessMessage_def wp_simps split: option.split intro!: wlp_I)
  from wlp_D [OF this assms] show ?thesis by simp
qed

lemma fst_processSignMessage [simp]: "fst (processSignMessage msg s) = fst s"
  by (cases s) (simp add: processSignMessage_def notifyClients_def split: sum.split)

lemma fst_processJoinMessage: "processJoinMessage ord m s = Some (r, s') \<Longrightarrow> fst s' = fst s"
  by (auto simp: processJoinMessage_def broadcastCurrentSignatures_def bind_Some_conv
    split: prod.splits dest: fst_sendAll)

text \<open>
  A received message is dropped before its nonce is looked at, dropped as a replay, or it is verified,
  whitelisted and fresh, and then its nonce is recorded.
\<close>

lemma ProcessReceivedMessage_cases:
  assumes "ProcessReceivedMessage ord message peer s = Some (err, s')"
  obtains e where "err = Some e" "blacklisted message peer s s'"
  | msg pk where "unmarshalSigned (br_env (fst s)) (p2p_Data message) = Inr msg" "checkLengths msg = None"
      "PublicKeyFromByteArray (br_env (fst s)) (msg_PublicKeyBytes msg) = Inr pk"
      "singleSigner_Verify (br_env (fst s)) pk (msg_Payload msg @ putUint64 (msg_Nonce msg))
         (msg_Signature msg) = None"
      "env_IsWhitelisted (br_env (fst s)) (snd s) (msg_PublicKeyBytes msg)"
      "nonce_of (br_nonces (fst s)) (msg_PublicKeyBytes msg) < msg_Nonce msg"
      "fst s' = (fst s)\<lparr>br_nonces := gm_set (msg_PublicKeyBytes msg) (msg_Nonce msg) (br_nonces (fst s))\<rparr>"
      "err = None \<Longrightarrow> p2p_Topic message = br_signTopicName (fst s) \<Longrightarrow>
         br_joinTopicName (fst s) \<noteq> br_signTopicName (fst s) \<Longrightarrow>
         \<exists>w. canProcessMessage (Some message) peer (fst s', snd s) = Some (None, (fst s', w)) \<and>
           s' = processSignMessage msg (fst s', w)"
proof -
  from assms obtain r t where pre: "preProcessMessage message peer s = Some (r, t)"
    by (auto simp: ProcessReceivedMessage_def bind_Some_conv)
  then show thesis
  proof (cases rule: preProcessMessage_cases)
    case (1 e)
    with assms pre show ?thesis by (intro that(1)) (auto simp: ProcessReceivedMessage_def)
  next
    case (2 msg pk)
    show ?thesis
    proof (cases "env_IsWhitelisted (br_env (fst s)) (snd s) (msg_PublicKeyBytes msg) \<and>
        nonce_of (br_nonces (fst s)) (msg_PublicKeyBytes msg) < msg_Nonce msg")
      case False
      with assms pre 2 have "err \<noteq> None \<and> s' = s"
        by (auto simp: ProcessReceivedMessage_def processNonce_def Let_def split: if_splits)
      then show ?thesis by (auto intro: that(1))
    next
      case True
      let ?s = "((fst s)\<lparr>br_nonces := gm_set (msg_PublicKeyBytes msg) (msg_Nonce msg) (br_nonces (fst s))\<rparr>, snd s)"
      have pn: "processNonce msg (br_nonces (fst s)) = (None, br_nonces (fst ?s))"
        using True by (simp add: processNonce_None)
      from True assms pre 2 pn obtain e u where u: "canProcessMessage (Some message) peer ?s = Some (e, u)"
        by (auto simp: ProcessReceivedMessage_def Let_def bind_Some_conv)
      have fu: "fst u = fst ?s" by (rule fst_canProcessMessage [OF u])
      have "fst s' = fst ?s \<and> (err = None \<and> p2p_Topic message = br_signTopicName (fst s) \<and>
          br_joinTopicName (fst s) \<noteq> br_signTopicName (fst s) \<longrightarrow> e = None \<and> s' = processSignMessage msg u)"
        using assms pre 2 True u fu pn
        by (auto simp: ProcessReceivedMessage_def Let_def bind_Some_conv
          split: if_splits dest!: fst_processJoinMessage)
      moreover have "u = (fst ?s, snd u)" using fu by (metis prod.collapse)
      ultimately have "fst s' = fst ?s \<and> (err = None \<and> p2p_Topic message = br_signTopicName (fst s) \<and>
          br_joinTopicName (fst s) \<noteq> br_signTopicName (fst s) \<longrightarrow>
          (\<exists>w. canProcessMessage (Some message) peer (fst s', snd s) = Some (None, (fst s', w)) \<and>
             s' = processSignMessage msg (fst s', w)))"
        using u by (metis fst_conv)
      then show ?thesis by (intro that(2) [of msg pk]) (use 2 True in auto)
    qed
  qed
qed

section \<open>Properties\<close>

text \<open>
  The states a broadcaster can reach from another one: it receives messages, and anything else that
  happens to it (its own broadcasts, new clients, changes of the world) leaves the nonces and the
  collaborators as they are.
\<close>

inductive p2p_later :: "'w p2p_state \<Rightarrow> 'w p2p_state \<Rightarrow> bool" for s :: "'w p2p_state" where
  p2p_refl: "p2p_later s s"
| p2p_receive: "p2p_later s t \<Longrightarrow> ProcessReceivedMessage ord message peer t = Some (err, u) \<Longrightarrow> p2p_later s u"
| p2p_other: "p2p_later s t \<Longrightarrow> br_nonces (fst u) = br_nonces (fst t) \<Longrightarrow> br_env (fst u) = br_env (fst t) \<Longrightarrow>
    p2p_later s u"

lemma fst_blacklisted: "blacklisted message peer s s' \<Longrightarrow> fst s' = fst s"
  by (cases s) (auto simp: blacklisted_def blacklistBoth_def Let_def)

lemma ProcessReceivedMessage_nonces:
  assumes "ProcessReceivedMessage ord message peer s = Some (err, s')"
  shows "nonce_of (br_nonces (fst s)) pk \<le> nonce_of (br_nonces (fst s')) pk"
    and "br_env (fst s') = br_env (fst s)"
  using assms by (cases rule: ProcessReceivedMessage_cases; auto dest!: fst_blacklisted)+

lemma p2p_later_nonces:
  "p2p_later s t \<Longrightarrow> nonce_of (br_nonces (fst s)) pk \<le> nonce_of (br_nonces (fst t)) pk \<and>
     br_env (fst t) = br_env (fst s)"
proof (induction rule: p2p_later.induct)
  case (p2p_receive t ord message peer err u)
  then show ?case
    using ProcessReceivedMessage_nonces(1) [OF p2p_receive.hyps(2), of pk]
      ProcessReceivedMessage_nonces(2) [OF p2p_receive.hyps(2)] by (auto intro: order_trans)
qed auto

text \<open>
  C31. Replays are rejected: once a message of a public key was accepted, every later message of the
  same key with the same or a smaller nonce is answered with an error, and neither the broadcaster
  nor any of its clients is touched by it; at most the sending peers are blacklisted.
\<close>

theorem replay_rejected:
  assumes "ProcessReceivedMessage ord message peer s = Some (None, s1)" "p2p_later s1 t"
    and "ProcessReceivedMessage ord' message' peer' t = Some (err, t1)"
    and "unmarshalSigned (br_env (fst s)) (p2p_Data message) = Inr msg"
    and "unmarshalSigned (br_env (fst s)) (p2p_Data message') = Inr msg'"
    and "msg_PublicKeyBytes msg' = msg_PublicKeyBytes msg" "msg_Nonce msg' \<le> msg_Nonce msg"
  shows "err \<noteq> None \<and> (t1 = t \<or> (\<exists>reason. t1 = blacklistBoth message' peer' reason t))"
proof -
  have s1: "nonce_of (br_nonces (fst s1)) (msg_PublicKeyBytes msg) = msg_Nonce msg"
    using assms(1,4) by (cases rule: ProcessReceivedMessage_cases) auto
  have "br_env (fst t) = br_env (fst s)"
    using p2p_later_nonces [OF assms(2)] ProcessReceivedMessage_nonces(2) [OF assms(1)] by simp
  then have u: "unmarshalSigned (br_env (fst t)) (p2p_Data message') = Inr msg'" using assms(5) by simp
  have n: "msg_Nonce msg' \<le> nonce_of (br_nonces (fst t)) (msg_PublicKeyBytes msg')"
    using p2p_later_nonces [OF assms(2), of "msg_PublicKeyBytes msg"] s1 assms(6,7) by (simp add: order_trans)
  show ?thesis
    using assms(3)
  proof (cases rule: ProcessReceivedMessage_cases)
    case (1 e)
    then show ?thesis by (simp add: blacklisted_def)
  next
    case (2 m pk)
    with u n show ?thesis by simp
  qed
qed

definition demo_p2p_env :: "nat p2p_env" where
  "demo_p2p_env =
     \<lparr> marshalSigned = (\<lambda>m. Inr (msg_Payload m @ msg_PublicKeyBytes m @ putUint64 (msg_Nonce m))),
       unmarshalSigned = (\<lambda>d. Inr \<lparr> msg_Payload = take (length d - 9) d,
          msg_PublicKeyBytes = [d ! (length d - 9)], msg_Signature = [],
          msg_Nonce = of_nat (setBytes (drop (length d - 8) d)) \<rparr>),
       marshalEth = (\<lambda>e. Inr (eth_Signature e)),
       unmarshalEth = (\<lambda>d. Inr \<lparr> eth_Signature = d, eth_MessageHash = [] \<rparr>),
       PublicKeyFromByteArray = Inr,
       singleSigner_Verify = (\<lambda>_ _ _. None),
       singleSigner_Sign = (\<lambda>_ _. Inr []),
       CanProcessMessage = (\<lambda>_ _ w. Some (None, w)),
       CanProcessMessagesOnTopic = (\<lambda>_ _ _ _ _ w. Some (None, w)),
       InvalidMessageBlacklistDuration = 3600000000000, BlacklistPeer = (\<lambda>_ _ _ w. w),
       messenger_CreateTopic = (\<lambda>_ _ w. Some (None, w)),
       messenger_RegisterMessageProcessor = (\<lambda>_ _ w. Some (None, w)),
       messenger_Broadcast = (\<lambda>_ _ w. Suc w),
       messenger_SendToConnectedPeer = (\<lambda>_ _ _ w. Some (None, w)),
       messenger_Close = (\<lambda>w. Some (None, w)),
       env_IsWhitelisted = (\<lambda>_ _. True),
       env_VerifyEthSignature = (\<lambda>_ _ _. None) \<rparr>"

definition demo_broadcaster :: "nat broadcaster" where
  "demo_broadcaster =
     \<lparr> br_env = demo_p2p_env, br_counter = 5, br_publicKeyBytes = [1], br_privateKey = [2],
       br_nonces = [], br_name = ''p'', br_clients = [], br_joinTopicName = ''p_join'',
       br_signTopicName = ''p_sign'' \<rparr>"

definition demo_message :: MessageP2P where
  "demo_message = \<lparr> p2p_Data = [7, 1, 0, 0, 0, 0, 0, 0, 0, 6], p2p_Topic = ''p_sign'', p2p_Peer = [3],
     p2p_SeqNo = [] \<rparr>"

definition demo_accepted :: "nat p2p_state" where
  "demo_accepted = (demo_broadcaster\<lparr>br_nonces := [([1], 6)]\<rparr>, 0)"

lemma demo_unmarshal:
  "unmarshalSigned demo_p2p_env (p2p_Data demo_message) =
     Inr \<lparr> msg_Payload = [7], msg_PublicKeyBytes = [1], msg_Signature = [], msg_Nonce = 6 \<rparr>"
  by (simp add: demo_p2p_env_def demo_message_def setBytes_def)

lemma demo_p2p_ops:
  "PublicKeyFromByteArray demo_p2p_env = Inr"
  "singleSigner_Verify demo_p2p_env pk bs sg = None"
  "env_IsWhitelisted demo_p2p_env w pk"
  "CanProcessMessage demo_p2p_env m p w = Some (None, w)"
  "CanProcessMessagesOnTopic demo_p2p_env p tp n k sq w = Some (None, w)"
  "unmarshalEth demo_p2p_env d = Inr \<lparr> eth_Signature = d, eth_MessageHash = [] \<rparr>"
  "env_VerifyEthSignature demo_p2p_env w sg h = None"
  "p2p_Topic demo_message = ''p_sign''"
  by (simp_all add: demo_p2p_env_def demo_message_def)

lemmas demo_p2p_eval =
  ProcessReceivedMessage_def preProcessMessage_def demo_broadcaster_def demo_unmarshal demo_p2p_ops
  checkLengths_def absolutMaxSliceSize_def processNonce_def nonce_of_def canProcessMessage_def
  processSignMessage_def getEthereumSignature_def notifyClients_def demo_accepted_def Let_def

lemma demo_first: "ProcessReceivedMessage id demo_message [3] (demo_broadcaster, 0) = Some (None, demo_accepted)"
  by (simp add: demo_p2p_eval)

lemma demo_second: "\<exists>err t1. ProcessReceivedMessage id demo_message [3] demo_accepted = Some (err, t1)"
  by (simp add: demo_p2p_eval)

theorem replay_rejected_witness:
  "\<exists>err t1. ProcessReceivedMessage id demo_message [3] demo_accepted = Some (err, t1) \<and> err \<noteq> None"
  using demo_second replay_rejected [OF demo_first p2p_refl _ _ _ refl order_refl, of id demo_message "[3]"]
    demo_unmarshal by (auto simp: demo_broadcaster_def)

text \<open>
  C32. A message is accepted only if its fields are within the size limits, its signature verifies
  under the public key it carries for the payload followed by its nonce, this key is whitelisted and
  the nonce is fresh; the nonce is then recorded, and on the signature topic the clients receive it
  only together with an Ethereum signature that was verified.
\<close>

theorem accepted_is_authentic:
  assumes "ProcessReceivedMessage ord message peer s = Some (None, s')"
    and "br_joinTopicName (fst s) \<noteq> br_signTopicName (fst s)"
  shows "\<exists>msg pk. unmarshalSigned (br_env (fst s)) (p2p_Data message) = Inr msg \<and>
    length (msg_PublicKeyBytes msg) \<le> 1024 \<and> length (msg_Signature msg) \<le> 1024 \<and> length (msg_Payload msg) \<le> 1024 \<and>
    PublicKeyFromByteArray (br_env (fst s)) (msg_PublicKeyBytes msg) = Inr pk \<and>
    singleSigner_Verify (br_env (fst s)) pk (msg_Payload msg @ putUint64 (msg_Nonce msg)) (msg_Signature msg) = None \<and>
    env_IsWhitelisted (br_env (fst s)) (snd s) (msg_PublicKeyBytes msg) \<and>
    nonce_of (br_nonces (fst s)) (msg_PublicKeyBytes msg) < msg_Nonce msg \<and>
    nonce_of (br_nonces (fst s')) (msg_PublicKeyBytes msg) = msg_Nonce msg \<and>
    (p2p_Topic message = br_signTopicName (fst s) \<longrightarrow>
      (\<exists>w. canProcessMessage (Some message) peer (fst s', snd s) = Some (None, (fst s', w)) \<and>
        (snd s' = w \<or>
         (\<exists>eth. unmarshalEth (br_env (fst s)) (msg_Payload msg) = Inr eth \<and>
           env_VerifyEthSignature (br_env (fst s)) w (eth_Signature eth) (eth_MessageHash eth) = None \<and>
           snd s' = fold (\<lambda>c. bc_ProcessNewMessage c (Some msg) (Some eth)) (br_clients (fst s)) w))))"
  using assms(1)
proof (cases rule: ProcessReceivedMessage_cases)
  case (2 msg pk)
  have "length (msg_PublicKeyBytes msg) \<le> 1024 \<and> length (msg_Signature msg) \<le> 1024 \<and> length (msg_Payload msg) \<le> 1024"
    using 2(2) by (auto simp: checkLengths_def absolutMaxSliceSize_def split: if_splits)
  moreover have "snd (processSignMessage msg (b, w)) = w \<or>
      (\<exists>eth. unmarshalEth (br_env b) (msg_Payload msg) = Inr eth \<and>
         env_VerifyEthSignature (br_env b) w (eth_Signature eth) (eth_MessageHash eth) = None \<and>
         snd (processSignMessage msg (b, w)) =
           fold (\<lambda>c. bc_ProcessNewMessage c (Some msg) (Some eth)) (br_clients b) w)" for b w
    by (auto simp: processSignMessage_def getEthereumSignature_def notifyClients_def
      split: sum.splits option.splits)
  from this [of "fst s'"] have "p2p_Topic message = br_signTopicName (fst s) \<longrightarrow>
      (\<exists>w. canProcessMessage (Some message) peer (fst s', snd s) = Some (None, (fst s', w)) \<and>
        (snd s' = w \<or>
         (\<exists>eth. unmarshalEth (br_env (fst s)) (msg_Payload msg) = Inr eth \<and>
           env_VerifyEthSignature (br_env (fst s)) w (eth_Signature eth) (eth_MessageHash eth) = None \<and>
           snd s' = fold (\<lambda>c. bc_ProcessNewMessage c (Some msg) (Some eth)) (br_clients (fst s)) w)))"
    using 2(7,8) assms(2) by fastforce
  moreover have "nonce_of (br_nonces (fst s')) (msg_PublicKeyBytes msg) = msg_Nonce msg" using 2(7) by simp
  ultimately show ?thesis using 2(1-6) by blast
qed simp

theorem accepted_is_authentic_witness:
  "\<exists>msg. unmarshalSigned demo_p2p_env (p2p_Data demo_message) = Inr msg \<and> length (msg_Payload msg) \<le> 1024 \<and>
     nonce_of (br_nonces (fst demo_accepted)) (msg_PublicKeyBytes msg) = msg_Nonce msg"
  using accepted_is_authentic [OF demo_first] by (auto simp: demo_broadcaster_def)

text \<open>
  C33. A relayer receives what another one broadcasts. A relayer that broadcasts a signature sends one
  message, with the next nonce of its counter, on its signature topic. Let a relayer of the same name
  receive these bytes, with libraries that behave as documented (decoding inverts encoding, the
  signature made with the sender's private key verifies under its public key, and no field exceeds 1024 bytes), and let it have
  the sender whitelisted, have seen only lower nonces of it, not be flooded and take the Ethereum
  signature for valid. Then it accepts the message, records its nonce and hands the message with the
  signature and the hash to every one of its clients, in order.
\<close>

theorem broadcast_signature_received:
  assumes "marshalEth (br_env b) eth = Inr payload"
    and "singleSigner_Sign (br_env b) (br_privateKey b) (payload @ putUint64 (br_counter b + 1)) = Inr sig"
    and "msg = \<lparr> msg_Payload = payload, msg_PublicKeyBytes = br_publicKeyBytes b, msg_Signature = sig,
           msg_Nonce = br_counter b + 1 \<rparr>"
    and "marshalSigned (br_env b) msg = Inr buff" "br_signTopicName b = br_name b @ signTopicSuffix"
    and "message = \<lparr> p2p_Data = buff, p2p_Topic = br_signTopicName b, p2p_Peer = p, p2p_SeqNo = sq \<rparr>"
    and "br_joinTopicName r = br_name b @ joinTopicSuffix" "br_signTopicName r = br_name b @ signTopicSuffix"
    and "unmarshalSigned (br_env r) buff = Inr msg" "unmarshalEth (br_env r) payload = Inr eth"
    and "PublicKeyFromByteArray (br_env r) (br_publicKeyBytes b) = Inr pk"
    and "singleSigner_Verify (br_env r) pk (payload @ putUint64 (br_counter b + 1)) sig = None"
    and "length payload \<le> 1024" "length sig \<le> 1024" "length (br_publicKeyBytes b) \<le> 1024"
    and "env_IsWhitelisted (br_env r) v (br_publicKeyBytes b)"
    and "nonce_of (br_nonces r) (br_publicKeyBytes b) < br_counter b + 1"
    and "CanProcessMessage (br_env r) message peer v = Some (None, v1)"
    and "CanProcessMessagesOnTopic (br_env r) peer (p2p_Topic message) 1 (length buff) sq v1 = Some (None, v2)"
    and "env_VerifyEthSignature (br_env r) v2 (eth_Signature eth) (eth_MessageHash eth) = None"
  shows "BroadcastSignature (eth_Signature eth) (eth_MessageHash eth) (b, w) =
      Some ((), (b\<lparr>br_counter := br_counter b + 1\<rparr>, messenger_Broadcast (br_env b) (p2p_Topic message) buff w)) \<and>
    ProcessReceivedMessage ord message peer (r, v) =
      Some (None, (r\<lparr>br_nonces := gm_set (br_publicKeyBytes b) (br_counter b + 1) (br_nonces r)\<rparr>,
        fold (\<lambda>c. bc_ProcessNewMessage c (Some msg) (Some eth)) (br_clients r) v2))"
proof
  have eth: "\<lparr> eth_Signature = eth_Signature eth, eth_MessageHash = eth_MessageHash eth \<rparr> = eth" by simp
  show "BroadcastSignature (eth_Signature eth) (eth_MessageHash eth) (b, w) =
      Some ((), (b\<lparr>br_counter := br_counter b + 1\<rparr>, messenger_Broadcast (br_env b) (p2p_Topic message) buff w))"
    using assms(1-6) by (simp add: BroadcastSignature_def broadcastMessage_def createMessage_def eth Let_def)
  have "preProcessMessage message peer (r, v) = Some (Inr msg, (r, v))"
    using assms(3,6,9,11-15)
    by (simp add: preProcessMessage_def checkLengths_def absolutMaxSliceSize_def Let_def)
  moreover have "processNonce msg (br_nonces r) =
      (None, gm_set (br_publicKeyBytes b) (br_counter b + 1) (br_nonces r))"
    using assms(3,17) by (simp add: processNonce_None)
  moreover have "canProcessMessage (Some message) peer (r', v) = Some (None, (r', v2))" if "br_env r' = br_env r" for r'
    using assms(6,18,19) that by (simp add: canProcessMessage_def)
  moreover have "p2p_Topic message \<noteq> br_joinTopicName r" "p2p_Topic message = br_signTopicName r"
    using assms(5-8) by (simp_all add: joinTopicSuffix_def signTopicSuffix_def)
  ultimately show "ProcessReceivedMessage ord message peer (r, v) =
      Some (None, (r\<lparr>br_nonces := gm_set (br_publicKeyBytes b) (br_counter b + 1) (br_nonces r)\<rparr>,
        fold (\<lambda>c. bc_ProcessNewMessage c (Some msg) (Some eth)) (br_clients r) v2))"
    using assms(3,10,16,20)
    by (simp add: ProcessReceivedMessage_def processSignMessage_def getEthereumSignature_def notifyClients_def)
qed

text \<open>A receiver whose only client counts the messages it is handed.\<close>

definition demo_receiver :: "nat broadcaster" where
  "demo_receiver = demo_broadcaster\<lparr>br_nonces := [([1], 5)],
     br_clients := [\<lparr> bc_ProcessNewMessage = (\<lambda>m e w. Suc w), bc_AllStoredSignatures = (\<lambda>w. []) \<rparr>]\<rparr>"

lemma demo_marshal: "marshalSigned demo_p2p_env
    \<lparr> msg_Payload = [7], msg_PublicKeyBytes = [1], msg_Signature = [], msg_Nonce = 6 \<rparr> =
    Inr (p2p_Data demo_message)"
  by code_simp

lemma demo_sender_ops:
  "marshalEth demo_p2p_env e = Inr (eth_Signature e)" "singleSigner_Sign demo_p2p_env k bs = Inr []"
  "messenger_Broadcast demo_p2p_env t d w = Suc w" "br_env demo_broadcaster = demo_p2p_env" "br_counter demo_broadcaster = 5"
  "br_publicKeyBytes demo_broadcaster = [1]" "br_signTopicName demo_broadcaster = ''p_sign''"
  "br_joinTopicName demo_broadcaster = ''p_join''" "br_name demo_broadcaster = ''p''"
  by (simp_all add: demo_p2p_env_def demo_broadcaster_def)

theorem broadcast_signature_received_witness:
  "\<exists>b' r'. BroadcastSignature [7] [] (demo_broadcaster, 0) = Some ((), (b', 1)) \<and>
    ProcessReceivedMessage id demo_message [3] (demo_receiver, 0) = Some (None, (r', 1))"
  using broadcast_signature_received [of demo_broadcaster "\<lparr> eth_Signature = [7], eth_MessageHash = [] \<rparr>" "[7]" "[]"
      "\<lparr> msg_Payload = [7], msg_PublicKeyBytes = [1], msg_Signature = [], msg_Nonce = 6 \<rparr>" "p2p_Data demo_message"
      demo_message "[3]" "[]" demo_receiver "[1]" 0 "[3]" 0 0 0 id]
  by (simp add: demo_receiver_def demo_sender_ops demo_marshal demo_unmarshal demo_p2p_ops nonce_of_def
      signTopicSuffix_def joinTopicSuffix_def) (simp add: demo_message_def)

end
