(* ===== verification/Role_Providers.thy ===== *)
theory Role_Providers
  imports Leader_Topology
begin

text \<open>
  The whitelists of relayers, \<^verbatim>\<open>clients/roleProviders\<close>. The validity check of a MultiversX address and
  the elliptic curve operations come from libraries and are parameters.
\<close>

section \<open>Errors\<close>

definition ErrNilEthereumChainInteractor :: go_error where
  "ErrNilEthereumChainInteractor = Sentinel ''roleproviders'' ''nil Ethereum chain interactor''"

definition ErrAddressIsNotWhitelisted :: go_error where
  "ErrAddressIsNotWhitelisted = Sentinel ''roleproviders'' ''address is not whitelisted''"

definition ErrInvalidSignature :: go_error where
  "ErrInvalidSignature = Sentinel ''roleproviders'' ''invalid signature''"

definition ErrInvalidAddressBytes :: go_error where
  "ErrInvalidAddressBytes = Sentinel ''roleproviders'' ''invalid address bytes''"

section \<open>MultiversX\<close>

record 'w multiversXRoleProvider =
  mrp_dataGetter :: "('w, go_error + bytes list) prog"
  mrp_whitelistedAddresses :: "(bytes, unit) gomap"

record 'w ArgsMultiversXRoleProvider =
  arg_mrp_DataGetter :: "('w, go_error + bytes list) prog option"
  arg_mrp_Log :: "unit option"

definition checkMultiversXRoleProviderSpecificArgs :: "'w ArgsMultiversXRoleProvider \<Rightarrow> go_error option" where
  "checkMultiversXRoleProviderSpecificArgs args =
     (if arg_mrp_DataGetter args = None then Some ErrNilDataGetter
      else if arg_mrp_Log args = None then Some clients_ErrNilLogger
      else None)"

definition NewMultiversXRoleProvider ::
  "'w ArgsMultiversXRoleProvider \<Rightarrow> go_error + 'w multiversXRoleProvider" where
  "NewMultiversXRoleProvider args =
     (case checkMultiversXRoleProviderSpecificArgs args of
        Some err \<Rightarrow> Inl err
      | None \<Rightarrow> Inr \<lparr> mrp_dataGetter = the (arg_mrp_DataGetter args), mrp_whitelistedAddresses = [] \<rparr>)"

fun collectAddresses :: "(bytes \<Rightarrow> bool) \<Rightarrow> nat \<Rightarrow> (bytes, unit) gomap \<Rightarrow> bytes list
    \<Rightarrow> go_error + (bytes, unit) gomap" where
  "collectAddresses isValid i temporaryMap [] = Inr temporaryMap"
| "collectAddresses isValid i temporaryMap (result # results) =
     (if \<not> isValid result
      then Inl (Wrapped ErrInvalidAddressBytes ('' for index '' @ dec i @ '', malformed address: '' @
             hexEncode result))
      else collectAddresses isValid (Suc i) (gm_set result () temporaryMap) results)"

definition mrp_processResults :: "(bytes \<Rightarrow> bool) \<Rightarrow> bytes list \<Rightarrow>
    ('w multiversXRoleProvider, go_error option) prog" where
  "mrp_processResults isValid results erp =
     (case collectAddresses isValid 0 [] results of
        Inl err \<Rightarrow> Some (Some err, erp)
      | Inr temporaryMap \<Rightarrow> Some (None, erp\<lparr>mrp_whitelistedAddresses := temporaryMap\<rparr>))"

definition mrp_Execute :: "(bytes \<Rightarrow> bool) \<Rightarrow> ('w multiversXRoleProvider \<times> 'w, go_error option) prog" where
  "mrp_Execute isValid = (\<lambda>(erp, w). do {
     (r, w) \<leftarrow> mrp_dataGetter erp w;
     (case r of
        Inl err \<Rightarrow> Some (Some err, (erp, w))
      | Inr results \<Rightarrow> do {
          (err, erp) \<leftarrow> mrp_processResults isValid results erp;
          Some (err, (erp, w))
        })
   })"

definition mrp_IsWhitelisted :: "'w multiversXRoleProvider \<Rightarrow> bytes option \<Rightarrow> bool" where
  "mrp_IsWhitelisted erp address =
     (case address of None \<Rightarrow> False
      | Some a \<Rightarrow> gm_get (mrp_whitelistedAddresses erp) a \<noteq> None)"

definition mrp_SortedPublicKeys ::
  "((bytes \<times> unit) list \<Rightarrow> (bytes \<times> unit) list) \<Rightarrow> 'w multiversXRoleProvider \<Rightarrow> bytes list" where
  "mrp_SortedPublicKeys ord erp = sortedKeys ord (mrp_whitelistedAddresses erp)"

section \<open>Ethereum\<close>

definition ethSignatureSize :: nat where
  "ethSignatureSize = 64"

record 'w ethereumRoleProvider =
  erp_ethereumChainInteractor :: "('w, go_error + bytes list) prog"
  erp_whitelistedAddresses :: "(bytes, unit) gomap"

record 'w ArgsEthereumRoleProvider =
  arg_erp_EthereumChainInteractor :: "('w, go_error + bytes list) prog option"
  arg_erp_Log :: "unit option"

definition checkEthereumRoleProviderSpecificArgs :: "'w ArgsEthereumRoleProvider \<Rightarrow> go_error option" where
  "checkEthereumRoleProviderSpecificArgs args =
     (if arg_erp_EthereumChainInteractor args = None then Some ErrNilEthereumChainInteractor
      else if arg_erp_Log args = None then Some clients_ErrNilLogger
      else None)"

definition NewEthereumRoleProvider :: "'w ArgsEthereumRoleProvider \<Rightarrow> go_error + 'w ethereumRoleProvider" where
  "NewEthereumRoleProvider args =
     (case checkEthereumRoleProviderSpecificArgs args of
        Some err \<Rightarrow> Inl err
      | None \<Rightarrow> Inr \<lparr> erp_ethereumChainInteractor = the (arg_erp_EthereumChainInteractor args),
                     erp_whitelistedAddresses = [] \<rparr>)"

definition erp_processResults :: "bytes list \<Rightarrow> 'w ethereumRoleProvider \<Rightarrow> 'w ethereumRoleProvider" where
  "erp_processResults results erp =
     erp\<lparr>erp_whitelistedAddresses := fold (\<lambda>addr. gm_set addr ()) results []\<rparr>"

definition erp_Execute :: "('w ethereumRoleProvider \<times> 'w, go_error option) prog" where
  "erp_Execute = (\<lambda>(erp, w). do {
     (r, w) \<leftarrow> erp_ethereumChainInteractor erp w;
     (case r of
        Inl err \<Rightarrow> Some (Some err, (erp, w))
      | Inr addresses \<Rightarrow> Some (None, (erp_processResults addresses erp, w)))
   })"

definition erp_isWhitelisted :: "'w ethereumRoleProvider \<Rightarrow> bytes \<Rightarrow> bool" where
  "erp_isWhitelisted erp address \<longleftrightarrow> gm_get (erp_whitelistedAddresses erp) address \<noteq> None"

text \<open>The functions of go-ethereum's crypto package that the code calls.\<close>

record 'pk eth_crypto =
  Ecrecover :: "bytes \<Rightarrow> bytes \<Rightarrow> go_error + bytes"
  UnmarshalPubkey :: "bytes \<Rightarrow> go_error + 'pk"
  PubkeyToAddress :: "'pk \<Rightarrow> bytes"
  VerifySignature :: "bytes \<Rightarrow> bytes \<Rightarrow> bytes \<Rightarrow> bool"

definition VerifyEthSignature ::
  "'pk eth_crypto \<Rightarrow> 'w ethereumRoleProvider \<Rightarrow> bytes \<Rightarrow> bytes \<Rightarrow> go_error option" where
  "VerifyEthSignature crypto erp signature messageHash =
     (case Ecrecover crypto messageHash signature of
        Inl err \<Rightarrow> Some err
      | Inr pkBytes \<Rightarrow>
     (case UnmarshalPubkey crypto pkBytes of
        Inl err \<Rightarrow> Some err
      | Inr pk \<Rightarrow>
          (if \<not> erp_isWhitelisted erp (PubkeyToAddress crypto pk) then Some ErrAddressIsNotWhitelisted
           else
             (let signature = (if length signature > ethSignatureSize
                               then take ethSignatureSize signature else signature) in
              if \<not> VerifySignature crypto pkBytes messageHash signature then Some ErrInvalidSignature
              else None))))"

section \<open>Lemmas\<close>

lemma collectAddresses_Inr:
  "collectAddresses isValid i m results = Inr m' \<longleftrightarrow>
     (\<forall>r \<in> set results. isValid r) \<and> m' = fold (\<lambda>a. gm_set a ()) results m"
  by (induction isValid i m results rule: collectAddresses.induct) auto

lemma fold_set_keys [simp]:
  "fst ` set (fold (\<lambda>a. gm_set a ()) results m) = fst ` set m \<union> set results"
  by (induction results arbitrary: m) auto

lemma fold_set_wf: "wf_map m \<Longrightarrow> wf_map (fold (\<lambda>a. gm_set a ()) results m)"
  by (induction results arbitrary: m) auto

definition mrp_wf :: "'w multiversXRoleProvider \<Rightarrow> bool" where
  "mrp_wf erp \<longleftrightarrow> wf_map (mrp_whitelistedAddresses erp)"

lemma mrp_Execute_cases:
  assumes "mrp_Execute isValid (erp, w) = Some (err, (erp', w'))"
  obtains e where "mrp_dataGetter erp w = Some (Inl e, w')" "err = Some e" "erp' = erp"
  | results e where "mrp_dataGetter erp w = Some (Inr results, w')" "err = Some e" "erp' = erp"
  | results where "mrp_dataGetter erp w = Some (Inr results, w')" "err = None"
      "\<forall>r \<in> set results. isValid r"
      "erp' = erp\<lparr>mrp_whitelistedAddresses := fold (\<lambda>a. gm_set a ()) results []\<rparr>"
  using assms
  by (cases "mrp_dataGetter erp w")
     (auto simp: mrp_Execute_def mrp_processResults_def collectAddresses_Inr split: sum.splits prod.splits)

lemma mrp_Execute_wf:
  "mrp_Execute isValid (erp, w) = Some (err, (erp', w')) \<Longrightarrow> mrp_wf erp \<Longrightarrow> mrp_wf erp'"
  by (erule mrp_Execute_cases) (auto simp: mrp_wf_def fold_set_wf)

lemma gm_get_unit: "gm_get (m :: ('k, unit) gomap) k = Some () \<longleftrightarrow> k \<in> fst ` set m"
  by (induction m) auto

section \<open>Sorted public keys\<close>

interpretation role_keys: sorted_keys_provider
  "\<lambda>erp. range_order ord \<and> mrp_wf erp" "mrp_SortedPublicKeys ord"
  for ord :: "(bytes \<times> unit) list \<Rightarrow> (bytes \<times> unit) list"
  by unfold_locales (auto simp: mrp_SortedPublicKeys_def mrp_wf_def intro: sortedKeys_sorted)

section \<open>Properties\<close>

text \<open>
  Refreshing the MultiversX whitelist is atomic: when the contract cannot be read or returns one
  malformed address, the whitelist stays as it was and the error is returned; otherwise exactly the
  returned addresses are whitelisted, and the public keys are these addresses without repetition in
  ascending order, whatever order the map is walked in.
\<close>

theorem mrp_Execute_correct:
  assumes "mrp_wf erp" and "range_order ord"
    and "mrp_Execute isValid (erp, w) = Some (err, (erp', w'))"
  shows "(err \<noteq> None \<longrightarrow> erp' = erp) \<and>
    (err = None \<longrightarrow> (\<exists>results. mrp_dataGetter erp w = Some (Inr results, w') \<and> (\<forall>r \<in> set results. isValid r) \<and>
       (\<forall>a. mrp_IsWhitelisted erp' (Some a) \<longleftrightarrow> a \<in> set results) \<and>
       mrp_SortedPublicKeys ord erp' = sorted_list_of_set (set results)))"
proof -
  have keys: "mrp_SortedPublicKeys ord erp'' = sorted_list_of_set (set results)"
    if "mrp_whitelistedAddresses erp'' = fold (\<lambda>a. gm_set a ()) results []"
    for results and erp'' :: "'a multiversXRoleProvider"
  proof -
    show ?thesis
      using strict_sorted_of_set sortedKeys_sorted [OF assms(2) fold_set_wf [OF wf_map_Nil], of results]
      unfolding mrp_SortedPublicKeys_def that by fastforce
  qed
  show ?thesis
    using assms(3)
    by (rule mrp_Execute_cases) (auto simp: keys mrp_IsWhitelisted_def gm_get_unit)
qed

theorem mrp_Execute_correct_witness:
  "(\<exists>results. mrp_dataGetter \<lparr> mrp_dataGetter = (\<lambda>w::unit. Some (Inr [[2], [1], [2]], w)),
       mrp_whitelistedAddresses = [] \<rparr> () = Some (Inr results, ()) \<and>
     mrp_SortedPublicKeys rev \<lparr> mrp_dataGetter = (\<lambda>w::unit. Some (Inr [[2], [1], [2]], w)),
       mrp_whitelistedAddresses = [([2], ()), ([1], ())] \<rparr> = sorted_list_of_set (set results))"
  using mrp_Execute_correct [of "\<lparr> mrp_dataGetter = (\<lambda>w::unit. Some (Inr [[2], [1], [2]], w)),
      mrp_whitelistedAddresses = [] \<rparr>" rev "\<lambda>a. length a = 1" "()" None
      "\<lparr> mrp_dataGetter = (\<lambda>w::unit. Some (Inr [[2], [1], [2]], w)),
         mrp_whitelistedAddresses = [([2], ()), ([1], ())] \<rparr>" "()"]
  by (simp add: mrp_wf_def mrp_Execute_def mrp_processResults_def)

text \<open>
  A signature on a message hash is accepted exactly when the public key recovered from it
  belongs to a whitelisted address and verifies the signature without its recovery byte.
\<close>

lemma VerifyEthSignature_iff:
  "VerifyEthSignature crypto erp signature messageHash = None \<longleftrightarrow>
     (\<exists>pkBytes pk. Ecrecover crypto messageHash signature = Inr pkBytes \<and>
        UnmarshalPubkey crypto pkBytes = Inr pk \<and>
        erp_isWhitelisted erp (PubkeyToAddress crypto pk) \<and>
        VerifySignature crypto pkBytes messageHash (take 64 signature))"
  by (auto simp: VerifyEthSignature_def Let_def ethSignatureSize_def split: sum.splits)

end
