(* ===== verification/Signatures_Holder.thy ===== *)
theory Signatures_Holder
  imports Core_Types
begin

text \<open>
  The stores of signatures behind the interface \<^verbatim>\<open>SignaturesHolder\<close>:
  \<^verbatim>\<open>bridges/ethMultiversX/signaturesHolder.go\<close> and the disabled holder of the other half-bridge.
\<close>

section \<open>Operations\<close>

record signaturesHolder =
  signedMessages :: "(bytes, SignedMessage) gomap"
  ethMessages :: "EthereumSignature list"

definition NewSignatureHolder :: signaturesHolder where
  "NewSignatureHolder = \<lparr> signedMessages = [], ethMessages = [] \<rparr>"

definition ProcessNewMessage ::
  "SignedMessage option \<Rightarrow> EthereumSignature option \<Rightarrow> signaturesHolder \<Rightarrow> signaturesHolder" where
  "ProcessNewMessage msg ethMsg sh =
     (case (msg, ethMsg) of
        (Some m, Some e) \<Rightarrow>
          sh\<lparr> signedMessages := gm_set (UniqueID m) m (signedMessages sh),
              ethMessages := ethMessages sh @ [e] \<rparr>
      | _ \<Rightarrow> sh)"

text \<open>The two loops over maps go through the entries in the order \<open>ord\<close>.\<close>

definition AllStoredSignatures ::
  "((bytes \<times> SignedMessage) list \<Rightarrow> (bytes \<times> SignedMessage) list) \<Rightarrow> signaturesHolder \<Rightarrow> SignedMessage list" where
  "AllStoredSignatures ord sh = map snd (ord (signedMessages sh))"

fun uniqueEthSigs :: "bytes \<Rightarrow> (bytes, unit) gomap \<Rightarrow> EthereumSignature list \<Rightarrow> (bytes, unit) gomap" where
  "uniqueEthSigs msgHash sigs [] = sigs"
| "uniqueEthSigs msgHash sigs (e # es) =
     uniqueEthSigs msgHash
       (if eth_MessageHash e = msgHash then gm_set (eth_Signature e) () sigs else sigs) es"

definition Signatures ::
  "((bytes \<times> unit) list \<Rightarrow> (bytes \<times> unit) list) \<Rightarrow> signaturesHolder \<Rightarrow> bytes \<Rightarrow> bytes list" where
  "Signatures ord sh msgHash = map fst (ord (uniqueEthSigs msgHash [] (ethMessages sh)))"

definition ClearStoredSignatures :: "signaturesHolder \<Rightarrow> signaturesHolder" where
  "ClearStoredSignatures sh = sh\<lparr> signedMessages := [], ethMessages := [] \<rparr>"

text \<open>The holder of the direction that needs no signatures.\<close>

definition disabled_Signatures :: "unit \<Rightarrow> bytes \<Rightarrow> bytes list" where
  "disabled_Signatures sh msgHash = []"

definition disabled_ClearStoredSignatures :: "unit \<Rightarrow> unit" where
  "disabled_ClearStoredSignatures sh = sh"

section \<open>Interface\<close>

text \<open>What a client of \<^verbatim>\<open>SignaturesHolder\<close> relies on.\<close>

locale signatures_holder =
  fixes inv :: "'h \<Rightarrow> bool"
    and sigs :: "'h \<Rightarrow> bytes \<Rightarrow> bytes list"
    and clear :: "'h \<Rightarrow> 'h"
  assumes sigs_distinct: "inv h \<Longrightarrow> distinct (sigs h m)"
    and sigs_clear: "inv h \<Longrightarrow> sigs (clear h) m = []"
    and inv_clear: "inv h \<Longrightarrow> inv (clear h)"

text \<open>A holder that also receives messages: exactly the signatures of a hash are returned for it.\<close>

locale signatures_store = signatures_holder inv sigs clear
  for inv :: "'h \<Rightarrow> bool" and sigs :: "'h \<Rightarrow> bytes \<Rightarrow> bytes list" and clear :: "'h \<Rightarrow> 'h" +
  fixes process :: "SignedMessage option \<Rightarrow> EthereumSignature option \<Rightarrow> 'h \<Rightarrow> 'h"
  assumes process_sigs: "inv h \<Longrightarrow> set (sigs (process (Some msg) (Some e) h) m) =
      (if eth_MessageHash e = m then insert (eth_Signature e) (set (sigs h m)) else set (sigs h m))"
    and inv_process: "inv h \<Longrightarrow> inv (process (Some msg) (Some e) h)"
begin

definition received :: "(SignedMessage \<times> EthereumSignature) list \<Rightarrow> 'h \<Rightarrow> 'h" where
  "received ms h = fold (\<lambda>(msg, e). process (Some msg) (Some e)) ms h"

lemma received_sigs:
  "inv h \<Longrightarrow> inv (received ms h) \<and> set (sigs (received ms h) m) =
     set (sigs h m) \<union> set (map eth_Signature (filter (\<lambda>e. eth_MessageHash e = m) (map snd ms)))"
proof (induction ms arbitrary: h)
  case (Cons p ms)
  obtain msg e where p: "p = (msg, e)" by (cases p)
  with Cons.IH [of "process (Some msg) (Some e) h"] Cons.prems show ?case
    by (auto simp: received_def process_sigs inv_process)
qed (simp add: received_def)

text \<open>After a reset, the holder has each signature received for the hash since then, once.\<close>

lemma received_after_clear:
  assumes "inv h"
  shows "distinct (sigs (received ms (clear h)) m) \<and>
    set (sigs (received ms (clear h)) m) =
      set (map eth_Signature (filter (\<lambda>e. eth_MessageHash e = m) (map snd ms)))"
  using received_sigs [OF inv_clear [OF assms], of ms m] assms by (simp add: sigs_distinct sigs_clear)

lemma received_count:
  "inv h \<Longrightarrow> length (sigs (received ms (clear h)) m) =
     card (set (map eth_Signature (filter (\<lambda>e. eth_MessageHash e = m) (map snd ms))))"
  using received_after_clear [of h ms m] distinct_card by metis

end

section \<open>The holders implement it\<close>

lemma uniqueEthSigs_keys:
  "fst ` set (uniqueEthSigs m sigs es) =
     fst ` set sigs \<union> {eth_Signature e | e. e \<in> set es \<and> eth_MessageHash e = m}"
  by (induction m sigs es rule: uniqueEthSigs.induct) auto

lemma uniqueEthSigs_wf: "wf_map sigs \<Longrightarrow> wf_map (uniqueEthSigs m sigs es)"
  by (induction m sigs es rule: uniqueEthSigs.induct) auto

lemma Signatures_set:
  assumes "range_order ord"
  shows "set (Signatures ord sh m) =
    {eth_Signature e | e. e \<in> set (ethMessages sh) \<and> eth_MessageHash e = m}"
  using assms by (simp add: Signatures_def uniqueEthSigs_keys)

lemma Signatures_distinct:
  assumes "range_order ord"
  shows "distinct (Signatures ord sh m)"
proof -
  have "mset (map fst (ord xs)) = mset (map fst xs)" for xs
    using assms by (simp add: range_order_def)
  then show ?thesis
    using uniqueEthSigs_wf [of "[]" m "ethMessages sh"]
    unfolding Signatures_def wf_map_def by (metis mset_eq_imp_distinct_iff wf_map_Nil wf_map_def)
qed

interpretation real_holder: signatures_store
  "\<lambda>sh. range_order ord" "Signatures ord" ClearStoredSignatures ProcessNewMessage
  for ord :: "(bytes \<times> unit) list \<Rightarrow> (bytes \<times> unit) list"
proof (unfold_locales, goal_cases)
  case (2 h m)
  then have "set (Signatures ord (ClearStoredSignatures h) m) = {}"
    by (simp add: Signatures_set ClearStoredSignatures_def)
  then show ?case by simp
qed (auto simp: Signatures_distinct Signatures_set ProcessNewMessage_def)

interpretation disabled_holder: signatures_holder "\<lambda>sh. True"
  disabled_Signatures disabled_ClearStoredSignatures
  by unfold_locales (simp_all add: disabled_Signatures_def disabled_ClearStoredSignatures_def)

section \<open>Properties\<close>

text \<open>
  C34. After the signatures were cleared and any sequence of messages was received, the holder
  returns for a message hash exactly the signatures received for this hash since then, each one
  once however often it was received and in whatever order the runtime walks the map: a replayed
  signature cannot count twice towards a quorum.
\<close>

theorem Signatures_exact:
  assumes "range_order ord"
  shows "(let sh = fold (\<lambda>(msg, e). ProcessNewMessage (Some msg) (Some e)) ms (ClearStoredSignatures old) in
     distinct (Signatures ord sh m) \<and>
     set (Signatures ord sh m) =
       set (map eth_Signature (filter (\<lambda>e. eth_MessageHash e = m) (map snd ms))))"
  using real_holder.received_after_clear [OF assms, of ms old m]
  by (simp add: real_holder.received_def Let_def)

theorem Signatures_exact_witness:
  "set (Signatures rev (fold (\<lambda>(msg, e). ProcessNewMessage (Some msg) (Some e))
      [(\<lparr>msg_Payload = [1], msg_PublicKeyBytes = [2], msg_Signature = [3], msg_Nonce = 0\<rparr>,
        \<lparr>eth_Signature = [7], eth_MessageHash = [9]\<rparr>),
       (\<lparr>msg_Payload = [1], msg_PublicKeyBytes = [2], msg_Signature = [3], msg_Nonce = 1\<rparr>,
        \<lparr>eth_Signature = [7], eth_MessageHash = [9]\<rparr>),
       (\<lparr>msg_Payload = [1], msg_PublicKeyBytes = [4], msg_Signature = [3], msg_Nonce = 1\<rparr>,
        \<lparr>eth_Signature = [8], eth_MessageHash = [9]\<rparr>)] (ClearStoredSignatures NewSignatureHolder)) [9]) = {[7], [8]}"
  using Signatures_exact [OF range_order_rev, where old = NewSignatureHolder and m = "[9]" and
      ms = "[(\<lparr>msg_Payload = [1], msg_PublicKeyBytes = [2], msg_Signature = [3], msg_Nonce = 0\<rparr>,
              \<lparr>eth_Signature = [7], eth_MessageHash = [9]\<rparr>),
             (\<lparr>msg_Payload = [1], msg_PublicKeyBytes = [2], msg_Signature = [3], msg_Nonce = 1\<rparr>,
              \<lparr>eth_Signature = [7], eth_MessageHash = [9]\<rparr>),
             (\<lparr>msg_Payload = [1], msg_PublicKeyBytes = [4], msg_Signature = [3], msg_Nonce = 1\<rparr>,
              \<lparr>eth_Signature = [8], eth_MessageHash = [9]\<rparr>)]"]
  unfolding Let_def by simp

lemma signedMessages_received:
  "signedMessages (fold (\<lambda>(msg, e). ProcessNewMessage (Some msg) (Some e)) ms sh) =
     fold (\<lambda>(msg, e). gm_set (UniqueID msg) msg) ms (signedMessages sh)"
  by (induction ms arbitrary: sh) (auto simp: ProcessNewMessage_def)

text \<open>\<open>last_of msg ms\<close>: no later message of \<open>ms\<close> has the identifier of \<open>msg\<close>.\<close>

definition last_of :: "SignedMessage \<Rightarrow> (SignedMessage \<times> EthereumSignature) list \<Rightarrow> bool" where
  "last_of msg ms \<longleftrightarrow> (\<exists>before e after. ms = before @ (msg, e) # after \<and>
     (\<forall>(msg', e') \<in> set after. UniqueID msg' \<noteq> UniqueID msg))"

lemma last_of_snoc:
  "last_of msg (ms @ [(m, e)]) \<longleftrightarrow> (msg = m \<or> UniqueID m \<noteq> UniqueID msg \<and> last_of msg ms)"
  (is "?l \<longleftrightarrow> ?r")
proof
  assume ?l
  then obtain before e' after where *: "ms @ [(m, e)] = before @ (msg, e') # after"
    "\<forall>(msg', e') \<in> set after. UniqueID msg' \<noteq> UniqueID msg"
    by (auto simp: last_of_def)
  then show ?r
    by (cases after rule: rev_cases) (auto simp: last_of_def)
next
  assume ?r
  then show ?l
  proof (elim disjE conjE)
    assume "msg = m"
    then show ?l unfolding last_of_def by (intro exI [of _ ms] exI [of _ e] exI [of _ "[]"]) simp
  next
    assume "UniqueID m \<noteq> UniqueID msg" "last_of msg ms"
    then obtain before e' after where "ms = before @ (msg, e') # after"
      "\<forall>(msg', e') \<in> set (after @ [(m, e)]). UniqueID msg' \<noteq> UniqueID msg"
      by (auto simp: last_of_def)
    then show ?l unfolding last_of_def by (intro exI [of _ before] exI [of _ e'] exI [of _ "after @ [(m, e)]"]) simp
  qed
qed

lemma received_lookup:
  "gm_get (fold (\<lambda>(msg, e). gm_set (UniqueID msg) msg) ms []) k = Some msg \<longleftrightarrow>
     UniqueID msg = k \<and> last_of msg ms"
proof (induction ms rule: rev_induct)
  case Nil
  then show ?case by (simp add: last_of_def)
next
  case (snoc p ms)
  obtain m e where p: "p = (m, e)" by (cases p)
  with snoc show ?case by (auto simp: last_of_snoc)
qed

lemma received_wf: "wf_map (fold (\<lambda>(msg, e). gm_set (UniqueID msg) msg) ms [])"
  by (induction ms rule: rev_induct) auto

lemma received_keys:
  "fst ` set (fold (\<lambda>(msg, e). gm_set (UniqueID msg) msg) ms []) = UniqueID ` fst ` set ms"
proof (induction ms rule: rev_induct)
  case (snoc p ms)
  then show ?case by (cases p) simp
qed simp

text \<open>
  The messages a holder resends to a newly joined relayer are, for every public key and payload
  received since the last reset, the last message received with them, and no other.
\<close>

theorem AllStoredSignatures_latest:
  assumes "range_order ord"
  shows "(let sh = fold (\<lambda>(msg, e). ProcessNewMessage (Some msg) (Some e)) ms (ClearStoredSignatures old) in
     set (AllStoredSignatures ord sh) = {msg. last_of msg ms} \<and>
     length (AllStoredSignatures ord sh) = card (UniqueID ` fst ` set ms))"
proof -
  let ?M = "fold (\<lambda>(msg, e). gm_set (UniqueID msg) msg) ms []"
  have M: "(k, msg) \<in> set ?M \<longleftrightarrow> UniqueID msg = k \<and> last_of msg ms" for k msg
    using map_of_eq_Some_iff [OF received_wf [unfolded wf_map_def], of ms k msg]
      received_lookup [of ms k msg] by blast
  have "snd ` set ?M = {msg. last_of msg ms}"
  proof (intro set_eqI iffI)
    fix msg assume "msg \<in> {msg. last_of msg ms}"
    then have "(UniqueID msg, msg) \<in> set ?M" by (simp add: M)
    then show "msg \<in> snd ` set ?M" by (rule rev_image_eqI) simp
  qed (auto simp: M)
  moreover have "fst ` set ?M = UniqueID ` fst ` set ms"
    by (rule received_keys)
  then have "length ?M = card (UniqueID ` fst ` set ms)"
    using distinct_card [OF received_wf [unfolded wf_map_def], of ms] by simp
  ultimately show ?thesis
    using assms
    by (simp add: AllStoredSignatures_def signedMessages_received ClearStoredSignatures_def Let_def)
qed

theorem AllStoredSignatures_latest_witness:
  "length (AllStoredSignatures id (fold (\<lambda>(msg, e). ProcessNewMessage (Some msg) (Some e))
      [(\<lparr>msg_Payload = [1], msg_PublicKeyBytes = [2], msg_Signature = [3], msg_Nonce = 0\<rparr>,
        \<lparr>eth_Signature = [7], eth_MessageHash = [9]\<rparr>),
       (\<lparr>msg_Payload = [1], msg_PublicKeyBytes = [2], msg_Signature = [3], msg_Nonce = 1\<rparr>,
        \<lparr>eth_Signature = [7], eth_MessageHash = [9]\<rparr>)] (ClearStoredSignatures NewSignatureHolder))) = 1"
  using AllStoredSignatures_latest [OF range_order_id, where old = NewSignatureHolder and
      ms = "[(\<lparr>msg_Payload = [1], msg_PublicKeyBytes = [2], msg_Signature = [3], msg_Nonce = 0\<rparr>,
              \<lparr>eth_Signature = [7], eth_MessageHash = [9]\<rparr>),
             (\<lparr>msg_Payload = [1], msg_PublicKeyBytes = [2], msg_Signature = [3], msg_Nonce = 1\<rparr>,
              \<lparr>eth_Signature = [7], eth_MessageHash = [9]\<rparr>)]"]
  by (simp add: Let_def UniqueID_def)

end
