(* ===== verification/Status_Metrics.thy ===== *)
theory Status_Metrics
  imports Core_Types
begin

text \<open>
  The metrics of the relayer, \<^verbatim>\<open>bridge/status\<close> and \<^verbatim>\<open>bridge/facade\<close>: status handlers that persist some
  of their metrics in a storer, the holder that lists them and the facade the API asks. The storer
  and the JSON marshaller are library code; an encoded buffer is an opaque \<open>'b\<close>.
\<close>

section \<open>Errors\<close>

definition status_ErrEmptyName :: go_error where
  "status_ErrEmptyName = Sentinel ''status'' ''empty name''"

definition ErrStatusHandlerExists :: go_error where
  "ErrStatusHandlerExists = Sentinel ''status'' ''status handler exists with the same name''"

definition ErrMissingStatusHandler :: go_error where
  "ErrMissingStatusHandler = Sentinel ''status'' ''missing status handler''"

definition ErrNilStorer :: go_error where
  "ErrNilStorer = Sentinel ''status'' ''nil storer''"

definition ErrNilMetricsHolder :: go_error where
  "ErrNilMetricsHolder = Sentinel ''facade'' ''nil metrics holder''"

section \<open>Persisted data\<close>

record statusHandlerPersistenceData =
  IntMetrics :: "(string, int) gomap"
  StringMetrics :: "(string, string) gomap"

record ('b, 'w) Storer =
  st_Get :: "string \<Rightarrow> 'w \<Rightarrow> go_error + 'b"
  st_Put :: "string \<Rightarrow> 'b \<Rightarrow> 'w \<Rightarrow> go_error option \<times> 'w"

record 'b json_marshaller =
  js_Marshal :: "statusHandlerPersistenceData \<Rightarrow> go_error + 'b"
  js_Unmarshal :: "'b \<Rightarrow> go_error + statusHandlerPersistenceData"

fun metricIn :: "string list \<Rightarrow> string \<Rightarrow> bool" where
  "metricIn [] metric = False"
| "metricIn (persistedMetric # rest) metric =
     (if persistedMetric = metric then True else metricIn rest metric)"

definition shouldPersistMetric :: "string \<Rightarrow> bool" where
  "shouldPersistMetric metric = metricIn PersistedMetrics metric"

text \<open>
  The copy loops over the two maps. They write distinct keys, so the order they meet them in is not
  observable.
\<close>

fun copyPersisted :: "(string, 'v) gomap \<Rightarrow> (string, 'v) gomap \<Rightarrow> (string, 'v) gomap" where
  "copyPersisted needed [] = needed"
| "copyPersisted needed ((key, val) # rest) =
     copyPersisted (if \<not> shouldPersistMetric key then needed else gm_set key val needed) rest"

definition neededData :: "statusHandlerPersistenceData \<Rightarrow> statusHandlerPersistenceData" where
  "neededData d = \<lparr> IntMetrics = copyPersisted [] (IntMetrics d), StringMetrics = copyPersisted [] (StringMetrics d) \<rparr>"

definition loadFromBuff :: "'b json_marshaller \<Rightarrow> 'b \<Rightarrow> go_error + statusHandlerPersistenceData" where
  "loadFromBuff js buff =
     (case js_Unmarshal js buff of Inl err \<Rightarrow> Inl err | Inr d \<Rightarrow> Inr (neededData d))"

definition convertToBuff :: "'b json_marshaller \<Rightarrow> statusHandlerPersistenceData \<Rightarrow> go_error + ('b \<times> nat)" where
  "convertToBuff js persistence =
     (let needed = neededData persistence;
          numMetrics = length (StringMetrics needed) + length (IntMetrics needed) in
      case js_Marshal js needed of Inl err \<Rightarrow> Inl err | Inr buff \<Rightarrow> Inr (buff, numMetrics))"

section \<open>The status handler\<close>

record ('b, 'w) statusHandler =
  sth_json :: "'b json_marshaller"
  sth_intMetrics :: "(string, int) gomap"
  sth_stringMetrics :: "(string, string) gomap"
  sth_storer :: "('b, 'w) Storer"
  sth_name :: string

definition persistChanges :: "string \<Rightarrow> ('b, 'w) statusHandler \<times> 'w \<Rightarrow> ('b, 'w) statusHandler \<times> 'w" where
  "persistChanges metric = (\<lambda>(sh, w).
     (if \<not> shouldPersistMetric metric then (sh, w)
      else
        (case convertToBuff (sth_json sh) \<lparr> IntMetrics = sth_intMetrics sh, StringMetrics = sth_stringMetrics sh \<rparr> of
           Inl err \<Rightarrow> (sh, w)
         | Inr (buff, num) \<Rightarrow> (let (err, w) = st_Put (sth_storer sh) (sth_name sh) buff w in (sh, w)))))"

definition SetIntMetric :: "string \<Rightarrow> int \<Rightarrow> ('b, 'w) statusHandler \<times> 'w \<Rightarrow> ('b, 'w) statusHandler \<times> 'w" where
  "SetIntMetric metric val = (\<lambda>(sh, w).
     persistChanges metric (sh\<lparr>sth_intMetrics := gm_set metric val (sth_intMetrics sh)\<rparr>, w))"

text \<open>\<open>intMetrics[metric] += delta\<close>: a missing entry reads as zero and the sum wraps at 64 bits.\<close>

definition AddIntMetric :: "string \<Rightarrow> int \<Rightarrow> ('b, 'w) statusHandler \<times> 'w \<Rightarrow> ('b, 'w) statusHandler \<times> 'w" where
  "AddIntMetric metric delta = (\<lambda>(sh, w).
     (let old = (case gm_get (sth_intMetrics sh) metric of None \<Rightarrow> 0 | Some v \<Rightarrow> v) in
      persistChanges metric
        (sh\<lparr>sth_intMetrics := gm_set metric (bigInt64 (old + delta)) (sth_intMetrics sh)\<rparr>, w)))"

definition SetStringMetric :: "string \<Rightarrow> string \<Rightarrow> ('b, 'w) statusHandler \<times> 'w \<Rightarrow> ('b, 'w) statusHandler \<times> 'w" where
  "SetStringMetric metric val = (\<lambda>(sh, w).
     persistChanges metric (sh\<lparr>sth_stringMetrics := gm_set metric val (sth_stringMetrics sh)\<rparr>, w))"

definition tryLoadPersistedData :: "('b, 'w) statusHandler \<Rightarrow> 'w \<Rightarrow> ('b, 'w) statusHandler" where
  "tryLoadPersistedData sh w =
     (case st_Get (sth_storer sh) (sth_name sh) w of
        Inl err \<Rightarrow> sh
      | Inr data \<Rightarrow>
          (case loadFromBuff (sth_json sh) data of
             Inl err \<Rightarrow> sh
           | Inr persistence \<Rightarrow>
               sh\<lparr> sth_intMetrics := fold (\<lambda>(key, val). gm_set key val) (IntMetrics persistence) (sth_intMetrics sh),
                   sth_stringMetrics :=
                     fold (\<lambda>(key, val). gm_set key val) (StringMetrics persistence) (sth_stringMetrics sh) \<rparr>))"

definition NewStatusHandler ::
  "'b json_marshaller \<Rightarrow> string \<Rightarrow> ('b, 'w) Storer option \<Rightarrow> 'w \<Rightarrow> go_error + ('b, 'w) statusHandler" where
  "NewStatusHandler js name storer w =
     (if length name = 0 then Inl status_ErrEmptyName
      else case storer of
        None \<Rightarrow> Inl ErrNilStorer
      | Some st \<Rightarrow>
          Inr (tryLoadPersistedData
            \<lparr> sth_json = js, sth_intMetrics = [], sth_stringMetrics = [], sth_storer = st, sth_name = name \<rparr> w))"

datatype metric_value = IntValue int | StringValue string | NamesValue "string list"

type_synonym GeneralMetrics = "(string, metric_value) gomap"

definition GetIntMetrics :: "('b, 'w) statusHandler \<Rightarrow> (string, int) gomap" where
  "GetIntMetrics sh = fold (\<lambda>(k, v). gm_set k v) (sth_intMetrics sh) []"

definition GetStringMetrics :: "('b, 'w) statusHandler \<Rightarrow> (string, string) gomap" where
  "GetStringMetrics sh = fold (\<lambda>(k, v). gm_set k v) (sth_stringMetrics sh) []"

definition status_GetAllMetrics :: "('b, 'w) statusHandler \<Rightarrow> GeneralMetrics" where
  "status_GetAllMetrics sh =
     fold (\<lambda>(k, v). gm_set k (StringValue v)) (sth_stringMetrics sh)
       (fold (\<lambda>(k, v). gm_set k (IntValue v)) (sth_intMetrics sh) [])"

section \<open>The metrics holder and the facade\<close>

text \<open>A registered handler is an object that answers \<^verbatim>\<open>GetAllMetrics\<close> in the current world.\<close>

type_synonym 'w metricsHolder = "(string, 'w \<Rightarrow> GeneralMetrics) gomap"

definition NewMetricsHolder :: "'w metricsHolder" where
  "NewMetricsHolder = []"

definition AddStatusHandler :: "string \<Rightarrow> ('w \<Rightarrow> GeneralMetrics) \<Rightarrow> 'w metricsHolder \<Rightarrow>
    go_error option \<times> 'w metricsHolder" where
  "AddStatusHandler name sh mh =
     (if gm_get mh name \<noteq> None then (Some (Wrapped ErrStatusHandlerExists ('' for '' @ name)), mh)
      else (None, gm_set name sh mh))"

text \<open>Go compares strings bytewise, so the names are sorted by the codes of their characters.\<close>

definition GetAvailableStatusHandlers ::
  "((string \<times> ('w \<Rightarrow> GeneralMetrics)) list \<Rightarrow> (string \<times> ('w \<Rightarrow> GeneralMetrics)) list) \<Rightarrow> 'w metricsHolder \<Rightarrow> string list" where
  "GetAvailableStatusHandlers ord mh = sort_key (map (of_char :: char \<Rightarrow> nat)) (map fst (ord mh))"

definition holder_GetAllMetrics :: "string \<Rightarrow> 'w metricsHolder \<Rightarrow> 'w \<Rightarrow> go_error + GeneralMetrics" where
  "holder_GetAllMetrics name mh w =
     (case gm_get mh name of None \<Rightarrow> Inl ErrMissingStatusHandler | Some sh \<Rightarrow> Inr (sh w))"

definition availableMetrics :: string where
  "availableMetrics = ''available metrics''"

record 'w relayerFacade =
  rf_metricsHolder :: "'w metricsHolder"
  rf_apiInterface :: string
  rf_pprofEnabled :: bool

definition NewRelayerFacade :: "'w metricsHolder option \<Rightarrow> string \<Rightarrow> bool \<Rightarrow> go_error + 'w relayerFacade" where
  "NewRelayerFacade mh apiInterface pprofEnabled =
     (case mh of
        None \<Rightarrow> Inl ErrNilMetricsHolder
      | Some m \<Rightarrow> Inr \<lparr> rf_metricsHolder = m, rf_apiInterface = apiInterface, rf_pprofEnabled = pprofEnabled \<rparr>)"

definition GetMetrics :: "string \<Rightarrow> 'w relayerFacade \<Rightarrow> 'w \<Rightarrow> go_error + GeneralMetrics" where
  "GetMetrics name rf w = holder_GetAllMetrics name (rf_metricsHolder rf) w"

definition GetMetricsList ::
  "((string \<times> ('w \<Rightarrow> GeneralMetrics)) list \<Rightarrow> (string \<times> ('w \<Rightarrow> GeneralMetrics)) list) \<Rightarrow> 'w relayerFacade \<Rightarrow> GeneralMetrics" where
  "GetMetricsList ord rf =
     gm_set availableMetrics (NamesValue (GetAvailableStatusHandlers ord (rf_metricsHolder rf))) []"

section \<open>Lemmas\<close>

lemma shouldPersistMetric_iff: "shouldPersistMetric m \<longleftrightarrow> m \<in> set PersistedMetrics"
proof -
  have "metricIn ms m \<longleftrightarrow> m \<in> set ms" for ms
    by (induction ms) auto
  then show ?thesis by (simp add: shouldPersistMetric_def)
qed

lemma gm_get_fold:
  "wf_map m \<Longrightarrow> gm_get (fold (\<lambda>(k, v). gm_set k (f v)) m m0) k =
     (case gm_get m k of None \<Rightarrow> gm_get m0 k | Some v \<Rightarrow> Some (f v))"
proof (induction m arbitrary: m0)
  case (Cons p m)
  obtain k' v where p: "p = (k', v)" by (cases p)
  with Cons.prems have wf: "wf_map m" and "k' \<notin> fst ` set m" by (simp_all add: wf_map_def)
  then have "gm_get m k' = None" by (simp add: map_of_eq_None_iff)
  with Cons.IH [OF wf] p show ?case by (auto split: option.split)
qed simp

lemma gm_get_copy: "wf_map m \<Longrightarrow> gm_get (fold (\<lambda>(k, v). gm_set k v) m []) k = gm_get m k"
  using gm_get_fold [of m "\<lambda>v. v" "[]" k] by (simp split: option.split)

lemma gm_get_copyPersisted:
  "wf_map m \<Longrightarrow> gm_get (copyPersisted m0 m) k =
     (if k \<in> set PersistedMetrics \<and> gm_get m k \<noteq> None then gm_get m k else gm_get m0 k)"
proof (induction m0 m rule: copyPersisted.induct)
  case (2 needed key val rest)
  then have wf: "wf_map rest" and "key \<notin> fst ` set rest" by (simp_all add: wf_map_def)
  then have "gm_get rest key = None" by (simp add: map_of_eq_None_iff)
  with 2 wf show ?case by (auto simp: shouldPersistMetric_iff)
qed simp

lemma wf_copyPersisted: "wf_map m0 \<Longrightarrow> wf_map (copyPersisted m0 m)"
  by (induction m0 m rule: copyPersisted.induct) auto

definition status_wf :: "('b, 'w) statusHandler \<Rightarrow> bool" where
  "status_wf sh \<longleftrightarrow> wf_map (sth_intMetrics sh) \<and> wf_map (sth_stringMetrics sh)"

section \<open>What encoding/json keeps\<close>

text \<open>
  \<^verbatim>\<open>encoding/json\<close> writes the keys of a map sorted, replaces bytes that are not valid UTF-8 and reads
  back the numbers that fit the type of the field. So data of valid strings and 64-bit numbers comes back
  with the same entries, in whatever order.
\<close>

fun valid_utf8 :: "nat list \<Rightarrow> bool" where
  "valid_utf8 [] = True"
| "valid_utf8 (b # bs) =
     (let cont = (\<lambda>c. 0x80 \<le> c \<and> c \<le> 0xBF) in
      if b < 0x80 then valid_utf8 bs
      else case bs of
        [] \<Rightarrow> False
      | c # bs1 \<Rightarrow>
          if 0xC2 \<le> b \<and> b \<le> 0xDF then cont c \<and> valid_utf8 bs1
          else case bs1 of
            [] \<Rightarrow> False
          | d # bs2 \<Rightarrow>
              if 0xE0 \<le> b \<and> b \<le> 0xEF
              then cont c \<and> cont d \<and> (b = 0xE0 \<longrightarrow> 0xA0 \<le> c) \<and> (b = 0xED \<longrightarrow> c \<le> 0x9F) \<and> valid_utf8 bs2
              else case bs2 of
                [] \<Rightarrow> False
              | e # bs3 \<Rightarrow> 0xF0 \<le> b \<and> b \<le> 0xF4 \<and> cont c \<and> cont d \<and> cont e \<and>
                  (b = 0xF0 \<longrightarrow> 0x90 \<le> c) \<and> (b = 0xF4 \<longrightarrow> c \<le> 0x8F) \<and> valid_utf8 bs3)"

definition json_text :: "string \<Rightarrow> bool" where
  "json_text s = valid_utf8 (map of_char s)"

definition json_int :: "int \<Rightarrow> bool" where
  "json_int i \<longleftrightarrow> - (2 ^ 63) \<le> i \<and> i < 2 ^ 63"

definition json_data :: "statusHandlerPersistenceData \<Rightarrow> bool" where
  "json_data d \<longleftrightarrow> wf_map (IntMetrics d) \<and> wf_map (StringMetrics d) \<and>
     list_all (\<lambda>(k, i). json_text k \<and> json_int i) (IntMetrics d) \<and>
     list_all (\<lambda>(k, s). json_text k \<and> json_text s) (StringMetrics d)"

definition same_entries :: "statusHandlerPersistenceData \<Rightarrow> statusHandlerPersistenceData \<Rightarrow> bool" where
  "same_entries d d' \<longleftrightarrow> wf_map (IntMetrics d') \<and> wf_map (StringMetrics d') \<and>
     set (IntMetrics d') = set (IntMetrics d) \<and> set (StringMetrics d') = set (StringMetrics d)"

definition json_roundtrips :: "'b json_marshaller \<Rightarrow> bool" where
  "json_roundtrips js \<longleftrightarrow> (\<forall>d. json_data d \<longrightarrow>
     (\<exists>buff d'. js_Marshal js d = Inr buff \<and> js_Unmarshal js buff = Inr d' \<and> same_entries d d'))"

text \<open>A Go \<^verbatim>\<open>int\<close> has 64 bits; the string metrics are assumed to be valid text.\<close>

definition json_metrics :: "('b, 'w) statusHandler \<Rightarrow> bool" where
  "json_metrics sh \<longleftrightarrow> status_wf sh \<and> list_all (\<lambda>(k, i). json_int i) (sth_intMetrics sh) \<and>
     list_all (\<lambda>(k, s). json_text s) (sth_stringMetrics sh)"

lemma set_gm_set: "set (gm_set k v m) \<subseteq> insert (k, v) (set m)"
  by (induction m) auto

lemma json_metrics_set:
  "json_metrics sh \<Longrightarrow> json_int i \<Longrightarrow> json_metrics (sh\<lparr>sth_intMetrics := gm_set k i (sth_intMetrics sh)\<rparr>)"
  "json_metrics sh \<Longrightarrow> json_text str \<Longrightarrow> json_metrics (sh\<lparr>sth_stringMetrics := gm_set k str (sth_stringMetrics sh)\<rparr>)"
  using set_gm_set [of k i "sth_intMetrics sh"] set_gm_set [of k str "sth_stringMetrics sh"]
  by (fastforce simp: json_metrics_def status_wf_def list_all_iff)+

lemma json_int_wrap: "json_int (bigInt64 q)"
  using sint_greater_eq [of "word_of_int q :: u64"] sint_lt [of "word_of_int q :: u64"]
  by (simp add: json_int_def bigInt64_def)

lemma set_copyPersisted: "set (copyPersisted m0 m) \<subseteq> set m0 \<union> {(k, v) \<in> set m. k \<in> set PersistedMetrics}"
proof (induction m0 m rule: copyPersisted.induct)
  case (2 needed key val rest)
  then show ?case
    using set_gm_set [of key val needed] by (auto simp: shouldPersistMetric_iff split: if_splits)
qed simp

lemma persisted_names_text: "list_all json_text PersistedMetrics"
  by code_simp

lemma neededData_json:
  assumes "json_metrics sh"
  shows "json_data (neededData \<lparr> IntMetrics = sth_intMetrics sh, StringMetrics = sth_stringMetrics sh \<rparr>)"
  using assms persisted_names_text set_copyPersisted [of "[]" "sth_intMetrics sh"] set_copyPersisted [of "[]" "sth_stringMetrics sh"]
  by (fastforce simp: json_data_def neededData_def json_metrics_def wf_copyPersisted list_all_iff)

lemma same_entries_get:
  assumes "same_entries (neededData d0) d" "wf_map (IntMetrics d0)" "wf_map (StringMetrics d0)"
  shows "gm_get (IntMetrics d) = gm_get (IntMetrics (neededData d0))" "gm_get (StringMetrics d) = gm_get (StringMetrics (neededData d0))"
  using assms by (auto simp: same_entries_def neededData_def wf_map_def map_of_inject_set wf_copyPersisted [unfolded wf_map_def])

lemma persistChanges_restart:
  assumes sh: "json_metrics sh" and m: "metric \<in> set PersistedMetrics" and js: "json_roundtrips (sth_json sh)"
    and st: "\<And>name buff w. \<exists>w'. st_Put (sth_storer sh) name buff w = (None, w') \<and> st_Get (sth_storer sh) name w' = Inr buff"
    and run: "persistChanges metric (sh, w) = (sh', w')"
    and new: "NewStatusHandler (sth_json sh) (sth_name sh) (Some (sth_storer sh)) w' = Inr sh2"
  shows "sh' = sh \<and>
    gm_get (sth_intMetrics sh2) k = (if k \<in> set PersistedMetrics then gm_get (sth_intMetrics sh) k else None) \<and>
    gm_get (sth_stringMetrics sh2) k = (if k \<in> set PersistedMetrics then gm_get (sth_stringMetrics sh) k else None)"
proof -
  let ?d = "\<lparr> IntMetrics = sth_intMetrics sh, StringMetrics = sth_stringMetrics sh \<rparr>"
  obtain buff d' where buff: "js_Marshal (sth_json sh) (neededData ?d) = Inr buff" "js_Unmarshal (sth_json sh) buff = Inr d'"
    and d': "same_entries (neededData ?d) d'"
    using js neededData_json [OF sh] by (auto simp: json_roundtrips_def)
  have conv: "\<exists>n. convertToBuff (sth_json sh) ?d = Inr (buff, n)"
    using buff(1) unfolding convertToBuff_def Let_def by simp
  obtain w1 where put: "st_Put (sth_storer sh) (sth_name sh) buff w = (None, w1)" "st_Get (sth_storer sh) (sth_name sh) w1 = Inr buff"
    using st by blast
  then have sh': "sh' = sh" and get: "st_Get (sth_storer sh) (sth_name sh) w' = Inr buff"
    using run m conv by (auto simp: persistChanges_def shouldPersistMetric_iff)
  have sh2: "sth_intMetrics sh2 = fold (\<lambda>(k, v). gm_set k v) (IntMetrics (neededData d')) []"
    "sth_stringMetrics sh2 = fold (\<lambda>(k, v). gm_set k v) (StringMetrics (neededData d')) []"
    using new get buff(2)
    by (auto simp: NewStatusHandler_def tryLoadPersistedData_def loadFromBuff_def split: if_splits)
  have wf: "wf_map (IntMetrics ?d)" "wf_map (StringMetrics ?d)" "wf_map (IntMetrics d')" "wf_map (StringMetrics d')"
    using sh d' by (simp_all add: json_metrics_def status_wf_def same_entries_def)
  show ?thesis
    using wf sh' same_entries_get [OF d' wf(1,2)]
    by (simp add: sh2 neededData_def gm_get_copy gm_get_copyPersisted wf_copyPersisted)
qed

section \<open>Properties\<close>

text \<open>
  C39. Let the storer accept every put and return what was put last under a name, and let the
  marshaller bring back data of valid strings and 64-bit numbers with the same entries, in whatever
  order, as \<^verbatim>\<open>encoding/json\<close> does. When a persisted metric has just been set or added to, a handler made
  afterwards under the same name on the same storer has exactly the persisted metrics of the old
  one, all of them with their last values, and none of the others. (A change of another metric writes
  nothing to the storer.)
\<close>

theorem persisted_metrics_survive_restart:
  assumes "json_metrics sh" "json_int i" "json_text str" and "metric \<in> set PersistedMetrics"
    and "json_roundtrips (sth_json sh)"
    and "\<And>name buff w. \<exists>w'. st_Put (sth_storer sh) name buff w = (None, w') \<and> st_Get (sth_storer sh) name w' = Inr buff"
    and "change = SetIntMetric metric i \<or> change = AddIntMetric metric i \<or> change = SetStringMetric metric str"
    and "change (sh, w) = (sh', w')"
    and "NewStatusHandler (sth_json sh) (sth_name sh) (Some (sth_storer sh)) w' = Inr sh2"
  shows "gm_get (sth_intMetrics sh2) k = (if k \<in> set PersistedMetrics then gm_get (sth_intMetrics sh') k else None) \<and>
    gm_get (sth_stringMetrics sh2) k = (if k \<in> set PersistedMetrics then gm_get (sth_stringMetrics sh') k else None)"
proof -
  obtain sh1 where sh1: "persistChanges metric (sh1, w) = (sh', w')" "json_metrics sh1"
    "sth_json sh1 = sth_json sh" "sth_storer sh1 = sth_storer sh" "sth_name sh1 = sth_name sh"
    using assms(1-3,7,8) json_metrics_set [of sh] json_int_wrap
    by (auto simp: SetIntMetric_def AddIntMetric_def SetStringMetric_def Let_def)
  show ?thesis
    using persistChanges_restart [OF sh1(2) assms(4) _ _ sh1(1), unfolded sh1, OF assms(5) assms(6) assms(9)]
    by auto
qed

text \<open>A marshaller that, like \<^verbatim>\<open>encoding/json\<close>, sorts the keys and does not keep invalid text.\<close>

definition sorted_entries :: "(string, 'v) gomap \<Rightarrow> (string, 'v) gomap" where
  "sorted_entries m = sort_key (\<lambda>(k, v). map (of_char :: char \<Rightarrow> nat) k) m"

definition demo_json :: "statusHandlerPersistenceData json_marshaller" where
  "demo_json = \<lparr> js_Marshal = (\<lambda>d. Inr \<lparr> IntMetrics = sorted_entries (IntMetrics d),
       StringMetrics = map (\<lambda>(k, s). (k, if json_text s then s else ''?'')) (sorted_entries (StringMetrics d)) \<rparr>),
     js_Unmarshal = Inr \<rparr>"

lemma sorted_entries_wf: "wf_map (sorted_entries m) \<longleftrightarrow> wf_map m" "set (sorted_entries m) = set m"
proof -
  have "mset (map fst (sorted_entries m)) = mset (map fst m)" by (simp add: sorted_entries_def)
  then show "wf_map (sorted_entries m) \<longleftrightarrow> wf_map m" unfolding wf_map_def by (rule mset_eq_imp_distinct_iff)
qed (simp add: sorted_entries_def)

lemma demo_json_roundtrips: "json_roundtrips demo_json"
proof -
  have "map (\<lambda>(k, s). (k, if json_text s then s else ''?'')) m = m" if "list_all (\<lambda>(k, s). json_text k \<and> json_text s) m" for m
    using that by (induction m) auto
  moreover have "list_all P (sorted_entries m) \<longleftrightarrow> list_all P m" for P and m :: "(string, string) gomap"
    by (simp add: list_all_iff sorted_entries_wf)
  ultimately show ?thesis
    by (simp add: json_roundtrips_def demo_json_def same_entries_def json_data_def sorted_entries_wf)
qed

definition demo_storer :: "(statusHandlerPersistenceData, (string, statusHandlerPersistenceData) gomap) Storer" where
  "demo_storer = \<lparr> st_Get = (\<lambda>name w. case gm_get w name of None \<Rightarrow> Inl (Plain ''missing'') | Some b \<Rightarrow> Inr b),
     st_Put = (\<lambda>name buff w. (None, gm_set name buff w)) \<rparr>"

definition demo_status ::
  "(statusHandlerPersistenceData, (string, statusHandlerPersistenceData) gomap) statusHandler" where
  "demo_status = \<lparr> sth_json = demo_json, sth_intMetrics = [(MetricNumBatches, 3), (MetricLastBlockNonce, 5)],
     sth_stringMetrics = [(MetricLastError, ''e'')], sth_storer = demo_storer, sth_name = ''h'' \<rparr>"

lemma demo_status_json: "json_metrics demo_status" "json_int 1" "json_text []"
  by (simp_all add: json_metrics_def status_wf_def wf_map_def demo_status_def json_int_def json_text_def metric_defs)

theorem persisted_metrics_survive_restart_witness:
  "\<exists>w' sh2. NewStatusHandler demo_json ''h'' (Some demo_storer) w' = Inr sh2 \<and>
     gm_get (sth_intMetrics sh2) MetricNumBatches = Some 4 \<and> gm_get (sth_intMetrics sh2) MetricLastBlockNonce = Some 5 \<and>
     gm_get (sth_stringMetrics sh2) MetricLastError = None"
proof -
  let ?sh' = "demo_status\<lparr>sth_intMetrics := [(MetricNumBatches, 4), (MetricLastBlockNonce, 5)]\<rparr>"
  obtain w' where w': "AddIntMetric MetricNumBatches 1 (demo_status, []) = (?sh', w')"
    by (simp add: AddIntMetric_def demo_status_def persistChanges_def convertToBuff_def demo_storer_def demo_json_def
      shouldPersistMetric_iff PersistedMetrics_def bigInt64_small Let_def)
  obtain sh2 where sh2: "NewStatusHandler (sth_json demo_status) (sth_name demo_status) (Some (sth_storer demo_status)) w' = Inr sh2"
    by (simp add: NewStatusHandler_def demo_status_def)
  have "gm_get (sth_intMetrics sh2) k = (if k \<in> set PersistedMetrics then gm_get (sth_intMetrics ?sh') k else None) \<and>
    gm_get (sth_stringMetrics sh2) k = (if k \<in> set PersistedMetrics then gm_get (sth_stringMetrics ?sh') k else None)" for k
    by (rule persisted_metrics_survive_restart [where metric = MetricNumBatches and
          change = "AddIntMetric MetricNumBatches 1", OF demo_status_json _ _ _ _ w' sh2])
       (auto simp: demo_status_def demo_storer_def PersistedMetrics_def demo_json_roundtrips)
  from this [of MetricNumBatches] this [of MetricLastBlockNonce] this [of MetricLastError] sh2 show ?thesis
    by (intro exI [of _ w'] exI [of _ sh2]) (simp add: demo_status_def PersistedMetrics_def metric_defs)
qed

text \<open>
  The metrics shown for a handler are its string metrics and, under the names that are not
  string metrics, its int metrics.
\<close>

lemma GetAllMetrics_lookup:
  assumes "status_wf sh"
  shows "gm_get (status_GetAllMetrics sh) k =
    (case gm_get (sth_stringMetrics sh) k of
       Some v \<Rightarrow> Some (StringValue v)
     | None \<Rightarrow> map_option IntValue (gm_get (sth_intMetrics sh) k))"
  using assms by (auto simp: status_GetAllMetrics_def status_wf_def gm_get_fold split: option.split)

definition register :: "(string \<times> ('w \<Rightarrow> GeneralMetrics)) list \<Rightarrow> 'w metricsHolder" where
  "register hs = fold (\<lambda>(name, h) mh. snd (AddStatusHandler name h mh)) hs NewMetricsHolder"

lemma register_snoc:
  "register (hs @ [(name, h)]) =
     (if gm_get (register hs) name \<noteq> None then register hs else gm_set name h (register hs))"
  by (simp add: register_def AddStatusHandler_def)

lemma register_wf: "wf_map (register hs)"
proof (induction hs rule: rev_induct)
  case (snoc p hs)
  then show ?case by (cases p) (auto simp: register_snoc)
qed (simp add: register_def NewMetricsHolder_def)

lemma register_get: "gm_get (register hs) name = map_of hs name"
proof (induction hs rule: rev_induct)
  case (snoc p hs)
  then show ?case by (cases p) (auto simp: register_snoc map_add_def split: option.split)
qed (simp add: register_def NewMetricsHolder_def)

text \<open>
  However handlers are registered, the facade answers a name with the metrics of the first
  handler registered under it and an unknown name with an error, and lists exactly the registered
  names, each once.
\<close>

lemma facade_answers_first_registered:
  assumes "range_order ord" and "NewRelayerFacade (Some (register hs)) api pprof = Inr rf"
  shows "GetMetrics name rf w =
      (case map_of hs name of None \<Rightarrow> Inl ErrMissingStatusHandler | Some h \<Rightarrow> Inr (h w)) \<and>
    (\<exists>names. GetMetricsList ord rf = [(availableMetrics, NamesValue names)] \<and>
       distinct names \<and> set names = fst ` set hs \<and> sorted (map (map (of_char :: char \<Rightarrow> nat)) names))"
proof -
  have rf: "rf_metricsHolder rf = register hs" using assms(2) by (auto simp: NewRelayerFacade_def)
  have "mset (map fst (ord (register hs))) = mset (map fst (register hs))"
    using assms(1) by (simp add: range_order_def)
  then have "distinct (GetAvailableStatusHandlers ord (register hs))"
    using register_wf [of hs] unfolding wf_map_def GetAvailableStatusHandlers_def
    by (metis distinct_sort mset_eq_imp_distinct_iff)
  moreover have "name \<in> fst ` set (register hs) \<longleftrightarrow> name \<in> fst ` set hs" for name
    using register_get [of hs name] by (metis map_of_eq_None_iff)
  then have "set (GetAvailableStatusHandlers ord (register hs)) = fst ` set hs"
    using assms(1) by (auto simp: GetAvailableStatusHandlers_def)
  ultimately show ?thesis
    by (simp add: GetMetrics_def holder_GetAllMetrics_def rf register_get GetMetricsList_def)
       (simp add: GetAvailableStatusHandlers_def)
qed

end
