(* ===== verification/Gas_Station.thy ===== *)
theory Gas_Station
  imports Bridge_Executor
begin

text \<open>
  The gas price fetcher, \<^verbatim>\<open>clients/gasManagement\<close>. The HTTP library and the JSON decoding of the
  answer are parameters, \<open>quote\<close> is \<^verbatim>\<open>strconv.Quote\<close> (used in error texts only); \<^verbatim>\<open>fmt.Sscanf\<close> with
  \<^verbatim>\<open>%d\<close> is modelled.
\<close>

section \<open>Errors and constants\<close>

definition ErrLatestGasPricesWereNotFetched :: go_error where
  "ErrLatestGasPricesWereNotFetched =
     Sentinel ''gasManagement'' ''latest gas price values couldn't have been fetched''"

definition ErrInvalidGasPriceSelector :: go_error where
  "ErrInvalidGasPriceSelector = Sentinel ''gasManagement'' ''invalid gas price selector''"

definition ErrGasPriceIsHigherThanTheMaximumSet :: go_error where
  "ErrGasPriceIsHigherThanTheMaximumSet =
     Sentinel ''gasManagement'' ''fetched gas price is higher than the maximum set''"

definition minPollingInterval :: int where
  "minPollingInterval = 1000000000"

definition minRequestTime :: int where
  "minRequestTime = 1000000"

definition minGasPriceMultiplier :: int where
  "minGasPriceMultiplier = 1"

definition minFetchRetries :: int where
  "minFetchRetries = 2"

section \<open>Scanning a decimal number\<close>

text \<open>
  \<^verbatim>\<open>fmt.Sscanf(text, "%d", &x)\<close> with a 64-bit \<^verbatim>\<open>x\<close>: blanks are skipped, a newline among them is an
  error, then an optional sign and a non-empty run of digits are read; what follows is ignored.
\<close>

definition is_digit :: "char \<Rightarrow> bool" where
  "is_digit c \<longleftrightarrow> 48 \<le> (of_char c :: nat) \<and> of_char c \<le> (57 :: nat)"

definition is_blank :: "char \<Rightarrow> bool" where
  "is_blank c \<longleftrightarrow> (of_char c :: nat) \<in> {9, 11, 12, 13, 32}"

fun digits_val :: "nat \<Rightarrow> string \<Rightarrow> nat" where
  "digits_val acc [] = acc"
| "digits_val acc (c # cs) = digits_val (10 * acc + (of_char c - 48)) cs"

definition scanInt :: "string \<Rightarrow> go_error + int" where
  "scanInt text =
     (let s = dropWhile is_blank text;
          neg = (s \<noteq> [] \<and> hd s = CHR ''-'');
          s = (if s \<noteq> [] \<and> (hd s = CHR ''-'' \<or> hd s = CHR ''+'') then tl s else s);
          ds = takeWhile is_digit s;
          v = (if neg then - int (digits_val 0 ds) else int (digits_val 0 ds)) in
      if ds = [] then Inl (Plain ''expected integer'')
      else if v < - (2 ^ 63) \<or> 2 ^ 63 \<le> v then Inl (Plain ''value out of range'')
      else Inr v)"

section \<open>The gas station\<close>

record gasStationResult =
  SafeGasPrice :: string
  ProposeGasPrice :: string
  FastGasPrice :: string

record ArgsGasStation =
  arg_RequestURL :: string
  arg_RequestPollingInterval :: int
  arg_RequestRetryDelay :: int
  arg_MaximumFetchRetries :: int
  arg_RequestTime :: int
  arg_MaximumGasPrice :: int
  arg_GasPriceSelector :: string
  arg_GasPriceMultiplier :: int

record gasStation =
  gs_requestURL :: string
  gs_requestTime :: int
  gs_requestPollingInterval :: int
  gs_requestRetryDelay :: int
  gs_maximumFetchRetries :: int
  gs_maximumGasPrice :: int
  gs_gasPriceSelector :: string
  gs_gasPriceMultiplier :: int
  gs_latestGasPrice :: int
  gs_fetchRetries :: int

definition gas_checkArgs :: "(string \<Rightarrow> string) \<Rightarrow> ArgsGasStation \<Rightarrow> go_error option" where
  "gas_checkArgs quote args =
     (if arg_RequestPollingInterval args < minPollingInterval
        then Some (Wrapped ErrInvalidValue '' in checkArgs for value RequestPollingInterval'')
      else if arg_RequestRetryDelay args < minPollingInterval
        then Some (Wrapped ErrInvalidValue '' in checkArgs for value RequestRetryDelay'')
      else if arg_RequestTime args < minRequestTime
        then Some (Wrapped ErrInvalidValue '' in checkArgs for value RequestTime'')
      else if arg_GasPriceMultiplier args < minGasPriceMultiplier
        then Some (Wrapped ErrInvalidValue '' in checkArgs for value GasPriceMultiplier'')
      else if arg_MaximumFetchRetries args < minFetchRetries
        then Some (Wrapped ErrInvalidValue '' in checkArgs for value MaximumFetchRetries'')
      else if arg_GasPriceSelector args \<in> {EthFastGasPrice, EthProposeGasPrice, EthSafeGasPrice} then None
      else Some (Wrapped ErrInvalidGasPriceSelector ('': '' @ quote (arg_GasPriceSelector args))))"

text \<open>The constructor also starts the goroutine that runs \<open>gasProcessLoop\<close>.\<close>

definition NewGasStation :: "(string \<Rightarrow> string) \<Rightarrow> ArgsGasStation \<Rightarrow> go_error + gasStation" where
  "NewGasStation quote args =
     (case gas_checkArgs quote args of
        Some err \<Rightarrow> Inl err
      | None \<Rightarrow> Inr \<lparr> gs_requestURL = arg_RequestURL args, gs_requestTime = arg_RequestTime args,
          gs_requestPollingInterval = arg_RequestPollingInterval args,
          gs_requestRetryDelay = arg_RequestRetryDelay args,
          gs_maximumFetchRetries = arg_MaximumFetchRetries args,
          gs_maximumGasPrice = arg_MaximumGasPrice args, gs_gasPriceSelector = arg_GasPriceSelector args,
          gs_gasPriceMultiplier = arg_GasPriceMultiplier args, gs_latestGasPrice = -1, gs_fetchRetries = 0 \<rparr>)"

record ('r, 'w) gas_env =
  gas_newRequest :: "string \<Rightarrow> go_error + 'r"
  gas_do :: "int \<Rightarrow> 'r \<Rightarrow> ('w, go_error + http_response) prog"
  gas_closeBody :: "http_response \<Rightarrow> 'w \<Rightarrow> 'w"
  gas_decode :: "string \<Rightarrow> go_error + gasStationResult"
  gas_quote :: "string \<Rightarrow> string"

text \<open>The status code of the answer is not looked at; the body is closed on every path.\<close>

definition gas_doRequestReturningBytes :: "('r, 'w) gas_env \<Rightarrow> gasStation \<Rightarrow> ('w, go_error + string) prog" where
  "gas_doRequestReturningBytes env gs w =
     (case gas_newRequest env (gs_requestURL gs) of
        Inl err \<Rightarrow> Some (Inl err, w)
      | Inr request \<Rightarrow> do {
          (r, w) \<leftarrow> gas_do env (gs_requestTime gs) request w;
          (case r of
             Inl err \<Rightarrow> Some (Inl err, w)
           | Inr response \<Rightarrow> do {
               let w = gas_closeBody env response w;
               (case readAll (rsp_Body response) of
                  (body, Some err) \<Rightarrow> Some (Inl err, w)
                | (body, None) \<Rightarrow> Some (Inr body, w))
             })
        })"

text \<open>The latest price is invalidated before the answer is scanned.\<close>

definition gas_doRequest :: "('r, 'w) gas_env \<Rightarrow> (gasStation \<times> 'w, go_error option) prog" where
  "gas_doRequest env = (\<lambda>(gs, w). do {
     (r, w) \<leftarrow> gas_doRequestReturningBytes env gs w;
     (case r of
        Inl err \<Rightarrow> Some (Some (Wrapped err ('': '' @ gas_quote env [])), (gs, w))
      | Inr body \<Rightarrow>
     (case gas_decode env body of
        Inl err \<Rightarrow> Some (Some (Wrapped err ('': '' @ gas_quote env body)), (gs, w))
      | Inr response \<Rightarrow>
          (let scanned =
             (if gs_gasPriceSelector gs = EthFastGasPrice then scanInt (FastGasPrice response)
              else if gs_gasPriceSelector gs = EthProposeGasPrice then scanInt (ProposeGasPrice response)
              else if gs_gasPriceSelector gs = EthSafeGasPrice then scanInt (SafeGasPrice response)
              else Inl (Wrapped ErrInvalidGasPriceSelector ('': '' @ gas_quote env (gs_gasPriceSelector gs)))) in
           case scanned of
             Inl err \<Rightarrow> Some (Some (Wrapped err ('': '' @ gas_quote env body)), (gs\<lparr>gs_latestGasPrice := -1\<rparr>, w))
           | Inr price \<Rightarrow> Some (None, (gs\<lparr>gs_latestGasPrice := price\<rparr>, w)))))
   })"

definition doRequestWithRetryMechanism :: "('r, 'w) gas_env \<Rightarrow> (gasStation \<times> 'w, int) prog" where
  "doRequestWithRetryMechanism env s = do {
     (err, s) \<leftarrow> gas_doRequest env s;
     let gs = fst s;
     (if err = None then Some (gs_requestPollingInterval gs, (gs\<lparr>gs_fetchRetries := 0\<rparr>, snd s))
      else do {
        let gs = gs\<lparr>gs_fetchRetries := gs_fetchRetries gs + 1\<rparr>;
        (if gs_fetchRetries gs \<le> gs_maximumFetchRetries gs then Some (gs_requestRetryDelay gs, (gs, snd s))
         else Some (gs_requestPollingInterval gs, (gs\<lparr>gs_fetchRetries := 0\<rparr>, snd s)))
      })
   }"

text \<open>
  The goroutine runs until its context ends: \<open>rounds\<close> requests with the waits between them, whose
  delays are returned. \<open>wait\<close> is the select between the timer and the end of the context.
\<close>

fun gasProcessLoop :: "('r, 'w) gas_env \<Rightarrow> (int \<Rightarrow> 'w \<Rightarrow> 'w) \<Rightarrow> nat \<Rightarrow> (gasStation \<times> 'w, int list) prog" where
  "gasProcessLoop env wait 0 s = Some ([], s)"
| "gasProcessLoop env wait (Suc rounds) s = do {
     (delay, s) \<leftarrow> doRequestWithRetryMechanism env s;
     (delays, s) \<leftarrow> gasProcessLoop env wait rounds (fst s, wait delay (snd s));
     Some (delay # delays, s)
   }"

definition GetCurrentGasPrice :: "gasStation \<Rightarrow> int \<times> go_error option" where
  "GetCurrentGasPrice gs =
     (if gs_latestGasPrice gs = -1 then (0, Some ErrLatestGasPricesWereNotFetched)
      else if gs_latestGasPrice gs > gs_maximumGasPrice gs
        then (0, Some (Wrapped ErrGasPriceIsHigherThanTheMaximumSet ('' maximum value: '' @ dec_int (gs_maximumGasPrice gs) @
               '', fetched value: '' @ dec_int (gs_latestGasPrice gs) @ '', gas price selector: '' @
               gs_gasPriceSelector gs)))
      else (gs_latestGasPrice gs * gs_gasPriceMultiplier gs, None))"

definition disabled_GetCurrentGasPrice :: "int \<times> go_error option" where
  "disabled_GetCurrentGasPrice = (0, None)"

text \<open>
  The factory of the station: with the station disabled every price is zero.
\<close>

datatype gasHandler = GasStation gasStation | DisabledGasStation

definition CreateGasStation :: "(string \<Rightarrow> string) \<Rightarrow> ArgsGasStation \<Rightarrow> bool \<Rightarrow> go_error + gasHandler" where
  "CreateGasStation quote args enabled =
     (if enabled then (case NewGasStation quote args of Inl err \<Rightarrow> Inl err | Inr gs \<Rightarrow> Inr (GasStation gs))
      else Inr DisabledGasStation)"

text \<open>The client that asks for the price does not use the value returned beside an error.\<close>

definition price_or_error :: "int \<times> go_error option \<Rightarrow> go_error + int" where
  "price_or_error = (\<lambda>(price, err). case err of Some e \<Rightarrow> Inl e | None \<Rightarrow> Inr price)"

fun gasHandler_GetCurrentGasPrice :: "gasHandler \<Rightarrow> go_error + int" where
  "gasHandler_GetCurrentGasPrice (GasStation gs) = price_or_error (GetCurrentGasPrice gs)"
| "gasHandler_GetCurrentGasPrice DisabledGasStation = price_or_error disabled_GetCurrentGasPrice"

section \<open>The price that is handed out\<close>

text \<open>
  The answers of the service that a run of the loop could fetch and decode, in order, and the price a
  selector names in an answer.
\<close>

definition round_answer :: "('r, 'w) gas_env \<Rightarrow> gasStation \<times> 'w \<Rightarrow> gasStationResult list" where
  "round_answer env = (\<lambda>(gs, w).
     case gas_doRequestReturningBytes env gs w of
       Some (Inr body, w') \<Rightarrow> (case gas_decode env body of Inr answer \<Rightarrow> [answer] | Inl err \<Rightarrow> [])
     | _ \<Rightarrow> [])"

fun gas_answers :: "('r, 'w) gas_env \<Rightarrow> (int \<Rightarrow> 'w \<Rightarrow> 'w) \<Rightarrow> nat \<Rightarrow> gasStation \<times> 'w \<Rightarrow> gasStationResult list" where
  "gas_answers env wait 0 s = []"
| "gas_answers env wait (Suc rounds) s =
     round_answer env s @
     (case doRequestWithRetryMechanism env s of
        None \<Rightarrow> []
      | Some (delay, s') \<Rightarrow> gas_answers env wait rounds (fst s', wait delay (snd s')))"

definition selected_price :: "string \<Rightarrow> gasStationResult \<Rightarrow> int option" where
  "selected_price selector answer =
     (case scanInt ((if selector = ''FastGasPrice'' then FastGasPrice
                     else if selector = ''ProposeGasPrice'' then ProposeGasPrice else SafeGasPrice) answer) of
        Inl err \<Rightarrow> None | Inr price \<Rightarrow> Some price)"

definition last_price :: "string \<Rightarrow> gasStationResult list \<Rightarrow> int option" where
  "last_price selector answers = (if answers = [] then None else selected_price selector (last answers))"

definition valid_selector :: "string \<Rightarrow> bool" where
  "valid_selector s \<longleftrightarrow> s \<in> {EthFastGasPrice, EthProposeGasPrice, EthSafeGasPrice}"

lemma round_price:
  assumes "doRequestWithRetryMechanism env (gs, w) = Some (delay, (gs1, w1))" "valid_selector (gs_gasPriceSelector gs)"
  shows "gs_latestGasPrice gs1 = (case round_answer env (gs, w) of [] \<Rightarrow> gs_latestGasPrice gs
      | a # as \<Rightarrow> (case selected_price (gs_gasPriceSelector gs) a of None \<Rightarrow> -1 | Some price \<Rightarrow> price))"
    and "gs_gasPriceSelector gs1 = gs_gasPriceSelector gs" "gs_maximumGasPrice gs1 = gs_maximumGasPrice gs"
      "gs_gasPriceMultiplier gs1 = gs_gasPriceMultiplier gs"
proof -
  obtain err gs2 where req: "gas_doRequest env (gs, w) = Some (err, (gs2, w1))"
    and gs1: "gs_latestGasPrice gs1 = gs_latestGasPrice gs2" "gs_gasPriceSelector gs1 = gs_gasPriceSelector gs2"
      "gs_maximumGasPrice gs1 = gs_maximumGasPrice gs2" "gs_gasPriceMultiplier gs1 = gs_gasPriceMultiplier gs2"
    using assms(1) by (auto simp: doRequestWithRetryMechanism_def Let_def split: bind_splits if_splits)
  obtain r v where r: "gas_doRequestReturningBytes env gs w = Some (r, v)"
    using req by (cases "gas_doRequestReturningBytes env gs w") (auto simp: gas_doRequest_def)
  show "gs_latestGasPrice gs1 = (case round_answer env (gs, w) of [] \<Rightarrow> gs_latestGasPrice gs
      | a # as \<Rightarrow> (case selected_price (gs_gasPriceSelector gs) a of None \<Rightarrow> -1 | Some price \<Rightarrow> price))"
    "gs_gasPriceSelector gs1 = gs_gasPriceSelector gs" "gs_maximumGasPrice gs1 = gs_maximumGasPrice gs"
      "gs_gasPriceMultiplier gs1 = gs_gasPriceMultiplier gs"
    using req assms(2)
    by (auto simp: gs1 gas_doRequest_def r round_answer_def Let_def selected_price_def valid_selector_def
      EthFastGasPrice_def EthProposeGasPrice_def EthSafeGasPrice_def split: sum.splits if_splits)
qed

lemma loop_price:
  assumes "gasProcessLoop env wait rounds (gs, w) = Some (delays, (gs', w'))" "valid_selector (gs_gasPriceSelector gs)"
  shows "gs_latestGasPrice gs' = (if gas_answers env wait rounds (gs, w) = [] then gs_latestGasPrice gs
      else (case last_price (gs_gasPriceSelector gs) (gas_answers env wait rounds (gs, w)) of
              None \<Rightarrow> -1 | Some price \<Rightarrow> price)) \<and>
    gs_gasPriceSelector gs' = gs_gasPriceSelector gs \<and> gs_maximumGasPrice gs' = gs_maximumGasPrice gs \<and>
    gs_gasPriceMultiplier gs' = gs_gasPriceMultiplier gs"
  using assms
proof (induction rounds arbitrary: gs w delays)
  case (Suc rounds)
  obtain d gs1 w1 ds where step: "doRequestWithRetryMechanism env (gs, w) = Some (d, (gs1, w1))"
    and rest: "gasProcessLoop env wait rounds (gs1, wait d w1) = Some (ds, (gs', w'))"
    using Suc.prems(1) by (auto split: bind_splits)
  note one = round_price [OF step Suc.prems(2)]
  have "length (round_answer env (gs, w)) \<le> 1"
    by (auto simp: round_answer_def split: option.split sum.split prod.split)
  then have "round_answer env (gs, w) = [] \<or> (\<exists>a. round_answer env (gs, w) = [a])"
    by (cases "round_answer env (gs, w)") auto
  then show ?case
    using Suc.IH [OF rest] Suc.prems(2) step by (auto simp: one last_price_def)
qed simp

text \<open>
  C38. Take a station as it is created and any number of rounds of its loop. The price handed out
  afterwards is the one the configured selector names in the last answer that could be fetched and
  decoded, times the multiplier, when that price was a number (other than -1) up to the configured
  maximum; so it is at most the maximum times the multiplier. A number above the maximum gives the error that
  says so, and so does the lack of an answer or of a number in the last one, each beside a zero price.
  Rounds whose request fails, or whose answer cannot be decoded, leave the price as it was.
\<close>

theorem GetCurrentGasPrice_bounded:
  assumes "NewGasStation quote args = Inr gs0"
    and "gasProcessLoop env wait rounds (gs0, w) = Some (delays, (gs, w'))"
  shows "\<exists>result err. GetCurrentGasPrice gs = (result, err) \<and>
    (case last_price (arg_GasPriceSelector args) (gas_answers env wait rounds (gs0, w)) of
       None \<Rightarrow> result = 0 \<and> err = Some ErrLatestGasPricesWereNotFetched
     | Some p \<Rightarrow>
         if p = -1 then result = 0 \<and> err = Some ErrLatestGasPricesWereNotFetched
         else if p \<le> arg_MaximumGasPrice args then result = p * arg_GasPriceMultiplier args \<and> err = None
         else result = 0 \<and> (\<exists>text. err = Some (Wrapped ErrGasPriceIsHigherThanTheMaximumSet text))) \<and>
    (err = None \<longrightarrow> result \<le> arg_MaximumGasPrice args * arg_GasPriceMultiplier args)"
proof -
  have new: "gs_maximumGasPrice gs0 = arg_MaximumGasPrice args" "gs_gasPriceSelector gs0 = arg_GasPriceSelector args"
    "gs_gasPriceMultiplier gs0 = arg_GasPriceMultiplier args" "gs_latestGasPrice gs0 = -1"
    "valid_selector (gs_gasPriceSelector gs0)" "1 \<le> arg_GasPriceMultiplier args"
    using assms(1) by (auto simp: NewGasStation_def gas_checkArgs_def minGasPriceMultiplier_def valid_selector_def
      split: option.splits if_splits)
  note run = loop_price [OF assms(2) new(5)]
  have "gs_latestGasPrice gs = (case last_price (arg_GasPriceSelector args) (gas_answers env wait rounds (gs0, w)) of
      None \<Rightarrow> -1 | Some p \<Rightarrow> p)"
    using run by (simp add: last_price_def new)
  moreover have "p * arg_GasPriceMultiplier args \<le> arg_MaximumGasPrice args * arg_GasPriceMultiplier args"
    if "\<not> arg_MaximumGasPrice args < p" for p
    using that new(6) by (intro mult_right_mono) simp_all
  ultimately show ?thesis
    using run by (auto simp: GetCurrentGasPrice_def new split: option.splits)
qed

definition demo_gas_args :: ArgsGasStation where
  "demo_gas_args = \<lparr> arg_RequestURL = ''u'', arg_RequestPollingInterval = 60000000000,
     arg_RequestRetryDelay = 5000000000, arg_MaximumFetchRetries = 3, arg_RequestTime = 2000000000,
     arg_MaximumGasPrice = 100, arg_GasPriceSelector = ''SafeGasPrice'', arg_GasPriceMultiplier = 1000000000 \<rparr>"

definition demo_gas :: gasStation where
  "demo_gas = (case NewGasStation id demo_gas_args of Inr gs \<Rightarrow> gs)"

lemma demo_gas_new: "NewGasStation id demo_gas_args = Inr demo_gas"
  by (simp add: demo_gas_def NewGasStation_def gas_checkArgs_def demo_gas_args_def minPollingInterval_def
    minRequestTime_def minGasPriceMultiplier_def minFetchRetries_def EthSafeGasPrice_def EthFastGasPrice_def
    EthProposeGasPrice_def)

text \<open>
  A service that answers its first request with the prices 40, 42 and 45, and whose second request
  times out; the safe price is selected.
\<close>

definition demo_gas_service :: "(string, nat) gas_env" where
  "demo_gas_service = \<lparr> gas_newRequest = Inr,
     gas_do = (\<lambda>t request n. if n = 0 then Some (Inr \<lparr> rsp_StatusCode = 200, rsp_Status = ''200 OK'', rsp_Body = Body ''body'' None \<rparr>, 1)
                            else Some (Inl (Plain ''timeout''), Suc n)),
     gas_closeBody = (\<lambda>r w. w),
     gas_decode = (\<lambda>body. Inr \<lparr> SafeGasPrice = ''40'', ProposeGasPrice = ''42'', FastGasPrice = ''45'' \<rparr>), gas_quote = id \<rparr>"

lemma demo_gas_run:
  "gasProcessLoop demo_gas_service (\<lambda>d w. w) 2 (demo_gas, 0) \<noteq> None"
  "gas_answers demo_gas_service (\<lambda>d w. w) 2 (demo_gas, 0) =
    [\<lparr> SafeGasPrice = ''40'', ProposeGasPrice = ''42'', FastGasPrice = ''45'' \<rparr>]"
  by code_simp+

theorem GetCurrentGasPrice_bounded_witness:
  "\<exists>delays gs w'. gasProcessLoop demo_gas_service (\<lambda>d w. w) 2 (demo_gas, 0) = Some (delays, (gs, w')) \<and>
    GetCurrentGasPrice gs = (40000000000, None) \<and> (40000000000 :: int) \<le> 100 * 1000000000"
proof -
  obtain delays gs w' where run: "gasProcessLoop demo_gas_service (\<lambda>d w. w) 2 (demo_gas, 0) = Some (delays, (gs, w'))"
    using demo_gas_run(1) by auto
  have "selected_price (arg_GasPriceSelector demo_gas_args)
      \<lparr> SafeGasPrice = ''40'', ProposeGasPrice = ''42'', FastGasPrice = ''45'' \<rparr> = Some 40"
    by code_simp
  then show ?thesis
    using GetCurrentGasPrice_bounded [OF demo_gas_new run] run by (auto simp: demo_gas_run(2) demo_gas_args_def last_price_def)
qed

lemma retry_step:
  assumes "gas_doRequest env s = Some (Some err, s1)" "0 \<le> gs_fetchRetries (fst s)"
    and "gs_fetchRetries (fst s) \<le> gs_maximumFetchRetries (fst s)"
  shows "\<exists>t. doRequestWithRetryMechanism env s =
      Some (if gs_fetchRetries (fst s) < gs_maximumFetchRetries (fst s)
            then gs_requestRetryDelay (fst s) else gs_requestPollingInterval (fst s), t) \<and>
    gs_fetchRetries (fst t) = (gs_fetchRetries (fst s) + 1) mod (gs_maximumFetchRetries (fst s) + 1) \<and>
    gs_maximumFetchRetries (fst t) = gs_maximumFetchRetries (fst s) \<and>
    gs_requestRetryDelay (fst t) = gs_requestRetryDelay (fst s) \<and>
    gs_requestPollingInterval (fst t) = gs_requestPollingInterval (fst s)"
proof -
  obtain gs w where s: "s = (gs, w)" by (cases s)
  have keep: "gs_fetchRetries (fst s1) = gs_fetchRetries gs" "gs_maximumFetchRetries (fst s1) = gs_maximumFetchRetries gs"
    "gs_requestRetryDelay (fst s1) = gs_requestRetryDelay gs" "gs_requestPollingInterval (fst s1) = gs_requestPollingInterval gs"
    using assms(1)
    by (cases "gas_doRequestReturningBytes env gs w";
        auto simp: s gas_doRequest_def Let_def split: sum.splits)+
  have wrap: "(gs_fetchRetries gs + 1) mod (gs_maximumFetchRetries gs + 1) = 0"
    if "\<not> gs_fetchRetries gs + 1 \<le> gs_maximumFetchRetries gs"
  proof -
    from that have "gs_fetchRetries gs = gs_maximumFetchRetries gs"
      using assms(3) by (simp add: s)
    then show ?thesis by simp
  qed
  show ?thesis
    using assms by (auto simp: doRequestWithRetryMechanism_def s keep Let_def wrap)
qed

definition always_fails :: "('r, 'w) gas_env \<Rightarrow> bool" where
  "always_fails env \<longleftrightarrow> (\<forall>gs w. \<exists>r w1. gas_doRequestReturningBytes env gs w = Some (r, w1) \<and>
     (\<forall>body. r = Inr body \<longrightarrow> (\<exists>err. gas_decode env body = Inl err)))"

lemma always_fails_doRequest:
  assumes "always_fails env"
  shows "\<exists>err s1. gas_doRequest env s = Some (Some err, s1)"
proof -
  obtain gs w where s: "s = (gs, w)" by (cases s)
  obtain r w1 where r: "gas_doRequestReturningBytes env gs w = Some (r, w1)"
    "\<forall>body. r = Inr body \<longrightarrow> (\<exists>err. gas_decode env body = Inl err)"
    using assms unfolding always_fails_def by blast
  show ?thesis
    using r by (cases r) (auto simp: s gas_doRequest_def)
qed

lemma gasProcessLoop_failing:
  assumes "always_fails env" "0 \<le> gs_fetchRetries (fst s)"
    and "gs_fetchRetries (fst s) \<le> gs_maximumFetchRetries (fst s)"
  shows "\<exists>t. gasProcessLoop env wait rounds s =
      Some (map (\<lambda>i. if (gs_fetchRetries (fst s) + int i) mod (gs_maximumFetchRetries (fst s) + 1) < gs_maximumFetchRetries (fst s)
                     then gs_requestRetryDelay (fst s) else gs_requestPollingInterval (fst s)) [0..<rounds], t)"
  using assms(2,3)
proof (induction rounds arbitrary: s)
  case 0
  then show ?case by simp
next
  case (Suc rounds)
  let ?m = "gs_maximumFetchRetries (fst s)"
  obtain err s1 where "gas_doRequest env s = Some (Some err, s1)"
    using always_fails_doRequest [OF assms(1)] by blast
  then obtain t where t: "doRequestWithRetryMechanism env s =
      Some (if gs_fetchRetries (fst s) < ?m then gs_requestRetryDelay (fst s) else gs_requestPollingInterval (fst s), t)"
    and k: "gs_fetchRetries (fst t) = (gs_fetchRetries (fst s) + 1) mod (?m + 1)"
      "gs_maximumFetchRetries (fst t) = ?m" "gs_requestRetryDelay (fst t) = gs_requestRetryDelay (fst s)"
      "gs_requestPollingInterval (fst t) = gs_requestPollingInterval (fst s)"
    using retry_step Suc.prems by blast
  have rng: "0 \<le> gs_fetchRetries (fst t)" "gs_fetchRetries (fst t) \<le> ?m"
    using Suc.prems pos_mod_bound [of "?m + 1" "gs_fetchRetries (fst s) + 1"] by (simp_all add: k)
  have now: "gs_fetchRetries (fst s) mod (?m + 1) = gs_fetchRetries (fst s)"
    using Suc.prems by simp
  have shift: "((gs_fetchRetries (fst s) + 1) mod (?m + 1) + int i) mod (?m + 1) = (gs_fetchRetries (fst s) + int (Suc i)) mod (?m + 1)" for i
    by (simp only: mod_add_left_eq) (simp add: ac_simps)
  define d where "d = (if gs_fetchRetries (fst s) < ?m then gs_requestRetryDelay (fst s) else gs_requestPollingInterval (fst s))"
  obtain u where u: "gasProcessLoop env wait rounds (fst t, wait d (snd t)) =
     Some (map (\<lambda>i. if (gs_fetchRetries (fst s) + int (Suc i)) mod (?m + 1) < ?m
                     then gs_requestRetryDelay (fst s) else gs_requestPollingInterval (fst s)) [0..<rounds], u)"
    using Suc.IH [of "(fst t, wait d (snd t))"] rng by (auto simp: k shift)
  have run: "gasProcessLoop env wait (Suc rounds) s = Some (d # map (\<lambda>i. if (gs_fetchRetries (fst s) + int (Suc i)) mod (?m + 1) < ?m
                     then gs_requestRetryDelay (fst s) else gs_requestPollingInterval (fst s)) [0..<rounds], u)"
    unfolding gasProcessLoop.simps t [folded d_def] by (simp only: bind.simps prod.case u)
  have upt: "[0..<Suc rounds] = 0 # map Suc [0..<rounds]"
    unfolding map_Suc_upt by (rule upt_conv_Cons) simp
  have first: "d = (if (gs_fetchRetries (fst s) + int 0) mod (?m + 1) < ?m
      then gs_requestRetryDelay (fst s) else gs_requestPollingInterval (fst s))"
    using now by (simp add: d_def)
  show ?case
    unfolding run upt list.map map_map comp_def first by blast
qed

text \<open>
  While the service keeps failing, the station retries quickly at most as often as configured
  and then falls back to the slow polling interval, over and over: of any series of failed requests
  the one number \<open>i\<close> is followed by the retry delay exactly when \<open>i\<close> modulo the maximum plus one is
  below the maximum.
\<close>


theorem failing_requests_delays:
  assumes "NewGasStation quote args = Inr gs" "always_fails env"
  shows "\<exists>s. gasProcessLoop env wait rounds (gs, w) =
      Some (map (\<lambda>i. if int i mod (arg_MaximumFetchRetries args + 1) < arg_MaximumFetchRetries args
                     then arg_RequestRetryDelay args else arg_RequestPollingInterval args) [0..<rounds], s)"
proof -
  have gs: "gs_fetchRetries gs = 0" "gs_maximumFetchRetries gs = arg_MaximumFetchRetries args"
    "gs_requestRetryDelay gs = arg_RequestRetryDelay args" "gs_requestPollingInterval gs = arg_RequestPollingInterval args"
    "0 \<le> arg_MaximumFetchRetries args"
    using assms(1) by (auto simp: NewGasStation_def gas_checkArgs_def minFetchRetries_def
      split: option.splits if_splits)
  show ?thesis
    using gasProcessLoop_failing [OF assms(2), of "(gs, w)" wait rounds]
    by (simp only: gs fst_conv add_0 order_refl simp_thms)
qed

definition demo_gas_env :: "(string, unit) gas_env" where
  "demo_gas_env = \<lparr> gas_newRequest = Inr, gas_do = (\<lambda>t request w. Some (Inl (Plain ''timeout''), w)), gas_closeBody = (\<lambda>r w. w),
     gas_decode = (\<lambda>body. Inl (Plain ''empty'')), gas_quote = quoted \<rparr>"

theorem failing_requests_delays_witness:
  "\<exists>s. gasProcessLoop demo_gas_env (\<lambda>d w. w) 5 (demo_gas, ()) =
     Some ([5000000000, 5000000000, 5000000000, 60000000000, 5000000000], s)"
proof -
  have "always_fails demo_gas_env"
    by (simp add: always_fails_def demo_gas_env_def gas_doRequestReturningBytes_def)
  from failing_requests_delays [OF demo_gas_new this, of "\<lambda>d w. w" 5 "()"] show ?thesis
    by (simp add: demo_gas_args_def upt_rec)
qed

end
