(* ===== verification/Relayer_World.thy ===== *)
theory Relayer_World
  imports Relayer_Config Eth_Client Relayer_P2P Role_Providers Signatures_Holder Status_Metrics Gas_Station
begin

text \<open>
  The memory that the goroutines of one relayer share, and the components of the relayer as objects
  in it: a component is a record of the parts that do not change, its changing fields are cells of the
  world. This is the world over which the factory assembles the clients and the executors.
\<close>

section \<open>The shared memory\<close>

text \<open>
  \<open>rw_received\<close> is an auxiliary history of the messages that the network delivered: nothing reads it.
\<close>

record 'x relayer_world =
  rw_mxRelayers :: "(bytes, unit) gomap"
  rw_ethRelayers :: "(bytes, unit) gomap"
  rw_counter :: u64
  rw_nonces :: noncesOfPublicKeys
  rw_signatures :: signaturesHolder
  rw_gas :: gasHandler
  rw_ethMetrics :: statusHandlerPersistenceData
  rw_mxMetrics :: statusHandlerPersistenceData
  rw_mxCells :: mx_cells
  rw_ethCells :: eth_cells
  rw_received :: "MessageP2P list"
  rw_outside :: 'x

text \<open>A change that does not reach into the relayer's memory.\<close>

definition outside_only :: "'x relayer_world \<Rightarrow> 'x relayer_world \<Rightarrow> bool" where
  "outside_only w w' \<longleftrightarrow> (\<exists>x. w' = w\<lparr>rw_outside := x\<rparr>)"

section \<open>Role providers\<close>

text \<open>A poll that fails does not write the whitelist.\<close>

definition mrp_at :: "'x relayer_world \<Rightarrow> 'w multiversXRoleProvider \<Rightarrow> 'w multiversXRoleProvider" where
  "mrp_at w rp = rp\<lparr>mrp_whitelistedAddresses := rw_mxRelayers w\<rparr>"

definition mrp_whitelists :: "'w multiversXRoleProvider \<Rightarrow> 'x relayer_world \<Rightarrow> bytes \<Rightarrow> bool" where
  "mrp_whitelists rp w pk = mrp_IsWhitelisted (mrp_at w rp) (Some pk)"

definition mrp_keys :: "((bytes \<times> unit) list \<Rightarrow> (bytes \<times> unit) list) \<Rightarrow> 'w multiversXRoleProvider
    \<Rightarrow> 'x relayer_world \<Rightarrow> bytes list" where
  "mrp_keys ord rp w = mrp_SortedPublicKeys ord (mrp_at w rp)"

definition mrp_poll :: "(bytes \<Rightarrow> bool) \<Rightarrow> 'x relayer_world multiversXRoleProvider
    \<Rightarrow> ('x relayer_world, go_error option) prog" where
  "mrp_poll isValid rp w = do {
     (err, (rp, w)) \<leftarrow> mrp_Execute isValid (mrp_at w rp, w);
     Some (err, if err = None then w\<lparr>rw_mxRelayers := mrp_whitelistedAddresses rp\<rparr> else w)
   }"

text \<open>
  The rest of a poll once its query is answered, which runs without another call that leaves the
  process: \<^verbatim>\<open>Execute\<close> with this answer in place of the query. A poll is its query and this rest.
\<close>

definition mrp_finish :: "(bytes \<Rightarrow> bool) \<Rightarrow> 'x relayer_world multiversXRoleProvider \<Rightarrow> go_error + bytes list
    \<Rightarrow> ('x relayer_world, go_error option) prog" where
  "mrp_finish isValid rp answer w = do {
     (err, (rp, w)) \<leftarrow> mrp_Execute isValid ((mrp_at w rp)\<lparr>mrp_dataGetter := (\<lambda>w. Some (answer, w))\<rparr>, w);
     Some (err, w\<lparr>rw_mxRelayers := mrp_whitelistedAddresses rp\<rparr>)
   }"

lemma mrp_poll_finish: "mrp_poll isValid rp w = mrp_dataGetter rp w \<bind> (\<lambda>(r, v). mrp_finish isValid rp r v)"
  by (cases "mrp_dataGetter rp w")
     (auto simp: mrp_poll_def mrp_finish_def mrp_Execute_def mrp_processResults_def mrp_at_def split: sum.split)

definition erp_at :: "'x relayer_world \<Rightarrow> 'w ethereumRoleProvider \<Rightarrow> 'w ethereumRoleProvider" where
  "erp_at w rp = rp\<lparr>erp_whitelistedAddresses := rw_ethRelayers w\<rparr>"

definition erp_verifies :: "'pk eth_crypto \<Rightarrow> 'w ethereumRoleProvider \<Rightarrow> 'x relayer_world \<Rightarrow> bytes \<Rightarrow> bytes
    \<Rightarrow> go_error option" where
  "erp_verifies crypto rp w = VerifyEthSignature crypto (erp_at w rp)"

definition erp_poll :: "'x relayer_world ethereumRoleProvider \<Rightarrow> ('x relayer_world, go_error option) prog" where
  "erp_poll rp w = do {
     (err, (rp, w)) \<leftarrow> erp_Execute (erp_at w rp, w);
     Some (err, if err = None then w\<lparr>rw_ethRelayers := erp_whitelistedAddresses rp\<rparr> else w)
   }"

definition erp_finish :: "'x relayer_world ethereumRoleProvider \<Rightarrow> go_error + bytes list
    \<Rightarrow> ('x relayer_world, go_error option) prog" where
  "erp_finish rp answer w = do {
     (err, (rp, w)) \<leftarrow> erp_Execute ((erp_at w rp)\<lparr>erp_ethereumChainInteractor := (\<lambda>w. Some (answer, w))\<rparr>, w);
     Some (err, w\<lparr>rw_ethRelayers := erp_whitelistedAddresses rp\<rparr>)
   }"

lemma erp_poll_finish: "erp_poll rp w = erp_ethereumChainInteractor rp w \<bind> (\<lambda>(r, v). erp_finish rp r v)"
  by (cases "erp_ethereumChainInteractor rp w")
     (auto simp: erp_poll_def erp_finish_def erp_Execute_def erp_processResults_def erp_at_def split: sum.split)

section \<open>The signatures holder\<close>

definition holder_client :: "((bytes \<times> SignedMessage) list \<Rightarrow> (bytes \<times> SignedMessage) list)
    \<Rightarrow> 'x relayer_world BroadcastClient" where
  "holder_client ord = \<lparr>
     bc_ProcessNewMessage = (\<lambda>msg ethMsg w. w\<lparr>rw_signatures := ProcessNewMessage msg ethMsg (rw_signatures w)\<rparr>),
     bc_AllStoredSignatures = (\<lambda>w. AllStoredSignatures ord (rw_signatures w)) \<rparr>"

definition held_signatures :: "((bytes \<times> unit) list \<Rightarrow> (bytes \<times> unit) list) \<Rightarrow> bytes \<Rightarrow> 'x relayer_world \<Rightarrow> bytes list" where
  "held_signatures ord msgHash w = Signatures ord (rw_signatures w) msgHash"

definition clear_signatures :: "'x relayer_world \<Rightarrow> 'x relayer_world" where
  "clear_signatures w = w\<lparr>rw_signatures := ClearStoredSignatures (rw_signatures w)\<rparr>"

section \<open>The broadcaster\<close>

text \<open>The counter and the nonces change; the clients are registered before the broadcaster is used.\<close>

definition br_at :: "'x relayer_world \<Rightarrow> 'w broadcaster \<Rightarrow> 'w broadcaster" where
  "br_at w b = b\<lparr>br_counter := rw_counter w, br_nonces := rw_nonces w\<rparr>"

definition br_put :: "'w broadcaster \<Rightarrow> 'x relayer_world \<Rightarrow> 'x relayer_world" where
  "br_put b w = w\<lparr>rw_counter := br_counter b, rw_nonces := br_nonces b\<rparr>"

definition br_call :: "('x relayer_world p2p_state, 'a) prog \<Rightarrow> 'x relayer_world broadcaster
    \<Rightarrow> ('x relayer_world, 'a) prog" where
  "br_call f b w = do { (r, (b, w)) \<leftarrow> f (br_at w b, w); Some (r, br_put b w) }"

definition br_receive :: "((bytes \<times> SignedMessage) list \<Rightarrow> (bytes \<times> SignedMessage) list)
    \<Rightarrow> 'x relayer_world broadcaster \<Rightarrow> MessageP2P \<Rightarrow> bytes \<Rightarrow> ('x relayer_world, go_error option) prog" where
  "br_receive ord b message peer w = do {
     (err, w') \<leftarrow> br_call (ProcessReceivedMessage ord message peer) b w;
     Some (err, w'\<lparr>rw_received := message # rw_received w'\<rparr>)
   }"

section \<open>Status handlers\<close>

text \<open>A status handler with its metrics in a cell of the world, read by \<open>get\<close> and written by \<open>put\<close>.\<close>

definition sth_at :: "statusHandlerPersistenceData \<Rightarrow> ('b, 'w) statusHandler \<Rightarrow> ('b, 'w) statusHandler" where
  "sth_at m sh = sh\<lparr>sth_intMetrics := IntMetrics m, sth_stringMetrics := StringMetrics m\<rparr>"

definition sth_metrics :: "('b, 'w) statusHandler \<Rightarrow> statusHandlerPersistenceData" where
  "sth_metrics sh = \<lparr> IntMetrics = sth_intMetrics sh, StringMetrics = sth_stringMetrics sh \<rparr>"

definition status_call :: "('w \<Rightarrow> statusHandlerPersistenceData) \<Rightarrow> (statusHandlerPersistenceData \<Rightarrow> 'w \<Rightarrow> 'w)
    \<Rightarrow> ('b, 'w) statusHandler \<Rightarrow> (('b, 'w) statusHandler \<times> 'w \<Rightarrow> ('b, 'w) statusHandler \<times> 'w) \<Rightarrow> 'w \<Rightarrow> 'w" where
  "status_call get put sh f w = (let (sh, w) = f (sth_at (get w) sh, w) in put (sth_metrics sh) w)"

definition status_interface :: "('w \<Rightarrow> statusHandlerPersistenceData) \<Rightarrow> (statusHandlerPersistenceData \<Rightarrow> 'w \<Rightarrow> 'w)
    \<Rightarrow> ('b, 'w) statusHandler \<Rightarrow> 'w StatusHandler" where
  "status_interface get put sh = \<lparr>
     sh_SetIntMetric = (\<lambda>metric val. status_call get put sh (SetIntMetric metric val)),
     sh_AddIntMetric = (\<lambda>metric delta. status_call get put sh (AddIntMetric metric delta)),
     sh_SetStringMetric = (\<lambda>metric val. status_call get put sh (SetStringMetric metric val)) \<rparr>"

definition ethMetrics_put :: "statusHandlerPersistenceData \<Rightarrow> 'x relayer_world \<Rightarrow> 'x relayer_world" where
  "ethMetrics_put m w = w\<lparr>rw_ethMetrics := m\<rparr>"

definition mxMetrics_put :: "statusHandlerPersistenceData \<Rightarrow> 'x relayer_world \<Rightarrow> 'x relayer_world" where
  "mxMetrics_put m w = w\<lparr>rw_mxMetrics := m\<rparr>"

section \<open>The clients and the gas station\<close>

definition mxCells_put :: "mx_cells \<Rightarrow> 'x relayer_world \<Rightarrow> 'x relayer_world" where
  "mxCells_put m w = w\<lparr>rw_mxCells := m\<rparr>"

definition ethCells_put :: "eth_cells \<Rightarrow> 'x relayer_world \<Rightarrow> 'x relayer_world" where
  "ethCells_put m w = w\<lparr>rw_ethCells := m\<rparr>"

definition current_gas_price :: "'x relayer_world \<Rightarrow> go_error + int" where
  "current_gas_price w = gasHandler_GetCurrentGasPrice (rw_gas w)"

text \<open>One round of the gas station's goroutine; a disabled station has none.\<close>

definition gas_round :: "('r, 'x relayer_world) gas_env \<Rightarrow> ('x relayer_world, int) prog" where
  "gas_round env w =
     (case rw_gas w of
        DisabledGasStation \<Rightarrow> None
      | GasStation gs \<Rightarrow> do {
          (delay, (gs, w)) \<leftarrow> doRequestWithRetryMechanism env (gs, w);
          Some (delay, w\<lparr>rw_gas := GasStation gs\<rparr>)
        })"

end
