(* ===== verification/Eth_To_Mx_Steps.thy ===== *)
theory Eth_To_Mx_Steps
  imports Bridge_Executor
begin

text \<open>
  The five steps of the half-bridge from Ethereum to MultiversX
  (\<^verbatim>\<open>bridges/ethMultiversX/steps/ethToMultiversX\<close>). Each \<^verbatim>\<open>Execute\<close> method is one program over the
  executor state that returns the identifier of the next step.
\<close>

section \<open>Identifiers\<close>

definition GettingPendingBatchFromEthereum :: StepIdentifier where
  "GettingPendingBatchFromEthereum = ''get pending batch from Ethereum''"

definition ProposingTransferOnMultiversX :: StepIdentifier where
  "ProposingTransferOnMultiversX = ''propose transfer''"

definition SigningProposedTransferOnMultiversX :: StepIdentifier where
  "SigningProposedTransferOnMultiversX = ''sign proposed transfer''"

definition WaitingForQuorum :: StepIdentifier where
  "WaitingForQuorum = ''wait for quorum''"

definition PerformingActionID :: StepIdentifier where
  "PerformingActionID = ''perform action''"

lemmas eth_id_defs =
  GettingPendingBatchFromEthereum_def ProposingTransferOnMultiversX_def
  SigningProposedTransferOnMultiversX_def WaitingForQuorum_def PerformingActionID_def

section \<open>Steps\<close>

text \<open>\<open>logIf\<close> is the pattern \<^verbatim>\<open>if err != nil { PrintInfo(LogDebug, ...) }\<close> that goes on afterwards.\<close>

definition logIf :: "go_error option \<Rightarrow> string \<Rightarrow> 'w bstate \<Rightarrow> 'w bstate" where
  "logIf err message s =
     (case err of None \<Rightarrow> s
      | Some e \<Rightarrow> PrintInfo LogDebug message [LString ''message'', LError (Some e)] s)"

definition eth_getPendingStep_Execute ::
  "(TransferBatch \<Rightarrow> string) \<Rightarrow> ('w bstate, StepIdentifier) prog" where
  "eth_getPendingStep_Execute marshal s = do {
     (err, s) \<leftarrow> CheckMultiversXClientAvailability s;
     let s = logIf err ''MultiversX client unavailable'' s;
     (err, s) \<leftarrow> CheckEthereumClientAvailability s;
     let s = logIf err ''Ethereum client unavailable'' s;
     let s = ResetRetriesCountOnMultiversX s;
     (r, s) \<leftarrow> GetLastExecutedEthBatchIDFromMultiversX s;
     (case r of
        Inl err \<Rightarrow> Some (GettingPendingBatchFromEthereum,
          PrintInfo LogError ''error fetching last executed eth batch ID''
            [LString ''error'', LError (Some err)] s)
      | Inr lastEthBatchExecuted \<Rightarrow> do {
     (err, s) \<leftarrow> GetAndStoreBatchFromEthereum (lastEthBatchExecuted + 1) s;
     (if err \<noteq> None then Some (GettingPendingBatchFromEthereum,
          PrintInfo LogDebug ''cannot fetch eth batch''
            [LString ''batch ID'', LUint64 (lastEthBatchExecuted + 1),
             LString ''message'', LError err] s)
      else (case GetStoredBatch s of
        None \<Rightarrow> Some (GettingPendingBatchFromEthereum,
          PrintInfo LogDebug ''no new batch found on eth''
            [LString ''last executed on MultiversX'', LUint64 lastEthBatchExecuted] s)
      | Some batch \<Rightarrow> do {
     (v, s) \<leftarrow> ValidateBatch batch s;
     (case v of
        Inl err \<Rightarrow> Some (GettingPendingBatchFromEthereum,
          PrintInfo LogError ''error validating Ethereum batch''
            [LString ''error'', LError (Some err), LString ''batch'', LString (marshal batch)] s)
      | Inr isValid \<Rightarrow>
          (if \<not> isValid then Some (GettingPendingBatchFromEthereum,
             PrintInfo LogError (''batch not valid '' @ TransferBatch_String batch) [] s)
           else do {
     let s = PrintInfo LogInfo (''fetched new batch from Ethereum '' @ TransferBatch_String batch) [] s;
     (err, s) \<leftarrow> VerifyLastDepositNonceExecutedOnEthereumBatch s;
     (if err \<noteq> None then Some (GettingPendingBatchFromEthereum,
          PrintInfo LogError ''verification failed on the new batch from Ethereum''
            [LString ''batch ID'', LUint64 (lastEthBatchExecuted + 1), LString ''error'', LError err] s)
      else Some (ProposingTransferOnMultiversX, s)) })) })) }) }"

definition eth_proposeTransferStep_Execute :: "('w bstate, StepIdentifier) prog" where
  "eth_proposeTransferStep_Execute s =
     (case GetStoredBatch s of
        None \<Rightarrow> Some (GettingPendingBatchFromEthereum, PrintInfo LogDebug ''no batch found'' [] s)
      | Some batch \<Rightarrow> do {
     (r, s) \<leftarrow> WasTransferProposedOnMultiversX s;
     (case r of
        Inl err \<Rightarrow> Some (GettingPendingBatchFromEthereum,
          PrintInfo LogError ''error determining if the batch was proposed or not on MultiversX''
            [LString ''batch ID'', LUint64 (ID batch), LString ''error'', LError (Some err)] s)
      | Inr wasTransferProposed \<Rightarrow>
          (if wasTransferProposed then Some (SigningProposedTransferOnMultiversX, s)
           else do {
     (isLeader, s) \<leftarrow> MyTurnAsLeader s;
     (if \<not> isLeader then Some (ProposingTransferOnMultiversX,
          PrintInfo LogDebug ''not my turn as leader in this round'' [] s)
      else do {
     (err, s) \<leftarrow> ProposeTransferOnMultiversX s;
     (if err \<noteq> None then Some (GettingPendingBatchFromEthereum,
          PrintInfo LogError ''error proposing transfer on MultiversX''
            [LString ''batch ID'', LUint64 (ID batch), LString ''error'', LError err] s)
      else Some (SigningProposedTransferOnMultiversX, s)) }) })) })"

definition eth_signProposedTransferStep_Execute :: "('w bstate, StepIdentifier) prog" where
  "eth_signProposedTransferStep_Execute s =
     (case GetStoredBatch s of
        None \<Rightarrow> Some (GettingPendingBatchFromEthereum, PrintInfo LogDebug ''no batch found'' [] s)
      | Some batch \<Rightarrow> do {
     (r, s) \<leftarrow> GetAndStoreActionIDForProposeTransferOnMultiversX s;
     (case r of
        Inl err \<Rightarrow> Some (GettingPendingBatchFromEthereum,
          PrintInfo LogError ''error fetching action ID''
            [LString ''batch ID'', LUint64 (ID batch), LString ''error'', LError (Some err)] s)
      | Inr actionID \<Rightarrow>
          (if actionID = InvalidActionID then Some (GettingPendingBatchFromEthereum,
             PrintInfo LogError ''contract error, got invalid action ID''
               [LString ''batch ID'', LUint64 (ID batch), LString ''error'', LError None,
                LString ''action ID'', LUint64 actionID] s)
           else do {
     let s = PrintInfo LogInfo ''fetched action ID''
               [LString ''action ID'', LUint64 actionID, LString ''batch ID'', LUint64 (ID batch)] s;
     (r, s) \<leftarrow> WasActionSignedOnMultiversX s;
     (case r of
        Inl err \<Rightarrow> Some (GettingPendingBatchFromEthereum,
          PrintInfo LogError ''error determining if the proposed transfer was signed or not''
            [LString ''batch ID'', LUint64 (ID batch), LString ''error'', LError (Some err)] s)
      | Inr wasSigned \<Rightarrow>
          (if wasSigned then Some (WaitingForQuorum, s)
           else do {
     (err, s) \<leftarrow> SignActionOnMultiversX s;
     (if err \<noteq> None then Some (GettingPendingBatchFromEthereum,
          PrintInfo LogError ''error signing the proposed transfer''
            [LString ''batch ID'', LUint64 (ID batch), LString ''error'', LError err] s)
      else Some (WaitingForQuorum, s)) })) })) })"

definition eth_waitForQuorumStep_Execute :: "('w bstate, StepIdentifier) prog" where
  "eth_waitForQuorumStep_Execute s = do {
     (maxReached, s) \<leftarrow> ProcessMaxQuorumRetriesOnMultiversX s;
     (if maxReached then Some (GettingPendingBatchFromEthereum,
          PrintInfo LogDebug ''max number of retries reached, resetting counter'' [] s)
      else do {
     (r, s) \<leftarrow> ProcessQuorumReachedOnMultiversX s;
     (case r of
        Inl err \<Rightarrow> Some (GettingPendingBatchFromEthereum,
          PrintInfo LogError ''error while checking the quorum'' [LString ''error'', LError (Some err)] s)
      | Inr isQuorumReached \<Rightarrow> do {
     let s = PrintInfo LogDebug ''quorum reached check'' [LString ''is reached'', LBool isQuorumReached] s;
     (if \<not> isQuorumReached then Some (WaitingForQuorum, s) else Some (PerformingActionID, s)) }) }) }"

definition eth_performActionIDStep_Execute :: "('w bstate, StepIdentifier) prog" where
  "eth_performActionIDStep_Execute s = do {
     (r, s) \<leftarrow> WasActionPerformedOnMultiversX s;
     (case r of
        Inl err \<Rightarrow> Some (GettingPendingBatchFromEthereum,
          PrintInfo LogError ''error determining if the action ID was proposed or not''
            [LString ''action ID'', LUint64 (GetStoredActionID s), LString ''error'', LError (Some err)] s)
      | Inr wasPerformed \<Rightarrow>
          (if wasPerformed then Some (GettingPendingBatchFromEthereum,
             PrintInfo LogInfo ''action ID performed'' [LString ''action ID'', LUint64 (GetStoredActionID s)] s)
           else do {
     (isLeader, s) \<leftarrow> MyTurnAsLeader s;
     (if \<not> isLeader then Some (PerformingActionID,
          PrintInfo LogDebug ''not my turn as leader in this round'' [] s)
      else do {
     (err, s) \<leftarrow> PerformActionOnMultiversX s;
     (if err \<noteq> None then Some (GettingPendingBatchFromEthereum,
          PrintInfo LogError ''error performing action ID''
            [LString ''action ID'', LUint64 (GetStoredActionID s), LString ''error'', LError err] s)
      else Some (PerformingActionID, s)) }) })) }"

section \<open>The steps factory\<close>

definition eth_stepsSlice :: "(TransferBatch \<Rightarrow> string) \<Rightarrow> 'w bstate Step list" where
  "eth_stepsSlice marshal =
     [ \<lparr> step_Execute = eth_getPendingStep_Execute marshal,
         step_Identifier = GettingPendingBatchFromEthereum \<rparr>,
       \<lparr> step_Execute = eth_proposeTransferStep_Execute,
         step_Identifier = ProposingTransferOnMultiversX \<rparr>,
       \<lparr> step_Execute = eth_signProposedTransferStep_Execute,
         step_Identifier = SigningProposedTransferOnMultiversX \<rparr>,
       \<lparr> step_Execute = eth_waitForQuorumStep_Execute, step_Identifier = WaitingForQuorum \<rparr>,
       \<lparr> step_Execute = eth_performActionIDStep_Execute, step_Identifier = PerformingActionID \<rparr> ]"

text \<open>The loop of \<^verbatim>\<open>createMachineStates\<close>, the same in both factories.\<close>

fun addSteps :: "'s MachineStates \<Rightarrow> 's Step list \<Rightarrow> go_error + 's MachineStates" where
  "addSteps machineStates [] = Inr machineStates"
| "addSteps machineStates (s # ss) =
     (if gm_get machineStates (step_Identifier s) \<noteq> None
      then Inl (Wrapped ErrDuplicatedStepIdentifier
             ('' for identifier '' @ quoted (step_Identifier s)))
      else addSteps (gm_set (step_Identifier s) (Some s) machineStates) ss)"

definition eth_createMachineStates ::
  "(TransferBatch \<Rightarrow> string) \<Rightarrow> go_error + 'w bstate MachineStates" where
  "eth_createMachineStates marshal = addSteps [] (eth_stepsSlice marshal)"

text \<open>\<^verbatim>\<open>CreateSteps\<close> receives an interface that may be nil.\<close>

definition eth_CreateSteps ::
  "(TransferBatch \<Rightarrow> string) \<Rightarrow> 'w bridgeExecutor option \<Rightarrow> go_error + 'w bstate MachineStates" where
  "eth_CreateSteps marshal executor =
     (case executor of None \<Rightarrow> Inl ErrNilExecutor | Some ex \<Rightarrow> eth_createMachineStates marshal)"

end
