(* ===== verification/Mx_To_Eth_Steps.thy ===== *)
theory Mx_To_Eth_Steps
  imports Eth_To_Mx_Steps
begin

text \<open>
  The ten steps of the half-bridge from MultiversX to Ethereum
  (\<^verbatim>\<open>bridges/ethMultiversX/steps/multiversxToEth\<close>): transfer on Ethereum first, then the batch status
  is set back on MultiversX.
\<close>

section \<open>Identifiers\<close>

definition GettingPendingBatchFromMultiversX :: StepIdentifier where
  "GettingPendingBatchFromMultiversX = ''get pending batch from MultiversX''"

definition SigningProposedTransferOnEthereum :: StepIdentifier where
  "SigningProposedTransferOnEthereum = ''sign proposed transfer''"

definition WaitingForQuorumOnTransfer :: StepIdentifier where
  "WaitingForQuorumOnTransfer = ''wait for quorum on transfer''"

definition PerformingTransfer :: StepIdentifier where
  "PerformingTransfer = ''perform transfer''"

definition WaitingTransferConfirmation :: StepIdentifier where
  "WaitingTransferConfirmation = ''wait transfer confirmating''"

definition ResolvingSetStatusOnMultiversX :: StepIdentifier where
  "ResolvingSetStatusOnMultiversX = ''resolve set status''"

definition ProposingSetStatusOnMultiversX :: StepIdentifier where
  "ProposingSetStatusOnMultiversX = ''propose set status''"

definition SigningProposedSetStatusOnMultiversX :: StepIdentifier where
  "SigningProposedSetStatusOnMultiversX = ''sign proposed set status''"

definition WaitingForQuorumOnSetStatus :: StepIdentifier where
  "WaitingForQuorumOnSetStatus = ''wait for quorum on set status''"

definition PerformingSetStatus :: StepIdentifier where
  "PerformingSetStatus = ''perform set status''"

lemmas mx_id_defs =
  GettingPendingBatchFromMultiversX_def SigningProposedTransferOnEthereum_def
  WaitingForQuorumOnTransfer_def PerformingTransfer_def WaitingTransferConfirmation_def
  ResolvingSetStatusOnMultiversX_def ProposingSetStatusOnMultiversX_def
  SigningProposedSetStatusOnMultiversX_def WaitingForQuorumOnSetStatus_def PerformingSetStatus_def

section \<open>Steps\<close>

definition resetCountersOnMultiversX :: "'w bstate \<Rightarrow> 'w bstate" where
  "resetCountersOnMultiversX s =
     ResetRetriesOnWasTransferProposedOnMultiversX (ResetRetriesCountOnMultiversX s)"

definition mx_getPendingStep_Execute ::
  "(TransferBatch \<Rightarrow> string) \<Rightarrow> ('w bstate, StepIdentifier) prog" where
  "mx_getPendingStep_Execute marshal s = do {
     (err, s) \<leftarrow> CheckMultiversXClientAvailability s;
     let s = logIf err ''MultiversX client unavailable'' s;
     (err, s) \<leftarrow> CheckEthereumClientAvailability s;
     let s = logIf err ''Ethereum client unavailable'' s;
     let s = ResetRetriesCountOnEthereum s;
     let s = resetCountersOnMultiversX s;
     (r, s) \<leftarrow> GetBatchFromMultiversX s;
     (case r of
        Inl err \<Rightarrow> Some (GettingPendingBatchFromMultiversX,
          PrintInfo LogDebug ''cannot fetch MultiversX batch'' [LString ''message'', LError (Some err)] s)
      | Inr None \<Rightarrow> Some (GettingPendingBatchFromMultiversX,
          PrintInfo LogDebug ''no new batch found on MultiversX'' [] s)
      | Inr (Some batch) \<Rightarrow> do {
     (err, s) \<leftarrow> StoreBatchFromMultiversX (Some batch) s;
     (if err \<noteq> None then Some (GettingPendingBatchFromMultiversX,
          PrintInfo LogError ''error storing MultiversX batch'' [LString ''error'', LError err] s)
      else do {
     (v, s) \<leftarrow> ValidateBatch batch s;
     (case v of
        Inl err \<Rightarrow> Some (GettingPendingBatchFromMultiversX,
          PrintInfo LogError ''error validating MultiversX batch''
            [LString ''error'', LError (Some err), LString ''batch'', LString (marshal batch)] s)
      | Inr isValid \<Rightarrow>
          (if \<not> isValid then Some (GettingPendingBatchFromMultiversX,
             PrintInfo LogError (''batch not valid '' @ TransferBatch_String batch) [] s)
           else do {
     let s = PrintInfo LogInfo (''fetched new batch from MultiversX '' @ TransferBatch_String batch) [] s;
     (r, s) \<leftarrow> WasTransferPerformedOnEthereum s;
     (case r of
        Inl err \<Rightarrow> Some (GettingPendingBatchFromMultiversX,
          PrintInfo LogError ''error determining if transfer was performed or not''
            [LString ''error'', LError (Some err)] s)
      | Inr wasPerformed \<Rightarrow>
          (if wasPerformed then Some (ResolvingSetStatusOnMultiversX,
             PrintInfo LogInfo ''transfer performed'' [] s)
           else Some (SigningProposedTransferOnEthereum, s))) })) }) }) }"

definition mx_signProposedTransferStep_Execute :: "('w bstate, StepIdentifier) prog" where
  "mx_signProposedTransferStep_Execute s =
     (case GetStoredBatch s of
        None \<Rightarrow> Some (GettingPendingBatchFromMultiversX, PrintInfo LogDebug ''nil batch stored'' [] s)
      | Some storedBatch \<Rightarrow> do {
     (err, s) \<leftarrow> SignTransferOnEthereum s;
     (if err \<noteq> None then Some (GettingPendingBatchFromMultiversX,
          PrintInfo LogError ''error signing''
            [LString ''batch ID'', LUint64 (ID storedBatch), LString ''error'', LError err] s)
      else Some (WaitingForQuorumOnTransfer, s)) })"

definition mx_waitForQuorumOnTransferStep_Execute :: "('w bstate, StepIdentifier) prog" where
  "mx_waitForQuorumOnTransferStep_Execute s = do {
     (maxReached, s) \<leftarrow> ProcessMaxQuorumRetriesOnEthereum s;
     (if maxReached then Some (GettingPendingBatchFromMultiversX,
          PrintInfo LogDebug ''max number of retries reached, resetting counter'' [] s)
      else do {
     (r, s) \<leftarrow> ProcessQuorumReachedOnEthereum s;
     (case r of
        Inl err \<Rightarrow> Some (GettingPendingBatchFromMultiversX,
          PrintInfo LogError ''error while checking the quorum on Ethereum''
            [LString ''error'', LError (Some err)] s)
      | Inr isQuorumReached \<Rightarrow> do {
     let s = PrintInfo LogDebug ''quorum reached check'' [LString ''is reached'', LBool isQuorumReached] s;
     (if \<not> isQuorumReached then Some (WaitingForQuorumOnTransfer, s)
      else Some (PerformingTransfer, s)) }) }) }"

definition mx_performTransferStep_Execute :: "('w bstate, StepIdentifier) prog" where
  "mx_performTransferStep_Execute s = do {
     (r, s) \<leftarrow> WasTransferPerformedOnEthereum s;
     (case r of
        Inl err \<Rightarrow> Some (GettingPendingBatchFromMultiversX,
          PrintInfo LogError ''error determining if transfer was performed or not''
            [LString ''error'', LError (Some err)] s)
      | Inr wasPerformed \<Rightarrow>
          (if wasPerformed then Some (ResolvingSetStatusOnMultiversX,
             PrintInfo LogInfo ''transfer performed'' [] s)
           else do {
     (isLeader, s) \<leftarrow> MyTurnAsLeader s;
     (if isLeader then do {
        (err, s) \<leftarrow> PerformTransferOnEthereum s;
        (if err \<noteq> None then Some (GettingPendingBatchFromMultiversX,
             PrintInfo LogError ''error performing transfer on Ethereum'' [LString ''error'', LError err] s)
         else Some (WaitingTransferConfirmation, s)) }
      else Some (WaitingTransferConfirmation,
             PrintInfo LogDebug ''not my turn as leader in this round'' [] s)) })) }"

definition mx_waitTransferConfirmationStep_Execute :: "('w bstate, StepIdentifier) prog" where
  "mx_waitTransferConfirmationStep_Execute s = do {
     (_, s) \<leftarrow> WaitForTransferConfirmation s;
     Some (PerformingTransfer, s) }"

text \<open>
  \<^verbatim>\<open>storedBatch.Statuses = statuses\<close> writes through the pointer the executor holds, so it updates
  the stored batch; \<open>setStoredStatuses\<close> is that assignment.
\<close>

definition setStoredStatuses :: "bytes \<Rightarrow> 'w bstate \<Rightarrow> 'w bstate" where
  "setStoredStatuses statuses = (\<lambda>(ex, w).
     (ex\<lparr>ex_batch := map_option (\<lambda>b. b\<lparr>Statuses := statuses\<rparr>) (ex_batch ex)\<rparr>, w))"

definition mx_resolveSetStatusStep_Execute :: "('w bstate, StepIdentifier) prog" where
  "mx_resolveSetStatusStep_Execute s = do {
     let s = ClearStoredP2PSignaturesForEthereum s;
     (case GetStoredBatch s of
        None \<Rightarrow> Some (GettingPendingBatchFromMultiversX, PrintInfo LogDebug ''nil batch stored'' [] s)
      | Some storedBatch \<Rightarrow> do {
     (r, s) \<leftarrow> GetBatchFromMultiversX s;
     (case r of
        Inl err \<Rightarrow> Some (GettingPendingBatchFromMultiversX,
          PrintInfo LogError ''error while fetching batch'' [LString ''error'', LError (Some err)] s)
      | Inr None \<Rightarrow> Some (GettingPendingBatchFromMultiversX,
          PrintInfo LogDebug ''nil batch fetched'' [] s)
      | Inr (Some batch) \<Rightarrow> do {
     (statuses, s) \<leftarrow> WaitAndReturnFinalBatchStatuses s;
     (if length statuses = 0 then Some (GettingPendingBatchFromMultiversX, s)
      else do {
     let s = setStoredStatuses statuses s;
     (_, s) \<leftarrow> ResolveNewDepositsStatuses (of_nat (length (Statuses batch))) s;
     Some (ProposingSetStatusOnMultiversX, s) }) }) }) }"

definition mx_proposeSetStatusStep_Execute :: "('w bstate, StepIdentifier) prog" where
  "mx_proposeSetStatusStep_Execute s =
     (case GetStoredBatch s of
        None \<Rightarrow> Some (GettingPendingBatchFromMultiversX, PrintInfo LogDebug ''nil batch stored'' [] s)
      | Some batch \<Rightarrow> do {
     (maxReached, s) \<leftarrow> ProcessMaxRetriesOnWasTransferProposedOnMultiversX s;
     (if maxReached then Some (GettingPendingBatchFromMultiversX,
          PrintInfo LogDebug ''max number of retries reached, resetting counter'' [] s)
      else do {
     (r, s) \<leftarrow> WasSetStatusProposedOnMultiversX s;
     (case r of
        Inl err \<Rightarrow> Some (GettingPendingBatchFromMultiversX,
          PrintInfo LogError ''error determining if the set status action was proposed or not on MultiversX''
            [LString ''batch ID'', LUint64 (ID batch), LString ''error'', LError (Some err)] s)
      | Inr wasSetStatusProposed \<Rightarrow>
          (if wasSetStatusProposed then Some (SigningProposedSetStatusOnMultiversX, s)
           else do {
     (isLeader, s) \<leftarrow> MyTurnAsLeader s;
     (if \<not> isLeader then Some (ProposingSetStatusOnMultiversX,
          PrintInfo LogDebug ''not my turn as leader in this round'' [] s)
      else do {
     (err, s) \<leftarrow> ProposeSetStatusOnMultiversX s;
     (if err \<noteq> None then Some (GettingPendingBatchFromMultiversX,
          PrintInfo LogError ''error proposing transfer on MultiversX''
            [LString ''batch ID'', LUint64 (ID batch), LString ''error'', LError err] s)
      else Some (SigningProposedSetStatusOnMultiversX, s)) }) })) }) })"

definition mx_signProposedSetStatusStep_Execute :: "('w bstate, StepIdentifier) prog" where
  "mx_signProposedSetStatusStep_Execute s =
     (case GetStoredBatch s of
        None \<Rightarrow> Some (GettingPendingBatchFromMultiversX, PrintInfo LogDebug ''nil stored batch'' [] s)
      | Some storedBatch \<Rightarrow> do {
     (r, s) \<leftarrow> GetAndStoreActionIDForProposeSetStatusFromMultiversX s;
     (case r of
        Inl err \<Rightarrow> Some (GettingPendingBatchFromMultiversX,
          PrintInfo LogError ''error fetching action ID''
            [LString ''batch ID'', LUint64 (ID storedBatch), LString ''error'', LError (Some err)] s)
      | Inr actionID \<Rightarrow>
          (if actionID = InvalidActionID then Some (GettingPendingBatchFromMultiversX,
             PrintInfo LogError ''contract error, got invalid action ID''
               [LString ''batch ID'', LUint64 (ID storedBatch), LString ''error'', LError None,
                LString ''action ID'', LUint64 actionID] s)
           else do {
     let s = PrintInfo LogInfo ''fetched action ID''
               [LString ''action ID'', LUint64 actionID,
                LString ''batch ID'', LUint64 (ID storedBatch)] s;
     (r, s) \<leftarrow> WasActionSignedOnMultiversX s;
     (case r of
        Inl err \<Rightarrow> Some (GettingPendingBatchFromMultiversX,
          PrintInfo LogError ''error determining if the proposed transfer was signed or not''
            [LString ''batch ID'', LUint64 (ID storedBatch), LString ''error'', LError (Some err)] s)
      | Inr wasSigned \<Rightarrow>
          (if wasSigned then Some (WaitingForQuorumOnSetStatus, s)
           else do {
     (err, s) \<leftarrow> SignActionOnMultiversX s;
     (if err \<noteq> None then Some (GettingPendingBatchFromMultiversX,
          PrintInfo LogError ''error signing the proposed transfer''
            [LString ''batch ID'', LUint64 (ID storedBatch), LString ''error'', LError err] s)
      else Some (WaitingForQuorumOnSetStatus, s)) })) })) })"

definition mx_waitForQuorumOnSetStatusStep_Execute :: "('w bstate, StepIdentifier) prog" where
  "mx_waitForQuorumOnSetStatusStep_Execute s = do {
     (maxReached, s) \<leftarrow> ProcessMaxQuorumRetriesOnMultiversX s;
     (if maxReached then Some (GettingPendingBatchFromMultiversX,
          PrintInfo LogDebug ''max number of retries reached, resetting counter'' [] s)
      else do {
     (r, s) \<leftarrow> ProcessQuorumReachedOnMultiversX s;
     (case r of
        Inl err \<Rightarrow> Some (GettingPendingBatchFromMultiversX,
          PrintInfo LogError ''error while checking the quorum'' [LString ''error'', LError (Some err)] s)
      | Inr isQuorumReached \<Rightarrow> do {
     let s = PrintInfo LogDebug ''quorum reached check'' [LString ''is reached'', LBool isQuorumReached] s;
     (if \<not> isQuorumReached then Some (WaitingForQuorumOnSetStatus, s)
      else Some (PerformingSetStatus, s)) }) }) }"

definition mx_performSetStatusStep_Execute :: "('w bstate, StepIdentifier) prog" where
  "mx_performSetStatusStep_Execute s = do {
     (r, s) \<leftarrow> WasActionPerformedOnMultiversX s;
     (case r of
        Inl err \<Rightarrow> Some (GettingPendingBatchFromMultiversX,
          PrintInfo LogError ''error determining if the set status was proposed or not''
            [LString ''action ID'', LUint64 (GetStoredActionID s), LString ''error'', LError (Some err)] s)
      | Inr wasPerformed \<Rightarrow>
          (if wasPerformed then Some (GettingPendingBatchFromMultiversX,
             PrintInfo LogInfo ''action ID performed'' [LString ''action ID'', LUint64 (GetStoredActionID s)] s)
           else do {
     (isLeader, s) \<leftarrow> MyTurnAsLeader s;
     (if \<not> isLeader then Some (PerformingSetStatus,
          PrintInfo LogDebug ''not my turn as leader in this round'' [] s)
      else do {
     (err, s) \<leftarrow> PerformActionOnMultiversX s;
     (if err \<noteq> None then Some (GettingPendingBatchFromMultiversX,
          PrintInfo LogError ''error performing action ID''
            [LString ''action ID'', LUint64 (GetStoredActionID s), LString ''error'', LError err] s)
      else Some (PerformingSetStatus, s)) }) })) }"

section \<open>The steps factory\<close>

definition mx_stepsSlice :: "(TransferBatch \<Rightarrow> string) \<Rightarrow> 'w bstate Step list" where
  "mx_stepsSlice marshal =
     [ \<lparr> step_Execute = mx_getPendingStep_Execute marshal,
         step_Identifier = GettingPendingBatchFromMultiversX \<rparr>,
       \<lparr> step_Execute = mx_signProposedTransferStep_Execute,
         step_Identifier = SigningProposedTransferOnEthereum \<rparr>,
       \<lparr> step_Execute = mx_waitForQuorumOnTransferStep_Execute,
         step_Identifier = WaitingForQuorumOnTransfer \<rparr>,
       \<lparr> step_Execute = mx_performTransferStep_Execute, step_Identifier = PerformingTransfer \<rparr>,
       \<lparr> step_Execute = mx_waitTransferConfirmationStep_Execute,
         step_Identifier = WaitingTransferConfirmation \<rparr>,
       \<lparr> step_Execute = mx_resolveSetStatusStep_Execute,
         step_Identifier = ResolvingSetStatusOnMultiversX \<rparr>,
       \<lparr> step_Execute = mx_proposeSetStatusStep_Execute,
         step_Identifier = ProposingSetStatusOnMultiversX \<rparr>,
       \<lparr> step_Execute = mx_signProposedSetStatusStep_Execute,
         step_Identifier = SigningProposedSetStatusOnMultiversX \<rparr>,
       \<lparr> step_Execute = mx_waitForQuorumOnSetStatusStep_Execute,
         step_Identifier = WaitingForQuorumOnSetStatus \<rparr>,
       \<lparr> step_Execute = mx_performSetStatusStep_Execute, step_Identifier = PerformingSetStatus \<rparr> ]"

definition mx_createMachineStates ::
  "(TransferBatch \<Rightarrow> string) \<Rightarrow> go_error + 'w bstate MachineStates" where
  "mx_createMachineStates marshal = addSteps [] (mx_stepsSlice marshal)"

definition mx_CreateSteps ::
  "(TransferBatch \<Rightarrow> string) \<Rightarrow> 'w bridgeExecutor option \<Rightarrow> go_error + 'w bstate MachineStates" where
  "mx_CreateSteps marshal executor =
     (case executor of None \<Rightarrow> Inl ErrNilExecutor | Some ex \<Rightarrow> mx_createMachineStates marshal)"

end
