(* ===== verification/Executor_Rules.thy ===== *)
theory Executor_Rules
  imports Bridge_Executor
begin

text \<open>
  One weakest-precondition equation per executor operation, in terms of the client call it makes
  and of the fields it writes. The step proofs rest on these equations only.
\<close>

section \<open>Logging does not touch the executor\<close>

lemma fst_PrintInfo [simp]: "fst (PrintInfo l m xs s) = fst s"
  by (cases s) (simp add: PrintInfo_def setExecutionMessageInStatusHandler_def)

lemma PrintInfo_quiet [simp]:
  "PrintInfo LogDebug m xs s = s" "PrintInfo LogInfo m xs s = s"
  by (simp_all add: PrintInfo_def)

lemma GetStoredBatch_eq [simp]: "GetStoredBatch s = ex_batch (fst s)"
  by (simp add: GetStoredBatch_def)

lemma GetStoredActionID_eq [simp]: "GetStoredActionID s = ex_actionID (fst s)"
  by (simp add: GetStoredActionID_def)

section \<open>Combinators\<close>

lemma wpg_callw [wp_simps]:
  "wpg b (callw f s) Q \<longleftrightarrow> wpg b (f (fst s) (snd s)) (\<lambda>(r, w). Q (r, (fst s, w)))"
  by (cases s) (simp add: callw_def wpg_bind wpg_case_prod)

lemma wpg_dropHash [wp_simps]:
  "wpg b (dropHash f s) Q \<longleftrightarrow>
     wpg b (f s) (\<lambda>(r, s). Q (case r of Inl err \<Rightarrow> Some err | Inr h \<Rightarrow> None, s))"
  by (simp add: dropHash_def wpg_bind wpg_case_prod)

lemma wpg_withBatch [wp_simps]:
  "wpg b (withBatch f s) Q \<longleftrightarrow>
     (case ex_batch (fst s) of
        None \<Rightarrow> Q (Inl ErrNilBatch, s)
      | Some batch \<Rightarrow> wpg b (f (fst s) batch (snd s)) (\<lambda>(r, w). Q (r, (fst s, w))))"
  by (cases s) (simp add: withBatch_def wpg_callw split: option.split)

section \<open>Operations that only call a client\<close>

lemmas call_defs =
  MyTurnAsLeader_def WasTransferProposedOnMultiversX_def ProposeTransferOnMultiversX_def
  WasSetStatusProposedOnMultiversX_def ProposeSetStatusOnMultiversX_def
  WasActionSignedOnMultiversX_def SignActionOnMultiversX_def ProcessQuorumReachedOnMultiversX_def
  waitWithContextSucceeded_def WasTransferPerformedOnEthereum_def GetBatchStatusesFromEthereum_def
  WasActionPerformedOnMultiversX_def PerformActionOnMultiversX_def ProcessQuorumReachedOnEthereum_def
  ValidateBatch_def CheckMultiversXClientAvailability_def CheckEthereumClientAvailability_def

section \<open>Operations that write the executor\<close>

lemma wpg_GetBatchFromMultiversX:
  "wpg b (GetBatchFromMultiversX s) Q \<longleftrightarrow>
     wpg b (mx_GetPending (ex_multiversXClient (fst s)) (snd s)) (\<lambda>(r, w).
       case r of Inl err \<Rightarrow> Q (Inl err, (fst s, w))
       | Inr None \<Rightarrow> b
       | Inr (Some batch) \<Rightarrow> Q (Inr (Some batch),
           (fst s, sh_SetIntMetric (ex_statusHandler (fst s)) MetricNumBatches (sint (ID batch - 1)) w)))"
  by (cases s)
     (simp add: GetBatchFromMultiversX_def wp_simps cong: sum.case_cong option.case_cong)

lemma wpg_StoreBatchFromMultiversX [wp_simps]:
  "wpg b (StoreBatchFromMultiversX batch s) Q \<longleftrightarrow>
     (case batch of None \<Rightarrow> Q (Some ErrNilBatch, s)
      | Some bt \<Rightarrow> Q (None, ((fst s)\<lparr>ex_batch := Some bt\<rparr>, snd s)))"
  by (cases s) (simp add: StoreBatchFromMultiversX_def wp_simps split: option.split)

lemma wpg_GetLastExecutedEthBatchID:
  "wpg b (GetLastExecutedEthBatchIDFromMultiversX s) Q \<longleftrightarrow>
     wpg b (mx_GetLastExecutedEthBatchID (ex_multiversXClient (fst s)) (snd s)) (\<lambda>(r, w).
       case r of Inl err \<Rightarrow> Q (Inl err, (fst s, w))
       | Inr batchID \<Rightarrow> Q (Inr batchID,
           (fst s, sh_SetIntMetric (ex_statusHandler (fst s)) MetricNumBatches (sint batchID) w)))"
  by (cases s) (simp add: GetLastExecutedEthBatchIDFromMultiversX_def wp_simps cong: sum.case_cong)

lemma wpg_VerifyLastDepositNonce:
  "wpg b (VerifyLastDepositNonceExecutedOnEthereumBatch s) Q \<longleftrightarrow>
     (case ex_batch (fst s) of
        None \<Rightarrow> Q (Some ErrNilBatch, s)
      | Some batch \<Rightarrow> wpg b (mx_GetLastExecutedEthTxID (ex_multiversXClient (fst s)) (snd s)) (\<lambda>(r, w).
          case r of Inl err \<Rightarrow> Q (Some err, (fst s, w))
          | Inr lastNonce \<Rightarrow> Q (verifyDepositNonces lastNonce batch, (fst s, w))))"
  by (cases s)
     (simp add: VerifyLastDepositNonceExecutedOnEthereumBatch_def wp_simps cong: sum.case_cong split: option.split)

lemma wpg_GetAndStoreActionIDForProposeTransfer:
  "wpg b (GetAndStoreActionIDForProposeTransferOnMultiversX s) Q \<longleftrightarrow>
     (case ex_batch (fst s) of
        None \<Rightarrow> Q (Inl ErrNilBatch, s)
      | Some batch \<Rightarrow> wpg b (mx_GetActionIDForProposeTransfer (ex_multiversXClient (fst s)) (Some batch) (snd s))
          (\<lambda>(r, w). case r of Inl err \<Rightarrow> Q (Inl err, (fst s, w))
             | Inr a \<Rightarrow> Q (Inr a, ((fst s)\<lparr>ex_actionID := a\<rparr>, w))))"
  by (cases s)
     (simp add: GetAndStoreActionIDForProposeTransferOnMultiversX_def wp_simps cong: sum.case_cong
       split: option.split)

lemma wpg_GetAndStoreActionIDForProposeSetStatus:
  "wpg b (GetAndStoreActionIDForProposeSetStatusFromMultiversX s) Q \<longleftrightarrow>
     (case ex_batch (fst s) of
        None \<Rightarrow> Q (Inl ErrNilBatch, s)
      | Some batch \<Rightarrow>
          wpg b (mx_GetActionIDForSetStatusOnPendingTransfer (ex_multiversXClient (fst s)) (Some batch) (snd s))
          (\<lambda>(r, w). case r of Inl err \<Rightarrow> Q (Inl err, (fst s, w))
             | Inr a \<Rightarrow> Q (Inr a, ((fst s)\<lparr>ex_actionID := a\<rparr>, w))))"
  by (cases s)
     (simp add: GetAndStoreActionIDForProposeSetStatusFromMultiversX_def wp_simps cong: sum.case_cong
       split: option.split)

lemma wpg_GetAndStoreBatchFromEthereum:
  "wpg b (GetAndStoreBatchFromEthereum nonce s) Q \<longleftrightarrow>
     wpg b (eth_GetBatch (ex_ethereumClient (fst s)) nonce (snd s)) (\<lambda>(r, w).
       case r of Inl err \<Rightarrow> Q (Some err, (fst s, w))
       | Inr None \<Rightarrow> b
       | Inr (Some batch) \<Rightarrow>
           if ID batch = nonce \<and> Deposits batch \<noteq> []
           then Q (None, ((fst s)\<lparr>ex_batch := Some batch\<rparr>, w))
           else Q (Some (Wrapped ErrBatchNotFound ('', requested nonce: '' @ dec_u64 nonce @
                  '', fetched nonce: '' @ dec_u64 (ID batch) @
                  '', num deposits: '' @ dec (length (Deposits batch)))), (fst s, w)))"
  by (cases s)
     (auto simp: GetAndStoreBatchFromEthereum_def wp_simps
       intro!: arg_cong2 [where f = "wpg b"] split: sum.split option.split)

lemma wpg_SignTransferOnEthereum:
  "wpg b (SignTransferOnEthereum s) Q \<longleftrightarrow>
     (case ex_batch (fst s) of
        None \<Rightarrow> Q (Some ErrNilBatch, s)
      | Some batch \<Rightarrow> wpg b (eth_GenerateMessageHash (ex_ethereumClient (fst s)) (Some batch)) (\<lambda>r.
          case r of Inl err \<Rightarrow> Q (Some err, s)
          | Inr hash \<Rightarrow>
              wpg b (eth_BroadcastSignatureForMessageHash (ex_ethereumClient (fst s)) hash (snd s)) (\<lambda>(u, w).
                Q (None, ((fst s)\<lparr>ex_msgHash := hash\<rparr>, w)))))"
  by (cases s)
     (simp add: SignTransferOnEthereum_def wp_simps cong: sum.case_cong split: option.split)

lemma wpg_PerformTransferOnEthereum:
  "wpg b (PerformTransferOnEthereum s) Q \<longleftrightarrow>
     (case ex_batch (fst s) of
        None \<Rightarrow> Q (Some ErrNilBatch, s)
      | Some batch \<Rightarrow> wpg b (eth_GetQuorumSize (ex_ethereumClient (fst s)) (snd s)) (\<lambda>(r, w).
          case r of Inl err \<Rightarrow> Q (Some err, (fst s, w))
          | Inr quorumSize \<Rightarrow>
              wpg b (eth_ExecuteTransfer (ex_ethereumClient (fst s)) (ex_msgHash (fst s)) (Some batch)
                       (bigInt64 quorumSize) w)
                (\<lambda>(r, w). Q (case r of Inl err \<Rightarrow> Some err | Inr h \<Rightarrow> None, (fst s, w)))))"
  by (cases s)
     (simp add: PerformTransferOnEthereum_def wp_simps case_prod_unfold cong: sum.case_cong split: option.split)

lemma wpg_ProcessMaxQuorumRetriesOnMultiversX [wp_simps]:
  "wpg b (ProcessMaxQuorumRetriesOnMultiversX s) Q \<longleftrightarrow>
     (if ex_quorumRetriesOnMultiversX (fst s) < ex_maxQuorumRetriesOnMultiversX (fst s)
      then Q (False, ((fst s)\<lparr>ex_quorumRetriesOnMultiversX := ex_quorumRetriesOnMultiversX (fst s) + 1\<rparr>, snd s))
      else Q (True, s))"
  by (cases s) (simp add: ProcessMaxQuorumRetriesOnMultiversX_def)

lemma wpg_ProcessMaxQuorumRetriesOnEthereum [wp_simps]:
  "wpg b (ProcessMaxQuorumRetriesOnEthereum s) Q \<longleftrightarrow>
     (if ex_quorumRetriesOnEthereum (fst s) < ex_maxQuorumRetriesOnEthereum (fst s)
      then Q (False, ((fst s)\<lparr>ex_quorumRetriesOnEthereum := ex_quorumRetriesOnEthereum (fst s) + 1\<rparr>, snd s))
      else Q (True, s))"
  by (cases s) (simp add: ProcessMaxQuorumRetriesOnEthereum_def)

lemma wpg_ProcessMaxRetriesOnWasTransferProposed [wp_simps]:
  "wpg b (ProcessMaxRetriesOnWasTransferProposedOnMultiversX s) Q \<longleftrightarrow>
     (if ex_retriesOnWasProposed (fst s) < ex_maxRetriesOnWasProposed (fst s)
      then Q (False, ((fst s)\<lparr>ex_retriesOnWasProposed := ex_retriesOnWasProposed (fst s) + 1\<rparr>, snd s))
      else Q (True, s))"
  by (cases s) (simp add: ProcessMaxRetriesOnWasTransferProposedOnMultiversX_def)

lemma reset_simps [simp]:
  "ResetRetriesCountOnMultiversX s = ((fst s)\<lparr>ex_quorumRetriesOnMultiversX := 0\<rparr>, snd s)"
  "ResetRetriesCountOnEthereum s = ((fst s)\<lparr>ex_quorumRetriesOnEthereum := 0\<rparr>, snd s)"
  "ResetRetriesOnWasTransferProposedOnMultiversX s = ((fst s)\<lparr>ex_retriesOnWasProposed := 0\<rparr>, snd s)"
  "ClearStoredP2PSignaturesForEthereum s = (fst s, ex_ClearStoredSignatures (fst s) (snd s))"
  by (cases s; simp add: ResetRetriesCountOnMultiversX_def ResetRetriesCountOnEthereum_def
    ResetRetriesOnWasTransferProposedOnMultiversX_def ClearStoredP2PSignaturesForEthereum_def)+

lemma wpg_ResolveNewDepositsStatuses [wp_simps]:
  "wpg b (ResolveNewDepositsStatuses n s) Q \<longleftrightarrow>
     (case ex_batch (fst s) of None \<Rightarrow> b
      | Some batch \<Rightarrow> wpg b (ResolveNewDeposits (sint n) batch) (\<lambda>batch'.
          Q ((), ((fst s)\<lparr>ex_batch := Some batch'\<rparr>, snd s))))"
  by (cases s) (simp add: ResolveNewDepositsStatuses_def wp_simps split: option.split)

section \<open>The two waiting loops\<close>

text \<open>Neither loop writes the executor.\<close>

lemma callw_frame: "callw f s = Some (r, s') \<Longrightarrow> fst s' = fst s"
  by (cases s) (auto simp: callw_def bind_Some_conv split: prod.splits)

lemma withBatch_frame: "withBatch f s = Some (r, s') \<Longrightarrow> fst s' = fst s"
  by (cases s) (auto simp: withBatch_def dest: callw_frame split: option.splits)

lemma waitForTransferConfirmation_loop_frame:
  "waitForTransferConfirmation_loop n p s = Some (r, s') \<Longrightarrow> fst s' = fst s"
proof (induction n arbitrary: p s)
  case (Suc n)
  then show ?case
    by (auto simp: bind_Some_conv waitWithContextSucceeded_def WasTransferPerformedOnEthereum_def
      split: if_splits prod.splits dest!: callw_frame withBatch_frame)
qed simp

lemma waitAndReturnFinalBatchStatuses_loop_frame:
  "waitAndReturnFinalBatchStatuses_loop n s = Some (r, s') \<Longrightarrow> fst s' = fst s"
proof (induction n arbitrary: s)
  case (Suc n)
  from Suc.prems obtain waited t where w: "waitWithContextSucceeded s = Some (waited, t)"
    by (auto simp: bind_Some_conv)
  then have t: "fst t = fst s"
    unfolding waitWithContextSucceeded_def by (rule callw_frame)
  show ?case
  proof (cases waited)
    case True
    with Suc.prems w obtain st u where g: "GetBatchStatusesFromEthereum t = Some (st, u)"
      by (auto simp: bind_Some_conv)
    then have "fst u = fst t"
      unfolding GetBatchStatusesFromEthereum_def by (rule withBatch_frame)
    with Suc g t w True show ?thesis by (auto split: sum.splits if_splits)
  qed (use Suc.prems t w in simp)
qed simp

lemma wlp_WaitForTransferConfirmation:
  "(\<And>w. Q ((), (fst s, w))) \<Longrightarrow> wlp (WaitForTransferConfirmation s) Q"
  unfolding WaitForTransferConfirmation_def
  by (auto intro!: wlp_I dest!: waitForTransferConfirmation_loop_frame)

lemma wlp_WaitAndReturnFinalBatchStatuses:
  "(\<And>st w. Q (st, (fst s, w))) \<Longrightarrow> wlp (WaitAndReturnFinalBatchStatuses s) Q"
  unfolding WaitAndReturnFinalBatchStatuses_def
  by (auto intro!: wlp_I dest!: waitAndReturnFinalBatchStatuses_loop_frame)

section \<open>Deposit nonces\<close>

text \<open>The deposits of a batch carry the nonces \<open>start\<close>, \<open>start + 1\<close>, ... in order.\<close>

definition consecutive :: "u64 \<Rightarrow> DepositTransfer list \<Rightarrow> bool" where
  "consecutive start dts \<longleftrightarrow> (\<forall>i < length dts. Nonce (dts ! i) = start + of_nat i)"

lemma consecutive_Nil [simp]: "consecutive start []"
  by (simp add: consecutive_def)

lemma consecutive_Cons [simp]:
  "consecutive start (dt # dts) \<longleftrightarrow> Nonce dt = start \<and> consecutive (start + 1) dts"
  unfolding consecutive_def
  by (auto simp: nth_Cons less_Suc_eq_0_disj ac_simps split: nat.splits)

lemma verifyDepositNonces_loop_None:
  "verifyDepositNonces_loop start dts = None \<longleftrightarrow> consecutive start dts"
  by (induction start dts rule: verifyDepositNonces_loop.induct) auto

lemma verifyDepositNonces_None:
  "verifyDepositNonces lastNonce batch = None \<longleftrightarrow> consecutive (lastNonce + 1) (Deposits batch)"
  by (simp add: verifyDepositNonces_def verifyDepositNonces_loop_None)

lemma verifyDepositNonces_loop_error:
  "verifyDepositNonces_loop start dts = Some e \<Longrightarrow> errors_Is e ErrInvalidDepositNonce"
  by (induction start dts rule: verifyDepositNonces_loop.induct) (auto split: if_splits)

end
