(* ===== verification/State_Machine.thy ===== *)
theory State_Machine
  imports Core_Types
begin

text \<open>
  The generic state machine of \<^verbatim>\<open>bridge/stateMachine/stateMachine.go\<close>: a map of steps and the
  current step, which the polling handler executes one at a time. A run interleaves executions with
  steps of the environment, the other goroutines of the relayer.
\<close>

section \<open>The machine\<close>

definition ErrStepNotFound :: go_error where
  "ErrStepNotFound = Sentinel ''stateMachine'' ''step not found''"

definition ErrNilStepsMap :: go_error where
  "ErrNilStepsMap = Sentinel ''stateMachine'' ''nil steps map''"

definition ErrNilStep :: go_error where
  "ErrNilStep = Sentinel ''stateMachine'' ''nil step''"

definition sm_ErrNilLogger :: go_error where
  "sm_ErrNilLogger = Sentinel ''stateMachine'' ''nil logger''"

definition sm_ErrNilStatusHandler :: go_error where
  "sm_ErrNilStatusHandler = Sentinel ''stateMachine'' ''nil status handler''"

record 's ArgsStateMachine =
  arg_StateMachineName :: string
  arg_Steps :: "'s MachineStates option"
  arg_StartStateIdentifier :: StepIdentifier
  arg_sm_Log :: "unit option"
  arg_sm_StatusHandler :: "'s StatusHandler option"

record 's stateMachine =
  sm_stateMachineName :: string
  sm_steps :: "'s MachineStates"
  sm_currentStep :: "'s Step option"
  sm_statusHandler :: "'s StatusHandler"

text \<open>The loop over the steps meets them in the order \<open>ord\<close> the runtime picks.\<close>

fun firstNilStep :: "(StepIdentifier \<times> 's Step option) list \<Rightarrow> go_error option" where
  "firstNilStep [] = None"
| "firstNilStep ((identifier, step) # rest) =
     (case step of
        None \<Rightarrow> Some (Wrapped ErrNilStep ('' for identifier '' @ identifier))
      | Some st \<Rightarrow> firstNilStep rest)"

definition sm_checkArgs ::
  "('s MachineStates \<Rightarrow> 's MachineStates) \<Rightarrow> 's ArgsStateMachine \<Rightarrow> go_error option" where
  "sm_checkArgs ord args =
     (case arg_Steps args of
        None \<Rightarrow> Some ErrNilStepsMap
      | Some steps \<Rightarrow>
          (case firstNilStep (ord steps) of
             Some err \<Rightarrow> Some err
           | None \<Rightarrow>
               (if arg_sm_Log args = None then Some sm_ErrNilLogger
                else if arg_sm_StatusHandler args = None then Some sm_ErrNilStatusHandler
                else None)))"

definition getNextStep :: "'s MachineStates \<Rightarrow> StepIdentifier \<Rightarrow> go_error + 's Step option" where
  "getNextStep steps identifier =
     (case gm_get steps identifier of
        None \<Rightarrow> Inl (Wrapped ErrStepNotFound ('' for identifier '' @ quoted identifier))
      | Some nextStep \<Rightarrow> Inr nextStep)"

definition NewStateMachine ::
  "('s MachineStates \<Rightarrow> 's MachineStates) \<Rightarrow> 's ArgsStateMachine \<Rightarrow> go_error + 's stateMachine" where
  "NewStateMachine ord args =
     (case sm_checkArgs ord args of
        Some err \<Rightarrow> Inl err
      | None \<Rightarrow>
          (case getNextStep (the (arg_Steps args)) (arg_StartStateIdentifier args) of
             Inl err \<Rightarrow> Inl err
           | Inr step \<Rightarrow>
               Inr \<lparr> sm_stateMachineName = arg_StateMachineName args,
                     sm_steps = the (arg_Steps args),
                     sm_currentStep = step,
                     sm_statusHandler = the (arg_sm_StatusHandler args) \<rparr>))"

text \<open>
  One execution. Without a current step the method call panics; an unknown identifier is an error
  that leaves the machine without a current step.
\<close>

definition executeStep :: "('s stateMachine \<times> 's, go_error option) prog" where
  "executeStep = (\<lambda>(sm, s).
     (case sm_currentStep sm of
        None \<Rightarrow> None
      | Some currentStep \<Rightarrow> do {
          let s = sh_SetStringMetric (sm_statusHandler sm) MetricCurrentStateMachineStep
                    (step_Identifier currentStep) s;
          (nextStepIdentifier, s) \<leftarrow> step_Execute currentStep s;
          Some (case getNextStep (sm_steps sm) nextStepIdentifier of
                  Inl err \<Rightarrow> (Some err, (sm\<lparr>sm_currentStep := None\<rparr>, s))
                | Inr nextStep \<Rightarrow> (None, (sm\<lparr>sm_currentStep := nextStep\<rparr>, s)))
        }))"

definition Execute :: "('s stateMachine \<times> 's, go_error option) prog" where
  "Execute = executeStep"

section \<open>Runs\<close>

inductive reachable ::
  "('s \<Rightarrow> 's \<Rightarrow> bool) \<Rightarrow> 's stateMachine \<times> 's \<Rightarrow> 's stateMachine \<times> 's \<Rightarrow> bool"
  for env :: "'s \<Rightarrow> 's \<Rightarrow> bool" and c0 :: "'s stateMachine \<times> 's" where
  reachable_init: "reachable env c0 c0"
| reachable_exec: "reachable env c0 c \<Longrightarrow> Execute c = Some (err, c') \<Longrightarrow> reachable env c0 c'"
| reachable_env: "reachable env c0 (sm, s) \<Longrightarrow> env s s' \<Longrightarrow> reachable env c0 (sm, s')"

text \<open>A machine that stands at the step \<open>identifier\<close> of the map \<open>steps\<close>.\<close>

definition at_step :: "'s MachineStates \<Rightarrow> StepIdentifier \<Rightarrow> 's stateMachine \<Rightarrow> bool" where
  "at_step steps identifier sm \<longleftrightarrow>
     sm_steps sm = steps \<and> sm_currentStep sm \<noteq> None \<and>
     gm_get steps identifier = Some (sm_currentStep sm)"

lemma at_step_D:
  "at_step steps identifier sm \<Longrightarrow>
     \<exists>st. sm_currentStep sm = Some st \<and> gm_get steps identifier = Some (Some st) \<and> sm_steps sm = steps"
  by (auto simp: at_step_def)

lemma firstNilStep_None: "firstNilStep xs = None \<longleftrightarrow> None \<notin> snd ` set xs"
  by (induction xs rule: firstNilStep.induct) (auto split: option.splits)

lemma NewStateMachine_at_step:
  assumes "NewStateMachine ord args = Inr sm" and "range_order ord"
  shows "\<exists>steps. arg_Steps args = Some steps \<and> at_step steps (arg_StartStateIdentifier args) sm
    \<and> arg_sm_StatusHandler args = Some (sm_statusHandler sm)"
proof -
  from assms obtain steps st where st: "arg_Steps args = Some steps" "None \<notin> snd ` set steps"
    "gm_get steps (arg_StartStateIdentifier args) = Some st"
    "sm_steps sm = steps" "sm_currentStep sm = st"
    "arg_sm_StatusHandler args = Some (sm_statusHandler sm)"
    by (auto simp: NewStateMachine_def sm_checkArgs_def getNextStep_def firstNilStep_None
      split: option.splits sum.splits if_splits)
  then have "st \<noteq> None" by (force dest: map_of_SomeD)
  with st show ?thesis by (simp add: at_step_def)
qed

section \<open>Interface: steps with an invariant\<close>

text \<open>
  What a steps map promises to the machine. \<open>inv id s\<close> is what holds when the machine stands at the
  step \<open>id\<close>; every step leads to a step of the map and establishes its invariant, and neither the
  environment nor the status handler disturbs it. A panicking step counts as \<open>b\<close>.
\<close>

locale step_map =
  fixes b :: bool
    and steps :: "'s MachineStates"
    and inv :: "StepIdentifier \<Rightarrow> 's \<Rightarrow> bool"
    and env :: "'s \<Rightarrow> 's \<Rightarrow> bool"
    and handler :: "'s StatusHandler"
  assumes step_inv: "gm_get steps i = Some (Some st) \<Longrightarrow> inv i s \<Longrightarrow>
      wpg b (step_Execute st s) (\<lambda>(j, s'). (\<exists>st'. gm_get steps j = Some (Some st')) \<and> inv j s')"
    and env_inv: "inv i s \<Longrightarrow> env s s' \<Longrightarrow> inv i s'"
    and handler_inv: "inv i s \<Longrightarrow> inv i (sh_SetStringMetric handler k v s)"
begin

definition good :: "'s stateMachine \<times> 's \<Rightarrow> bool" where
  "good c \<longleftrightarrow> sm_statusHandler (fst c) = handler \<and> (\<exists>i. at_step steps i (fst c) \<and> inv i (snd c))"

lemma execute_good:
  assumes "good c"
  shows "wpg b (Execute c) (\<lambda>(err, c'). err = None \<and> good c')"
proof -
  obtain sm s where c: "c = (sm, s)" by (cases c)
  with assms obtain i st where i: "sm_statusHandler sm = handler" "at_step steps i sm" "inv i s"
    "sm_currentStep sm = Some st" "gm_get steps i = Some (Some st)" "sm_steps sm = steps"
    using at_step_D unfolding good_def by fastforce
  let ?s = "sh_SetStringMetric handler MetricCurrentStateMachineStep (step_Identifier st) s"
  have "wpg b (step_Execute st ?s)
      (\<lambda>(j, s'). (\<exists>st'. gm_get steps j = Some (Some st')) \<and> inv j s')"
    using i by (intro step_inv [of i] handler_inv)
  then show ?thesis
    unfolding c Execute_def executeStep_def
    by (auto simp: i wp_simps getNextStep_def good_def at_step_def elim!: wpg_mono)
qed

lemma reachable_good: "reachable env c0 c \<Longrightarrow> good c0 \<Longrightarrow> good c"
proof (induction rule: reachable.induct)
  case (reachable_exec c err c')
  then show ?case using execute_good [of c] by (cases b) (simp_all add: wlp_iff wp_iff)
next
  case (reachable_env sm s s')
  then show ?case using env_inv by (auto simp: good_def)
qed

text \<open>In no run does the machine lose its current step, and every execution returns no error.\<close>

lemma run_inv:
  assumes "reachable env c0 (sm, s)" and "good c0"
  shows "\<exists>i. at_step steps i sm \<and> inv i s"
  using reachable_good [OF assms] by (auto simp: good_def)

lemma run_execute:
  assumes "reachable env c0 c" and "good c0"
  shows "wpg b (Execute c) (\<lambda>(err, c'). err = None)"
  using execute_good [OF reachable_good [OF assms]] by (rule wpg_mono) auto

end

end
