(* ===== verification/Call_Trace.thy ===== *)
theory Call_Trace
  imports Executor_Rules State_Machine
begin

text \<open>
  An executor whose interfaces record every call with its arguments and its result. The recorded
  trace (newest call first) is what the safety properties of the half-bridges speak about; the
  interfaces underneath are arbitrary and the world they share may change between two calls.
\<close>

section \<open>Recorded calls\<close>

datatype event =
    EvMxAvailable "go_error option"
  | EvEthAvailable "go_error option"
  | EvLeader bool
  | EvValidate TransferBatch "go_error + bool"
  | EvGetPending "go_error + TransferBatch option"
  | EvLastEthBatchID "go_error + u64"
  | EvLastEthTxID "go_error + u64"
  | EvWasProposedTransfer "TransferBatch option" "go_error + bool"
  | EvProposeTransfer "TransferBatch option" "go_error + string"
  | EvActionIDForTransfer "TransferBatch option" "go_error + u64"
  | EvWasProposedSetStatus "TransferBatch option" "go_error + bool"
  | EvProposeSetStatus "TransferBatch option" "go_error + string"
  | EvActionIDForSetStatus "TransferBatch option" "go_error + u64"
  | EvWasSigned u64 "go_error + bool"
  | EvSign u64 "go_error + string"
  | EvQuorumReached u64 "go_error + bool"
  | EvWasExecuted u64 "go_error + bool"
  | EvPerformAction u64 "TransferBatch option" "go_error + string"
  | EvGetBatch u64 "go_error + TransferBatch option"
  | EvWasTransferExecuted u64 "go_error + bool"
  | EvBroadcast bytes
  | EvExecuteTransfer bytes "TransferBatch option" int "go_error + string"
  | EvGetStatuses u64 "go_error + bytes"
  | EvQuorumSize "go_error + int"
  | EvIsQuorumReached bytes "go_error + bool"

definition tr :: "('a \<Rightarrow> event) \<Rightarrow> ('w, 'a) prog \<Rightarrow> ('w \<times> event list, 'a) prog" where
  "tr ev f = (\<lambda>(w, l). do { (r, w) \<leftarrow> f w; Some (r, (w, ev r # l)) })"

definition traceMx :: "'w MultiversXClient \<Rightarrow> ('w \<times> event list) MultiversXClient" where
  "traceMx c =
     \<lparr> mx_GetPending = tr EvGetPending (mx_GetPending c),
       mx_WasProposedTransfer = (\<lambda>b. tr (EvWasProposedTransfer b) (mx_WasProposedTransfer c b)),
       mx_QuorumReached = (\<lambda>a. tr (EvQuorumReached a) (mx_QuorumReached c a)),
       mx_WasExecuted = (\<lambda>a. tr (EvWasExecuted a) (mx_WasExecuted c a)),
       mx_GetActionIDForProposeTransfer =
         (\<lambda>b. tr (EvActionIDForTransfer b) (mx_GetActionIDForProposeTransfer c b)),
       mx_WasProposedSetStatus = (\<lambda>b. tr (EvWasProposedSetStatus b) (mx_WasProposedSetStatus c b)),
       mx_GetActionIDForSetStatusOnPendingTransfer =
         (\<lambda>b. tr (EvActionIDForSetStatus b) (mx_GetActionIDForSetStatusOnPendingTransfer c b)),
       mx_GetLastExecutedEthBatchID = tr EvLastEthBatchID (mx_GetLastExecutedEthBatchID c),
       mx_GetLastExecutedEthTxID = tr EvLastEthTxID (mx_GetLastExecutedEthTxID c),
       mx_ProposeSetStatus = (\<lambda>b. tr (EvProposeSetStatus b) (mx_ProposeSetStatus c b)),
       mx_ProposeTransfer = (\<lambda>b. tr (EvProposeTransfer b) (mx_ProposeTransfer c b)),
       mx_Sign = (\<lambda>a. tr (EvSign a) (mx_Sign c a)),
       mx_WasSigned = (\<lambda>a. tr (EvWasSigned a) (mx_WasSigned c a)),
       mx_PerformAction = (\<lambda>a b. tr (EvPerformAction a b) (mx_PerformAction c a b)),
       mx_CheckClientAvailability = tr EvMxAvailable (mx_CheckClientAvailability c) \<rparr>"

definition traceEth :: "'w EthereumClient \<Rightarrow> ('w \<times> event list) EthereumClient" where
  "traceEth c =
     \<lparr> eth_GetBatch = (\<lambda>n. tr (EvGetBatch n) (eth_GetBatch c n)),
       eth_WasExecuted = (\<lambda>n. tr (EvWasTransferExecuted n) (eth_WasExecuted c n)),
       eth_GenerateMessageHash = eth_GenerateMessageHash c,
       eth_BroadcastSignatureForMessageHash =
         (\<lambda>h. tr (\<lambda>_. EvBroadcast h) (eth_BroadcastSignatureForMessageHash c h)),
       eth_ExecuteTransfer = (\<lambda>h b q. tr (EvExecuteTransfer h b q) (eth_ExecuteTransfer c h b q)),
       eth_GetTransactionsStatuses = (\<lambda>n. tr (EvGetStatuses n) (eth_GetTransactionsStatuses c n)),
       eth_GetQuorumSize = tr EvQuorumSize (eth_GetQuorumSize c),
       eth_IsQuorumReached = (\<lambda>h. tr (EvIsQuorumReached h) (eth_IsQuorumReached c h)),
       eth_CheckClientAvailability = tr EvEthAvailable (eth_CheckClientAvailability c) \<rparr>"

definition traceSH :: "'w StatusHandler \<Rightarrow> ('w \<times> event list) StatusHandler" where
  "traceSH h =
     \<lparr> sh_SetIntMetric = (\<lambda>k v. apfst (sh_SetIntMetric h k v)),
       sh_AddIntMetric = (\<lambda>k v. apfst (sh_AddIntMetric h k v)),
       sh_SetStringMetric = (\<lambda>k v. apfst (sh_SetStringMetric h k v)) \<rparr>"

definition untraced :: "('w, 'a) prog \<Rightarrow> ('w \<times> event list, 'a) prog" where
  "untraced f = (\<lambda>(w, l). do { (r, w) \<leftarrow> f w; Some (r, (w, l)) })"

definition traceExecutor :: "'w bridgeExecutor \<Rightarrow> ('w \<times> event list) bridgeExecutor" where
  "traceExecutor ex =
     \<lparr> ex_levelString = ex_levelString ex,
       ex_topologyProvider = tr EvLeader (ex_topologyProvider ex),
       ex_multiversXClient = traceMx (ex_multiversXClient ex),
       ex_ethereumClient = traceEth (ex_ethereumClient ex),
       ex_timeForWaitOnEthereum = ex_timeForWaitOnEthereum ex,
       ex_waitTimer = (\<lambda>d. untraced (ex_waitTimer ex d)),
       ex_statusHandler = traceSH (ex_statusHandler ex),
       ex_ClearStoredSignatures = apfst (ex_ClearStoredSignatures ex),
       ex_batchValidator = (\<lambda>b. tr (EvValidate b) (ex_batchValidator ex b)),
       ex_maxQuorumRetriesOnEthereum = ex_maxQuorumRetriesOnEthereum ex,
       ex_maxQuorumRetriesOnMultiversX = ex_maxQuorumRetriesOnMultiversX ex,
       ex_maxRetriesOnWasProposed = ex_maxRetriesOnWasProposed ex,
       ex_batch = ex_batch ex,
       ex_actionID = ex_actionID ex,
       ex_msgHash = ex_msgHash ex,
       ex_quorumRetriesOnEthereum = ex_quorumRetriesOnEthereum ex,
       ex_quorumRetriesOnMultiversX = ex_quorumRetriesOnMultiversX ex,
       ex_retriesOnWasProposed = ex_retriesOnWasProposed ex \<rparr>"

text \<open>
  Other goroutines may change the world at any moment, but neither the executor of this half-bridge
  nor the record of its calls. The machine's own status handler acts on the world too.
\<close>

definition other_goroutines :: "('w \<times> event list) bstate \<Rightarrow> ('w \<times> event list) bstate \<Rightarrow> bool" where
  "other_goroutines s s' \<longleftrightarrow> fst s' = fst s \<and> snd (snd s') = snd (snd s)"

definition machineSH :: "'w StatusHandler \<Rightarrow> ('w \<times> event list) bstate StatusHandler" where
  "machineSH h =
     \<lparr> sh_SetIntMetric = (\<lambda>k v. apsnd (apfst (sh_SetIntMetric h k v))),
       sh_AddIntMetric = (\<lambda>k v. apsnd (apfst (sh_AddIntMetric h k v))),
       sh_SetStringMetric = (\<lambda>k v. apsnd (apfst (sh_SetStringMetric h k v))) \<rparr>"

section \<open>Clients that do not panic\<close>

text \<open>
  What the executor needs of its interfaces so as not to panic itself: no operation panics, a batch
  comes with a nil error exactly when it is not nil, and no batch has \<open>2 ^ 63\<close> statuses or more. Two
  operations of the Ethereum client may rely on their arguments: a hash is asked only for batches the
  other client handed out, and a transfer only for a batch with its own hash and a quorum that is not
  negative.
\<close>

definition never_nil :: "('w, go_error + TransferBatch option) prog \<Rightarrow> bool" where
  "never_nil f \<longleftrightarrow> (\<forall>w w' r. f w = Some (Inr r, w') \<longrightarrow>
     (\<exists>batch. r = Some batch \<and> length (Statuses batch) < 2 ^ 63))"

definition hashes_pending :: "'w MultiversXClient \<Rightarrow> 'w EthereumClient \<Rightarrow> bool" where
  "hashes_pending m e \<longleftrightarrow> (\<forall>w w' batch. mx_GetPending m w = Some (Inr (Some batch), w') \<longrightarrow>
     eth_GenerateMessageHash e (Some batch) \<noteq> None)"

definition executes_hashed :: "'w EthereumClient \<Rightarrow> bool" where
  "executes_hashed e \<longleftrightarrow> (\<forall>h b q. eth_GenerateMessageHash e b = Some (Inr h) \<longrightarrow> 0 \<le> q \<longrightarrow>
     never_panics (eth_ExecuteTransfer e h b q))"

definition sensible_quorum :: "'w EthereumClient \<Rightarrow> bool" where
  "sensible_quorum e \<longleftrightarrow> (\<forall>w w' q. eth_GetQuorumSize e w = Some (Inr q, w') \<longrightarrow> 0 \<le> bigInt64 q)"

definition safe_clients :: "'w bridgeExecutor \<Rightarrow> bool" where
  "safe_clients ex \<longleftrightarrow>
     (let m = ex_multiversXClient ex; e = ex_ethereumClient ex in
      never_panics (ex_topologyProvider ex) \<and> (\<forall>d. never_panics (ex_waitTimer ex d)) \<and>
      (\<forall>b. never_panics (ex_batchValidator ex b)) \<and>
      never_panics (mx_GetPending m) \<and> never_nil (mx_GetPending m) \<and>
      (\<forall>b. never_panics (mx_WasProposedTransfer m b)) \<and> (\<forall>a. never_panics (mx_QuorumReached m a)) \<and>
      (\<forall>a. never_panics (mx_WasExecuted m a)) \<and>
      (\<forall>b. never_panics (mx_GetActionIDForProposeTransfer m b)) \<and>
      (\<forall>b. never_panics (mx_WasProposedSetStatus m b)) \<and>
      (\<forall>b. never_panics (mx_GetActionIDForSetStatusOnPendingTransfer m b)) \<and>
      never_panics (mx_GetLastExecutedEthBatchID m) \<and> never_panics (mx_GetLastExecutedEthTxID m) \<and>
      (\<forall>b. never_panics (mx_ProposeSetStatus m b)) \<and> (\<forall>b. never_panics (mx_ProposeTransfer m b)) \<and>
      (\<forall>a. never_panics (mx_Sign m a)) \<and> (\<forall>a. never_panics (mx_WasSigned m a)) \<and>
      (\<forall>a b. never_panics (mx_PerformAction m a b)) \<and> never_panics (mx_CheckClientAvailability m) \<and>
      (\<forall>n. never_panics (eth_GetBatch e n)) \<and> (\<forall>n. never_nil (eth_GetBatch e n)) \<and>
      (\<forall>n. never_panics (eth_WasExecuted e n)) \<and> hashes_pending m e \<and>
      (\<forall>h. never_panics (eth_BroadcastSignatureForMessageHash e h)) \<and>
      executes_hashed e \<and> sensible_quorum e \<and>
      (\<forall>n. never_panics (eth_GetTransactionsStatuses e n)) \<and> never_panics (eth_GetQuorumSize e) \<and>
      (\<forall>h. never_panics (eth_IsQuorumReached e h)) \<and> never_panics (eth_CheckClientAvailability e))"

section \<open>Rules\<close>

text \<open>An interface gave this answer in some world.\<close>

definition answered :: "('w, 'a) prog \<Rightarrow> 'a \<Rightarrow> bool" where
  "answered f r \<longleftrightarrow> (\<exists>w w'. f w = Some (r, w'))"

lemma answered_I: "f w = Some (r, w') \<Longrightarrow> answered f r"
  by (auto simp: answered_def)

lemma answered_tr [simp]: "answered (tr ev f) r \<longleftrightarrow> answered f r"
proof
  assume "answered f r"
  then obtain w w' where "f w = Some (r, w')" by (auto simp: answered_def)
  then have "tr ev f (w, []) = Some (r, (w', [ev r]))" by (simp add: tr_def)
  then show "answered (tr ev f) r" by (rule answered_I)
qed (auto simp: answered_def tr_def split: bind_splits)

lemma wpg_tr:
  assumes "b \<or> never_panics f"
    and "\<And>r w. f (fst s) = Some (r, w) \<Longrightarrow> answered f r \<Longrightarrow> Q (r, (w, ev r # snd s))"
  shows "wpg b (tr ev f s) Q"
proof (cases "f (fst s)")
  case None
  moreover from this have b using assms(1) by (metis never_panics_def)
  ultimately show ?thesis by (cases s) (simp add: tr_def)
next
  case (Some a)
  with assms(2) show ?thesis by (cases s; cases a) (simp add: tr_def answered_I)
qed

lemma trace_fields [simp]:
  "sh_SetIntMetric (traceSH h) k i s = apfst (sh_SetIntMetric h k i) s"
  "sh_SetStringMetric (traceSH h) k v s = apfst (sh_SetStringMetric h k v) s"
  "eth_GenerateMessageHash (traceEth e) = eth_GenerateMessageHash e"
  by (simp_all add: traceSH_def traceEth_def)

lemma machineSH_other_goroutines: "other_goroutines s (sh_SetStringMetric (machineSH h) k v s)"
  by (cases s) (simp add: machineSH_def other_goroutines_def)

text \<open>The executor of a run differs from the one it started with only in its mutable fields.\<close>

definition forget :: "'w bridgeExecutor \<Rightarrow> 'w bridgeExecutor" where
  "forget ex = ex\<lparr> ex_batch := None, ex_actionID := 0, ex_msgHash := [],
     ex_quorumRetriesOnEthereum := 0, ex_quorumRetriesOnMultiversX := 0, ex_retriesOnWasProposed := 0 \<rparr>"

definition wired :: "'w bridgeExecutor \<Rightarrow> ('w \<times> event list) bridgeExecutor \<Rightarrow> bool" where
  "wired ex0 ex \<longleftrightarrow> forget ex = forget (traceExecutor ex0)"

lemma wired_initial: "wired ex0 (traceExecutor ex0)"
  by (simp add: wired_def)

lemma wired_update [simp]:
  "wired ex0 (ex\<lparr>ex_batch := x1\<rparr>) = wired ex0 ex"
  "wired ex0 (ex\<lparr>ex_actionID := x2\<rparr>) = wired ex0 ex"
  "wired ex0 (ex\<lparr>ex_msgHash := x3\<rparr>) = wired ex0 ex"
  "wired ex0 (ex\<lparr>ex_quorumRetriesOnEthereum := x4\<rparr>) = wired ex0 ex"
  "wired ex0 (ex\<lparr>ex_quorumRetriesOnMultiversX := x4\<rparr>) = wired ex0 ex"
  "wired ex0 (ex\<lparr>ex_retriesOnWasProposed := x4\<rparr>) = wired ex0 ex"
  unfolding wired_def forget_def by simp_all

lemma forget_fields:
  "ex_topologyProvider (forget ex) = ex_topologyProvider ex"
  "ex_multiversXClient (forget ex) = ex_multiversXClient ex"
  "ex_ethereumClient (forget ex) = ex_ethereumClient ex"
  "ex_waitTimer (forget ex) = ex_waitTimer ex"
  "ex_statusHandler (forget ex) = ex_statusHandler ex"
  "ex_ClearStoredSignatures (forget ex) = ex_ClearStoredSignatures ex"
  "ex_batchValidator (forget ex) = ex_batchValidator ex"
  "ex_maxQuorumRetriesOnEthereum (forget ex) = ex_maxQuorumRetriesOnEthereum ex"
  "ex_maxQuorumRetriesOnMultiversX (forget ex) = ex_maxQuorumRetriesOnMultiversX ex"
  "ex_maxRetriesOnWasProposed (forget ex) = ex_maxRetriesOnWasProposed ex"
  by (simp_all add: forget_def)

lemma traceExecutor_fields [simp]:
  "ex_topologyProvider (traceExecutor ex0) = tr EvLeader (ex_topologyProvider ex0)"
  "ex_multiversXClient (traceExecutor ex0) = traceMx (ex_multiversXClient ex0)"
  "ex_ethereumClient (traceExecutor ex0) = traceEth (ex_ethereumClient ex0)"
  "ex_waitTimer (traceExecutor ex0) = (\<lambda>d. untraced (ex_waitTimer ex0 d))"
  "ex_statusHandler (traceExecutor ex0) = traceSH (ex_statusHandler ex0)"
  "ex_ClearStoredSignatures (traceExecutor ex0) = apfst (ex_ClearStoredSignatures ex0)"
  "ex_batchValidator (traceExecutor ex0) = (\<lambda>b. tr (EvValidate b) (ex_batchValidator ex0 b))"
  "ex_maxQuorumRetriesOnEthereum (traceExecutor ex0) = ex_maxQuorumRetriesOnEthereum ex0"
  "ex_maxQuorumRetriesOnMultiversX (traceExecutor ex0) = ex_maxQuorumRetriesOnMultiversX ex0"
  "ex_maxRetriesOnWasProposed (traceExecutor ex0) = ex_maxRetriesOnWasProposed ex0"
  by (simp_all add: traceExecutor_def)

lemma wired_fields:
  assumes "wired ex0 ex"
  shows "ex_topologyProvider ex = tr EvLeader (ex_topologyProvider ex0)"
    "ex_multiversXClient ex = traceMx (ex_multiversXClient ex0)"
    "ex_ethereumClient ex = traceEth (ex_ethereumClient ex0)"
    "ex_waitTimer ex = (\<lambda>d. untraced (ex_waitTimer ex0 d))"
    "ex_statusHandler ex = traceSH (ex_statusHandler ex0)"
    "ex_ClearStoredSignatures ex = apfst (ex_ClearStoredSignatures ex0)"
    "ex_batchValidator ex = (\<lambda>b. tr (EvValidate b) (ex_batchValidator ex0 b))"
    "ex_maxQuorumRetriesOnEthereum ex = ex_maxQuorumRetriesOnEthereum ex0"
    "ex_maxQuorumRetriesOnMultiversX ex = ex_maxQuorumRetriesOnMultiversX ex0"
    "ex_maxRetriesOnWasProposed ex = ex_maxRetriesOnWasProposed ex0"
  using arg_cong [OF assms [unfolded wired_def]] forget_fields traceExecutor_fields by metis+

end
