(* ===== verification/Trace_Rules.thy ===== *)
theory Trace_Rules
  imports Call_Trace Eth_To_Mx_Steps
begin

text \<open>
  One rule per executor operation: what it adds to the trace and which results it may return, for
  arbitrary clients. \<open>sound b ex\<close> says that \<open>ex\<close> records the calls of some executor, one that does
  not panic unless \<open>b\<close> admits panics. The step proofs of both half-bridges use these rules only.
\<close>

definition sound :: "bool \<Rightarrow> ('w \<times> event list) bridgeExecutor \<Rightarrow> bool" where
  "sound b ex \<longleftrightarrow> (\<exists>ex0. wired ex0 ex \<and> (b \<or> safe_clients ex0))"

abbreviation calls :: "('w \<times> event list) bstate \<Rightarrow> event list" where
  "calls s \<equiv> snd (snd s)"

lemma sound_update [simp]:
  "sound b (ex\<lparr>ex_batch := x1\<rparr>) = sound b ex"
  "sound b (ex\<lparr>ex_actionID := x2\<rparr>) = sound b ex"
  "sound b (ex\<lparr>ex_msgHash := x3\<rparr>) = sound b ex"
  "sound b (ex\<lparr>ex_quorumRetriesOnEthereum := x4\<rparr>) = sound b ex"
  "sound b (ex\<lparr>ex_quorumRetriesOnMultiversX := x4\<rparr>) = sound b ex"
  "sound b (ex\<lparr>ex_retriesOnWasProposed := x4\<rparr>) = sound b ex"
  by (simp_all add: sound_def)

lemma sound_E:
  assumes "sound b ex"
  obtains ex0 where "wired ex0 ex" "b \<or> safe_clients ex0"
  using assms by (auto simp: sound_def)

lemma calls_PrintInfo [simp]:
  assumes "sound b (fst s)"
  shows "calls (PrintInfo lvl m xs s) = calls s"
proof -
  obtain ex w l where s: "s = (ex, (w, l))" by (metis prod.collapse)
  with assms obtain ex0 where "wired ex0 ex" by (auto elim: sound_E)
  note wired_fields(5) [OF this]
  with s show ?thesis by (simp add: PrintInfo_def setExecutionMessageInStatusHandler_def)
qed

lemma fst_logIf [simp]: "fst (logIf e m s) = fst s"
  by (simp add: logIf_def split: option.split)

lemma calls_logIf [simp]: "calls (logIf e m s) = calls s"
  by (simp add: logIf_def split: option.split)

text \<open>
  A recorded call is genuine when the interface did give the recorded answer in some world. This is
  tracked for the calls whose answers come from the chains.
\<close>

fun genuine :: "'w bridgeExecutor \<Rightarrow> event \<Rightarrow> bool" where
  "genuine ex (EvGetPending r) = answered (mx_GetPending (ex_multiversXClient ex)) r"
| "genuine ex (EvProposeTransfer b r) = answered (mx_ProposeTransfer (ex_multiversXClient ex) b) r"
| "genuine ex (EvProposeSetStatus b r) = answered (mx_ProposeSetStatus (ex_multiversXClient ex) b) r"
| "genuine ex (EvSign a r) = answered (mx_Sign (ex_multiversXClient ex) a) r"
| "genuine ex (EvPerformAction a b r) = answered (mx_PerformAction (ex_multiversXClient ex) a b) r"
| "genuine ex (EvGetBatch n r) = answered (eth_GetBatch (ex_ethereumClient ex) n) r"
| "genuine ex (EvExecuteTransfer h b q r) = answered (eth_ExecuteTransfer (ex_ethereumClient ex) h b q) r"
| "genuine ex e = True"

lemma genuine_update [simp]:
  "genuine (ex\<lparr>ex_batch := x1\<rparr>) = genuine ex"
  "genuine (ex\<lparr>ex_actionID := x2\<rparr>) = genuine ex"
  "genuine (ex\<lparr>ex_msgHash := x3\<rparr>) = genuine ex"
  "genuine (ex\<lparr>ex_quorumRetriesOnEthereum := x4\<rparr>) = genuine ex"
  "genuine (ex\<lparr>ex_quorumRetriesOnMultiversX := x4\<rparr>) = genuine ex"
  "genuine (ex\<lparr>ex_retriesOnWasProposed := x4\<rparr>) = genuine ex"
  by (rule ext, rename_tac e, case_tac e; simp)+

lemma genuine_wired: "wired ex0 ex \<Longrightarrow> genuine ex e \<longleftrightarrow> genuine ex0 e"
  by (cases e) (simp_all add: wired_fields traceMx_def traceEth_def)

text \<open>A batch that was handed out as pending can be hashed.\<close>

lemma pending_hashable:
  assumes "sound False ex" "genuine ex (EvGetPending (Inr (Some bt)))"
  shows "\<exists>y. eth_GenerateMessageHash (ex_ethereumClient ex) (Some bt) = Some y"
proof -
  from assms(1) obtain ex0 where ex0: "wired ex0 ex" "safe_clients ex0" by (auto elim: sound_E)
  then have "answered (mx_GetPending (ex_multiversXClient ex0)) (Inr (Some bt))"
    using assms(2) genuine_wired [OF ex0(1), of "EvGetPending (Inr (Some bt))"] by simp
  moreover have "hashes_pending (ex_multiversXClient ex0) (ex_ethereumClient ex0)"
    using ex0(2) by (simp add: safe_clients_def Let_def)
  ultimately show ?thesis
    using ex0(1) by (auto simp: hashes_pending_def answered_def wired_fields)
qed

text \<open>A recorded call through the executor's interfaces.\<close>

lemma wpg_callw_tr:
  assumes "f (fst s) = tr ev g" and "b \<or> never_panics g"
    and "\<And>r w. answered g r \<Longrightarrow> Q (r, (fst s, (w, ev r # calls s)))"
  shows "wpg b (callw f s) Q"
  unfolding wpg_callw assms(1) by (rule wpg_tr) (use assms in auto)

lemma wpg_withBatch_tr:
  assumes "\<And>bt. f (fst s) bt = tr (ev bt) (g bt)" and "\<And>bt. b \<or> never_panics (g bt)"
    and "ex_batch (fst s) = None \<Longrightarrow> Q (Inl ErrNilBatch, s)"
    and "\<And>bt r w. ex_batch (fst s) = Some bt \<Longrightarrow> answered (g bt) r \<Longrightarrow> Q (r, (fst s, (w, ev bt r # calls s)))"
  shows "wpg b (withBatch f s) Q"
proof (cases "ex_batch (fst s)")
  case None
  with assms(3) show ?thesis by (simp add: wpg_withBatch)
next
  case (Some bt)
  have "wpg b (tr (ev bt) (g bt) (snd s)) (\<lambda>(r, w). Q (r, (fst s, w)))"
    by (rule wpg_tr) (use assms(2,4) Some in auto)
  with Some show ?thesis by (simp add: wpg_withBatch assms(1))
qed

lemmas trace_defs = traceMx_def traceEth_def

lemma safe_clients_ops:
  assumes "safe_clients ex0"
  shows "never_panics (ex_topologyProvider ex0)" "never_panics (ex_waitTimer ex0 d)"
    "never_panics (ex_batchValidator ex0 bt)"
    "never_panics (mx_GetPending (ex_multiversXClient ex0))"
    "never_panics (mx_WasProposedTransfer (ex_multiversXClient ex0) bo)"
    "never_panics (mx_QuorumReached (ex_multiversXClient ex0) a)"
    "never_panics (mx_WasExecuted (ex_multiversXClient ex0) a)"
    "never_panics (mx_GetActionIDForProposeTransfer (ex_multiversXClient ex0) bo)"
    "never_panics (mx_WasProposedSetStatus (ex_multiversXClient ex0) bo)"
    "never_panics (mx_GetActionIDForSetStatusOnPendingTransfer (ex_multiversXClient ex0) bo)"
    "never_panics (mx_GetLastExecutedEthBatchID (ex_multiversXClient ex0))"
    "never_panics (mx_GetLastExecutedEthTxID (ex_multiversXClient ex0))"
    "never_panics (mx_ProposeSetStatus (ex_multiversXClient ex0) bo)"
    "never_panics (mx_ProposeTransfer (ex_multiversXClient ex0) bo)"
    "never_panics (mx_Sign (ex_multiversXClient ex0) a)"
    "never_panics (mx_WasSigned (ex_multiversXClient ex0) a)"
    "never_panics (mx_PerformAction (ex_multiversXClient ex0) a bo)"
    "never_panics (mx_CheckClientAvailability (ex_multiversXClient ex0))"
    "never_panics (eth_GetBatch (ex_ethereumClient ex0) n)"
    "never_panics (eth_WasExecuted (ex_ethereumClient ex0) n)"
    "never_panics (eth_BroadcastSignatureForMessageHash (ex_ethereumClient ex0) h)"
    "hashes_pending (ex_multiversXClient ex0) (ex_ethereumClient ex0)"
    "executes_hashed (ex_ethereumClient ex0)" "sensible_quorum (ex_ethereumClient ex0)"
    "never_panics (eth_GetTransactionsStatuses (ex_ethereumClient ex0) n)"
    "never_panics (eth_GetQuorumSize (ex_ethereumClient ex0))"
    "never_panics (eth_IsQuorumReached (ex_ethereumClient ex0) h)"
    "never_panics (eth_CheckClientAvailability (ex_ethereumClient ex0))"
    "never_nil (mx_GetPending (ex_multiversXClient ex0))"
    "never_nil (eth_GetBatch (ex_ethereumClient ex0) n)"
  using assms by (simp_all add: safe_clients_def Let_def)

section \<open>Operations that only call a client\<close>

lemma tr_MyTurnAsLeader [wp_intros]:
  "sound b (fst s) \<Longrightarrow> (\<And>r w. Q (r, (fst s, (w, EvLeader r # calls s)))) \<Longrightarrow>
     wpg b (MyTurnAsLeader s) Q"
  unfolding MyTurnAsLeader_def
  by (erule sound_E, rule wpg_callw_tr) (auto simp: wired_fields trace_defs safe_clients_ops)

lemma tr_WasActionSigned [wp_intros]:
  "sound b (fst s) \<Longrightarrow> (\<And>r w. Q (r, (fst s, (w, EvWasSigned (ex_actionID (fst s)) r # calls s)))) \<Longrightarrow>
     wpg b (WasActionSignedOnMultiversX s) Q"
  unfolding WasActionSignedOnMultiversX_def
  by (erule sound_E, rule wpg_callw_tr) (auto simp: wired_fields trace_defs safe_clients_ops)

lemma tr_ProcessQuorumReachedMx [wp_intros]:
  "sound b (fst s) \<Longrightarrow> (\<And>r w. Q (r, (fst s, (w, EvQuorumReached (ex_actionID (fst s)) r # calls s)))) \<Longrightarrow>
     wpg b (ProcessQuorumReachedOnMultiversX s) Q"
  unfolding ProcessQuorumReachedOnMultiversX_def
  by (erule sound_E, rule wpg_callw_tr) (auto simp: wired_fields trace_defs safe_clients_ops)

lemma tr_ProcessQuorumReachedEth [wp_intros]:
  "sound b (fst s) \<Longrightarrow> (\<And>r w. Q (r, (fst s, (w, EvIsQuorumReached (ex_msgHash (fst s)) r # calls s)))) \<Longrightarrow>
     wpg b (ProcessQuorumReachedOnEthereum s) Q"
  unfolding ProcessQuorumReachedOnEthereum_def
  by (erule sound_E, rule wpg_callw_tr) (auto simp: wired_fields trace_defs safe_clients_ops)

lemma tr_WasActionPerformed [wp_intros]:
  "sound b (fst s) \<Longrightarrow> (\<And>r w. Q (r, (fst s, (w, EvWasExecuted (ex_actionID (fst s)) r # calls s)))) \<Longrightarrow>
     wpg b (WasActionPerformedOnMultiversX s) Q"
  unfolding WasActionPerformedOnMultiversX_def
  by (erule sound_E, rule wpg_callw_tr) (auto simp: wired_fields trace_defs safe_clients_ops)

lemma tr_ValidateBatch [wp_intros]:
  "sound b (fst s) \<Longrightarrow> (\<And>r w. Q (r, (fst s, (w, EvValidate bt r # calls s)))) \<Longrightarrow>
     wpg b (ValidateBatch bt s) Q"
  unfolding ValidateBatch_def
  by (erule sound_E, rule wpg_callw_tr) (auto simp: wired_fields trace_defs safe_clients_ops)

lemma tr_CheckMx [wp_intros]:
  "sound b (fst s) \<Longrightarrow> (\<And>r w. Q (r, (fst s, (w, EvMxAvailable r # calls s)))) \<Longrightarrow>
     wpg b (CheckMultiversXClientAvailability s) Q"
  unfolding CheckMultiversXClientAvailability_def
  by (erule sound_E, rule wpg_callw_tr) (auto simp: wired_fields trace_defs safe_clients_ops)

lemma tr_CheckEth [wp_intros]:
  "sound b (fst s) \<Longrightarrow> (\<And>r w. Q (r, (fst s, (w, EvEthAvailable r # calls s)))) \<Longrightarrow>
     wpg b (CheckEthereumClientAvailability s) Q"
  unfolding CheckEthereumClientAvailability_def
  by (erule sound_E, rule wpg_callw_tr) (auto simp: wired_fields trace_defs safe_clients_ops)

lemma tr_WasTransferProposed [wp_intros]:
  "sound b (fst s) \<Longrightarrow> (ex_batch (fst s) = None \<Longrightarrow> Q (Inl ErrNilBatch, s)) \<Longrightarrow>
   (\<And>bt r w. ex_batch (fst s) = Some bt \<Longrightarrow> Q (r, (fst s, (w, EvWasProposedTransfer (Some bt) r # calls s)))) \<Longrightarrow>
     wpg b (WasTransferProposedOnMultiversX s) Q"
  unfolding WasTransferProposedOnMultiversX_def
  by (erule sound_E, rule wpg_withBatch_tr) (auto simp: wired_fields trace_defs safe_clients_ops)

lemma tr_WasSetStatusProposed [wp_intros]:
  "sound b (fst s) \<Longrightarrow> (ex_batch (fst s) = None \<Longrightarrow> Q (Inl ErrNilBatch, s)) \<Longrightarrow>
   (\<And>bt r w. ex_batch (fst s) = Some bt \<Longrightarrow> Q (r, (fst s, (w, EvWasProposedSetStatus (Some bt) r # calls s)))) \<Longrightarrow>
     wpg b (WasSetStatusProposedOnMultiversX s) Q"
  unfolding WasSetStatusProposedOnMultiversX_def
  by (erule sound_E, rule wpg_withBatch_tr) (auto simp: wired_fields trace_defs safe_clients_ops)

lemma tr_WasTransferPerformed [wp_intros]:
  "sound b (fst s) \<Longrightarrow> (ex_batch (fst s) = None \<Longrightarrow> Q (Inl ErrNilBatch, s)) \<Longrightarrow>
   (\<And>bt r w. ex_batch (fst s) = Some bt \<Longrightarrow> Q (r, (fst s, (w, EvWasTransferExecuted (ID bt) r # calls s)))) \<Longrightarrow>
     wpg b (WasTransferPerformedOnEthereum s) Q"
  unfolding WasTransferPerformedOnEthereum_def
  by (erule sound_E, rule wpg_withBatch_tr) (auto simp: wired_fields trace_defs safe_clients_ops)

lemma tr_GetBatchStatuses [wp_intros]:
  "sound b (fst s) \<Longrightarrow> (ex_batch (fst s) = None \<Longrightarrow> Q (Inl ErrNilBatch, s)) \<Longrightarrow>
   (\<And>bt r w. ex_batch (fst s) = Some bt \<Longrightarrow> Q (r, (fst s, (w, EvGetStatuses (ID bt) r # calls s)))) \<Longrightarrow>
     wpg b (GetBatchStatusesFromEthereum s) Q"
  unfolding GetBatchStatusesFromEthereum_def
  by (erule sound_E, rule wpg_withBatch_tr) (auto simp: wired_fields trace_defs safe_clients_ops)

section \<open>Operations that send a transaction\<close>

text \<open>Only success or failure is visible to the steps.\<close>

definition failure :: "go_error + 'a \<Rightarrow> go_error option" where
  "failure r = (case r of Inl err \<Rightarrow> Some err | Inr h \<Rightarrow> None)"

lemma failure_simps [simp]: "failure (Inl e) = Some e" "failure (Inr h) = None"
  by (simp_all add: failure_def)

lemma failure_None: "failure r = None \<longleftrightarrow> (\<exists>h. r = Inr h)"
  by (cases r) simp_all

lemma wpg_dropHash_failure:
  "wpg b (dropHash f s) Q \<longleftrightarrow> wpg b (f s) (\<lambda>(r, s). Q (failure r, s))"
  by (simp add: wpg_dropHash failure_def)

lemma tr_SignAction [wp_intros]:
  "sound b (fst s) \<Longrightarrow> (\<And>r w. genuine (fst s) (EvSign (ex_actionID (fst s)) r) \<Longrightarrow> Q (failure r, (fst s, (w, EvSign (ex_actionID (fst s)) r # calls s)))) \<Longrightarrow>
     wpg b (SignActionOnMultiversX s) Q"
  unfolding SignActionOnMultiversX_def wpg_dropHash_failure
  by (erule sound_E, rule wpg_callw_tr) (auto simp: wired_fields trace_defs safe_clients_ops)

lemma tr_ProposeTransfer [wp_intros]:
  "sound b (fst s) \<Longrightarrow> (ex_batch (fst s) = None \<Longrightarrow> Q (Some ErrNilBatch, s)) \<Longrightarrow>
   (\<And>bt r w. ex_batch (fst s) = Some bt \<Longrightarrow> genuine (fst s) (EvProposeTransfer (Some bt) r) \<Longrightarrow>
      Q (failure r, (fst s, (w, EvProposeTransfer (Some bt) r # calls s)))) \<Longrightarrow>
     wpg b (ProposeTransferOnMultiversX s) Q"
  unfolding ProposeTransferOnMultiversX_def wpg_dropHash_failure
  by (erule sound_E, rule wpg_withBatch_tr) (auto simp: wired_fields trace_defs safe_clients_ops)

lemma tr_ProposeSetStatus [wp_intros]:
  "sound b (fst s) \<Longrightarrow> (ex_batch (fst s) = None \<Longrightarrow> Q (Some ErrNilBatch, s)) \<Longrightarrow>
   (\<And>bt r w. ex_batch (fst s) = Some bt \<Longrightarrow> genuine (fst s) (EvProposeSetStatus (Some bt) r) \<Longrightarrow>
      Q (failure r, (fst s, (w, EvProposeSetStatus (Some bt) r # calls s)))) \<Longrightarrow>
     wpg b (ProposeSetStatusOnMultiversX s) Q"
  unfolding ProposeSetStatusOnMultiversX_def wpg_dropHash_failure
  by (erule sound_E, rule wpg_withBatch_tr) (auto simp: wired_fields trace_defs safe_clients_ops)

lemma tr_PerformAction [wp_intros]:
  "sound b (fst s) \<Longrightarrow> (ex_batch (fst s) = None \<Longrightarrow> Q (Some ErrNilBatch, s)) \<Longrightarrow>
   (\<And>bt r w. ex_batch (fst s) = Some bt \<Longrightarrow> genuine (fst s) (EvPerformAction (ex_actionID (fst s)) (Some bt) r) \<Longrightarrow>
      Q (failure r, (fst s, (w, EvPerformAction (ex_actionID (fst s)) (Some bt) r # calls s)))) \<Longrightarrow>
     wpg b (PerformActionOnMultiversX s) Q"
  unfolding PerformActionOnMultiversX_def wpg_dropHash_failure
  by (erule sound_E, rule wpg_withBatch_tr) (auto simp: wired_fields trace_defs safe_clients_ops)

section \<open>Operations that write the executor\<close>

lemma apfst_world: "apfst f s = (f (fst s), snd s)"
  by (cases s) simp

lemmas tr_simps = wired_fields trace_defs safe_clients_ops apfst_world

lemma never_nil_None: "never_nil f \<Longrightarrow> f w = Some (Inr None, w') \<longleftrightarrow> False"
  by (auto simp: never_nil_def)

lemma never_nil_Some: "never_nil f \<Longrightarrow> f w = Some (Inr (Some bt), w') \<Longrightarrow> length (Statuses bt) < 2 ^ 63"
  by (auto simp: never_nil_def)

lemma tr_GetBatchFromMultiversX [wp_intros]:
  assumes "sound b (fst s)"
    and "\<And>err w. genuine (fst s) (EvGetPending (Inl err)) \<Longrightarrow> Q (Inl err, (fst s, (w, EvGetPending (Inl err) # calls s)))"
    and "\<And>bt w. b \<or> length (Statuses bt) < 2 ^ 63 \<Longrightarrow> genuine (fst s) (EvGetPending (Inr (Some bt))) \<Longrightarrow>
        Q (Inr (Some bt), (fst s, (w, EvGetPending (Inr (Some bt)) # calls s)))"
  shows "wpg b (GetBatchFromMultiversX s) Q"
proof -
  from assms(1) obtain ex0 where ex0: "wired ex0 (fst s)" "b \<or> safe_clients ex0" by (rule sound_E)
  from ex0(2) have nn: "b \<or> never_nil (mx_GetPending (ex_multiversXClient ex0))"
    by (auto simp: safe_clients_ops)
  show ?thesis
    unfolding wpg_GetBatchFromMultiversX
    using ex0 nn assms(2,3)
    by (simp add: tr_simps, intro wpg_tr)
       (auto simp: never_nil_None tr_simps split: sum.split option.split dest: never_nil_Some)
qed

lemma tr_GetLastExecutedEthBatchID [wp_intros]:
  "sound b (fst s) \<Longrightarrow> (\<And>r w. Q (r, (fst s, (w, EvLastEthBatchID r # calls s)))) \<Longrightarrow>
     wpg b (GetLastExecutedEthBatchIDFromMultiversX s) Q"
  unfolding wpg_GetLastExecutedEthBatchID
  by (erule sound_E) (auto simp: tr_simps split: sum.split intro!: wpg_tr)

lemma tr_VerifyLastDepositNonce [wp_intros]:
  "sound b (fst s) \<Longrightarrow> (ex_batch (fst s) = None \<Longrightarrow> Q (Some ErrNilBatch, s)) \<Longrightarrow>
   (\<And>bt err w. ex_batch (fst s) = Some bt \<Longrightarrow> Q (Some err, (fst s, (w, EvLastEthTxID (Inl err) # calls s)))) \<Longrightarrow>
   (\<And>bt n w. ex_batch (fst s) = Some bt \<Longrightarrow>
      Q (verifyDepositNonces n bt, (fst s, (w, EvLastEthTxID (Inr n) # calls s)))) \<Longrightarrow>
     wpg b (VerifyLastDepositNonceExecutedOnEthereumBatch s) Q"
  unfolding wpg_VerifyLastDepositNonce
  by (erule sound_E) (auto simp: tr_simps split: sum.split option.split intro!: wpg_tr)

lemma tr_GetAndStoreActionIDForProposeTransfer [wp_intros]:
  "sound b (fst s) \<Longrightarrow> (ex_batch (fst s) = None \<Longrightarrow> Q (Inl ErrNilBatch, s)) \<Longrightarrow>
   (\<And>bt err w. ex_batch (fst s) = Some bt \<Longrightarrow>
      Q (Inl err, (fst s, (w, EvActionIDForTransfer (Some bt) (Inl err) # calls s)))) \<Longrightarrow>
   (\<And>bt a w. ex_batch (fst s) = Some bt \<Longrightarrow>
      Q (Inr a, ((fst s)\<lparr>ex_actionID := a\<rparr>, (w, EvActionIDForTransfer (Some bt) (Inr a) # calls s)))) \<Longrightarrow>
     wpg b (GetAndStoreActionIDForProposeTransferOnMultiversX s) Q"
  unfolding wpg_GetAndStoreActionIDForProposeTransfer
  by (erule sound_E) (auto simp: tr_simps split: sum.split option.split intro!: wpg_tr)

lemma tr_GetAndStoreActionIDForProposeSetStatus [wp_intros]:
  "sound b (fst s) \<Longrightarrow> (ex_batch (fst s) = None \<Longrightarrow> Q (Inl ErrNilBatch, s)) \<Longrightarrow>
   (\<And>bt err w. ex_batch (fst s) = Some bt \<Longrightarrow>
      Q (Inl err, (fst s, (w, EvActionIDForSetStatus (Some bt) (Inl err) # calls s)))) \<Longrightarrow>
   (\<And>bt a w. ex_batch (fst s) = Some bt \<Longrightarrow>
      Q (Inr a, ((fst s)\<lparr>ex_actionID := a\<rparr>, (w, EvActionIDForSetStatus (Some bt) (Inr a) # calls s)))) \<Longrightarrow>
     wpg b (GetAndStoreActionIDForProposeSetStatusFromMultiversX s) Q"
  unfolding wpg_GetAndStoreActionIDForProposeSetStatus
  by (erule sound_E) (auto simp: tr_simps split: sum.split option.split intro!: wpg_tr)

lemma tr_GetAndStoreBatchFromEthereum [wp_intros]:
  assumes "sound b (fst s)"
    and "\<And>err r w. genuine (fst s) (EvGetBatch n r) \<Longrightarrow> Q (Some err, (fst s, (w, EvGetBatch n r # calls s)))"
    and "\<And>bt w. ID bt = n \<Longrightarrow> Deposits bt \<noteq> [] \<Longrightarrow> genuine (fst s) (EvGetBatch n (Inr (Some bt))) \<Longrightarrow>
        Q (None, ((fst s)\<lparr>ex_batch := Some bt\<rparr>, (w, EvGetBatch n (Inr (Some bt)) # calls s)))"
  shows "wpg b (GetAndStoreBatchFromEthereum n s) Q"
proof -
  from assms(1) obtain ex0 where ex0: "wired ex0 (fst s)" "b \<or> safe_clients ex0" by (rule sound_E)
  from ex0(2) have nn: "b \<or> never_nil (eth_GetBatch (ex_ethereumClient ex0) n)"
    by (auto simp: safe_clients_ops)
  show ?thesis
    unfolding wpg_GetAndStoreBatchFromEthereum
    using ex0 nn assms(2,3)
    by (simp add: tr_simps, intro wpg_tr)
       (auto simp: never_nil_None tr_simps split: sum.split option.split)
qed

lemma tr_SignTransferOnEthereum [wp_intros]:
  assumes "sound b (fst s)"
    and "\<And>bt. ex_batch (fst s) = Some bt \<Longrightarrow> b \<or> eth_GenerateMessageHash (ex_ethereumClient (fst s)) (Some bt) \<noteq> None"
    and "ex_batch (fst s) = None \<Longrightarrow> Q (Some ErrNilBatch, s)"
    and "\<And>err. Q (Some err, s)"
    and "\<And>bt h w. ex_batch (fst s) = Some bt \<Longrightarrow>
        eth_GenerateMessageHash (ex_ethereumClient (fst s)) (Some bt) = Some (Inr h) \<Longrightarrow>
        Q (None, ((fst s)\<lparr>ex_msgHash := h\<rparr>, (w, EvBroadcast h # calls s)))"
  shows "wpg b (SignTransferOnEthereum s) Q"
proof -
  from assms(1) obtain ex0 where ex0: "wired ex0 (fst s)" "b \<or> safe_clients ex0" by (rule sound_E)
  have send: "wpg b (eth_BroadcastSignatureForMessageHash (ex_ethereumClient (fst s)) h (snd s))
      (\<lambda>(u, w). Q (None, ((fst s)\<lparr>ex_msgHash := h\<rparr>, w)))"
    if "ex_batch (fst s) = Some bt"
      "eth_GenerateMessageHash (ex_ethereumClient (fst s)) (Some bt) = Some (Inr h)" for bt h
    using ex0 assms(5) [OF that] by (auto simp: tr_simps intro!: wpg_tr)
  show ?thesis
    unfolding wpg_SignTransferOnEthereum
    using send assms(2,3,4)
    by (auto simp: wpg_def [of b "eth_GenerateMessageHash c bo" for c bo]
      split: option.split sum.split)
qed

lemma tr_PerformTransferOnEthereum [wp_intros]:
  assumes "sound b (fst s)"
    and "\<And>bt. ex_batch (fst s) = Some bt \<Longrightarrow>
        b \<or> eth_GenerateMessageHash (ex_ethereumClient (fst s)) (Some bt) = Some (Inr (ex_msgHash (fst s)))"
    and "ex_batch (fst s) = None \<Longrightarrow> Q (Some ErrNilBatch, s)"
    and "\<And>err w. Q (Some err, (fst s, (w, EvQuorumSize (Inl err) # calls s)))"
    and "\<And>bt q r w. ex_batch (fst s) = Some bt \<Longrightarrow>
        genuine (fst s) (EvExecuteTransfer (ex_msgHash (fst s)) (Some bt) (bigInt64 q) r) \<Longrightarrow>
        Q (failure r, (fst s, (w, EvExecuteTransfer (ex_msgHash (fst s)) (Some bt) (bigInt64 q) r #
             EvQuorumSize (Inr q) # calls s)))"
  shows "wpg b (PerformTransferOnEthereum s) Q"
proof -
  from assms(1) obtain ex0 where ex0: "wired ex0 (fst s)" "b \<or> safe_clients ex0" by (rule sound_E)
  have send: "b \<or> never_panics (eth_ExecuteTransfer (ex_ethereumClient ex0) (ex_msgHash (fst s)) (Some bt) (bigInt64 q))"
    if "ex_batch (fst s) = Some bt" "eth_GetQuorumSize (ex_ethereumClient ex0) w = Some (Inr q, w')" for bt q w w'
    using ex0 assms(2) [OF that(1)] that(2) safe_clients_ops(23,24) [of ex0]
    by (auto simp: wired_fields executes_hashed_def sensible_quorum_def)
  show ?thesis
    using assms(3-5) ex0 unfolding wpg_PerformTransferOnEthereum
    by (auto simp: tr_simps failure_def split: option.split sum.split intro!: wpg_tr) (use send in blast)
qed

section \<open>The waiting loops\<close>

text \<open>\<open>polls l l'\<close>: only status polls were added to the trace.\<close>

fun is_poll :: "event \<Rightarrow> bool" where
  "is_poll (EvWasTransferExecuted n r) = True"
| "is_poll (EvGetStatuses n r) = True"
| "is_poll e = False"

definition polls :: "event list \<Rightarrow> event list \<Rightarrow> bool" where
  "polls l l' \<longleftrightarrow> (\<exists>es. l' = es @ l \<and> list_all is_poll es)"

lemma polls_refl [simp]: "polls l l"
  by (simp add: polls_def)

lemma polls_step: "polls (e # l) l' \<Longrightarrow> is_poll e \<Longrightarrow> polls l l'"
proof -
  assume "polls (e # l) l'" "is_poll e"
  then obtain es where "l' = (es @ [e]) @ l" "list_all is_poll (es @ [e])"
    by (auto simp: polls_def)
  then show ?thesis unfolding polls_def by blast
qed

lemma polls_Cons: "is_poll e \<Longrightarrow> polls l (e # l)"
  by (rule polls_step) simp_all

lemma polls_subset: "polls l l' \<Longrightarrow> set l \<subseteq> set l'"
  by (auto simp: polls_def)

lemma wpg_untraced:
  assumes "b \<or> never_panics f"
    and "\<And>r w. Q (r, (w, snd s))"
  shows "wpg b (untraced f s) Q"
proof (cases "f (fst s)")
  case None
  moreover from this have b using assms(1) by (metis never_panics_def)
  ultimately show ?thesis by (cases s) (simp add: untraced_def)
next
  case (Some a)
  with assms(2) show ?thesis by (cases s; cases a) (simp add: untraced_def)
qed

lemma tr_wait [wp_intros]:
  "sound b (fst s) \<Longrightarrow> (\<And>r w. Q (r, (fst s, (w, calls s)))) \<Longrightarrow> wpg b (waitWithContextSucceeded s) Q"
  unfolding waitWithContextSucceeded_def wpg_callw
  by (erule sound_E) (simp add: wired_fields, rule wpg_untraced, auto simp: safe_clients_ops)

lemma tr_waitForTransferConfirmation_loop:
  "sound b (fst s) \<Longrightarrow>
     wpg b (waitForTransferConfirmation_loop n p s) (\<lambda>(_, s'). fst s' = fst s \<and> polls (calls s) (calls s'))"
proof (induction n arbitrary: p s)
  case (Suc n)
  have "wpg b (waitForTransferConfirmation_loop n q (fst s, (w, calls s)))
      (\<lambda>(_, s'). fst s' = fst s \<and> polls (calls s) (calls s'))" for w q
    using Suc.IH [of "(fst s, (w, calls s))"] Suc.prems by simp
  moreover have "wpg b (waitForTransferConfirmation_loop n q (fst s, (w, EvWasTransferExecuted k r # calls s)))
      (\<lambda>(_, s'). fst s' = fst s \<and> polls (calls s) (calls s'))" for w q k r
    by (rule wpg_mono [OF Suc.IH]) (use Suc.prems in \<open>auto intro: polls_step\<close>)
  ultimately show ?case
    using Suc.prems by (auto simp: wp_simps intro!: wp_intros)
qed simp

lemma tr_WaitForTransferConfirmation [wp_intros]:
  assumes "sound b (fst s)" "\<And>l w. polls (calls s) l \<Longrightarrow> Q ((), (fst s, (w, l)))"
  shows "wpg b (WaitForTransferConfirmation s) Q"
  unfolding WaitForTransferConfirmation_def
  by (rule wpg_mono [OF tr_waitForTransferConfirmation_loop]) (use assms in auto)

definition statuses_found :: "('w \<times> event list) bstate \<Rightarrow> bytes \<times> ('w \<times> event list) bstate \<Rightarrow> bool" where
  "statuses_found s = (\<lambda>(st, s'). fst s' = fst s \<and> polls (calls s) (calls s') \<and>
     (st \<noteq> [] \<longrightarrow> (\<exists>bt. ex_batch (fst s) = Some bt \<and> EvGetStatuses (ID bt) (Inr st) \<in> set (calls s'))))"

lemma tr_waitAndReturnFinalBatchStatuses_loop:
  "sound b (fst s) \<Longrightarrow> wpg b (waitAndReturnFinalBatchStatuses_loop n s) (statuses_found s)"
proof (induction n arbitrary: s)
  case (Suc n)
  have "wpg b (waitAndReturnFinalBatchStatuses_loop n (fst s, (w, calls s))) (statuses_found s)" for w
    using Suc.IH [of "(fst s, (w, calls s))"] Suc.prems by (simp add: statuses_found_def)
  moreover have "wpg b (waitAndReturnFinalBatchStatuses_loop n (fst s, (w, EvGetStatuses k r # calls s)))
      (statuses_found s)" for w k r
    using Suc.IH [of "(fst s, (w, EvGetStatuses k r # calls s))"] Suc.prems
    by (auto simp: statuses_found_def elim!: wpg_mono intro: polls_step)
  moreover have "statuses_found s (st, (fst s, (w, EvGetStatuses (ID bt) (Inr st) # calls s)))"
    if "ex_batch (fst s) = Some bt" for bt st w
    using that by (simp add: statuses_found_def polls_Cons)
  moreover have "statuses_found s ([], (fst s, (w, calls s)))" for w
    by (simp add: statuses_found_def)
  moreover have "waitAndReturnFinalBatchStatuses_loop n s = waitAndReturnFinalBatchStatuses_loop n (fst s, (fst (snd s), calls s))"
    by simp
  ultimately show ?case
    using Suc.prems by (auto simp: wp_simps intro!: wp_intros split: sum.split)
qed (simp add: statuses_found_def)

lemma tr_WaitAndReturnFinalBatchStatuses [wp_intros]:
  assumes "sound b (fst s)"
    and "\<And>st l w. statuses_found s (st, (fst s, (w, l))) \<Longrightarrow> Q (st, (fst s, (w, l)))"
  shows "wpg b (WaitAndReturnFinalBatchStatuses s) Q"
  unfolding WaitAndReturnFinalBatchStatuses_def
  by (rule wpg_mono [OF tr_waitAndReturnFinalBatchStatuses_loop])
     (use assms in \<open>auto simp: statuses_found_def\<close>)

section \<open>Justified traces\<close>

text \<open>Every call of the trace satisfies \<open>J\<close> with respect to the calls before it.\<close>

fun all_justified :: "(event list \<Rightarrow> event \<Rightarrow> bool) \<Rightarrow> event list \<Rightarrow> bool" where
  "all_justified J [] = True"
| "all_justified J (e # older) = (J older e \<and> all_justified J older)"

lemma all_justified_append:
  "all_justified J (newer @ e # older) \<Longrightarrow> J older e"
  by (induction newer) simp_all

lemma all_justified_polls:
  assumes "\<And>e l. is_poll e \<Longrightarrow> J l e" and "polls l l'" and "all_justified J l"
  shows "all_justified J l'"
proof -
  obtain es where "l' = es @ l" "list_all is_poll es" using assms(2) by (auto simp: polls_def)
  then show ?thesis using assms(1,3) by (induction es arbitrary: l') auto
qed

text \<open>A round starts when the pending-batch step checks the MultiversX client.\<close>

fun is_round_start :: "event \<Rightarrow> bool" where
  "is_round_start (EvMxAvailable r) = True"
| "is_round_start e = False"

definition in_round :: "(event \<Rightarrow> bool) \<Rightarrow> event list \<Rightarrow> nat" where
  "in_round P l = length (filter P (takeWhile (\<lambda>e. \<not> is_round_start e) l))"

lemma in_round_simps [simp]:
  "in_round P [] = 0"
  "in_round P (e # l) = (if is_round_start e then 0 else if P e then Suc (in_round P l) else in_round P l)"
  by (simp_all add: in_round_def)

lemma in_round_polls:
  assumes "\<And>e. is_poll e \<Longrightarrow> \<not> P e" and "polls l l'"
  shows "in_round P l' = in_round P l"
proof -
  have "\<not> is_round_start e" if "is_poll e" for e
    using that by (cases e rule: is_poll.cases) simp_all
  moreover obtain es where "l' = es @ l" "list_all is_poll es" using assms(2) by (auto simp: polls_def)
  ultimately show ?thesis using assms(1) by (induction es arbitrary: l') auto
qed

end
