(* ===== verification/Eth_To_Mx_Safety.thy ===== *)
theory Eth_To_Mx_Safety
  imports Trace_Rules
begin

text \<open>
  The invariant of the Ethereum to MultiversX machine, step by step, and its interpretation of the
  interface \<open>step_map\<close>: which calls must have been made, with which results, before the half-bridge
  proposes, signs or performs anything on MultiversX.
\<close>

section \<open>What a batch has gone through\<close>

text \<open>
  The batch was fetched from Ethereum under the number that follows the last one executed on
  MultiversX, it is not empty, the validator accepted it, and its deposit nonces continue the last
  executed one.
\<close>

definition checked_batch :: "event list \<Rightarrow> TransferBatch \<Rightarrow> bool" where
  "checked_batch l bt \<longleftrightarrow> (\<exists>lastBatch lastTx.
     EvLastEthBatchID (Inr lastBatch) \<in> set l \<and>
     EvGetBatch (lastBatch + 1) (Inr (Some bt)) \<in> set l \<and>
     ID bt = lastBatch + 1 \<and> Deposits bt \<noteq> [] \<and>
     EvValidate bt (Inr True) \<in> set l \<and>
     EvLastEthTxID (Inr lastTx) \<in> set l \<and> consecutive (lastTx + 1) (Deposits bt))"

definition transfer_proposed :: "event list \<Rightarrow> TransferBatch \<Rightarrow> bool" where
  "transfer_proposed l bt \<longleftrightarrow>
     EvWasProposedTransfer (Some bt) (Inr True) \<in> set l \<or>
     (\<exists>hash. EvProposeTransfer (Some bt) (Inr hash) \<in> set l)"

definition transfer_action :: "event list \<Rightarrow> u64 \<Rightarrow> TransferBatch \<Rightarrow> bool" where
  "transfer_action l a bt \<longleftrightarrow>
     a \<noteq> InvalidActionID \<and> EvActionIDForTransfer (Some bt) (Inr a) \<in> set l \<and>
     checked_batch l bt \<and> transfer_proposed l bt"

text \<open>
  What justifies a call that changes a chain, given the calls made before it. The calls of the
  other direction are never justified.
\<close>

fun eth_justified :: "event list \<Rightarrow> event \<Rightarrow> bool" where
  "eth_justified l (EvProposeTransfer bo r) =
     (\<exists>bt rest. bo = Some bt \<and> checked_batch l bt \<and>
        l = EvLeader True # EvWasProposedTransfer bo (Inr False) # rest)"
| "eth_justified l (EvSign a r) =
     (\<exists>bt rest. transfer_action l a bt \<and> l = EvWasSigned a (Inr False) # rest)"
| "eth_justified l (EvPerformAction a bo r) =
     (\<exists>bt rest. bo = Some bt \<and> transfer_action l a bt \<and> EvQuorumReached a (Inr True) \<in> set l \<and>
        l = EvLeader True # EvWasExecuted a (Inr False) # rest)"
| "eth_justified l (EvProposeSetStatus bo r) = False"
| "eth_justified l (EvBroadcast h) = False"
| "eth_justified l (EvExecuteTransfer h bo q r) = False"
| "eth_justified l e = True"

fun is_quorum_query :: "event \<Rightarrow> bool" where
  "is_quorum_query (EvQuorumReached a r) = True"
| "is_quorum_query e = False"

section \<open>The invariant\<close>

definition eth_at :: "StepIdentifier \<Rightarrow> 'v bridgeExecutor \<Rightarrow> event list \<Rightarrow> bool" where
  "eth_at i ex l \<longleftrightarrow>
     (i = GettingPendingBatchFromEthereum \<or>
      (\<exists>bt. ex_batch ex = Some bt \<and> checked_batch l bt \<and>
        (i = ProposingTransferOnMultiversX \<or>
         transfer_proposed l bt \<and>
         (i = SigningProposedTransferOnMultiversX \<or>
          transfer_action l (ex_actionID ex) bt \<and>
          (i = WaitingForQuorum \<or>
           EvQuorumReached (ex_actionID ex) (Inr True) \<in> set l \<and> i = PerformingActionID)))))"

definition eth_inv :: "bool \<Rightarrow> 'w bridgeExecutor \<Rightarrow> StepIdentifier \<Rightarrow> ('w \<times> event list) bstate \<Rightarrow> bool" where
  "eth_inv b ex0 i s \<longleftrightarrow>
     wired ex0 (fst s) \<and> sound b (fst s) \<and> list_all (genuine (fst s)) (calls s) \<and>
     all_justified eth_justified (calls s) \<and>
     in_round is_quorum_query (calls s) \<le> unat (ex_quorumRetriesOnMultiversX (fst s)) \<and>
     ex_quorumRetriesOnMultiversX (fst s) \<le> ex_maxQuorumRetriesOnMultiversX ex0 \<and>
     eth_at i (fst s) (calls s)"

lemma eth_at_simps:
  "eth_at GettingPendingBatchFromEthereum ex l"
  "eth_at ProposingTransferOnMultiversX ex l \<longleftrightarrow> (\<exists>bt. ex_batch ex = Some bt \<and> checked_batch l bt)"
  "eth_at SigningProposedTransferOnMultiversX ex l \<longleftrightarrow>
     (\<exists>bt. ex_batch ex = Some bt \<and> checked_batch l bt \<and> transfer_proposed l bt)"
  "eth_at WaitingForQuorum ex l \<longleftrightarrow>
     (\<exists>bt. ex_batch ex = Some bt \<and> transfer_action l (ex_actionID ex) bt)"
  "eth_at PerformingActionID ex l \<longleftrightarrow>
     (\<exists>bt. ex_batch ex = Some bt \<and> transfer_action l (ex_actionID ex) bt \<and>
        EvQuorumReached (ex_actionID ex) (Inr True) \<in> set l)"
  by (auto simp: eth_at_def eth_id_defs transfer_action_def)

lemma checked_batch_mono: "checked_batch l bt \<Longrightarrow> set l \<subseteq> set l' \<Longrightarrow> checked_batch l' bt"
  unfolding checked_batch_def by blast

lemma transfer_proposed_mono: "transfer_proposed l bt \<Longrightarrow> set l \<subseteq> set l' \<Longrightarrow> transfer_proposed l' bt"
  unfolding transfer_proposed_def by blast

lemma transfer_action_mono: "transfer_action l a bt \<Longrightarrow> set l \<subseteq> set l' \<Longrightarrow> transfer_action l' a bt"
  unfolding transfer_action_def
  by (meson checked_batch_mono transfer_proposed_mono subsetD)

lemma trace_mono [simp]:
  "checked_batch l bt \<Longrightarrow> checked_batch (e # l) bt"
  "transfer_proposed l bt \<Longrightarrow> transfer_proposed (e # l) bt"
  "transfer_action l a bt \<Longrightarrow> transfer_action (e # l) a bt"
  by (auto intro: checked_batch_mono transfer_proposed_mono transfer_action_mono)

lemma transfer_proposed_now [simp]:
  "transfer_proposed (EvWasProposedTransfer (Some bt) (Inr True) # l) bt"
  "transfer_proposed (EvProposeTransfer (Some bt) (Inr hash) # l) bt"
  by (auto simp: transfer_proposed_def)

lemma transfer_action_now [simp]:
  "a \<noteq> InvalidActionID \<Longrightarrow> checked_batch l bt \<Longrightarrow> transfer_proposed l bt \<Longrightarrow>
     transfer_action (EvActionIDForTransfer (Some bt) (Inr a) # l) a bt"
  by (simp add: transfer_action_def)

lemma transfer_action_ex:
  "a \<noteq> InvalidActionID \<Longrightarrow> checked_batch l bt \<Longrightarrow> transfer_proposed l bt \<Longrightarrow>
     Ex (transfer_action (e # EvActionIDForTransfer (Some bt) (Inr a) # l) a)"
  by (rule exI [of _ bt]) simp

lemma checked_batch_now:
  "ID bt = n + 1 \<Longrightarrow> Deposits bt \<noteq> [] \<Longrightarrow> verifyDepositNonces k bt = None \<Longrightarrow>
     checked_batch (EvLastEthTxID (Inr k) # EvValidate bt (Inr True) #
       EvGetBatch (n + 1) (Inr (Some bt)) # EvLastEthBatchID (Inr n) # l) bt"
  unfolding checked_batch_def verifyDepositNonces_None by (intro exI [of _ n] exI [of _ k]) simp

section \<open>The steps keep the invariant\<close>

lemma eth_getPending_inv:
  "eth_inv b ex0 GettingPendingBatchFromEthereum s \<Longrightarrow>
     wpg b (eth_getPendingStep_Execute marshal s) (\<lambda>(j, s'). eth_inv b ex0 j s')"
  unfolding eth_inv_def eth_getPendingStep_Execute_def
  by (auto simp: wp_simps eth_at_simps wired_fields intro!: wp_intros checked_batch_now
    split: sum.split)

lemma eth_proposeTransfer_inv:
  "eth_inv b ex0 ProposingTransferOnMultiversX s \<Longrightarrow>
     wpg b (eth_proposeTransferStep_Execute s) (\<lambda>(j, s'). eth_inv b ex0 j s')"
  unfolding eth_inv_def eth_proposeTransferStep_Execute_def
  by (auto simp: wp_simps eth_at_simps wired_fields failure_None
    intro!: wp_intros split: sum.split)

lemma eth_signProposedTransfer_inv:
  "eth_inv b ex0 SigningProposedTransferOnMultiversX s \<Longrightarrow>
     wpg b (eth_signProposedTransferStep_Execute s) (\<lambda>(j, s'). eth_inv b ex0 j s')"
  unfolding eth_inv_def eth_signProposedTransferStep_Execute_def
  by (auto simp: wp_simps eth_at_simps wired_fields failure_None
    intro!: wp_intros transfer_action_ex split: sum.split)

lemma eth_waitForQuorum_inv:
  "eth_inv b ex0 WaitingForQuorum s \<Longrightarrow>
     wpg b (eth_waitForQuorumStep_Execute s) (\<lambda>(j, s'). eth_inv b ex0 j s')"
  unfolding eth_inv_def eth_waitForQuorumStep_Execute_def
  by (auto simp: wp_simps eth_at_simps wired_fields u64_inc inc_le intro!: wp_intros split: sum.split)

lemma eth_performActionID_inv:
  "eth_inv b ex0 PerformingActionID s \<Longrightarrow>
     wpg b (eth_performActionIDStep_Execute s) (\<lambda>(j, s'). eth_inv b ex0 j s')"
  unfolding eth_inv_def eth_performActionIDStep_Execute_def
  by (auto simp: wp_simps eth_at_simps wired_fields intro!: wp_intros split: sum.split)

lemmas eth_steps_inv =
  eth_getPending_inv eth_proposeTransfer_inv eth_signProposedTransfer_inv
  eth_waitForQuorum_inv eth_performActionID_inv

section \<open>The machine\<close>

definition eth_machineStates :: "(TransferBatch \<Rightarrow> string) \<Rightarrow> 'w bstate MachineStates" where
  "eth_machineStates marshal = map (\<lambda>st. (step_Identifier st, Some st)) (eth_stepsSlice marshal)"

lemma eth_createMachineStates_eq: "eth_createMachineStates marshal = Inr (eth_machineStates marshal)"
  by (simp add: eth_createMachineStates_def eth_machineStates_def eth_stepsSlice_def eth_id_defs)

lemma eth_at_valid:
  "eth_at i ex l \<Longrightarrow> \<exists>st. gm_get (eth_machineStates marshal) i = Some (Some st)"
  by (auto simp: eth_at_def eth_machineStates_def eth_stepsSlice_def)

interpretation eth: step_map b "eth_machineStates marshal" "eth_inv b ex0" other_goroutines "machineSH h"
  for b marshal ex0 h
proof (unfold_locales, goal_cases)
  case (1 i st s)
  have "wpg b (step_Execute st s) (\<lambda>(j, s'). eth_inv b ex0 j s')"
    using 1 by (auto simp: eth_machineStates_def eth_stepsSlice_def split: if_splits intro: eth_steps_inv)
  then show ?case by (rule wpg_mono) (auto simp: eth_inv_def intro: eth_at_valid)
next
  case (2 i s s')
  then show ?case by (simp add: eth_inv_def other_goroutines_def)
next
  case (3 i s k v)
  then show ?case
    using machineSH_other_goroutines [of s h k v] by (simp add: eth_inv_def other_goroutines_def)
qed

end
