(* ===== verification/Mx_To_Eth_Safety.thy ===== *)
theory Mx_To_Eth_Safety
  imports Mx_To_Eth_Steps Eth_To_Mx_Safety
begin

text \<open>
  The invariant of the MultiversX to Ethereum machine and its interpretation of \<open>step_map\<close>: what
  precedes the broadcast of a signature, the transfer on Ethereum, and the proposal, signature and
  execution of the batch statuses on MultiversX.
\<close>

section \<open>What a batch has gone through\<close>

definition pending_batch :: "event list \<Rightarrow> TransferBatch \<Rightarrow> bool" where
  "pending_batch l bt \<longleftrightarrow>
     EvGetPending (Inr (Some bt)) \<in> set l \<and> EvValidate bt (Inr True) \<in> set l"

text \<open>\<open>gen\<close> is \<^verbatim>\<open>GenerateMessageHash\<close> of the Ethereum client.\<close>

type_synonym hash_fun = "TransferBatch option \<Rightarrow> (go_error + bytes) option"

definition signed_hash :: "hash_fun \<Rightarrow> event list \<Rightarrow> bytes \<Rightarrow> TransferBatch \<Rightarrow> bool" where
  "signed_hash gen l h bt \<longleftrightarrow>
     pending_batch l bt \<and> gen (Some bt) = Some (Inr h) \<and> EvBroadcast h \<in> set l"

text \<open>
  The batch whose statuses are set: the validated pending batch with the statuses Ethereum reported
  for it after it was executed there, resolved against the number of statuses of the batch pending
  on MultiversX.
\<close>

definition resolved_batch :: "event list \<Rightarrow> TransferBatch \<Rightarrow> bool" where
  "resolved_batch l bt \<longleftrightarrow> (\<exists>bt0 st fetched.
     pending_batch l bt0 \<and> EvWasTransferExecuted (ID bt0) (Inr True) \<in> set l \<and>
     EvGetPending (Inr (Some fetched)) \<in> set l \<and>
     EvGetStatuses (ID bt0) (Inr st) \<in> set l \<and> st \<noteq> [] \<and>
     ResolveNewDeposits (sint (of_nat (length (Statuses fetched)) :: u64)) (bt0\<lparr>Statuses := st\<rparr>) = Some bt)"

definition status_proposed :: "event list \<Rightarrow> TransferBatch \<Rightarrow> bool" where
  "status_proposed l bt \<longleftrightarrow>
     EvWasProposedSetStatus (Some bt) (Inr True) \<in> set l \<or>
     (\<exists>hash. EvProposeSetStatus (Some bt) (Inr hash) \<in> set l)"

definition status_action :: "event list \<Rightarrow> u64 \<Rightarrow> TransferBatch \<Rightarrow> bool" where
  "status_action l a bt \<longleftrightarrow>
     a \<noteq> InvalidActionID \<and> EvActionIDForSetStatus (Some bt) (Inr a) \<in> set l \<and>
     resolved_batch l bt \<and> status_proposed l bt"

fun mx_justified :: "hash_fun \<Rightarrow> event list \<Rightarrow> event \<Rightarrow> bool" where
  "mx_justified gen l (EvBroadcast h) =
     (\<exists>bt rest. pending_batch l bt \<and> gen (Some bt) = Some (Inr h) \<and>
        l = EvWasTransferExecuted (ID bt) (Inr False) # rest)"
| "mx_justified gen l (EvExecuteTransfer h bo q r) =
     (\<exists>bt quorum rest. bo = Some bt \<and> signed_hash gen l h bt \<and>
        EvIsQuorumReached h (Inr True) \<in> set l \<and> q = bigInt64 quorum \<and>
        l = EvQuorumSize (Inr quorum) # EvLeader True # EvWasTransferExecuted (ID bt) (Inr False) # rest)"
| "mx_justified gen l (EvProposeSetStatus bo r) =
     (\<exists>bt rest. bo = Some bt \<and> resolved_batch l bt \<and>
        l = EvLeader True # EvWasProposedSetStatus bo (Inr False) # rest)"
| "mx_justified gen l (EvSign a r) =
     (\<exists>bt rest. status_action l a bt \<and> l = EvWasSigned a (Inr False) # rest)"
| "mx_justified gen l (EvPerformAction a bo r) =
     (\<exists>bt rest. bo = Some bt \<and> status_action l a bt \<and> EvQuorumReached a (Inr True) \<in> set l \<and>
        l = EvLeader True # EvWasExecuted a (Inr False) # rest)"
| "mx_justified gen l (EvProposeTransfer bo r) = False"
| "mx_justified gen l e = True"

fun is_transfer_quorum_query :: "event \<Rightarrow> bool" where
  "is_transfer_quorum_query (EvIsQuorumReached h r) = True"
| "is_transfer_quorum_query e = False"

fun is_status_proposed_query :: "event \<Rightarrow> bool" where
  "is_status_proposed_query (EvWasProposedSetStatus bo r) = True"
| "is_status_proposed_query e = False"

section \<open>The invariant\<close>

definition mx_at :: "hash_fun \<Rightarrow> StepIdentifier \<Rightarrow> 'v bridgeExecutor \<Rightarrow> event list \<Rightarrow> bool" where
  "mx_at gen i ex l \<longleftrightarrow>
     i = GettingPendingBatchFromMultiversX \<or>
     (\<exists>bt. ex_batch ex = Some bt \<and>
       (i = SigningProposedTransferOnEthereum \<and> pending_batch l bt \<and>
          (\<exists>rest. l = EvWasTransferExecuted (ID bt) (Inr False) # rest) \<or>
        i = WaitingForQuorumOnTransfer \<and> signed_hash gen l (ex_msgHash ex) bt \<or>
        (i = PerformingTransfer \<or> i = WaitingTransferConfirmation) \<and>
          signed_hash gen l (ex_msgHash ex) bt \<and> EvIsQuorumReached (ex_msgHash ex) (Inr True) \<in> set l \<or>
        i = ResolvingSetStatusOnMultiversX \<and> pending_batch l bt \<and>
          EvWasTransferExecuted (ID bt) (Inr True) \<in> set l \<or>
        i = ProposingSetStatusOnMultiversX \<and> resolved_batch l bt \<or>
        i = SigningProposedSetStatusOnMultiversX \<and> resolved_batch l bt \<and> status_proposed l bt \<or>
        i = WaitingForQuorumOnSetStatus \<and> status_action l (ex_actionID ex) bt \<or>
        i = PerformingSetStatus \<and> status_action l (ex_actionID ex) bt \<and>
          EvQuorumReached (ex_actionID ex) (Inr True) \<in> set l))"

definition mx_counters :: "'w bridgeExecutor \<Rightarrow> 'v bridgeExecutor \<Rightarrow> event list \<Rightarrow> bool" where
  "mx_counters ex0 ex l \<longleftrightarrow>
     in_round is_quorum_query l \<le> unat (ex_quorumRetriesOnMultiversX ex) \<and>
     ex_quorumRetriesOnMultiversX ex \<le> ex_maxQuorumRetriesOnMultiversX ex0 \<and>
     in_round is_transfer_quorum_query l \<le> unat (ex_quorumRetriesOnEthereum ex) \<and>
     ex_quorumRetriesOnEthereum ex \<le> ex_maxQuorumRetriesOnEthereum ex0 \<and>
     in_round is_status_proposed_query l \<le> unat (ex_retriesOnWasProposed ex) \<and>
     ex_retriesOnWasProposed ex \<le> ex_maxRetriesOnWasProposed ex0"

abbreviation gen_of :: "'w bridgeExecutor \<Rightarrow> hash_fun" where
  "gen_of ex0 \<equiv> eth_GenerateMessageHash (ex_ethereumClient ex0)"

lemma pending_batch_hashable:
  assumes "wired ex0 ex" "sound b ex" "list_all (genuine ex) l" "pending_batch (EvWasTransferExecuted i r # l) bt" "\<not> b"
  shows "\<exists>y. gen_of ex0 (Some bt) = Some y"
proof -
  have "genuine ex (EvGetPending (Inr (Some bt)))"
    using assms(3,4) by (auto simp: pending_batch_def list_all_iff)
  then show ?thesis
    using pending_hashable [of ex bt] assms(1,2,5) by (simp add: wired_fields)
qed

definition mx_inv :: "bool \<Rightarrow> 'w bridgeExecutor \<Rightarrow> StepIdentifier \<Rightarrow> ('w \<times> event list) bstate \<Rightarrow> bool" where
  "mx_inv b ex0 i s \<longleftrightarrow>
     wired ex0 (fst s) \<and> sound b (fst s) \<and> all_justified (mx_justified (gen_of ex0)) (calls s) \<and>
     list_all (genuine (fst s)) (calls s) \<and> mx_counters ex0 (fst s) (calls s) \<and> mx_at (gen_of ex0) i (fst s) (calls s)"

lemma mx_at_simps:
  "mx_at gen GettingPendingBatchFromMultiversX ex l"
  "mx_at gen SigningProposedTransferOnEthereum ex l \<longleftrightarrow> (\<exists>bt. ex_batch ex = Some bt \<and> pending_batch l bt \<and>
     (\<exists>rest. l = EvWasTransferExecuted (ID bt) (Inr False) # rest))"
  "mx_at gen WaitingForQuorumOnTransfer ex l \<longleftrightarrow>
     (\<exists>bt. ex_batch ex = Some bt \<and> signed_hash gen l (ex_msgHash ex) bt)"
  "mx_at gen PerformingTransfer ex l \<longleftrightarrow> (\<exists>bt. ex_batch ex = Some bt \<and>
     signed_hash gen l (ex_msgHash ex) bt \<and> EvIsQuorumReached (ex_msgHash ex) (Inr True) \<in> set l)"
  "mx_at gen WaitingTransferConfirmation ex l \<longleftrightarrow> (\<exists>bt. ex_batch ex = Some bt \<and>
     signed_hash gen l (ex_msgHash ex) bt \<and> EvIsQuorumReached (ex_msgHash ex) (Inr True) \<in> set l)"
  "mx_at gen ResolvingSetStatusOnMultiversX ex l \<longleftrightarrow> (\<exists>bt. ex_batch ex = Some bt \<and>
     pending_batch l bt \<and> EvWasTransferExecuted (ID bt) (Inr True) \<in> set l)"
  "mx_at gen ProposingSetStatusOnMultiversX ex l \<longleftrightarrow> (\<exists>bt. ex_batch ex = Some bt \<and> resolved_batch l bt)"
  "mx_at gen SigningProposedSetStatusOnMultiversX ex l \<longleftrightarrow>
     (\<exists>bt. ex_batch ex = Some bt \<and> resolved_batch l bt \<and> status_proposed l bt)"
  "mx_at gen WaitingForQuorumOnSetStatus ex l \<longleftrightarrow>
     (\<exists>bt. ex_batch ex = Some bt \<and> status_action l (ex_actionID ex) bt)"
  "mx_at gen PerformingSetStatus ex l \<longleftrightarrow> (\<exists>bt. ex_batch ex = Some bt \<and>
     status_action l (ex_actionID ex) bt \<and> EvQuorumReached (ex_actionID ex) (Inr True) \<in> set l)"
  by (simp_all add: mx_at_def mx_id_defs)

lemma mx_mono:
  assumes "set l \<subseteq> set l'"
  shows "pending_batch l bt \<Longrightarrow> pending_batch l' bt"
    and "signed_hash gen l h bt \<Longrightarrow> signed_hash gen l' h bt"
    and "resolved_batch l bt \<Longrightarrow> resolved_batch l' bt"
    and "status_proposed l bt \<Longrightarrow> status_proposed l' bt"
    and "status_action l a bt \<Longrightarrow> status_action l' a bt"
  using assms
  unfolding status_action_def signed_hash_def resolved_batch_def status_proposed_def pending_batch_def
  by blast+

lemmas mx_mono_Cons [simp] = mx_mono [OF set_subset_Cons]
lemmas mx_mono_polls = mx_mono [OF polls_subset]

lemma mx_now [simp]:
  "status_proposed (EvWasProposedSetStatus (Some bt) (Inr True) # l) bt"
  "status_proposed (EvProposeSetStatus (Some bt) (Inr hash) # l) bt"
  "pending_batch (EvValidate bt (Inr True) # EvGetPending (Inr (Some bt)) # l) bt"
  "pending_batch l bt \<Longrightarrow> gen (Some bt) = Some (Inr h) \<Longrightarrow> signed_hash gen (EvBroadcast h # l) h bt"
  "a \<noteq> InvalidActionID \<Longrightarrow> resolved_batch l bt \<Longrightarrow> status_proposed l bt \<Longrightarrow>
     status_action (EvActionIDForSetStatus (Some bt) (Inr a) # l) a bt"
  by (auto simp: status_proposed_def status_action_def pending_batch_def signed_hash_def)

lemma status_action_ex:
  "a \<noteq> InvalidActionID \<Longrightarrow> resolved_batch l bt \<Longrightarrow> status_proposed l bt \<Longrightarrow>
     Ex (status_action (e # EvActionIDForSetStatus (Some bt) (Inr a) # l) a)"
  by (rule exI [of _ bt]) simp

section \<open>The steps keep the invariant\<close>

lemmas mx_step_simps = wp_simps mx_at_simps wired_fields mx_counters_def u64_inc inc_le failure_None

lemma mx_getPending_inv:
  "mx_inv b ex0 GettingPendingBatchFromMultiversX s \<Longrightarrow>
     wpg b (mx_getPendingStep_Execute marshal s) (\<lambda>(j, s'). mx_inv b ex0 j s')"
  unfolding mx_inv_def mx_getPendingStep_Execute_def resetCountersOnMultiversX_def
  by (auto simp: mx_step_simps intro!: wp_intros split: sum.split)

lemma mx_signProposedTransfer_inv:
  "mx_inv b ex0 SigningProposedTransferOnEthereum s \<Longrightarrow>
     wpg b (mx_signProposedTransferStep_Execute s) (\<lambda>(j, s'). mx_inv b ex0 j s')"
  unfolding mx_inv_def mx_signProposedTransferStep_Execute_def
  by (auto simp: mx_step_simps intro!: wp_intros) (blast intro: pending_batch_hashable)+

lemma mx_waitForQuorumOnTransfer_inv:
  "mx_inv b ex0 WaitingForQuorumOnTransfer s \<Longrightarrow>
     wpg b (mx_waitForQuorumOnTransferStep_Execute s) (\<lambda>(j, s'). mx_inv b ex0 j s')"
  unfolding mx_inv_def mx_waitForQuorumOnTransferStep_Execute_def
  by (auto simp: mx_step_simps intro!: wp_intros split: sum.split)

lemma mx_performTransfer_inv:
  "mx_inv b ex0 PerformingTransfer s \<Longrightarrow>
     wpg b (mx_performTransferStep_Execute s) (\<lambda>(j, s'). mx_inv b ex0 j s')"
  unfolding mx_inv_def mx_performTransferStep_Execute_def
  by (auto simp: mx_step_simps intro!: wp_intros split: sum.split) (auto simp: signed_hash_def)

lemma mx_proposeSetStatus_inv:
  "mx_inv b ex0 ProposingSetStatusOnMultiversX s \<Longrightarrow>
     wpg b (mx_proposeSetStatusStep_Execute s) (\<lambda>(j, s'). mx_inv b ex0 j s')"
  unfolding mx_inv_def mx_proposeSetStatusStep_Execute_def
  by (auto simp: mx_step_simps intro!: wp_intros split: sum.split)

lemma mx_signProposedSetStatus_inv:
  "mx_inv b ex0 SigningProposedSetStatusOnMultiversX s \<Longrightarrow>
     wpg b (mx_signProposedSetStatusStep_Execute s) (\<lambda>(j, s'). mx_inv b ex0 j s')"
  unfolding mx_inv_def mx_signProposedSetStatusStep_Execute_def
  by (auto simp: mx_step_simps intro!: wp_intros status_action_ex split: sum.split)

lemma mx_waitForQuorumOnSetStatus_inv:
  "mx_inv b ex0 WaitingForQuorumOnSetStatus s \<Longrightarrow>
     wpg b (mx_waitForQuorumOnSetStatusStep_Execute s) (\<lambda>(j, s'). mx_inv b ex0 j s')"
  unfolding mx_inv_def mx_waitForQuorumOnSetStatusStep_Execute_def
  by (auto simp: mx_step_simps intro!: wp_intros split: sum.split)

lemma mx_performSetStatus_inv:
  "mx_inv b ex0 PerformingSetStatus s \<Longrightarrow>
     wpg b (mx_performSetStatusStep_Execute s) (\<lambda>(j, s'). mx_inv b ex0 j s')"
  unfolding mx_inv_def mx_performSetStatusStep_Execute_def
  by (auto simp: mx_step_simps intro!: wp_intros split: sum.split)

text \<open>The two steps that poll Ethereum.\<close>

lemma mx_frame_polls:
  assumes "polls l l'"
  shows "all_justified (mx_justified gen) l \<Longrightarrow> all_justified (mx_justified gen) l'"
    and "mx_counters ex0 ex l \<Longrightarrow> mx_counters ex0 ex l'"
    and "list_all (genuine ex) l \<Longrightarrow> list_all (genuine ex) l'"
proof -
  have "mx_justified gen k e" "\<not> is_quorum_query e" "\<not> is_transfer_quorum_query e"
    "\<not> is_status_proposed_query e" "genuine ex e" if "is_poll e" for e k
    using that by (cases e rule: is_poll.cases; simp)+
  note poll = this
  then show "all_justified (mx_justified gen) l \<Longrightarrow> all_justified (mx_justified gen) l'"
    and "mx_counters ex0 ex l \<Longrightarrow> mx_counters ex0 ex l'"
    using assms by (auto simp: mx_counters_def in_round_polls intro: all_justified_polls)
  show "list_all (genuine ex) l \<Longrightarrow> list_all (genuine ex) l'"
    using assms poll(5) by (auto simp: polls_def list_all_iff)
qed

lemma polls_in: "polls l l' \<Longrightarrow> e \<in> set l \<Longrightarrow> e \<in> set l'"
  using polls_subset by blast

lemma mx_waitTransferConfirmation_inv:
  "mx_inv b ex0 WaitingTransferConfirmation s \<Longrightarrow>
     wpg b (mx_waitTransferConfirmationStep_Execute s) (\<lambda>(j, s'). mx_inv b ex0 j s')"
  unfolding mx_inv_def mx_waitTransferConfirmationStep_Execute_def
  by (auto simp: wp_simps mx_at_simps intro!: wp_intros intro: mx_frame_polls mx_mono_polls polls_in)

lemma resolved_batch_I:
  assumes "pending_batch l bt0" "EvWasTransferExecuted (ID bt0) (Inr True) \<in> set l"
    and "EvGetPending (Inr (Some fetched)) \<in> set l"
    and "EvGetStatuses (ID bt0) (Inr st) \<in> set l" "st \<noteq> []"
    and "ResolveNewDeposits (sint (of_nat (length (Statuses fetched)) :: u64)) (bt0\<lparr>Statuses := st\<rparr>) = Some bt"
  shows "resolved_batch l bt"
  using assms unfolding resolved_batch_def by blast

lemma sint_of_nat_u64: "n < 2 ^ 63 \<Longrightarrow> sint (of_nat n :: u64) = int n"
  by (simp add: signed_of_nat signed_take_bit_int_eq_self)

lemma wpg_ResolveNewDeposits:
  assumes "b \<or> n < 2 ^ 63"
    and "\<And>bt. ResolveNewDeposits (sint (of_nat n :: u64)) bt0 = Some bt \<Longrightarrow> Q bt"
  shows "wpg b (ResolveNewDeposits (sint (of_nat n :: u64)) bt0) Q"
  using assms by (intro wpg_I) (auto simp: sint_of_nat_u64 ResolveNewDeposits_closed)

lemma mx_counters_update:
  "mx_counters ex0 (ex\<lparr>ex_batch := x\<rparr>) l = mx_counters ex0 ex l"
  "mx_counters ex0 ex (EvGetPending r # l) = mx_counters ex0 ex l"
  by (simp_all add: mx_counters_def)

lemma mx_resolveSetStatus_inv:
  assumes "mx_inv b ex0 ResolvingSetStatusOnMultiversX s"
  shows "wpg b (mx_resolveSetStatusStep_Execute s) (\<lambda>(j, s'). mx_inv b ex0 j s')"
proof -
  from assms obtain bt where s: "wired ex0 (fst s)" "sound b (fst s)"
    "all_justified (mx_justified (gen_of ex0)) (calls s)" "mx_counters ex0 (fst s) (calls s)"
    "list_all (genuine (fst s)) (calls s)" "ex_batch (fst s) = Some bt" "pending_batch (calls s) bt"
    "EvWasTransferExecuted (ID bt) (Inr True) \<in> set (calls s)"
    by (auto simp: mx_inv_def mx_at_simps)
  have l: "all_justified (mx_justified (gen_of ex0)) l" "mx_counters ex0 (fst s) l" "pending_batch l bt"
    "EvWasTransferExecuted (ID bt) (Inr True) \<in> set l" "EvGetPending (Inr (Some f)) \<in> set l"
    if "polls (EvGetPending (Inr (Some f)) # calls s) l" for f l
    using s mx_frame_polls [OF that] mx_mono_polls(1) [OF that] polls_in [OF that]
    by (simp_all add: mx_counters_update)
  have h: "list_all (genuine (fst s)) l"
    if "polls (EvGetPending (Inr (Some f)) # calls s) l"
      "answered (mx_GetPending (traceMx (ex_multiversXClient ex0))) (Inr (Some f))" for f l
    by (rule mx_frame_polls(3) [OF that(1)]) (use that(2) s in \<open>simp add: wired_fields\<close>)
  have r: "resolved_batch l bt'"
    if "polls (EvGetPending (Inr (Some f)) # calls s) l" "EvGetStatuses (ID bt) (Inr st) \<in> set l" "st \<noteq> []"
      "ResolveNewDeposits (sint (of_nat (length (Statuses f)) :: u64)) (bt\<lparr>Statuses := st\<rparr>) = Some bt'"
    for f l st bt'
    using resolved_batch_I that l by blast
  show ?thesis
    unfolding mx_resolveSetStatusStep_Execute_def
    using s
    by (auto simp: wp_simps mx_at_simps wired_fields setStoredStatuses_def mx_inv_def apfst_world
      statuses_found_def mx_counters_update intro!: wp_intros wpg_ResolveNewDeposits)
      (blast intro: l r h)+
qed

lemmas mx_steps_inv =
  mx_getPending_inv mx_signProposedTransfer_inv mx_waitForQuorumOnTransfer_inv mx_performTransfer_inv
  mx_waitTransferConfirmation_inv mx_resolveSetStatus_inv mx_proposeSetStatus_inv
  mx_signProposedSetStatus_inv mx_waitForQuorumOnSetStatus_inv mx_performSetStatus_inv

section \<open>The machine\<close>

definition mx_machineStates :: "(TransferBatch \<Rightarrow> string) \<Rightarrow> 'w bstate MachineStates" where
  "mx_machineStates marshal = map (\<lambda>st. (step_Identifier st, Some st)) (mx_stepsSlice marshal)"

lemma mx_createMachineStates_eq: "mx_createMachineStates marshal = Inr (mx_machineStates marshal)"
  by (simp add: mx_createMachineStates_def mx_machineStates_def mx_stepsSlice_def mx_id_defs)

lemma mx_at_valid:
  "mx_at gen i ex l \<Longrightarrow> \<exists>st. gm_get (mx_machineStates marshal) i = Some (Some st)"
  by (auto simp: mx_at_def mx_machineStates_def mx_stepsSlice_def)

interpretation mx: step_map b "mx_machineStates marshal" "mx_inv b ex0" other_goroutines "machineSH h"
  for b marshal ex0 h
proof (unfold_locales, goal_cases)
  case (1 i st s)
  have "wpg b (step_Execute st s) (\<lambda>(j, s'). mx_inv b ex0 j s')"
    using 1 by (auto simp: mx_machineStates_def mx_stepsSlice_def split: if_splits intro: mx_steps_inv)
  then show ?case by (rule wpg_mono) (auto simp: mx_inv_def intro: mx_at_valid)
next
  case (2 i s s')
  then show ?case by (simp add: mx_inv_def other_goroutines_def)
next
  case (3 i s k v)
  then show ?case
    using machineSH_other_goroutines [of s h k v] by (simp add: mx_inv_def other_goroutines_def)
qed

end
