(* ===== verification/Half_Bridge_Runs.thy ===== *)
theory Half_Bridge_Runs
  imports Mx_To_Eth_Safety
begin

text \<open>
  The runs of the two half-bridges as the factory assembles them: an executor made by
  \<^verbatim>\<open>NewBridgeExecutor\<close>, the steps made by the factories, a machine made by \<^verbatim>\<open>NewStateMachine\<close>, executed
  by the polling handler any number of times while other goroutines change the world.
\<close>

section \<open>Assembly\<close>

definition createEthereumToMultiversXStateMachine ::
  "('s MachineStates \<Rightarrow> 's MachineStates) \<Rightarrow> string \<Rightarrow> 's MachineStates \<Rightarrow> 's StatusHandler
     \<Rightarrow> go_error + 's stateMachine" where
  "createEthereumToMultiversXStateMachine ord name steps handler =
     NewStateMachine ord
       \<lparr> arg_StateMachineName = name, arg_Steps = Some steps,
         arg_StartStateIdentifier = GettingPendingBatchFromEthereum,
         arg_sm_Log = Some (), arg_sm_StatusHandler = Some handler \<rparr>"

definition createMultiversXToEthereumStateMachine ::
  "('s MachineStates \<Rightarrow> 's MachineStates) \<Rightarrow> string \<Rightarrow> 's MachineStates \<Rightarrow> 's StatusHandler
     \<Rightarrow> go_error + 's stateMachine" where
  "createMultiversXToEthereumStateMachine ord name steps handler =
     NewStateMachine ord
       \<lparr> arg_StateMachineName = name, arg_Steps = Some steps,
         arg_StartStateIdentifier = GettingPendingBatchFromMultiversX,
         arg_sm_Log = Some (), arg_sm_StatusHandler = Some handler \<rparr>"

type_synonym 'w config = "('w \<times> event list) bstate stateMachine \<times> ('w \<times> event list) bstate"

text \<open>A configuration in which the machine starts: built from \<open>args\<close>, over some world, with no call made.\<close>

definition eth_initial :: "'w ArgsBridgeExecutor \<Rightarrow> 'w config \<Rightarrow> bool" where
  "eth_initial args c \<longleftrightarrow> (\<exists>marshal ord name h ex steps sm w.
     range_order ord \<and> NewBridgeExecutor args = Inr ex \<and>
     eth_CreateSteps marshal (Some (traceExecutor ex)) = Inr steps \<and>
     createEthereumToMultiversXStateMachine ord name steps (machineSH h) = Inr sm \<and>
     c = (sm, (traceExecutor ex, (w, []))))"

definition mx_initial :: "'w ArgsBridgeExecutor \<Rightarrow> 'w config \<Rightarrow> bool" where
  "mx_initial args c \<longleftrightarrow> (\<exists>marshal ord name h ex steps sm w.
     range_order ord \<and> NewBridgeExecutor args = Inr ex \<and>
     mx_CreateSteps marshal (Some (traceExecutor ex)) = Inr steps \<and>
     createMultiversXToEthereumStateMachine ord name steps (machineSH h) = Inr sm \<and>
     c = (sm, (traceExecutor ex, (w, []))))"

definition eth_run :: "'w ArgsBridgeExecutor \<Rightarrow> 'w config \<Rightarrow> bool" where
  "eth_run args c \<longleftrightarrow> (\<exists>c0. eth_initial args c0 \<and> reachable other_goroutines c0 c)"

definition mx_run :: "'w ArgsBridgeExecutor \<Rightarrow> 'w config \<Rightarrow> bool" where
  "mx_run args c \<longleftrightarrow> (\<exists>c0. mx_initial args c0 \<and> reachable other_goroutines c0 c)"

section \<open>The invariants hold in every run\<close>

lemma NewBridgeExecutor_fields:
  assumes "NewBridgeExecutor args = Inr ex"
  shows "ex = createBridgeExecutor args"
    and "ex_maxQuorumRetriesOnEthereum ex = arg_MaxQuorumRetriesOnEthereum args"
    and "ex_maxQuorumRetriesOnMultiversX ex = arg_MaxQuorumRetriesOnMultiversX args"
    and "ex_maxRetriesOnWasProposed ex = arg_MaxRestriesOnWasProposed args"
    and "arg_EthereumClient args = Some (ex_ethereumClient ex)"
  using assms by (auto simp: NewBridgeExecutor_def createBridgeExecutor_def checkArgs_def
    split: option.splits if_splits)

lemma eth_initial_good:
  assumes "eth_initial args c" "b \<or> safe_clients (createBridgeExecutor args)"
  shows "\<exists>marshal h. eth.good marshal b (createBridgeExecutor args) h c"
proof -
  obtain marshal ord name h ex steps sm w where c: "range_order ord" "NewBridgeExecutor args = Inr ex"
    "eth_CreateSteps marshal (Some (traceExecutor ex)) = Inr steps"
    "createEthereumToMultiversXStateMachine ord name steps (machineSH h) = Inr sm"
    "c = (sm, (traceExecutor ex, (w, [])))"
    using assms(1) unfolding eth_initial_def by blast
  have ex: "ex = createBridgeExecutor args" by (rule NewBridgeExecutor_fields(1) [OF c(2)])
  have st: "steps = eth_machineStates marshal"
    using c(3) by (simp add: eth_CreateSteps_def eth_createMachineStates_eq)
  have "at_step steps GettingPendingBatchFromEthereum sm \<and> sm_statusHandler sm = machineSH h"
    using NewStateMachine_at_step [OF c(4) [unfolded createEthereumToMultiversXStateMachine_def] c(1)] by auto
  moreover have "eth_inv b ex GettingPendingBatchFromEthereum (snd c)"
    using assms(2) wired_initial [of ex] unfolding c(5) eth_inv_def sound_def ex [symmetric]
    by (auto simp: eth_at_simps traceExecutor_def ex createBridgeExecutor_def)
  ultimately show ?thesis unfolding eth.good_def c(5) st ex by auto
qed

lemma mx_initial_good:
  assumes "mx_initial args c" "b \<or> safe_clients (createBridgeExecutor args)"
  shows "\<exists>marshal h. mx.good marshal b (createBridgeExecutor args) h c"
proof -
  obtain marshal ord name h ex steps sm w where c: "range_order ord" "NewBridgeExecutor args = Inr ex"
    "mx_CreateSteps marshal (Some (traceExecutor ex)) = Inr steps"
    "createMultiversXToEthereumStateMachine ord name steps (machineSH h) = Inr sm"
    "c = (sm, (traceExecutor ex, (w, [])))"
    using assms(1) unfolding mx_initial_def by blast
  have ex: "ex = createBridgeExecutor args" by (rule NewBridgeExecutor_fields(1) [OF c(2)])
  have st: "steps = mx_machineStates marshal"
    using c(3) by (simp add: mx_CreateSteps_def mx_createMachineStates_eq)
  have "at_step steps GettingPendingBatchFromMultiversX sm \<and> sm_statusHandler sm = machineSH h"
    using NewStateMachine_at_step [OF c(4) [unfolded createMultiversXToEthereumStateMachine_def] c(1)] by auto
  moreover have "mx_inv b ex GettingPendingBatchFromMultiversX (snd c)"
    using assms(2) wired_initial [of ex] unfolding c(5) mx_inv_def sound_def ex [symmetric]
    by (auto simp: mx_at_simps mx_counters_def traceExecutor_def ex createBridgeExecutor_def)
  ultimately show ?thesis unfolding mx.good_def c(5) st ex by auto
qed

lemma eth_run_inv:
  assumes "eth_run args (sm, s)"
  shows "\<exists>i marshal. at_step (eth_machineStates marshal) i sm \<and> eth_inv True (createBridgeExecutor args) i s"
  using assms eth_initial_good [of args _ True] unfolding eth_run_def by (metis eth.run_inv)

lemma mx_run_inv:
  assumes "mx_run args (sm, s)"
  shows "\<exists>i marshal. at_step (mx_machineStates marshal) i sm \<and> mx_inv True (createBridgeExecutor args) i s"
  using assms mx_initial_good [of args _ True] unfolding mx_run_def by (metis mx.run_inv)

lemma eth_run_justified:
  "eth_run args (sm, s) \<Longrightarrow> calls s = newer @ e # older \<Longrightarrow> eth_justified older e"
  using eth_run_inv [of args sm s] by (auto simp: eth_inv_def dest: all_justified_append)

lemma mx_run_justified:
  "mx_run args (sm, s) \<Longrightarrow> calls s = newer @ e # older \<Longrightarrow>
     mx_justified (gen_of (createBridgeExecutor args)) older e"
  using mx_run_inv [of args sm s] by (auto simp: mx_inv_def dest: all_justified_append)

lemma eth_run_genuine:
  assumes "eth_run args (sm, s)" "e \<in> set (calls s)"
  shows "genuine (createBridgeExecutor args) e"
proof -
  obtain i where "eth_inv True (createBridgeExecutor args) i s"
    using eth_run_inv [OF assms(1)] by blast
  then show ?thesis using assms(2) genuine_wired by (auto simp: eth_inv_def list_all_iff)
qed

lemma mx_run_genuine:
  assumes "mx_run args (sm, s)" "e \<in> set (calls s)"
  shows "genuine (createBridgeExecutor args) e"
proof -
  obtain i where "mx_inv True (createBridgeExecutor args) i s"
    using mx_run_inv [OF assms(1)] by blast
  then show ?thesis using assms(2) genuine_wired by (auto simp: mx_inv_def list_all_iff)
qed

section \<open>Executions return\<close>

lemma eth_run_executes:
  assumes "eth_run args c" "b \<or> safe_clients (createBridgeExecutor args)"
  shows "wpg b (Execute c) (\<lambda>(err, c'). err = None)"
  using assms eth_initial_good [OF _ assms(2)] eth.run_execute unfolding eth_run_def by blast

lemma mx_run_executes:
  assumes "mx_run args c" "b \<or> safe_clients (createBridgeExecutor args)"
  shows "wpg b (Execute c) (\<lambda>(err, c'). err = None)"
  using assms mx_initial_good [OF _ assms(2)] mx.run_execute unfolding mx_run_def by blast

text \<open>Whenever the executor can be built, both machines can be.\<close>

definition start_machine :: "'s MachineStates \<Rightarrow> StepIdentifier \<Rightarrow> 's StatusHandler \<Rightarrow> 's stateMachine" where
  "start_machine steps i h = \<lparr> sm_stateMachineName = ''machine'', sm_steps = steps,
     sm_currentStep = the (gm_get steps i), sm_statusHandler = h \<rparr>"

lemma eth_start:
  assumes "NewBridgeExecutor args = Inr ex"
  shows "eth_initial args (start_machine (eth_machineStates marshal) GettingPendingBatchFromEthereum (machineSH h),
    (traceExecutor ex, (w, [])))"
  unfolding eth_initial_def
  by (intro exI [of _ marshal] exI [of _ id] exI [of _ "''machine''"] exI [of _ h]
      exI [of _ ex] exI [of _ "eth_machineStates marshal"] exI conjI)
     (simp_all add: assms eth_CreateSteps_def eth_createMachineStates_eq
       createEthereumToMultiversXStateMachine_def NewStateMachine_def sm_checkArgs_def
       firstNilStep_None eth_machineStates_def eth_stepsSlice_def getNextStep_def start_machine_def)

lemma mx_start:
  assumes "NewBridgeExecutor args = Inr ex"
  shows "mx_initial args (start_machine (mx_machineStates marshal) GettingPendingBatchFromMultiversX (machineSH h),
    (traceExecutor ex, (w, [])))"
  unfolding mx_initial_def
  by (intro exI [of _ marshal] exI [of _ id] exI [of _ "''machine''"] exI [of _ h]
      exI [of _ ex] exI [of _ "mx_machineStates marshal"] exI conjI)
     (simp_all add: assms mx_CreateSteps_def mx_createMachineStates_eq
       createMultiversXToEthereumStateMachine_def NewStateMachine_def sm_checkArgs_def
       firstNilStep_None mx_machineStates_def mx_stepsSlice_def getNextStep_def start_machine_def)

end
