(* ===== verification/Bridge_Components.thy ===== *)
theory Bridge_Components
  imports Relayer_World Half_Bridge_Runs
begin

text \<open>
  The factory of a relayer, \<^verbatim>\<open>factory/ethMultiversXBridgeComponents.go\<close>: it checks its arguments,
  creates every component over the shared world and wires the two executors and state machines.
  Fields of the components struct that are assigned during the construction are options, \<open>None\<close>
  before; a method call on a nil component panics.
\<close>

section \<open>Errors and constants\<close>

definition factory_errNilProxy :: go_error where
  "factory_errNilProxy = Sentinel ''factory'' ''nil proxy''"

definition factory_errNilEthClient :: go_error where
  "factory_errNilEthClient = Sentinel ''factory'' ''nil eth client''"

definition factory_errNilMessenger :: go_error where
  "factory_errNilMessenger = Sentinel ''factory'' ''nil network messenger''"

definition factory_errNilStatusStorer :: go_error where
  "factory_errNilStatusStorer = Sentinel ''factory'' ''nil status storer''"

definition factory_errNilErc20ContractsHolder :: go_error where
  "factory_errNilErc20ContractsHolder = Sentinel ''factory'' ''nil ERC20 contracts holder''"

definition factory_errMissingConfig :: go_error where
  "factory_errMissingConfig = Sentinel ''factory'' ''missing config''"

definition factory_errInvalidValue :: go_error where
  "factory_errInvalidValue = Sentinel ''factory'' ''invalid value''"

definition factory_errNilMetricsHolder :: go_error where
  "factory_errNilMetricsHolder = Sentinel ''factory'' ''nil metrics holder''"

definition factory_errNilStatusHandler :: go_error where
  "factory_errNilStatusHandler = Sentinel ''factory'' ''nil status handler''"

definition minTimeForBootstrap :: int where
  "minTimeForBootstrap = millisecond * 100"

definition minTimeBeforeRepeatJoin :: int where
  "minTimeBeforeRepeatJoin = second * 30"

definition pollingDurationOnError :: int where
  "pollingDurationOnError = second * 5"

section \<open>Libraries\<close>

record 'w NetMessenger =
  net_ID :: bytes
  net_Bootstrap :: "('w, go_error option) prog"
  net_CreateTopic :: "string \<Rightarrow> bool \<Rightarrow> ('w, go_error option) prog"
  net_RegisterMessageProcessor :: "string \<Rightarrow> string \<Rightarrow> ('w, go_error option) prog"
  net_Broadcast :: "string \<Rightarrow> bytes \<Rightarrow> 'w \<Rightarrow> 'w"
  net_SendToConnectedPeer :: "string \<Rightarrow> bytes \<Rightarrow> bytes \<Rightarrow> ('w, go_error option) prog"
  net_SetPeerDenialEvaluator :: "'w peerDenialEvaluator \<Rightarrow> ('w, go_error option) prog"
  net_Close :: "('w, go_error option) prog"

record 'w AntiFloodComponents =
  afl_CanProcessMessage :: "MessageP2P \<Rightarrow> bytes \<Rightarrow> ('w, go_error option) prog"
  afl_CanProcessMessagesOnTopic :: "bytes \<Rightarrow> string \<Rightarrow> nat \<Rightarrow> nat \<Rightarrow> bytes \<Rightarrow> ('w, go_error option) prog"
  afl_InvalidMessageBlacklistDuration :: int
  afl_BlacklistPeer :: "bytes \<Rightarrow> string \<Rightarrow> int \<Rightarrow> 'w \<Rightarrow> 'w"
  afl_BlacklistHandler :: "(('w \<Rightarrow> bytes \<Rightarrow> bool) \<times> (bytes \<Rightarrow> int \<Rightarrow> ('w, go_error option) prog)) option"
  afl_PubKeysCacher :: "('w \<Rightarrow> bytes \<Rightarrow> bool) option"

text \<open>What a polling handler polls.\<close>

datatype polled = PollMultiversXRoleProvider | PollEthereumRoleProvider | PollEthToMultiversX | PollMultiversXToEth

record pollingHandler =
  ph_Name :: string
  ph_PollingInterval :: int
  ph_PollingWhenError :: int
  ph_Executor :: polled

text \<open>
  The functions of the SDK, of go-ethereum, of the p2p library, of the operating system and of the
  Go runtime (the iteration orders of maps) that the components need. \<open>fl_waitTimer\<close> is the
  \<^verbatim>\<open>select\<close> between a timer and the end of a context in the Ethereum client; it is true when the timer fired.
\<close>

record ('t, 'b, 'r, 'pk, 'l, 'w) factory_lib =
  fl_NewSyncTime :: "NTPConfig \<Rightarrow> 'w SyncTimer"
  fl_LoadPrivateKeyFromPemFile :: "string \<Rightarrow> go_error + bytes"
  fl_PrivateKeyFromByteArray :: "bytes \<Rightarrow> go_error + bytes"
  fl_GetAddressFromPrivateKey :: "bytes \<Rightarrow> go_error + address"
  fl_NewAddressFromBech32String :: "string \<Rightarrow> go_error + address"
  fl_sdk :: "'w mx_sdk"
  fl_toPublic :: "bytes \<Rightarrow> go_error + bytes"
  fl_Sign :: "bytes \<Rightarrow> bytes \<Rightarrow> go_error + bytes"
  fl_Verify :: "bytes \<Rightarrow> bytes \<Rightarrow> bytes \<Rightarrow> go_error option"
  fl_PublicKeyFromByteArray :: "bytes \<Rightarrow> go_error + bytes"
  fl_marshalSigned :: "SignedMessage \<Rightarrow> go_error + bytes"
  fl_unmarshalSigned :: "bytes \<Rightarrow> go_error + SignedMessage"
  fl_marshalEth :: "EthereumSignature \<Rightarrow> go_error + bytes"
  fl_unmarshalEth :: "bytes \<Rightarrow> go_error + EthereumSignature"
  fl_crypto :: "'pk eth_crypto"
  fl_NewPollingHandler :: "pollingHandler \<Rightarrow> go_error option"
  fl_StartProcessingLoop :: "pollingHandler \<Rightarrow> ('w, go_error option) prog"
  fl_ClosePollingHandler :: "pollingHandler \<Rightarrow> ('w, go_error option) prog"
  fl_quote :: "string \<Rightarrow> string"
  fl_durationString :: "int \<Rightarrow> string"
  fl_gasEnv :: "('r, 'w) gas_env"
  fl_bvEnv :: "('r, 'w) bv_env"
  fl_NewP2PAntiFloodComponents :: "'l \<Rightarrow> bytes \<Rightarrow> ('w, go_error + 'w AntiFloodComponents) prog"
  fl_cancelAntiflood :: "'w \<Rightarrow> 'w"
  fl_nowNano :: int
  fl_ReadFile :: "string \<Rightarrow> go_error + string"
  fl_HexToECDSA :: "string \<Rightarrow> go_error + bytes"
  fl_KeyToAddress :: "bytes \<Rightarrow> bytes"
  fl_HexToAddress :: "string \<Rightarrow> bytes"
  fl_ethLib :: "bytes \<Rightarrow> 't eth_lib"
  fl_json :: "'b json_marshaller"
  fl_sha256 :: "bytes \<Rightarrow> bytes"
  fl_levelString :: "LogLevel \<Rightarrow> string"
  fl_marshalBatch :: "TransferBatch \<Rightarrow> string"
  fl_waitTimer :: "int \<Rightarrow> ('w, bool) prog"
  fl_cancelJoin :: "'w \<Rightarrow> 'w"
  fl_Sleep :: "int \<Rightarrow> 'w \<Rightarrow> 'w"
  fl_ordKeys :: "(bytes \<times> unit) list \<Rightarrow> (bytes \<times> unit) list"
  fl_ordMessages :: "(bytes \<times> SignedMessage) list \<Rightarrow> (bytes \<times> SignedMessage) list"
  fl_ordAmounts :: "(bytes \<times> int) list \<Rightarrow> (bytes \<times> int) list"
  fl_ordSteps :: "'w bstate MachineStates \<Rightarrow> 'w bstate MachineStates"

section \<open>Arguments and components\<close>

record ('b, 'l, 'w) ArgsEthereumToMultiversXBridge =
  fa_Configs :: "'l Configs"
  fa_Messenger :: "'w NetMessenger option"
  fa_StatusStorer :: "('b, 'w) Storer option"
  fa_Proxy :: "'w Proxy option"
  fa_MultiversXClientStatusHandler :: "'w StatusHandler option"
  fa_Erc20ContractsHolder :: "(bytes \<Rightarrow> bytes \<Rightarrow> ('w, go_error + int option) prog) option"
  fa_ClientWrapper :: "'w ClientWrapper option"
  fa_TimeForBootstrap :: int
  fa_TimeBeforeRepeatJoin :: int
  fa_MetricsHolder :: "'w metricsHolder option"
  fa_AppStatusHandler :: "unit option"

text \<open>What \<^verbatim>\<open>Close\<close> closes.\<close>

datatype closable = CloseTimer | CloseMultiversXClient | ClosePollingHandler pollingHandler

text \<open>
  The struct of the components. Each half-bridge has its executor here, which the Go code reaches
  through its steps. \<open>cmp_joinLoop\<close> says that the goroutine of the join messages was started,
  \<open>cmp_cancelFunc\<close> that it stored the function that cancels it.
\<close>

record ('t, 'b, 'w) components =
  cmp_messenger :: "'w NetMessenger"
  cmp_statusStorer :: "('b, 'w) Storer"
  cmp_multiversXClient :: "'w mx_client option"
  cmp_ethClient :: "('t, 'w) eth_client option"
  cmp_evmCompatibleChain :: Chain
  cmp_multiversXMultisigContractAddress :: "address option"
  cmp_multiversXRelayerPrivateKey :: "bytes option"
  cmp_multiversXRelayerAddress :: "address option"
  cmp_ethereumRelayerAddress :: bytes
  cmp_mxDataGetter :: "'w mxClientDataGetter option"
  cmp_proxy :: "'w Proxy"
  cmp_multiversXRoleProvider :: "'w multiversXRoleProvider option"
  cmp_ethereumRoleProvider :: "'w ethereumRoleProvider option"
  cmp_broadcaster :: "'w broadcaster option"
  cmp_timer :: "'w ntpTimer"
  cmp_timeForBootstrap :: int
  cmp_metricsHolder :: "'w metricsHolder"
  cmp_addressConverter :: "AddressConverter option"
  cmp_ethToMultiversXMachineStates :: "'w bstate MachineStates option"
  cmp_ethToMultiversXStepDuration :: int
  cmp_ethToMultiversXStatusHandler :: "('b, 'w) statusHandler option"
  cmp_ethToMultiversXStateMachine :: "'w bstate stateMachine option"
  cmp_ethToMultiversXSignaturesHolder :: "unit option"
  cmp_ethToMultiversXExecutor :: "'w bridgeExecutor option"
  cmp_multiversXToEthMachineStates :: "'w bstate MachineStates option"
  cmp_multiversXToEthStepDuration :: int
  cmp_multiversXToEthStatusHandler :: "('b, 'w) statusHandler option"
  cmp_multiversXToEthStateMachine :: "'w bstate stateMachine option"
  cmp_multiversXToEthExecutor :: "'w bridgeExecutor option"
  cmp_closableHandlers :: "closable option list"
  cmp_pollingHandlers :: "pollingHandler list"
  cmp_timeBeforeRepeatJoin :: int
  cmp_joinLoop :: bool
  cmp_cancelFunc :: bool

type_synonym ('t, 'b, 'x) cmp_state =
  "('t, 'b, 'x relayer_world) components \<times> 'x relayer_world"

section \<open>Control flow\<close>

text \<open>
  The patterns of Go: \<open>tryOk\<close> goes on with a result or returns its error, \<open>tryNil\<close> returns an error
  that is not nil, \<open>andThen\<close> runs the next method only after a success, \<open>notNil\<close> calls a method of a
  component.
\<close>

definition tryOk :: "go_error + 'a \<Rightarrow> ('a \<Rightarrow> ('s, go_error option) prog) \<Rightarrow> ('s, go_error option) prog" where
  "tryOk r k s = (case r of Inl err \<Rightarrow> Some (Some err, s) | Inr v \<Rightarrow> k v s)"

definition tryNil :: "go_error option \<Rightarrow> ('s, go_error option) prog \<Rightarrow> ('s, go_error option) prog" where
  "tryNil err k s = (case err of Some e \<Rightarrow> Some (Some e, s) | None \<Rightarrow> k s)"

definition andThen :: "('s, go_error option) prog \<Rightarrow> ('s, go_error option) prog \<Rightarrow> ('s, go_error option) prog" where
  "andThen f g s = do { (err, s) \<leftarrow> f s; tryNil err g s }"

definition notNil :: "'a option \<Rightarrow> ('a \<Rightarrow> ('s, 'e) prog) \<Rightarrow> ('s, 'e) prog" where
  "notNil x k s = (case x of None \<Rightarrow> None | Some v \<Rightarrow> k v s)"

definition succeed :: "('s, go_error option) prog" where
  "succeed s = Some (None, s)"

end
