(* ===== verification/Timer_Loop.thy ===== *)
theory Timer_Loop
  imports Core_Types
begin

text \<open>
  Goroutines that loop around a \<^verbatim>\<open>select\<close> between a timer and the end of a context. Two parts of the
  program have one: the repeated join messages and the reset of the request limiter. This theory
  holds what they use of \<^verbatim>\<open>time.Timer\<close> and \<^verbatim>\<open>context\<close>, the steps in which such a goroutine, the clock and a
  cancelling goroutine take turns, and the contract of the loops with what follows from it.
\<close>

section \<open>State and steps\<close>

text \<open>Where the goroutine stands: before a statement, or waiting in the \<^verbatim>\<open>select\<close>.\<close>

datatype loop_at = LoopEntered | LoopTimerMade | LoopResets | LoopSelects | LoopReturned

text \<open>
  \<open>lp_deadline\<close> is when the armed timer fires, \<open>lp_fired\<close> that a value waits in its channel (which holds
  one; \<^verbatim>\<open>Reset\<close> does not drain it), \<open>lp_done\<close> that the context is done, \<open>lp_cancelFunc\<close> that the function
  cancelling it is stored where the closing goroutine looks for it. \<open>lp_acted\<close> is an auxiliary history
  of the times at which the loop acted, newest first: nothing reads it.
\<close>

record loop_state =
  lp_at :: loop_at
  lp_deadline :: "int option"
  lp_fired :: bool
  lp_done :: bool
  lp_cancelFunc :: bool
  lp_acted :: "int list"

definition loop_entered :: "bool \<Rightarrow> loop_state" where
  "loop_entered stored = \<lparr> lp_at = LoopEntered, lp_deadline = None, lp_fired = False, lp_done = False,
     lp_cancelFunc = stored, lp_acted = [] \<rparr>"

text \<open>
  The case that the \<^verbatim>\<open>select\<close> takes when it is ready; the runtime picks one when both are. A loop is
  given by its next step at a time of the clock, \<open>None\<close> when it has to wait or has returned.
\<close>

datatype select_case = TimerCase | DoneCase

type_synonym 'w loop_exec = "select_case \<Rightarrow> int \<Rightarrow> loop_state \<times> 'w \<Rightarrow> (loop_state \<times> 'w) option"

inductive loop_step :: "'w loop_exec \<Rightarrow> int \<times> loop_state \<times> 'w \<Rightarrow> int \<times> loop_state \<times> 'w \<Rightarrow> bool"
  for exec :: "'w loop_exec" where
  loop_runs: "exec chosen now (g, w) = Some (g', w') \<Longrightarrow> loop_step exec (now, g, w) (now, g', w')"
| clock_advances: "now \<le> now' \<Longrightarrow> loop_step exec (now, g, w) (now', g, w)"
| timer_fires: "lp_deadline g = Some d \<Longrightarrow> d \<le> now \<Longrightarrow>
    loop_step exec (now, g, w) (now, g\<lparr>lp_deadline := None, lp_fired := True\<rparr>, w)"
| loop_cancelled: "lp_cancelFunc g \<Longrightarrow> loop_step exec (now, g, w) (now, g\<lparr>lp_done := True\<rparr>, w)"
| others_act: "loop_step exec (now, g, w) (now, g, w')"

abbreviation loop_steps :: "'w loop_exec \<Rightarrow> int \<times> loop_state \<times> 'w \<Rightarrow> int \<times> loop_state \<times> 'w \<Rightarrow> bool" where
  "loop_steps exec \<equiv> (loop_step exec)\<^sup>*\<^sup>*"

inductive_cases loop_step_cases: "loop_step exec (now, g, w) s"

section \<open>The contract of a loop\<close>

text \<open>
  The loop makes its timer, gets its context (\<open>stores\<close> tells whether it makes the context itself and
  stores the cancel function), and then, over and over, resets the timer and waits: when the timer
  fired it acts, when the context is done it stops the timer and returns.
\<close>

locale timer_loop =
  fixes exec :: "'w loop_exec" and interval :: int and act :: "'w \<Rightarrow> 'w option" and stores :: bool
  assumes entered: "lp_at g = LoopEntered \<Longrightarrow>
      exec chosen now (g, w) = Some (g\<lparr>lp_deadline := Some (now + interval), lp_at := LoopTimerMade\<rparr>, w)"
    and timer_made: "lp_at g = LoopTimerMade \<Longrightarrow>
      exec chosen now (g, w) = Some ((if stores then g\<lparr>lp_done := False, lp_cancelFunc := True\<rparr> else g)\<lparr>lp_at := LoopResets\<rparr>, w)"
    and resets: "lp_at g = LoopResets \<Longrightarrow>
      exec chosen now (g, w) = Some (g\<lparr>lp_deadline := Some (now + interval), lp_at := LoopSelects\<rparr>, w)"
    and timer_case: "lp_at g = LoopSelects \<Longrightarrow> exec TimerCase now (g, w) = (if lp_fired g
        then map_option (Pair (g\<lparr>lp_fired := False, lp_acted := now # lp_acted g, lp_at := LoopResets\<rparr>)) (act w) else None)"
    and done_case: "lp_at g = LoopSelects \<Longrightarrow> exec DoneCase now (g, w) = (if lp_done g
        then Some (g\<lparr>lp_deadline := None, lp_at := LoopReturned\<rparr>, w) else None)"
    and returned: "lp_at g = LoopReturned \<Longrightarrow> exec chosen now (g, w) = None"
begin

text \<open>How often the timer has fired for the loop: acted upon, or still in the channel.\<close>

definition firings :: "loop_state \<Rightarrow> int" where
  "firings g = int (length (lp_acted g)) + (if lp_fired g then 1 else 0)"

definition loop_inv :: "int \<Rightarrow> int \<times> loop_state \<times> 'w \<Rightarrow> bool" where
  "loop_inv start = (\<lambda>(now, g, w).
     start \<le> now \<and> firings g * interval \<le> now - start \<and>
     (\<forall>d. lp_deadline g = Some d \<longrightarrow> (firings g + 1) * interval \<le> d - start) \<and>
     (lp_at g = LoopEntered \<longrightarrow> lp_acted g = [] \<and> \<not> lp_fired g \<and> lp_deadline g = None) \<and>
     (lp_at g = LoopSelects \<longrightarrow> lp_fired g \<or> (\<exists>d. lp_deadline g = Some d \<and> d \<le> now + interval)) \<and>
     (lp_at g \<in> {LoopResets, LoopSelects, LoopReturned} \<or> \<not> stores \<longrightarrow> lp_cancelFunc g) \<and>
     (lp_at g = LoopReturned \<longrightarrow> lp_deadline g = None \<and> lp_done g))"

lemma exec_inv:
  assumes "loop_inv start (now, g, w)" "exec chosen now (g, w) = Some (g', w')"
  shows "loop_inv start (now, g', w')"
proof (cases "lp_at g")
  case LoopEntered
  with assms entered [of g chosen now w] show ?thesis
    by (auto simp: loop_inv_def firings_def algebra_simps)
next
  case LoopTimerMade
  with assms timer_made [of g chosen now w] show ?thesis
    by (auto simp: loop_inv_def firings_def split: if_splits)
next
  case LoopResets
  with assms resets [of g chosen now w] show ?thesis
    by (auto simp: loop_inv_def firings_def algebra_simps)
next
  case LoopSelects
  with assms timer_case [of g now w] done_case [of g now w] show ?thesis
    by (cases chosen) (auto simp: loop_inv_def firings_def add.commute split: if_splits)
next
  case LoopReturned
  with assms returned show ?thesis by simp
qed

lemma step_inv: "loop_step exec s s' \<Longrightarrow> loop_inv start s \<Longrightarrow> loop_inv start s'"
proof (induction rule: loop_step.induct)
  case (loop_runs chosen now g w g' w')
  then show ?case using exec_inv by blast
next
  case (clock_advances now now' g w)
  then show ?case by (fastforce simp: loop_inv_def)
next
  case (timer_fires g d now w)
  then have "(firings g + 1) * interval \<le> now - start" "firings g * interval \<le> now - start"
    by (auto simp: loop_inv_def)
  then have "firings (g\<lparr>lp_deadline := None, lp_fired := True\<rparr>) * interval \<le> now - start"
    by (cases "lp_fired g") (simp_all add: firings_def)
  with timer_fires show ?case by (simp add: loop_inv_def)
qed (auto simp: loop_inv_def firings_def)

lemma steps_inv:
  assumes "loop_steps exec (start, loop_entered (\<not> stores), w0) s"
  shows "loop_inv start s"
  using assms
proof (induction rule: rtranclp_induct)
  case base
  then show ?case by (simp add: loop_inv_def loop_entered_def firings_def)
qed (rule step_inv)

text \<open>It acts at most once per interval, and while it waits the timer is due within the interval.\<close>

lemma paced:
  assumes "loop_steps exec (start, loop_entered (\<not> stores), w0) (now, g, w)"
  shows "0 \<le> interval \<Longrightarrow> int (length (lp_acted g)) * interval \<le> now - start"
    and "lp_at g = LoopSelects \<Longrightarrow> lp_fired g \<or> (\<exists>d. lp_deadline g = Some d \<and> d \<le> now + interval)"
    and "lp_at g = LoopSelects \<Longrightarrow> lp_cancelFunc g"
    and "lp_at g = LoopReturned \<Longrightarrow> lp_deadline g = None \<and> lp_done g"
  using steps_inv [OF assms] by (auto simp: loop_inv_def firings_def algebra_simps split: if_splits)

text \<open>Once it returned it never acts again.\<close>

lemma returned_steps:
  assumes "loop_steps exec (now, g, w) s" "lp_at g = LoopReturned"
  shows "lp_at (fst (snd s)) = LoopReturned \<and> lp_acted (fst (snd s)) = lp_acted g"
  using assms(1)
proof (induction rule: rtranclp_induct)
  case base
  then show ?case by (simp add: assms(2))
next
  case (step s s')
  from step(2,3) show ?case
    by (cases rule: loop_step.cases) (auto simp: returned)
qed

end

end
