(* ===== verification/Bridge_Factory.thy ===== *)
theory Bridge_Factory
  imports Bridge_Components Timer_Loop
begin

text \<open>
  The methods of \<^verbatim>\<open>factory/ethMultiversXBridgeComponents.go\<close>, in the order of the file: the creation of
  the components, the start and the end of a relayer. A method works on the components and the world.
\<close>

section \<open>Checking the arguments\<close>

definition checkArgsEthereumToMultiversXBridge ::
  "('t, 'b, 'r, 'pk, 'l, 'w) factory_lib \<Rightarrow> ('b, 'l, 'w) ArgsEthereumToMultiversXBridge \<Rightarrow> go_error option" where
  "checkArgsEthereumToMultiversXBridge lib args =
     (if fa_Proxy args = None then Some factory_errNilProxy
      else if fa_Messenger args = None then Some factory_errNilMessenger
      else if fa_ClientWrapper args = None then Some factory_errNilEthClient
      else if fa_StatusStorer args = None then Some factory_errNilStatusStorer
      else if fa_Erc20ContractsHolder args = None then Some factory_errNilErc20ContractsHolder
      else if fa_TimeForBootstrap args < minTimeForBootstrap
        then Some (Wrapped factory_errInvalidValue ('' for TimeForBootstrap, received: '' @
               fl_durationString lib (fa_TimeForBootstrap args) @ '', minimum: '' @
               fl_durationString lib minTimeForBootstrap))
      else if fa_TimeBeforeRepeatJoin args < minTimeBeforeRepeatJoin
        then Some (Wrapped factory_errInvalidValue ('' for TimeBeforeRepeatJoin, received: '' @
               fl_durationString lib (fa_TimeBeforeRepeatJoin args) @ '', minimum: '' @
               fl_durationString lib minTimeBeforeRepeatJoin))
      else if fa_MetricsHolder args = None then Some factory_errNilMetricsHolder
      else if fa_AppStatusHandler args = None then Some factory_errNilStatusHandler
      else None)"

section \<open>Registration of handlers\<close>

definition addClosableComponent :: "closable option \<Rightarrow> ('t, 'b, 'w) components \<Rightarrow> ('t, 'b, 'w) components" where
  "addClosableComponent closable c = c\<lparr>cmp_closableHandlers := cmp_closableHandlers c @ [closable]\<rparr>"

text \<open>The end of four of the methods: a polling handler is created, can be closed and will be started.\<close>

definition addPollingHandler :: "('t, 'b, 'r, 'pk, 'l, 'x relayer_world) factory_lib \<Rightarrow> pollingHandler
    \<Rightarrow> (('t, 'b, 'x) cmp_state, go_error option) prog" where
  "addPollingHandler lib ph =
     tryNil (fl_NewPollingHandler lib ph) (\<lambda>(c, w).
       Some (None, ((addClosableComponent (Some (ClosePollingHandler ph)) c)
         \<lparr>cmp_pollingHandlers := cmp_pollingHandlers c @ [ph]\<rparr>, w)))"

section \<open>Keys and data getter\<close>

definition createMultiversXKeysAndAddresses :: "('t, 'b, 'r, 'pk, 'l, 'x relayer_world) factory_lib \<Rightarrow> MultiversXConfig
    \<Rightarrow> (('t, 'b, 'x) cmp_state, go_error option) prog" where
  "createMultiversXKeysAndAddresses lib chainConfigs =
     tryOk (fl_LoadPrivateKeyFromPemFile lib (mcf_PrivateKeyFile chainConfigs)) (\<lambda>multiversXPrivateKeyBytes.
     tryOk (fl_PrivateKeyFromByteArray lib multiversXPrivateKeyBytes) (\<lambda>key (c, w).
     tryOk (fl_GetAddressFromPrivateKey lib multiversXPrivateKeyBytes) (\<lambda>relayerAddress (c, w).
     (case fl_NewAddressFromBech32String lib (mcf_MultisigContractAddress chainConfigs) of
        Inl err \<Rightarrow> Some (Some (Wrapped err '' for chainConfigs.MultisigContractAddress''),
                     (c\<lparr>cmp_multiversXRelayerAddress := Some relayerAddress\<rparr>, w))
      | Inr multisig \<Rightarrow> Some (None, (c\<lparr>cmp_multiversXRelayerAddress := Some relayerAddress,
                     cmp_multiversXMultisigContractAddress := Some multisig\<rparr>, w))))
     (c\<lparr>cmp_multiversXRelayerPrivateKey := Some key\<rparr>, w)))"

definition createDataGetter :: "(('t, 'b, 'x) cmp_state, go_error option) prog" where
  "createDataGetter = (\<lambda>(c, w).
     tryOk (NewMXClientDataGetter
       \<lparr> arg_dg_MultisigContractAddress = cmp_multiversXMultisigContractAddress c,
         arg_dg_RelayerAddress = cmp_multiversXRelayerAddress c, arg_dg_Proxy = Some (cmp_proxy c),
         arg_dg_Log = Some () \<rparr>) (\<lambda>getter (c, w).
     Some (None, (c\<lparr>cmp_mxDataGetter := Some getter\<rparr>, w))) (c, w))"

section \<open>The MultiversX client\<close>

text \<open>The relayer's key as the client uses it.\<close>

definition relayerKey :: "('t, 'b, 'r, 'pk, 'l, 'w) factory_lib \<Rightarrow> bytes \<Rightarrow> private_key" where
  "relayerKey lib key = \<lparr> pk_publicBytes = fl_toPublic lib key, pk_sign = fl_Sign lib key \<rparr>"

definition mxClientArgs :: "('t, 'b, 'r, 'pk, 'l, 'x relayer_world) factory_lib
    \<Rightarrow> ('b, 'l, 'x relayer_world) ArgsEthereumToMultiversXBridge
    \<Rightarrow> (bytes \<Rightarrow> ('x relayer_world, go_error + bytes) prog) \<Rightarrow> ('t, 'b, 'x relayer_world) components
    \<Rightarrow> 'x relayer_world mx_ClientArgs" where
  "mxClientArgs lib args tokensMapper c =
     (let chainConfigs = cfg_MultiversX (cfg_GeneralConfig (fa_Configs args)) in
      \<lparr> ca_GasMapConfig = mcf_GasMap chainConfigs,
        ca_Proxy = fa_Proxy args,
        ca_Log = Some (),
        ca_RelayerPrivateKey = map_option (relayerKey lib) (cmp_multiversXRelayerPrivateKey c),
        ca_MultisigContractAddress = cmp_multiversXMultisigContractAddress c,
        ca_IntervalToResendTxsInSeconds = mcf_IntervalToResendTxsInSeconds chainConfigs,
        ca_TokensMapper = Some tokensMapper,
        ca_RoleProvider = map_option (\<lambda>rp w a. mrp_whitelists rp w (AddressBytes a)) (cmp_multiversXRoleProvider c),
        ca_StatusHandler = fa_MultiversXClientStatusHandler args,
        ca_AllowDelta = word_of_int (mcf_ProxyMaxNoncesDelta chainConfigs) \<rparr>)"

text \<open>The client is registered for closing before its error is looked at.\<close>

definition createMultiversXClient :: "('t, 'b, 'r, 'pk, 'l, 'x relayer_world) factory_lib
    \<Rightarrow> ('b, 'l, 'x relayer_world) ArgsEthereumToMultiversXBridge
    \<Rightarrow> (('t, 'b, 'x) cmp_state, go_error option) prog" where
  "createMultiversXClient lib args = (\<lambda>(c, w).
     tryOk (NewMultiversXToErc20Mapper (cmp_mxDataGetter c)) (\<lambda>tokensMapper (c, w).
     (case mx_NewClient (fl_sdk lib) (mxClientArgs lib args tokensMapper c) of
        Inl err \<Rightarrow> Some (Some err, (addClosableComponent (Some CloseMultiversXClient) c, w))
      | Inr client \<Rightarrow>
          Some (None, (addClosableComponent (Some CloseMultiversXClient) (c\<lparr>cmp_multiversXClient := Some client\<rparr>),
                       mxCells_put (mx_store client) w)))) (c, w))"

section \<open>The Ethereum client\<close>

definition gasStationArgs :: "GasStationConfig \<Rightarrow> ArgsGasStation" where
  "gasStationArgs gasStationConfig =
     \<lparr> arg_RequestURL = gsc_URL gasStationConfig,
       arg_RequestPollingInterval = duration (gsc_PollingIntervalInSeconds gasStationConfig) second,
       arg_RequestRetryDelay = duration (gsc_RequestRetryDelayInSeconds gasStationConfig) second,
       arg_MaximumFetchRetries = gsc_MaxFetchRetries gasStationConfig,
       arg_RequestTime = duration (gsc_RequestTimeInSeconds gasStationConfig) second,
       arg_MaximumGasPrice = gsc_MaximumAllowedGasPrice gasStationConfig,
       arg_GasPriceSelector = gsc_GasPriceSelector gasStationConfig,
       arg_GasPriceMultiplier = gsc_GasPriceMultiplier gasStationConfig \<rparr>"

text \<open>The context of the antiflood components is cancelled when they cannot be created.\<close>

definition createAntifloodComponents :: "('t, 'b, 'r, 'pk, 'l, 'x relayer_world) factory_lib \<Rightarrow> 'l
    \<Rightarrow> (('t, 'b, 'x) cmp_state, go_error + 'x relayer_world AntiFloodComponents) prog" where
  "createAntifloodComponents lib antifloodConfig = (\<lambda>(c, w). do {
     (r, w) \<leftarrow> fl_NewP2PAntiFloodComponents lib antifloodConfig (net_ID (cmp_messenger c)) w;
     (case r of
        Inl err \<Rightarrow> Some (Inl err, (c, fl_cancelAntiflood lib w))
      | Inr antiFloodComponents \<Rightarrow> Some (Inr antiFloodComponents, (c, w)))
   })"

text \<open>The collaborators of the broadcaster: libraries, messenger, antiflood and the two role providers.\<close>

definition broadcasterEnv :: "('t, 'b, 'r, 'pk, 'l, 'x relayer_world) factory_lib \<Rightarrow> 'x relayer_world NetMessenger
    \<Rightarrow> 'x relayer_world AntiFloodComponents \<Rightarrow> 'x relayer_world multiversXRoleProvider
    \<Rightarrow> 'x relayer_world ethereumRoleProvider \<Rightarrow> 'x relayer_world p2p_env" where
  "broadcasterEnv lib messenger antiflood mrp erp =
     \<lparr> marshalSigned = fl_marshalSigned lib, unmarshalSigned = fl_unmarshalSigned lib,
       marshalEth = fl_marshalEth lib, unmarshalEth = fl_unmarshalEth lib,
       PublicKeyFromByteArray = fl_PublicKeyFromByteArray lib,
       singleSigner_Verify = fl_Verify lib, singleSigner_Sign = fl_Sign lib,
       CanProcessMessage = afl_CanProcessMessage antiflood,
       CanProcessMessagesOnTopic = afl_CanProcessMessagesOnTopic antiflood,
       InvalidMessageBlacklistDuration = afl_InvalidMessageBlacklistDuration antiflood,
       BlacklistPeer = afl_BlacklistPeer antiflood,
       messenger_CreateTopic = net_CreateTopic messenger,
       messenger_RegisterMessageProcessor = net_RegisterMessageProcessor messenger,
       messenger_Broadcast = net_Broadcast messenger,
       messenger_SendToConnectedPeer = net_SendToConnectedPeer messenger,
       messenger_Close = net_Close messenger,
       env_IsWhitelisted = mrp_whitelists mrp,
       env_VerifyEthSignature = erp_verifies (fl_crypto lib) erp \<rparr>"

definition present :: "'a option \<Rightarrow> unit option" where
  "present = map_option (\<lambda>_. ())"

definition broadcasterArgs :: "('t, 'b, 'r, 'pk, 'l, 'x relayer_world) factory_lib
    \<Rightarrow> 'x relayer_world AntiFloodComponents \<Rightarrow> ('t, 'b, 'x relayer_world) components
    \<Rightarrow> 'x relayer_world ArgsBroadcaster" where
  "broadcasterArgs lib antiflood c =
     \<lparr> arg_br_Messenger = Some (), arg_br_Log = Some (),
       arg_br_MultiversXRoleProvider = present (cmp_multiversXRoleProvider c),
       arg_br_SignatureProcessor = present (cmp_ethereumRoleProvider c),
       arg_br_KeyGen = Some (), arg_br_SingleSigner = Some (),
       arg_br_PrivateKey = cmp_multiversXRelayerPrivateKey c,
       arg_br_Name = EvmCompatibleChainToMultiversXName (cmp_evmCompatibleChain c),
       arg_br_AntifloodComponents = Some (),
       arg_br_env = broadcasterEnv lib (cmp_messenger c) antiflood (the (cmp_multiversXRoleProvider c))
                      (the (cmp_ethereumRoleProvider c)) \<rparr>"

text \<open>Everything up to the broadcaster; creating the gas station starts its goroutine.\<close>

definition createBroadcaster :: "('t, 'b, 'r, 'pk, 'l, 'x relayer_world) factory_lib
    \<Rightarrow> ('b, 'l, 'x relayer_world) ArgsEthereumToMultiversXBridge
    \<Rightarrow> (('t, 'b, 'x) cmp_state, go_error option) prog" where
  "createBroadcaster lib args =
     (let configs = cfg_GeneralConfig (fa_Configs args); gasStationConfig = ecf_GasStation (cfg_Eth configs) in
      tryOk (CreateGasStation (fl_quote lib) (gasStationArgs gasStationConfig) (gsc_Enabled gasStationConfig))
        (\<lambda>gs (c, w). do {
           (r, (c, w)) \<leftarrow> createAntifloodComponents lib (pcf_AntifloodConfig (cfg_P2P configs)) (c, w\<lparr>rw_gas := gs\<rparr>);
           tryOk r (\<lambda>antifloodComponents.
           tryOk (NewPeerDenialEvaluator (afl_BlacklistHandler antifloodComponents) (afl_PubKeysCacher antifloodComponents))
             (\<lambda>peerDenialEvaluator (c, w). do {
                (err, w) \<leftarrow> net_SetPeerDenialEvaluator (cmp_messenger c) peerDenialEvaluator w;
                tryNil err (\<lambda>(c, w).
                tryOk (NewBroadcaster (fl_nowNano lib) (fl_toPublic lib) (broadcasterArgs lib antifloodComponents c))
                  (\<lambda>b (c, w). Some (None, (c\<lparr>cmp_broadcaster := Some b\<rparr>, br_put b w))) (c, w)) (c, w)
              })) (c, w)
         }))"

definition ethClientArgs :: "('t, 'b, 'r, 'pk, 'l, 'x relayer_world) factory_lib
    \<Rightarrow> ('b, 'l, 'x relayer_world) ArgsEthereumToMultiversXBridge \<Rightarrow> bytes
    \<Rightarrow> (bytes \<Rightarrow> ('x relayer_world, go_error + bytes) prog) \<Rightarrow> ('t, 'b, 'x relayer_world) components
    \<Rightarrow> ('t, 'x relayer_world) ArgsEthereumClient" where
  "ethClientArgs lib args privateKey tokensMapper c =
     (let ethereumConfigs = cfg_Eth (cfg_GeneralConfig (fa_Configs args)) in
      \<lparr> ae_ClientWrapper = fa_ClientWrapper args,
        ae_Erc20ContractsHandler = fa_Erc20ContractsHolder args,
        ae_Log = Some (),
        ae_AddressConverter = cmp_addressConverter c,
        ae_Broadcaster = map_option (\<lambda>b sig h. br_call (BroadcastSignature sig h) b) (cmp_broadcaster c),
        ae_PrivateKey = Some (fl_KeyToAddress lib privateKey),
        ae_TokensMapper = Some tokensMapper,
        ae_SignatureHolder = Some (held_signatures (fl_ordKeys lib)),
        ae_SafeContractAddress = fl_HexToAddress lib (ecf_SafeContractAddress ethereumConfigs),
        ae_GasHandler = Some current_gas_price,
        ae_TransferGasLimitBase = ecf_GasLimitBase ethereumConfigs,
        ae_TransferGasLimitForEach = ecf_GasLimitForEach ethereumConfigs,
        ae_AllowDelta = ecf_MaxBlocksDelta ethereumConfigs \<rparr>)"

text \<open>
  From the private key on. The public part of the key is always an ECDSA key, so the cast succeeds.
  The new signatures holder becomes a client of the broadcaster.
\<close>

definition createEthereumClient :: "('t, 'b, 'r, 'pk, 'l, 'x relayer_world) factory_lib
    \<Rightarrow> ('b, 'l, 'x relayer_world) ArgsEthereumToMultiversXBridge
    \<Rightarrow> (('t, 'b, 'x) cmp_state, go_error option) prog" where
  "createEthereumClient lib args =
     andThen (createBroadcaster lib args)
     (tryOk (fl_ReadFile lib (ecf_PrivateKeyFile (cfg_Eth (cfg_GeneralConfig (fa_Configs args))))) (\<lambda>privateKeyBytes.
      tryOk (fl_HexToECDSA lib (TrimWhiteSpaceCharacters privateKeyBytes)) (\<lambda>privateKey (c, w).
      tryOk (NewErc20ToMultiversXMapper (cmp_mxDataGetter c)) (\<lambda>tokensMapper (c, w).
        (let c = c\<lparr>cmp_ethToMultiversXSignaturesHolder := Some ()\<rparr>;
             w = w\<lparr>rw_signatures := NewSignatureHolder\<rparr> in
         notNil (cmp_broadcaster c) (\<lambda>b (c, w).
         (let (err, b) = AddBroadcastClient (Some (holder_client (fl_ordMessages lib))) b in
          tryNil err (\<lambda>(c, w).
          tryOk (NewEthereumClient (fl_ethLib lib privateKey) (ethClientArgs lib args privateKey tokensMapper c))
            (\<lambda>client (c, w). Some (None, (c\<lparr>cmp_ethClient := Some client\<rparr>, ethCells_put (eth_store client) w)))
          (c, w)) (c\<lparr>cmp_broadcaster := Some b\<rparr>, w))) (c, w)))
      (c\<lparr>cmp_ethereumRelayerAddress := fl_KeyToAddress lib privateKey\<rparr>, w))))"

section \<open>The role providers\<close>

definition roleProviderInterval :: "('b, 'l, 'w) ArgsEthereumToMultiversXBridge \<Rightarrow> int" where
  "roleProviderInterval args =
     duration (uint (rpc_PollingIntervalInMillis (rcf_RoleProvider (cfg_Relayer (cfg_GeneralConfig (fa_Configs args))))))
       millisecond"

definition createMultiversXRoleProvider :: "('t, 'b, 'r, 'pk, 'l, 'x relayer_world) factory_lib
    \<Rightarrow> ('b, 'l, 'x relayer_world) ArgsEthereumToMultiversXBridge
    \<Rightarrow> (('t, 'b, 'x) cmp_state, go_error option) prog" where
  "createMultiversXRoleProvider lib args = (\<lambda>(c, w).
     tryOk (NewMultiversXRoleProvider
       \<lparr> arg_mrp_DataGetter = map_option GetAllStakedRelayers (cmp_mxDataGetter c), arg_mrp_Log = Some () \<rparr>)
     (\<lambda>rp (c, w).
     addPollingHandler lib \<lparr> ph_Name = ''MultiversX role provider'', ph_PollingInterval = roleProviderInterval args,
       ph_PollingWhenError = pollingDurationOnError, ph_Executor = PollMultiversXRoleProvider \<rparr>
     (c\<lparr>cmp_multiversXRoleProvider := Some rp\<rparr>, w\<lparr>rw_mxRelayers := mrp_whitelistedAddresses rp\<rparr>)) (c, w))"

definition createEthereumRoleProvider :: "('t, 'b, 'r, 'pk, 'l, 'x relayer_world) factory_lib
    \<Rightarrow> ('b, 'l, 'x relayer_world) ArgsEthereumToMultiversXBridge
    \<Rightarrow> (('t, 'b, 'x) cmp_state, go_error option) prog" where
  "createEthereumRoleProvider lib args = (\<lambda>(c, w).
     tryOk (NewEthereumRoleProvider
       \<lparr> arg_erp_EthereumChainInteractor = map_option cw_GetRelayers (fa_ClientWrapper args), arg_erp_Log = Some () \<rparr>)
     (\<lambda>rp (c, w).
     addPollingHandler lib \<lparr> ph_Name = cmp_evmCompatibleChain c @ '' role provider'',
       ph_PollingInterval = roleProviderInterval args, ph_PollingWhenError = pollingDurationOnError,
       ph_Executor = PollEthereumRoleProvider \<rparr>
     (c\<lparr>cmp_ethereumRoleProvider := Some rp\<rparr>, w\<lparr>rw_ethRelayers := erp_whitelistedAddresses rp\<rparr>)) (c, w))"

section \<open>The half-bridges\<close>

definition topologyArgs :: "('t, 'b, 'r, 'pk, 'l, 'x relayer_world) factory_lib \<Rightarrow> ConfigStateMachine \<Rightarrow> address
    \<Rightarrow> ('t, 'b, 'x relayer_world) components \<Rightarrow> 'x relayer_world ArgsTopologyHandler" where
  "topologyArgs lib configs relayer c =
     \<lparr> arg_PublicKeysProvider = map_option (mrp_keys (fl_ordKeys lib)) (cmp_multiversXRoleProvider c),
       arg_Timer = Some (NowUnix (cmp_timer c)),
       arg_IntervalForLeader = duration (uint (smc_IntervalForLeaderInSeconds configs)) second,
       arg_AddressBytes = AddressBytes relayer,
       arg_top_Log = Some (),
       arg_top_AddressConverter = cmp_addressConverter c \<rparr>"

definition createBatchValidator :: "('t, 'b, 'r, 'pk, 'l, 'w) factory_lib \<Rightarrow> Chain \<Rightarrow> Chain \<Rightarrow> BatchValidatorConfig
    \<Rightarrow> go_error + (TransferBatch option \<Rightarrow> ('w, go_error + bool) prog)" where
  "createBatchValidator lib sourceChain destinationChain args =
     CreateBatchValidator (fl_quote lib) (fl_bvEnv lib)
       \<lparr> arg_SourceChain = sourceChain, arg_DestinationChain = destinationChain, arg_bv_RequestURL = bvc_URL args,
         arg_bv_RequestTime = duration (bvc_RequestTimeInSeconds args) second \<rparr> (bvc_Enabled args)"

definition executorArgs :: "('t, 'b, 'r, 'pk, 'l, 'x relayer_world) factory_lib
    \<Rightarrow> ('b, 'l, 'x relayer_world) ArgsEthereumToMultiversXBridge \<Rightarrow> ('t, 'b, 'x relayer_world) components
    \<Rightarrow> 'x relayer_world topologyHandler \<Rightarrow> 'x relayer_world StatusHandler \<Rightarrow> ('x relayer_world \<Rightarrow> 'x relayer_world) option
    \<Rightarrow> (TransferBatch option \<Rightarrow> ('x relayer_world, go_error + bool) prog) \<Rightarrow> 'x relayer_world ArgsBridgeExecutor" where
  "executorArgs lib args c topologyHandler statusHandler signaturesHolder validator =
     (let configs = cfg_GeneralConfig (fa_Configs args) in
      \<lparr> arg_Log = Some (fl_levelString lib),
        arg_TopologyProvider = Some (topology_MyTurnAsLeader (fl_sha256 lib) topologyHandler),
        arg_MultiversXClient = map_option (mx_client_interface rw_mxCells mxCells_put) (cmp_multiversXClient c),
        arg_EthereumClient =
          map_option (eth_client_interface (fl_ordAmounts lib) rw_ethCells ethCells_put) (cmp_ethClient c),
        arg_TimeForWaitOnEthereum = duration (uint (ecf_IntervalToWaitForTransferInSeconds (cfg_Eth configs))) second,
        arg_WaitTimer = fl_waitTimer lib,
        arg_StatusHandler = Some statusHandler,
        arg_SignaturesHolder = signaturesHolder,
        arg_BatchValidator = Some (\<lambda>batch. validator (Some batch)),
        arg_MaxQuorumRetriesOnEthereum = ecf_MaxRetriesOnQuorumReached (cfg_Eth configs),
        arg_MaxQuorumRetriesOnMultiversX = mcf_MaxRetriesOnQuorumReached (cfg_MultiversX configs),
        arg_MaxRestriesOnWasProposed = mcf_MaxRetriesOnWasTransferProposed (cfg_MultiversX configs) \<rparr>)"

definition missingConfig :: "('t, 'b, 'r, 'pk, 'l, 'w) factory_lib \<Rightarrow> string \<Rightarrow> go_error" where
  "missingConfig lib name = Wrapped factory_errMissingConfig ('' for '' @ fl_quote lib name)"

definition createEthereumToMultiversXBridge :: "('t, 'b, 'r, 'pk, 'l, 'x relayer_world) factory_lib
    \<Rightarrow> ('b, 'l, 'x relayer_world) ArgsEthereumToMultiversXBridge
    \<Rightarrow> (('t, 'b, 'x) cmp_state, go_error option) prog" where
  "createEthereumToMultiversXBridge lib args = (\<lambda>(c, w).
     (let configs = cfg_GeneralConfig (fa_Configs args);
          ethToMultiversXName = EvmCompatibleChainToMultiversXName (cmp_evmCompatibleChain c) in
      case gm_get (cfg_StateMachine configs) ethToMultiversXName of
        None \<Rightarrow> Some (Some (missingConfig lib ethToMultiversXName), (c, w))
      | Some smConfig \<Rightarrow>
     notNil (cmp_multiversXRelayerAddress c) (\<lambda>relayer (c, w).
     tryOk (NewTopologyHandler (topologyArgs lib smConfig relayer c)) (\<lambda>topologyHandler (c, w).
     tryOk (NewStatusHandler (fl_json lib) ethToMultiversXName (Some (cmp_statusStorer c)) w) (\<lambda>sh (c, w).
     (let (err, holder) = AddStatusHandler ethToMultiversXName
            (\<lambda>w. status_GetAllMetrics (sth_at (rw_ethMetrics w) sh)) (cmp_metricsHolder c) in
     tryNil err (\<lambda>(c, w).
     tryOk (createBatchValidator lib (cmp_evmCompatibleChain c) MultiversX (cfg_BatchValidator configs)) (\<lambda>validator (c, w).
     tryOk (NewBridgeExecutor (executorArgs lib args c topologyHandler
              (status_interface rw_ethMetrics ethMetrics_put sh) (Some (\<lambda>w. w)) validator)) (\<lambda>bridge.
     tryOk (eth_CreateSteps (fl_marshalBatch lib) (Some bridge)) (\<lambda>steps (c, w).
       Some (None, (c\<lparr>cmp_ethToMultiversXExecutor := Some bridge, cmp_ethToMultiversXMachineStates := Some steps\<rparr>, w))))
     (c, w)) (c, w))
     (c\<lparr>cmp_ethToMultiversXStatusHandler := Some sh, cmp_metricsHolder := holder\<rparr>, ethMetrics_put (sth_metrics sh) w)))
     (c, w)) (c, w))
     (c\<lparr>cmp_ethToMultiversXStepDuration := duration (uint (smc_StepDurationInMillis smConfig)) millisecond\<rparr>, w)))"

definition createMultiversXToEthereumBridge :: "('t, 'b, 'r, 'pk, 'l, 'x relayer_world) factory_lib
    \<Rightarrow> ('b, 'l, 'x relayer_world) ArgsEthereumToMultiversXBridge
    \<Rightarrow> (('t, 'b, 'x) cmp_state, go_error option) prog" where
  "createMultiversXToEthereumBridge lib args = (\<lambda>(c, w).
     (let configs = cfg_GeneralConfig (fa_Configs args);
          multiversXToEthName = MultiversXToEvmCompatibleChainName (cmp_evmCompatibleChain c) in
      case gm_get (cfg_StateMachine configs) multiversXToEthName of
        None \<Rightarrow> Some (Some (missingConfig lib multiversXToEthName), (c, w))
      | Some smConfig \<Rightarrow>
     notNil (cmp_multiversXRelayerAddress c) (\<lambda>relayer (c, w).
     tryOk (NewTopologyHandler (topologyArgs lib smConfig relayer c)) (\<lambda>topologyHandler (c, w).
     tryOk (NewStatusHandler (fl_json lib) multiversXToEthName (Some (cmp_statusStorer c)) w) (\<lambda>sh (c, w).
     (let (err, holder) = AddStatusHandler multiversXToEthName
            (\<lambda>w. status_GetAllMetrics (sth_at (rw_mxMetrics w) sh)) (cmp_metricsHolder c) in
     tryNil err (\<lambda>(c, w).
     tryOk (createBatchValidator lib MultiversX (cmp_evmCompatibleChain c) (cfg_BatchValidator configs)) (\<lambda>validator (c, w).
     tryOk (NewBridgeExecutor (executorArgs lib args c topologyHandler
              (status_interface rw_mxMetrics mxMetrics_put sh)
              (map_option (\<lambda>_. clear_signatures) (cmp_ethToMultiversXSignaturesHolder c)) validator)) (\<lambda>bridge.
     tryOk (mx_CreateSteps (fl_marshalBatch lib) (Some bridge)) (\<lambda>steps (c, w).
       Some (None, (c\<lparr>cmp_multiversXToEthExecutor := Some bridge, cmp_multiversXToEthMachineStates := Some steps\<rparr>, w))))
     (c, w)) (c, w))
     (c\<lparr>cmp_multiversXToEthStatusHandler := Some sh, cmp_metricsHolder := holder\<rparr>, mxMetrics_put (sth_metrics sh) w)))
     (c, w)) (c, w))
     (c\<lparr>cmp_multiversXToEthStepDuration := duration (uint (smc_StepDurationInMillis smConfig)) millisecond\<rparr>, w)))"

section \<open>The state machines\<close>

text \<open>The status handler as the machine calls it, whose state is an executor and the world.\<close>

definition on_world :: "'w StatusHandler \<Rightarrow> 'w bstate StatusHandler" where
  "on_world h =
     \<lparr> sh_SetIntMetric = (\<lambda>k v. apsnd (sh_SetIntMetric h k v)),
       sh_AddIntMetric = (\<lambda>k v. apsnd (sh_AddIntMetric h k v)),
       sh_SetStringMetric = (\<lambda>k v. apsnd (sh_SetStringMetric h k v)) \<rparr>"

definition createEthStateMachine :: "('t, 'b, 'r, 'pk, 'l, 'x relayer_world) factory_lib
    \<Rightarrow> (('t, 'b, 'x) cmp_state, go_error option) prog" where
  "createEthStateMachine lib = (\<lambda>(c, w).
     (let name = EvmCompatibleChainToMultiversXName (cmp_evmCompatibleChain c) in
      tryOk (NewStateMachine (fl_ordSteps lib)
        \<lparr> arg_StateMachineName = name, arg_Steps = cmp_ethToMultiversXMachineStates c,
          arg_StartStateIdentifier = GettingPendingBatchFromEthereum, arg_sm_Log = Some (),
          arg_sm_StatusHandler = map_option (on_world \<circ> status_interface rw_ethMetrics ethMetrics_put)
            (cmp_ethToMultiversXStatusHandler c) \<rparr>)
      (\<lambda>machine (c, w).
      addPollingHandler lib \<lparr> ph_Name = name @ '' State machine'', ph_PollingInterval = cmp_ethToMultiversXStepDuration c,
        ph_PollingWhenError = pollingDurationOnError, ph_Executor = PollEthToMultiversX \<rparr>
      (c\<lparr>cmp_ethToMultiversXStateMachine := Some machine\<rparr>, w)) (c, w)))"

definition createMxStateMachine :: "('t, 'b, 'r, 'pk, 'l, 'x relayer_world) factory_lib
    \<Rightarrow> (('t, 'b, 'x) cmp_state, go_error option) prog" where
  "createMxStateMachine lib = (\<lambda>(c, w).
     (let name = MultiversXToEvmCompatibleChainName (cmp_evmCompatibleChain c) in
      tryOk (NewStateMachine (fl_ordSteps lib)
        \<lparr> arg_StateMachineName = name, arg_Steps = cmp_multiversXToEthMachineStates c,
          arg_StartStateIdentifier = GettingPendingBatchFromMultiversX, arg_sm_Log = Some (),
          arg_sm_StatusHandler = map_option (on_world \<circ> status_interface rw_mxMetrics mxMetrics_put)
            (cmp_multiversXToEthStatusHandler c) \<rparr>)
      (\<lambda>machine (c, w).
      addPollingHandler lib \<lparr> ph_Name = name @ '' State machine'', ph_PollingInterval = cmp_multiversXToEthStepDuration c,
        ph_PollingWhenError = pollingDurationOnError, ph_Executor = PollMultiversXToEth \<rparr>
      (c\<lparr>cmp_multiversXToEthStateMachine := Some machine\<rparr>, w)) (c, w)))"

section \<open>Construction\<close>

definition initialComponents :: "('t, 'b, 'r, 'pk, 'l, 'w) factory_lib \<Rightarrow> ('b, 'l, 'w) ArgsEthereumToMultiversXBridge
    \<Rightarrow> ('t, 'b, 'w) components" where
  "initialComponents lib args =
     \<lparr> cmp_messenger = the (fa_Messenger args), cmp_statusStorer = the (fa_StatusStorer args),
       cmp_multiversXClient = None, cmp_ethClient = None,
       cmp_evmCompatibleChain = ecf_Chain (cfg_Eth (cfg_GeneralConfig (fa_Configs args))),
       cmp_multiversXMultisigContractAddress = None, cmp_multiversXRelayerPrivateKey = None,
       cmp_multiversXRelayerAddress = None, cmp_ethereumRelayerAddress = replicate 20 0, cmp_mxDataGetter = None,
       cmp_proxy = the (fa_Proxy args), cmp_multiversXRoleProvider = None, cmp_ethereumRoleProvider = None,
       cmp_broadcaster = None, cmp_timer = NewNTPTimer (fl_NewSyncTime lib),
       cmp_timeForBootstrap = fa_TimeForBootstrap args, cmp_metricsHolder = the (fa_MetricsHolder args),
       cmp_addressConverter = None,
       cmp_ethToMultiversXMachineStates = None, cmp_ethToMultiversXStepDuration = 0,
       cmp_ethToMultiversXStatusHandler = None, cmp_ethToMultiversXStateMachine = None,
       cmp_ethToMultiversXSignaturesHolder = None, cmp_ethToMultiversXExecutor = None,
       cmp_multiversXToEthMachineStates = None, cmp_multiversXToEthStepDuration = 0,
       cmp_multiversXToEthStatusHandler = None, cmp_multiversXToEthStateMachine = None,
       cmp_multiversXToEthExecutor = None,
       cmp_closableHandlers = [], cmp_pollingHandlers = [],
       cmp_timeBeforeRepeatJoin = fa_TimeBeforeRepeatJoin args, cmp_joinLoop = False, cmp_cancelFunc = False \<rparr>"

definition createComponents :: "('t, 'b, 'r, 'pk, 'l, 'x relayer_world) factory_lib
    \<Rightarrow> ('b, 'l, 'x relayer_world) ArgsEthereumToMultiversXBridge
    \<Rightarrow> (('t, 'b, 'x) cmp_state, go_error option) prog" where
  "createComponents lib args =
     andThen (createMultiversXKeysAndAddresses lib (cfg_MultiversX (cfg_GeneralConfig (fa_Configs args))))
     (andThen createDataGetter
     (andThen (createMultiversXRoleProvider lib args)
     (andThen (createMultiversXClient lib args)
     (andThen (createEthereumRoleProvider lib args)
     (andThen (createEthereumClient lib args)
     (andThen (createEthereumToMultiversXBridge lib args)
     (andThen (createEthStateMachine lib)
     (andThen (createMultiversXToEthereumBridge lib args)
       (createMxStateMachine lib)))))))))"

text \<open>On an error the components built so far are dropped; none of them is closed.\<close>

definition NewEthMultiversXBridgeComponents :: "('t, 'b, 'r, 'pk, 'l, 'x relayer_world) factory_lib
    \<Rightarrow> ('b, 'l, 'x relayer_world) ArgsEthereumToMultiversXBridge
    \<Rightarrow> ('x relayer_world, go_error + ('t, 'b, 'x relayer_world) components) prog" where
  "NewEthMultiversXBridgeComponents lib args w =
     (case checkArgsEthereumToMultiversXBridge lib args of
        Some err \<Rightarrow> Some (Inl err, w)
      | None \<Rightarrow>
     (case NewAddressConverter (sdk_NewBech32PubkeyConverter (fl_sdk lib)) of
        Inl err \<Rightarrow> Some (Inl ErrNilAddressConverter, w)
      | Inr converter \<Rightarrow> do {
          (err, (c, w)) \<leftarrow> createComponents lib args
            (addClosableComponent (Some CloseTimer) ((initialComponents lib args)\<lparr>cmp_addressConverter := Some converter\<rparr>), w);
          Some (case err of Some e \<Rightarrow> Inl e | None \<Rightarrow> Inr c, w)
        }))"

section \<open>Start and end\<close>

fun startPollingHandlers :: "('t, 'b, 'r, 'pk, 'l, 'w) factory_lib \<Rightarrow> pollingHandler list
    \<Rightarrow> ('w, go_error option) prog" where
  "startPollingHandlers lib [] w = Some (None, w)"
| "startPollingHandlers lib (pollingHandler # pollingHandlers) w = do {
     (err, w) \<leftarrow> fl_StartProcessingLoop lib pollingHandler w;
     (if err \<noteq> None then Some (err, w) else startPollingHandlers lib pollingHandlers w)
   }"

definition Start :: "('t, 'b, 'r, 'pk, 'l, 'x relayer_world) factory_lib
    \<Rightarrow> (('t, 'b, 'x) cmp_state, go_error option) prog" where
  "Start lib = (\<lambda>(c, w). do {
     (err, w) \<leftarrow> net_Bootstrap (cmp_messenger c) w;
     tryNil err (\<lambda>(c, w).
       (let w = fl_Sleep lib (cmp_timeForBootstrap c) w in
        notNil (cmp_broadcaster c) (\<lambda>b (c, w). do {
          (err, w) \<leftarrow> br_call RegisterOnTopics b w;
          tryNil err (\<lambda>(c, w). do {
            (_, w) \<leftarrow> br_call BroadcastJoinTopic b w;
            (err, w) \<leftarrow> startPollingHandlers lib (cmp_pollingHandlers c) w;
            tryNil err (\<lambda>(c, w). Some (None, (c\<lparr>cmp_joinLoop := True\<rparr>, w))) (c, w)
          }) (c, w)
        }) (c, w))) (c, w)
   })"

text \<open>
  The goroutine that \<^verbatim>\<open>Start\<close> leaves behind, statement by statement: it makes its timer, makes its
  context and stores the function that cancels it (\<open>lp_cancelFunc\<close> is the field \<^verbatim>\<open>cancelFunc\<close> of the
  components, \<open>cmp_cancelFunc\<close> when they are closed), and loops: it resets the timer and waits, sends a
  join message when the timer fired, and returns, stopping the timer, when the context is done.
\<close>

definition startBroadcastJoinRetriesLoop :: "('t, 'b, 'x relayer_world) components \<Rightarrow> 'x relayer_world loop_exec" where
  "startBroadcastJoinRetriesLoop c chosen now = (\<lambda>(g, w).
     (case lp_at g of
        LoopEntered \<Rightarrow> Some (g\<lparr>lp_deadline := Some (now + cmp_timeBeforeRepeatJoin c), lp_at := LoopTimerMade\<rparr>, w)
      | LoopTimerMade \<Rightarrow> Some (g\<lparr>lp_done := False, lp_cancelFunc := True, lp_at := LoopResets\<rparr>, w)
      | LoopResets \<Rightarrow> Some (g\<lparr>lp_deadline := Some (now + cmp_timeBeforeRepeatJoin c), lp_at := LoopSelects\<rparr>, w)
      | LoopSelects \<Rightarrow>
          (case chosen of
             TimerCase \<Rightarrow>
               if lp_fired g then notNil (cmp_broadcaster c) (\<lambda>b w. do {
                 (_, w) \<leftarrow> br_call BroadcastJoinTopic b w;
                 Some (g\<lparr>lp_fired := False, lp_acted := now # lp_acted g, lp_at := LoopResets\<rparr>, w)
               }) w else None
           | DoneCase \<Rightarrow>
               if lp_done g then Some (g\<lparr>lp_deadline := None, lp_at := LoopReturned\<rparr>, w) else None)
      | LoopReturned \<Rightarrow> None))"

fun closeOne :: "('t, 'b, 'r, 'pk, 'l, 'w) factory_lib \<Rightarrow> ('t, 'b, 'w) components \<Rightarrow> closable
    \<Rightarrow> ('w, go_error option) prog" where
  "closeOne lib c CloseTimer w = timer_Close (cmp_timer c) w"
| "closeOne lib c CloseMultiversXClient w = notNil (cmp_multiversXClient c) mxc_Close w"
| "closeOne lib c (ClosePollingHandler ph) w = fl_ClosePollingHandler lib ph w"

fun closeHandlers :: "('t, 'b, 'r, 'pk, 'l, 'w) factory_lib \<Rightarrow> ('t, 'b, 'w) components \<Rightarrow> closable option list
    \<Rightarrow> go_error option \<Rightarrow> ('w, go_error option) prog" where
  "closeHandlers lib c [] lastError w = Some (lastError, w)"
| "closeHandlers lib c (None # closables) lastError w = closeHandlers lib c closables lastError w"
| "closeHandlers lib c (Some closable # closables) lastError w = do {
     (err, w) \<leftarrow> closeOne lib c closable w;
     closeHandlers lib c closables (if err \<noteq> None then err else lastError) w
   }"

definition components_Close :: "('t, 'b, 'r, 'pk, 'l, 'w) factory_lib \<Rightarrow> ('t, 'b, 'w) components
    \<Rightarrow> ('w, go_error option) prog" where
  "components_Close lib c w =
     (let w = (if cmp_cancelFunc c then fl_cancelJoin lib w else w) in
      closeHandlers lib c (cmp_closableHandlers c) None w)"

definition MultiversXRelayerAddress :: "('t, 'b, 'w) components \<Rightarrow> address option" where
  "MultiversXRelayerAddress c = cmp_multiversXRelayerAddress c"

definition EthereumRelayerAddress :: "('t, 'b, 'w) components \<Rightarrow> bytes" where
  "EthereumRelayerAddress c = cmp_ethereumRelayerAddress c"

end
