(* ===== verification/Stall_Detector.thy ===== *)
theory Stall_Detector
  imports Bridge_Executor
begin

text \<open>
  The contract that the availability checks of both clients share: as long as the chain stands still,
  every check counts the fetched height once more and reports the client available or unavailable by
  comparing the count with the allowed delta. What follows for a series of checks is proved once here.
\<close>

locale stall_detector =
  fixes check :: "('s, go_error option) prog"
    and steady :: "u64 \<Rightarrow> 's \<Rightarrow> bool"
    and fetched :: "u64 \<Rightarrow> 's \<Rightarrow> u64"
    and delta :: "'s \<Rightarrow> u64"
    and reported :: "ClientStatus \<Rightarrow> u64 \<Rightarrow> 's \<Rightarrow> bool"
  assumes step: "steady n s \<Longrightarrow> \<exists>s'. check s = Some (None, s') \<and> steady n s' \<and> delta s' = delta s \<and>
      fetched n s' = fetched n s + 1 \<and>
      reported (if delta s < fetched n s then Unavailable else Available) n s'"
begin

fun checks :: "nat \<Rightarrow> 's \<Rightarrow> 's option" where
  "checks 0 s = Some s"
| "checks (Suc k) s = do { (err, s) \<leftarrow> check s; checks k s }"

lemma checks_run:
  "steady n s \<Longrightarrow> \<exists>s'. checks k s = Some s' \<and> steady n s' \<and> delta s' = delta s \<and> fetched n s' = fetched n s + of_nat k"
proof (induction k arbitrary: s)
  case (Suc k)
  obtain s1 where s1: "check s = Some (None, s1)" "steady n s1" "delta s1 = delta s" "fetched n s1 = fetched n s + 1"
    using step [OF Suc.prems] by blast
  then show ?case
    using Suc.IH [OF s1(2)] by (auto simp: ac_simps)
qed simp

lemma stalled:
  assumes "steady n s" "fetched n s = 0" "k < 2 ^ 64"
  shows "\<exists>s1 s2. checks k s = Some s1 \<and> check s1 = Some (None, s2) \<and>
    reported (if unat (delta s) < k then Unavailable else Available) n s2"
proof -
  obtain s1 where s1: "checks k s = Some s1" "steady n s1" "delta s1 = delta s" "fetched n s1 = of_nat k"
    using checks_run [OF assms(1)] assms(2) by auto
  have "unat (of_nat k :: u64) = k"
    using assms(3) by (simp add: unat_of_nat)
  then have "delta s1 < fetched n s1 \<longleftrightarrow> unat (delta s) < k"
    using s1 by (simp add: word_less_nat_alt)
  then show ?thesis
    using step [OF s1(2)] s1(1) by auto
qed

end

end
