(* ===== verification/Mx_Client_Correct.thy ===== *)
theory Mx_Client_Correct
  imports Mx_Client Stall_Detector
begin

text \<open>
  What the MultiversX client guarantees: which pending batches it hands out, that it sends a
  transaction only from a whitelisted relayer to an unpaused contract, that it asks the contract about
  exactly the arguments it proposes, how it reports its availability, and when its calls return.
\<close>

section \<open>Reading the pending batch\<close>

text \<open>The tokens of the deposits were converted consistently with a cache.\<close>

definition tokens_agree :: "(string, bytes) gomap \<Rightarrow> DepositTransfer list \<Rightarrow> bool" where
  "tokens_agree cache ds \<longleftrightarrow>
     (\<forall>d \<in> set ds. DisplayableToken d = string_of_bytes (TokenBytes d) \<and>
        (\<forall>v. gm_get cache (DisplayableToken d) = Some v \<longrightarrow> ConvertedTokenBytes d = v) \<and>
        (\<forall>d' \<in> set ds. TokenBytes d' = TokenBytes d \<longrightarrow> ConvertedTokenBytes d' = ConvertedTokenBytes d))"

lemma tokens_agree_Nil [simp]: "tokens_agree cache []"
  by (simp add: tokens_agree_def)

lemma tokens_agree_Cons:
  assumes "tokens_agree (gm_set (DisplayableToken d) (ConvertedTokenBytes d) cache) ds"
    and "DisplayableToken d = string_of_bytes (TokenBytes d)"
    and "\<And>v. gm_get cache (DisplayableToken d) = Some v \<Longrightarrow> ConvertedTokenBytes d = v"
  shows "tokens_agree cache (d # ds)"
proof -
  have same: "ConvertedTokenBytes d' = ConvertedTokenBytes d" if "d' \<in> set ds" "TokenBytes d' = TokenBytes d" for d'
    using assms(1,2) that unfolding tokens_agree_def by (metis gm_get_set)
  have cached: "ConvertedTokenBytes d' = v" if "d' \<in> set ds" "gm_get cache (DisplayableToken d') = Some v" for d' v
    using assms that unfolding tokens_agree_def by (metis gm_get_set string_of_bytes_inj)
  show ?thesis
    using assms same cached unfolding tokens_agree_def by (metis set_ConsD)
qed

lemma responseDeposits_shape:
  assumes "responseDeposits c i cache raw w = Some (Inr ds, w')"
  shows "7 * length ds = length raw \<and> tokens_agree cache ds \<and> (\<forall>d \<in> set ds. Amount d \<noteq> None)"
  using assms
proof (induction c i cache raw w arbitrary: ds w' rule: responseDeposits.induct)
  case (2 c i cache blockNonce nonce "from" to token amount status rest w)
  obtain n where n: "parseUInt64FromByteSlice nonce = Inr n"
    using 2(2) by (simp split: sum.splits)
  let ?d = "\<lparr> Nonce = n, ToBytes = to, DisplayableTo = ToHexStringWithPrefix (mc_addressConverter c) to,
     FromBytes = from, DisplayableFrom = ToBech32String (mc_addressConverter c) from, TokenBytes = token,
     ConvertedTokenBytes = [], DisplayableToken = string_of_bytes token, Amount = Some (int (setBytes amount)) \<rparr>"
  obtain converted w1 where c1: "convertCached (mc_tokensMapper c) cache (string_of_bytes token) token w = Some (Inr converted, w1)"
    using 2(2) n by (cases "convertCached (mc_tokensMapper c) cache (string_of_bytes token) token w")
      (auto simp: Let_def split: sum.splits)
  then obtain ds' where rest: "responseDeposits c (Suc i) (gm_set (string_of_bytes token) converted cache) rest w1 = Some (Inr ds', w')"
    and ds: "ds = ?d\<lparr>ConvertedTokenBytes := converted\<rparr> # ds'"
    using 2(2) n by (cases "responseDeposits c (Suc i) (gm_set (string_of_bytes token) converted cache) rest w1")
      (auto simp: Let_def split: sum.splits)
  have "7 * length ds' = length rest \<and> tokens_agree (gm_set (string_of_bytes token) converted cache) ds' \<and>
      (\<forall>d \<in> set ds'. Amount d \<noteq> None)"
    using 2(1) [OF n refl] c1 rest by simp
  moreover have "converted = v" if "gm_get cache (string_of_bytes token) = Some v" for v
    using c1 that by (simp add: convertCached_def)
  ultimately show ?case
    by (auto simp: ds intro!: tokens_agree_Cons)
qed auto

lemma createPendingBatch_shape:
  assumes "createPendingBatchFromResponse c raw w = Some (Inr b, w')"
  shows "\<exists>batch. b = Some batch \<and> Deposits batch \<noteq> [] \<and> length raw = 1 + 7 * length (Deposits batch) \<and>
    Statuses batch = replicate (length (Deposits batch)) 0 \<and> tokens_agree [] (Deposits batch) \<and>
    (\<forall>d \<in> set (Deposits batch). Amount d \<noteq> None) \<and>
    setBytes (raw ! 0) = unat (ID batch)"
proof -
  have len: "1 < length raw"
    using assms by (auto simp: createPendingBatchFromResponse_def Let_def split: if_splits)
  obtain n where n: "parseUInt64FromByteSlice (raw ! 0) = Inr n"
    using assms by (auto simp: createPendingBatchFromResponse_def Let_def split: if_splits sum.splits)
  obtain ds where ds: "responseDeposits c 0 [] (drop 1 raw) w = Some (Inr ds, w')"
    and b: "b = Some \<lparr> ID = n, Deposits = ds, Statuses = replicate (length ds) 0 \<rparr>"
    using assms n by (cases "responseDeposits c 0 [] (drop 1 raw) w")
      (auto simp: createPendingBatchFromResponse_def Let_def split: if_splits sum.splits)
  show ?thesis
    using responseDeposits_shape [OF ds] len n by (auto simp: b parseUInt64FromByteSlice_iff)
qed

text \<open>
  C22. Whatever the contract answers, a pending batch that the client hands out has an identifier, at
  least one deposit, one zero status per deposit, an amount for every deposit, and a token conversion
  that is a function of the token: two deposits of the same token have the same converted token. There
  is no pending batch without a batch: success never comes with a nil pointer.
\<close>

theorem GetPending_well_formed:
  assumes "mxc_GetPending c w = Some (Inr b, w')"
  shows "\<exists>batch. b = Some batch \<and> Deposits batch \<noteq> [] \<and> Statuses batch = replicate (length (Deposits batch)) 0 \<and>
    (\<forall>d \<in> set (Deposits batch). \<forall>d' \<in> set (Deposits batch).
       Amount d \<noteq> None \<and> DisplayableToken d = string_of_bytes (TokenBytes d) \<and>
       (TokenBytes d = TokenBytes d' \<longrightarrow> ConvertedTokenBytes d = ConvertedTokenBytes d'))"
proof -
  obtain raw w1 where "createPendingBatchFromResponse c raw w1 = Some (Inr b, w')"
    using assms by (cases "GetCurrentBatchAsDataBytes (mc_getter c) w")
      (auto simp: mxc_GetPending_def split: sum.splits if_splits)
  from createPendingBatch_shape [OF this] show ?thesis
    unfolding tokens_agree_def by metis
qed

text \<open>
  A transfer as the contract of this repository returns it, \<^verbatim>\<open>into_multiresult\<close> of
  \<^verbatim>\<open>rs/common/transaction\<close>: seven values, the last one the service fee. Numbers are top-encoded, that
  is, as the shortest big-endian byte string, the empty one for zero. The client ignores the block
  nonce and the service fee.
\<close>

record pending_transfer =
  pt_block_nonce :: u64
  pt_nonce :: u64
  pt_from :: bytes
  pt_to :: bytes
  pt_token_identifier :: bytes
  pt_amount :: nat
  pt_service_fee :: nat

fun topEncode :: "nat \<Rightarrow> bytes" where
  "topEncode n = (if n = 0 then [] else topEncode (n div 256) @ [of_nat (n mod 256)])"

declare topEncode.simps [simp del]

lemma setBytes_topEncode [simp]: "setBytes (topEncode n) = n"
proof (induction n rule: topEncode.induct)
  case (1 n)
  show ?case
  proof (cases "n = 0")
    case False
    have "unat (of_nat (n mod 256) :: byte) = n mod 256" by (simp add: unat_of_nat)
    then show ?thesis using 1 False by (simp add: topEncode.simps [of n])
  qed (simp add: topEncode.simps)
qed

lemma parse_topEncode [simp]: "parseUInt64FromByteSlice (topEncode (unat n)) = Inr n"
  by (simp add: parseUInt64FromByteSlice_iff)

definition encode_transfer :: "pending_transfer \<Rightarrow> bytes list" where
  "encode_transfer t =
     [topEncode (unat (pt_block_nonce t)), topEncode (unat (pt_nonce t)), pt_from t, pt_to t,
      pt_token_identifier t, topEncode (pt_amount t), topEncode (pt_service_fee t)]"

definition decoded_transfer :: "'w mx_client \<Rightarrow> (bytes \<Rightarrow> bytes) \<Rightarrow> pending_transfer \<Rightarrow> DepositTransfer" where
  "decoded_transfer c tok t = \<lparr> Nonce = pt_nonce t, ToBytes = pt_to t,
     DisplayableTo = ToHexStringWithPrefix (mc_addressConverter c) (pt_to t), FromBytes = pt_from t,
     DisplayableFrom = ToBech32String (mc_addressConverter c) (pt_from t), TokenBytes = pt_token_identifier t,
     ConvertedTokenBytes = tok (pt_token_identifier t), DisplayableToken = string_of_bytes (pt_token_identifier t),
     Amount = Some (int (pt_amount t)) \<rparr>"

lemma responseDeposits_encoded:
  assumes "\<And>t v. gm_get cache (string_of_bytes t) = Some v \<Longrightarrow> v = tok t"
    and "\<And>t w. t \<in> set ts \<Longrightarrow>
      \<exists>w'. mc_tokensMapper c (pt_token_identifier t) w = Some (Inr (tok (pt_token_identifier t)), w')"
  shows "\<exists>w'. responseDeposits c i cache (concat (map encode_transfer ts)) w =
    Some (Inr (map (decoded_transfer c tok) ts), w')"
  using assms
proof (induction ts arbitrary: i cache w)
  case (Cons t ts)
  obtain w1 where c1: "convertCached (mc_tokensMapper c) cache (string_of_bytes (pt_token_identifier t)) (pt_token_identifier t) w =
      Some (Inr (tok (pt_token_identifier t)), w1)"
    using convertCached_function [where f = "mc_tokensMapper c" and tok = tok and cache = cache and key = string_of_bytes,
        OF Cons.prems(2,1)] by (meson list.set_intros(1))
  have "v = tok u" if "gm_get (gm_set (string_of_bytes (pt_token_identifier t)) (tok (pt_token_identifier t)) cache) (string_of_bytes u) = Some v" for u v
    using that Cons.prems(1) by (auto split: if_splits)
  then obtain w2 where "responseDeposits c (Suc i) (gm_set (string_of_bytes (pt_token_identifier t)) (tok (pt_token_identifier t)) cache)
      (concat (map encode_transfer ts)) w1 = Some (Inr (map (decoded_transfer c tok) ts), w2)"
    using Cons.IH Cons.prems(2) by (metis list.set_intros(2))
  then show ?case
    using c1 by (simp add: encode_transfer_def [of t] decoded_transfer_def [of c tok t] Let_def)
qed simp

text \<open>
  An answer with the six values per transfer that the contract's comments, its documentation and the
  test data of the client have is refused, unless the number of its transfers is a multiple of seven.
\<close>

lemma six_values_refused:
  assumes "length six = 1 + 6 * n" "\<not> 7 dvd n"
  shows "\<exists>err. createPendingBatchFromResponse c six w = Some (Inl err, w) \<and> errors_Is err errInvalidNumberOfArguments"
proof -
  have "(int (length six) - 1) mod 7 \<noteq> 0"
    using assms by presburger
  then show ?thesis by (simp add: createPendingBatchFromResponse_def Let_def)
qed

text \<open>
  C21. Round trip of the pending batch: when the contract answers the query for the current batch with
  the encoding of a batch of at least one transfer, seven values each with the service fee last as the
  contract's \<^verbatim>\<open>into_multiresult\<close> gives them, and each of the tokens has a conversion, the client hands
  out exactly that batch, field by field, with the converted tokens and unset statuses. (The
  contract's comments and documentation describe six values: see \<open>six_values_refused\<close>.)
\<close>

theorem pending_batch_roundtrip:
  assumes "contract_answers (mc_getter c) (createDefaultVmQueryBuilder (mc_getter c) @ [BFunction getCurrentTxBatchFuncName])
      w (topEncode (unat batchID) # concat (map encode_transfer ts)) w1"
    and "ts \<noteq> []"
    and "\<And>t w. t \<in> set ts \<Longrightarrow>
      \<exists>w'. mc_tokensMapper c (pt_token_identifier t) w = Some (Inr (tok (pt_token_identifier t)), w')"
  shows "\<exists>w'. mxc_GetPending c w = Some (Inr (Some \<lparr> ID = batchID, Deposits = map (decoded_transfer c tok) ts,
      Statuses = replicate (length ts) 0 \<rparr>), w')"
proof -
  let ?raw = "topEncode (unat batchID) # concat (map encode_transfer ts)"
  have q: "GetCurrentBatchAsDataBytes (mc_getter c) w = Some (Inr ?raw, w1)"
    using assms(1) by (simp add: GetCurrentBatchAsDataBytes_def query_bytes_iff)
  have len: "length (concat (map encode_transfer ts)) = 7 * length ts"
    by (induction ts) (simp_all add: encode_transfer_def)
  obtain w2 where "responseDeposits c 0 [] (concat (map encode_transfer ts)) w1 =
      Some (Inr (map (decoded_transfer c tok) ts), w2)"
    using responseDeposits_encoded [where c = c and tok = tok and cache = "[]" and ts = ts, OF _ assms(3)] by fastforce
  then have "createPendingBatchFromResponse c ?raw w1 = Some (Inr (Some \<lparr> ID = batchID,
      Deposits = map (decoded_transfer c tok) ts, Statuses = replicate (length ts) 0 \<rparr>), w2)"
    using assms(2) by (simp add: createPendingBatchFromResponse_def Let_def len)
  moreover have "\<not> emptyResponse ?raw"
    using assms(2) len by (simp add: emptyResponse_def)
  ultimately show ?thesis
    using q by (simp add: mxc_GetPending_def)
qed

section \<open>A client to evaluate\<close>

definition func_name :: "builder \<Rightarrow> string" where
  "func_name b = concat (map (\<lambda>call. case call of BFunction f \<Rightarrow> f | _ \<Rightarrow> []) b)"

text \<open>A contract with one pending transfer, not paused; the world counts the transactions sent.\<close>

definition demo_transfer :: pending_transfer where
  "demo_transfer = \<lparr> pt_block_nonce = 9, pt_nonce = 4, pt_from = [1, 2], pt_to = [3],
     pt_token_identifier = [65, 66], pt_amount = 5, pt_service_fee = 1 \<rparr>"

definition demo_proxy :: "nat Proxy" where
  "demo_proxy = \<lparr>
     ExecuteVMQuery = (\<lambda>request w. Some (Inr (Some \<lparr> ReturnCode = ''ok'', ReturnMessage = [],
       ReturnData = (if req_FuncName request = getCurrentTxBatchFuncName
                     then topEncode 7 # encode_transfer demo_transfer
                     else if req_FuncName request = isPausedFuncName then [[0]] else []) \<rparr>), w)),
     GetNetworkStatus = (\<lambda>shard w. Some (Inr (Some 11), w)),
     GetShardOfAddress = (\<lambda>a w. Some ((1, None), w)),
     GetNetworkConfig = (\<lambda>w. Some (Inr (Some \<lparr> nc_ChainID = ''D'', nc_MinTransactionVersion = 1, nc_MinGasPrice = 10 \<rparr>), w)),
     ToVmValueRequest = (\<lambda>b. Inr (Some \<lparr> req_Address = [], req_FuncName = func_name b, req_CallerAddr = [], req_Args = [] \<rparr>)) \<rparr>"

definition demo_address :: "bytes \<Rightarrow> address" where
  "demo_address bs = \<lparr> AddressBytes = bs, AddressAsBech32String = hexEncode bs \<rparr>"

definition demo_sdk :: "nat mx_sdk" where
  "demo_sdk = \<lparr> sdk_NewNonceTransactionHandler = (\<lambda>p t. Inr \<lparr> nth_GetNonce = (\<lambda>a w. Some (Inr (of_nat w), w)),
       nth_SendTransaction = (\<lambda>tx w. Some (Inr ''hash'', Suc w)), nth_Close = (\<lambda>w. Some (None, w)) \<rparr>),
     sdk_NewAddressFromBytes = demo_address, sdk_NewBech32PubkeyConverter = Inr hexEncode,
     sdk_ToDataBytes = (\<lambda>b. Inr []), sdk_marshalTx = (\<lambda>tx. Inr []) \<rparr>"

definition demo_gas_map :: MultiversXGasMapConfig where
  "demo_gas_map = \<lparr> gas_Sign = 1, gas_ProposeTransferBase = 2, gas_ProposeTransferForEach = 3, gas_ProposeStatusBase = 4,
     gas_ProposeStatusForEach = 5, gas_PerformActionBase = 6, gas_PerformActionForEach = 7 \<rparr>"

definition demo_mx_args :: "nat mx_ClientArgs" where
  "demo_mx_args = \<lparr> ca_GasMapConfig = demo_gas_map, ca_Proxy = Some demo_proxy, ca_Log = Some (),
     ca_RelayerPrivateKey = Some \<lparr> pk_publicBytes = Inr [5], pk_sign = (\<lambda>m. Inr [6]) \<rparr>,
     ca_MultisigContractAddress = Some (demo_address [7]), ca_IntervalToResendTxsInSeconds = 60,
     ca_TokensMapper = Some (\<lambda>t w. Some (Inr (rev t), w)), ca_RoleProvider = Some (\<lambda>w a. AddressBytes a = [5]),
     ca_StatusHandler = Some \<lparr> sh_SetIntMetric = (\<lambda>k v w. w), sh_AddIntMetric = (\<lambda>k v w. w), sh_SetStringMetric = (\<lambda>k v w. w) \<rparr>,
     ca_AllowDelta = 2 \<rparr>"

definition demo_mx_client :: "nat mx_client" where
  "demo_mx_client = (case mx_NewClient demo_sdk demo_mx_args of Inr c \<Rightarrow> c)"

lemma demo_mx_client_new: "mx_NewClient demo_sdk demo_mx_args = Inr demo_mx_client"
  by (simp add: demo_mx_client_def mx_NewClient_def mx_checkArgs_def checkGasMapValues_def gasMapFields_def
    demo_mx_args_def demo_gas_map_def demo_sdk_def NewMXClientDataGetter_def NewAddressConverter_def mx_minAllowedDelta_def Let_def)

lemmas demo_mx_defs = demo_mx_client_def mx_NewClient_def mx_checkArgs_def checkGasMapValues_def gasMapFields_def
  demo_mx_args_def demo_gas_map_def demo_sdk_def NewMXClientDataGetter_def NewAddressConverter_def mx_minAllowedDelta_def Let_def

lemma demo_mx_client_fields:
  "dg_proxy (mc_getter demo_mx_client) = demo_proxy"
  "dg_wasShardIDFetched (mc_getter demo_mx_client) = False"
  "mc_tokensMapper demo_mx_client = (\<lambda>t w. Some (Inr (rev t), w))"
  "mc_addressConverter demo_mx_client = \<lparr> ToHexString = ac_ToHexString, ToHexStringWithPrefix = ac_ToHexStringWithPrefix, ToBech32String = hexEncode \<rparr>"
  "mc_allowDelta demo_mx_client = 2" "mc_lastNonce demo_mx_client = 0" "mc_retriesAvailabilityCheck demo_mx_client = 0"
  "mc_gasMapConfig demo_mx_client = demo_gas_map"
  by (simp_all add: demo_mx_defs)

lemma demo_parse: "parseUInt64FromByteSlice (topEncode 7) = Inr 7" "parseUInt64FromByteSlice (topEncode 4) = Inr 4"
  using parse_topEncode [of 7] parse_topEncode [of 4] by simp_all

theorem pending_batch_roundtrip_witness:
  "\<exists>w'. mxc_GetPending demo_mx_client 0 = Some (Inr (Some \<lparr> ID = 7, Deposits = [\<lparr> Nonce = 4, ToBytes = [3],
      DisplayableTo = ac_ToHexStringWithPrefix [3], FromBytes = [1, 2], DisplayableFrom = hexEncode [1, 2], TokenBytes = [65, 66],
      ConvertedTokenBytes = [66, 65], DisplayableToken = ''AB'', Amount = Some 5 \<rparr>], Statuses = [0] \<rparr>), w')"
proof -
  have "contract_answers (mc_getter demo_mx_client)
      (createDefaultVmQueryBuilder (mc_getter demo_mx_client) @ [BFunction getCurrentTxBatchFuncName])
      0 (topEncode 7 # concat (map encode_transfer [demo_transfer])) 0"
    by (simp add: contract_answers_def demo_mx_client_fields demo_proxy_def createDefaultVmQueryBuilder_def func_name_def)
  moreover have "string_of_bytes [65, 66] = ''AB''"
    by code_simp
  ultimately show ?thesis
    using pending_batch_roundtrip [of demo_mx_client 0 7 "[demo_transfer]" 0 rev]
    by (simp add: demo_mx_client_fields decoded_transfer_def demo_transfer_def)
qed

theorem GetPending_well_formed_witness:
  "\<exists>b w' batch. mxc_GetPending demo_mx_client 0 = Some (Inr b, w') \<and> b = Some batch \<and> Deposits batch \<noteq> [] \<and>
    length (Statuses batch) = length (Deposits batch)"
proof -
  have q: "GetCurrentBatchAsDataBytes (mc_getter demo_mx_client) 0 = Some (Inr (topEncode 7 # encode_transfer demo_transfer), 0)"
    by (simp add: GetCurrentBatchAsDataBytes_def query_bytes_iff contract_answers_def demo_mx_client_fields demo_proxy_def
      createDefaultVmQueryBuilder_def func_name_def)
  have "\<exists>b w'. mxc_GetPending demo_mx_client 0 = Some (Inr b, w')"
    by (simp add: mxc_GetPending_def q emptyResponse_def createPendingBatchFromResponse_def demo_parse encode_transfer_def Let_def
      convertCached_def demo_mx_client_fields demo_transfer_def)
  then obtain b w' where "mxc_GetPending demo_mx_client 0 = Some (Inr b, w')" by blast
  then show ?thesis using GetPending_well_formed by fastforce
qed

section \<open>Sending transactions\<close>

text \<open>
  A transaction with the data of \<open>calls\<close> and gas limit \<open>gas\<close> was sent: the contract answered that it is
  not paused, the relayer is whitelisted, and what was sent is the transaction from the relayer to the
  contract with the current nonce, signed with the relayer's key over its unsigned encoding.
\<close>

definition sends :: "'w mx_client \<Rightarrow> builder \<Rightarrow> u64 \<Rightarrow> 'w \<Rightarrow> string \<Rightarrow> 'w \<Rightarrow> bool" where
  "sends c calls gas w hash w' \<longleftrightarrow>
     (\<exists>answer w1 nc w2 nonce w3 txData unsigned bs signature.
        contract_answers (mc_getter c) (createDefaultVmQueryBuilder (mc_getter c) @ [BFunction isPausedFuncName]) w answer w1 \<and>
        answers_bool answer False \<and>
        th_IsWhitelisted (mc_txHandler c) w1 (th_relayerAddress (mc_txHandler c)) \<and>
        GetNetworkConfig (th_proxy (mc_txHandler c)) w1 = Some (Inr (Some nc), w2) \<and>
        nth_GetNonce (th_nonceTxHandler (mc_txHandler c)) (th_relayerAddress (mc_txHandler c)) w2 = Some (Inr nonce, w3) \<and>
        th_ToDataBytes (mc_txHandler c) calls = Inr txData \<and>
        unsigned = \<lparr> tx_ChainID = nc_ChainID nc, tx_Version = nc_MinTransactionVersion nc, tx_GasLimit = gas,
          tx_GasPrice = nc_MinGasPrice nc, tx_Nonce = nonce, tx_Data = txData,
          tx_Sender = AddressAsBech32String (th_relayerAddress (mc_txHandler c)),
          tx_Receiver = th_multisigAddressAsBech32 (mc_txHandler c), tx_Value = ''0'', tx_Signature = [] \<rparr> \<and>
        th_marshalTx (mc_txHandler c) unsigned = Inr bs \<and> th_signWithPrivateKey (mc_txHandler c) bs = Inr signature \<and>
        nth_SendTransaction (th_nonceTxHandler (mc_txHandler c)) (unsigned\<lparr>tx_Signature := hexEncode signature\<rparr>) w3 = Some (Inr hash, w'))"

lemma checkIsPaused_iff:
  "checkIsPaused c w = Some (None, w1) \<longleftrightarrow>
     (\<exists>answer. contract_answers (mc_getter c) (createDefaultVmQueryBuilder (mc_getter c) @ [BFunction isPausedFuncName]) w answer w1 \<and>
        answers_bool answer False)"
proof -
  have "checkIsPaused c w = Some (None, w1) \<longleftrightarrow> IsPaused (mc_getter c) w = Some (Inr False, w1)"
    by (cases "IsPaused (mc_getter c) w") (auto simp: checkIsPaused_def split: sum.splits)
  then show ?thesis by (simp add: IsPaused_def query_bool_iff)
qed

lemma signTransaction_iff:
  "signTransaction th calls gas w1 = Some (Inr tx, w3) \<longleftrightarrow>
     (\<exists>nc w2 nonce txData. GetNetworkConfig (th_proxy th) w1 = Some (Inr (Some nc), w2) \<and>
        nth_GetNonce (th_nonceTxHandler th) (th_relayerAddress th) w2 = Some (Inr nonce, w3) \<and>
        th_ToDataBytes th calls = Inr txData \<and>
        signTransactionWithPrivateKey th \<lparr> tx_ChainID = nc_ChainID nc, tx_Version = nc_MinTransactionVersion nc, tx_GasLimit = gas,
          tx_GasPrice = nc_MinGasPrice nc, tx_Nonce = nonce, tx_Data = txData,
          tx_Sender = AddressAsBech32String (th_relayerAddress th),
          tx_Receiver = th_multisigAddressAsBech32 th, tx_Value = ''0'', tx_Signature = [] \<rparr> = Inr tx)"
  by (auto simp: signTransaction_def split: sum.splits option.splits bind_splits)

lemma signWithPrivateKey_iff:
  "signTransactionWithPrivateKey th tx = Inr tx' \<longleftrightarrow>
     (\<exists>bs signature. th_marshalTx th (tx\<lparr>tx_Signature := []\<rparr>) = Inr bs \<and> th_signWithPrivateKey th bs = Inr signature \<and>
        tx' = tx\<lparr>tx_Signature := hexEncode signature\<rparr>)"
  by (auto simp: signTransactionWithPrivateKey_def Let_def split: sum.splits)

lemma SendTransactionReturnHash_iff:
  "SendTransactionReturnHash th calls gas w = Some (Inr hash, w') \<longleftrightarrow>
     th_IsWhitelisted th w (th_relayerAddress th) \<and>
     (\<exists>tx w1. signTransaction th calls gas w = Some (Inr tx, w1) \<and> nth_SendTransaction (th_nonceTxHandler th) tx w1 = Some (Inr hash, w'))"
  by (cases "signTransaction th calls gas w") (auto simp: SendTransactionReturnHash_def split: sum.splits)

lemma sends_iff:
  "sends c calls gas w hash w' \<longleftrightarrow>
     (\<exists>w1. checkIsPaused c w = Some (None, w1) \<and> SendTransactionReturnHash (mc_txHandler c) calls gas w1 = Some (Inr hash, w'))"
  unfolding sends_def checkIsPaused_iff SendTransactionReturnHash_iff signTransaction_iff signWithPrivateKey_iff by fastforce

lemma guarded_send:
  "(checkIsPaused c w \<bind> (\<lambda>(err, w). case err of Some err \<Rightarrow> Some (Inl err, w)
      | None \<Rightarrow> SendTransactionReturnHash (mc_txHandler c) calls gas w)) = Some (Inr hash, w') \<longleftrightarrow> sends c calls gas w hash w'"
  unfolding sends_iff by (cases "checkIsPaused c w") (auto split: option.splits)

text \<open>What the contract is to be told about a batch, and about its statuses.\<close>

definition transfer_args :: "TransferBatch \<Rightarrow> builder" where
  "transfer_args b = BArgInt64 (sint (ID b)) # concat (map (\<lambda>d. [BArgBytes (FromBytes d), BArgBytes (ToBytes d),
     BArgBytes (ConvertedTokenBytes d), BArgBigInt (Amount d), BArgInt64 (sint (Nonce d))]) (Deposits b))"

definition status_args :: "TransferBatch \<Rightarrow> builder" where
  "status_args b = BArgInt64 (sint (ID b)) # map (\<lambda>s. BArgBytes [s]) (Statuses b)"

lemma client_sends:
  "(mxc_ProposeTransfer c b w = Some (Inr hash, w') \<longleftrightarrow>
      (\<exists>batch. b = Some batch \<and> sends c (BFunction ''proposeMultiTransferEsdtBatch'' # transfer_args batch)
         (gas_ProposeTransferBase (mc_gasMapConfig c) + of_nat (length (Deposits batch)) * gas_ProposeTransferForEach (mc_gasMapConfig c))
         w hash w')) \<and>
   (mxc_ProposeSetStatus c b w = Some (Inr hash, w') \<longleftrightarrow>
      (\<exists>batch. b = Some batch \<and> sends c (BFunction ''proposeEsdtSafeSetCurrentTransactionBatchStatus'' # status_args batch)
         (gas_ProposeStatusBase (mc_gasMapConfig c) + of_nat (length (Deposits batch)) * gas_ProposeStatusForEach (mc_gasMapConfig c))
         w hash w')) \<and>
   (mxc_Sign c a w = Some (Inr hash, w') \<longleftrightarrow>
      sends c [BFunction ''sign'', BArgInt64 (sint a)] (gas_Sign (mc_gasMapConfig c)) w hash w') \<and>
   (mxc_PerformAction c a b w = Some (Inr hash, w') \<longleftrightarrow>
      (\<exists>batch. b = Some batch \<and> sends c [BFunction ''performAction'', BArgInt64 (sint a)]
         (gas_PerformActionBase (mc_gasMapConfig c) + of_nat (length (Statuses batch)) * gas_PerformActionForEach (mc_gasMapConfig c))
         w hash w'))"
proof -
  show ?thesis
    unfolding mxc_ProposeTransfer_def mxc_ProposeSetStatus_def mxc_Sign_def mxc_PerformAction_def
    by (intro conjI; cases b) (simp_all add: guarded_send createCommonTxDataBuilder_def transfer_args_def status_args_def
      proposeTransferFuncName_def proposeSetStatusFuncName_def signFuncName_def performActionFuncName_def)
qed

text \<open>
  C23. The four operations that change the contract succeed exactly when the contract answered that it
  is not paused, the relayer is whitelisted, and the network accepted the relayer's signed transaction
  with the current nonce, the arguments of this batch or action, and the configured gas limit (a 64-bit
  number, computed with wrap-around). A nil batch never sends anything.
\<close>

theorem client_sends_only_when_allowed:
  "(mxc_ProposeTransfer c b w = Some (Inr hash, w') \<longleftrightarrow>
      (\<exists>batch. b = Some batch \<and> sends c (BFunction ''proposeMultiTransferEsdtBatch'' # transfer_args batch)
         (gas_ProposeTransferBase (mc_gasMapConfig c) + of_nat (length (Deposits batch)) * gas_ProposeTransferForEach (mc_gasMapConfig c))
         w hash w')) \<and>
   (mxc_ProposeSetStatus c b w = Some (Inr hash, w') \<longleftrightarrow>
      (\<exists>batch. b = Some batch \<and> sends c (BFunction ''proposeEsdtSafeSetCurrentTransactionBatchStatus'' # status_args batch)
         (gas_ProposeStatusBase (mc_gasMapConfig c) + of_nat (length (Deposits batch)) * gas_ProposeStatusForEach (mc_gasMapConfig c))
         w hash w')) \<and>
   (mxc_Sign c a w = Some (Inr hash, w') \<longleftrightarrow>
      sends c [BFunction ''sign'', BArgInt64 (sint a)] (gas_Sign (mc_gasMapConfig c)) w hash w') \<and>
   (mxc_PerformAction c a b w = Some (Inr hash, w') \<longleftrightarrow>
      (\<exists>batch. b = Some batch \<and> sends c [BFunction ''performAction'', BArgInt64 (sint a)]
         (gas_PerformActionBase (mc_gasMapConfig c) + of_nat (length (Statuses batch)) * gas_PerformActionForEach (mc_gasMapConfig c))
         w hash w'))"
  by (rule client_sends)

section \<open>Asking about what is proposed\<close>

text \<open>What the contract sees of a deposit in a transfer from Ethereum.\<close>

definition deposit_args :: "DepositTransfer \<Rightarrow> bytes \<times> bytes \<times> bytes \<times> int option \<times> u64" where
  "deposit_args d = (FromBytes d, ToBytes d, ConvertedTokenBytes d, Amount d, Nonce d)"

lemma sint_u64_inj [simp]: "sint (a :: u64) = sint b \<longleftrightarrow> a = b"
proof
  assume "sint a = sint b"
  then have "(of_int (sint a) :: u64) = of_int (sint b)" by simp
  then show "a = b" by simp
qed simp

lemma deposits_args_inj:
  "concat (map (\<lambda>dt. [BArgBytes (FromBytes dt), BArgBytes (ToBytes dt), BArgBytes (ConvertedTokenBytes dt),
       BArgBigInt (Amount dt), BArgInt64 (sint (Nonce dt))]) ds) =
   concat (map (\<lambda>dt. [BArgBytes (FromBytes dt), BArgBytes (ToBytes dt), BArgBytes (ConvertedTokenBytes dt),
       BArgBigInt (Amount dt), BArgInt64 (sint (Nonce dt))]) es) \<longleftrightarrow> map deposit_args ds = map deposit_args es"
proof (induction ds arbitrary: es)
  case Nil
  show ?case by (cases es) simp_all
next
  case (Cons d ds)
  show ?case
    by (cases es) (auto simp: deposit_args_def Cons.IH)
qed

lemma transfer_args_inj:
  "transfer_args b = transfer_args b' \<longleftrightarrow> ID b = ID b' \<and> map deposit_args (Deposits b) = map deposit_args (Deposits b')"
  by (simp add: transfer_args_def deposits_args_inj)

lemma status_args_inj: "status_args b = status_args b' \<longleftrightarrow> ID b = ID b' \<and> Statuses b = Statuses b'"
  by (simp add: status_args_def inj_map_eq_map inj_def)

definition transfer_gas :: "'w mx_client \<Rightarrow> TransferBatch \<Rightarrow> u64" where
  "transfer_gas c b = gas_ProposeTransferBase (mc_gasMapConfig c) +
     of_nat (length (Deposits b)) * gas_ProposeTransferForEach (mc_gasMapConfig c)"

definition status_gas :: "'w mx_client \<Rightarrow> TransferBatch \<Rightarrow> u64" where
  "status_gas c b = gas_ProposeStatusBase (mc_gasMapConfig c) +
     of_nat (length (Deposits b)) * gas_ProposeStatusForEach (mc_gasMapConfig c)"

lemma proposals_send:
  "mxc_ProposeTransfer c (Some b) w = Some (Inr hash, w') \<longleftrightarrow>
     sends c (BFunction ''proposeMultiTransferEsdtBatch'' # transfer_args b) (transfer_gas c b) w hash w'"
  "mxc_ProposeSetStatus c (Some b) w = Some (Inr hash, w') \<longleftrightarrow>
     sends c (BFunction ''proposeEsdtSafeSetCurrentTransactionBatchStatus'' # status_args b) (status_gas c b) w hash w'"
  using client_sends [of c "Some b" w hash w'] unfolding transfer_gas_def status_gas_def by blast+

lemma queries_ask:
  "WasProposedTransfer dg (Some b) w = executeQueryBoolFromBuilder dg
     (createDefaultVmQueryBuilder dg @ BFunction ''wasTransferActionProposed'' # transfer_args b) w"
  "GetActionIDForProposeTransfer dg (Some b) w = executeQueryUint64FromBuilder dg
     (createDefaultVmQueryBuilder dg @ BFunction ''getActionIdForTransferBatch'' # transfer_args b) w"
  "WasProposedSetStatus dg (Some b) w = executeQueryBoolFromBuilder dg
     (createDefaultVmQueryBuilder dg @ BFunction ''wasSetCurrentTransactionBatchStatusActionProposed'' # status_args b) w"
  "GetActionIDForSetStatusOnPendingTransfer dg (Some b) w = executeQueryUint64FromBuilder dg
     (createDefaultVmQueryBuilder dg @ BFunction ''getActionIdForSetCurrentTransactionBatchStatus'' # status_args b) w"
  by (simp_all add: WasProposedTransfer_def GetActionIDForProposeTransfer_def WasProposedSetStatus_def
      GetActionIDForSetStatusOnPendingTransfer_def transfer_args_def status_args_def addBatchInfo_def
      wasTransferActionProposedFuncName_def getActionIdForTransferBatchFuncName_def
      wasSetCurrentTransactionBatchStatusActionProposedFuncName_def getActionIdForSetCurrentTransactionBatchStatusFuncName_def)

text \<open>
  C24. The client asks the contract about exactly what it proposes. The transaction of a transfer's
  proposal, the query whether it was proposed and the query for its action carry the same arguments
  (each written by its own loop), and so do the transaction and the two queries about a set-status
  action. These arguments determine the batch as far as the contract sees it: two batches have the same
  ones exactly when they agree on the identifier and on sender, receiver, converted token, amount and
  nonce of every deposit, respectively on the identifier and the statuses.
\<close>

theorem proposal_and_query_agree:
  "\<exists>transferArgs transferGas statusArgs statusGas.
     (\<forall>c b hash w w'. mxc_ProposeTransfer c (Some b) w = Some (Inr hash, w') \<longleftrightarrow>
        sends c (BFunction ''proposeMultiTransferEsdtBatch'' # transferArgs b) (transferGas c b) w hash w') \<and>
     (\<forall>dg b w. WasProposedTransfer dg (Some b) w = executeQueryBoolFromBuilder dg
        (createDefaultVmQueryBuilder dg @ BFunction ''wasTransferActionProposed'' # transferArgs b) w) \<and>
     (\<forall>dg b w. GetActionIDForProposeTransfer dg (Some b) w = executeQueryUint64FromBuilder dg
        (createDefaultVmQueryBuilder dg @ BFunction ''getActionIdForTransferBatch'' # transferArgs b) w) \<and>
     (\<forall>c b hash w w'. mxc_ProposeSetStatus c (Some b) w = Some (Inr hash, w') \<longleftrightarrow>
        sends c (BFunction ''proposeEsdtSafeSetCurrentTransactionBatchStatus'' # statusArgs b) (statusGas c b) w hash w') \<and>
     (\<forall>dg b w. WasProposedSetStatus dg (Some b) w = executeQueryBoolFromBuilder dg
        (createDefaultVmQueryBuilder dg @ BFunction ''wasSetCurrentTransactionBatchStatusActionProposed'' # statusArgs b) w) \<and>
     (\<forall>dg b w. GetActionIDForSetStatusOnPendingTransfer dg (Some b) w = executeQueryUint64FromBuilder dg
        (createDefaultVmQueryBuilder dg @ BFunction ''getActionIdForSetCurrentTransactionBatchStatus'' # statusArgs b) w) \<and>
     (\<forall>b b'. transferArgs b = transferArgs b' \<longleftrightarrow>
        ID b = ID b' \<and> map deposit_args (Deposits b) = map deposit_args (Deposits b')) \<and>
     (\<forall>b b'. statusArgs b = statusArgs b' \<longleftrightarrow> ID b = ID b' \<and> Statuses b = Statuses b')"
  by (rule exI [of _ transfer_args], rule exI [of _ transfer_gas], rule exI [of _ status_args], rule exI [of _ status_gas])
     (simp add: proposals_send queries_ask transfer_args_inj status_args_inj)

section \<open>Availability\<close>

text \<open>The chain stands still at nonce \<open>n\<close>: shard lookups succeed and every status shows this nonce.\<close>

definition steady :: "'w Proxy \<Rightarrow> u64 \<Rightarrow> bool" where
  "steady p n \<longleftrightarrow> (\<forall>a w. \<exists>shard w'. GetShardOfAddress p a w = Some ((shard, None), w')) \<and>
     (\<forall>shard w. \<exists>w'. GetNetworkStatus p shard w = Some (Inr (Some n), w'))"

lemma GetCurrentNonce_steady:
  assumes "steady (dg_proxy dg) n"
  shows "\<exists>dg' w'. GetCurrentNonce (dg, w) = Some (Inr n, (dg', w')) \<and> dg_proxy dg' = dg_proxy dg"
proof -
  obtain shard dg' w1 where "getShardID (dg, w) = Some ((shard, None), (dg', w1))" "dg_proxy dg' = dg_proxy dg"
  proof (cases "dg_wasShardIDFetched dg")
    case True
    then show ?thesis using that by (simp add: getShardID_def)
  next
    case False
    obtain sh w' where "GetShardOfAddress (dg_proxy dg) (AddressAsBech32String (dg_multisigContractAddress dg)) w = Some ((sh, None), w')"
      using assms unfolding steady_def by blast
    then show ?thesis using that False by (simp add: getShardID_def)
  qed
  moreover obtain w2 where "GetNetworkStatus (dg_proxy dg) shard w1 = Some (Inr (Some n), w2)"
    using assms unfolding steady_def by blast
  ultimately show ?thesis by (simp add: GetCurrentNonce_def)
qed

definition mx_fetched :: "u64 \<Rightarrow> 'w mx_client \<times> 'w \<Rightarrow> u64" where
  "mx_fetched n = (\<lambda>(c, w). if mc_lastNonce c = n then mc_retriesAvailabilityCheck c else 0)"

definition mx_reported :: "ClientStatus \<Rightarrow> u64 \<Rightarrow> 'w mx_client \<times> 'w \<Rightarrow> bool" where
  "mx_reported status n = (\<lambda>(c, w). \<exists>w1 message. w = mx_setStatusForAvailabilityCheck c status message n w1)"

interpretation mx_stall: stall_detector mxc_CheckClientAvailability
  "\<lambda>n (c, w). steady (dg_proxy (mc_getter c)) n" mx_fetched "\<lambda>(c, w). mc_allowDelta c" mx_reported
proof (unfold_locales, clarify)
  fix n and c :: "'w mx_client" and w
  assume "steady (dg_proxy (mc_getter c)) n"
  then obtain dg' w' where g: "GetCurrentNonce (mc_getter c, w) = Some (Inr n, (dg', w'))" "dg_proxy dg' = dg_proxy (mc_getter c)"
    and "steady (dg_proxy dg') n"
    using GetCurrentNonce_steady by metis
  then show "\<exists>s'. mxc_CheckClientAvailability (c, w) = Some (None, s') \<and> (case s' of (c, w) \<Rightarrow> steady (dg_proxy (mc_getter c)) n) \<and>
    (case s' of (c, w) \<Rightarrow> mc_allowDelta c) = mc_allowDelta c \<and> mx_fetched n s' = mx_fetched n (c, w) + 1 \<and>
    mx_reported (if mc_allowDelta c < mx_fetched n (c, w) then Unavailable else Available) n s'"
    by (auto simp: mxc_CheckClientAvailability_def Let_def mx_fetched_def mx_reported_def
      mx_incrementRetriesAvailabilityCheck_def mx_setStatusForAvailabilityCheck_def)
qed

text \<open>
  C27. A chain that stops is noticed: when the nonce is new to the client and stays the same, the check
  that follows \<open>k\<close> earlier checks of this nonce reports the client as unavailable exactly when \<open>k\<close>
  exceeds the allowed delta, and as available before that. No check fails or panics.
\<close>

theorem stalled_chain_reported:
  assumes "steady (dg_proxy (mc_getter c)) n" "mc_lastNonce c \<noteq> n" "k < 2 ^ 64"
  shows "\<exists>s1 c2 w2. mx_stall.checks k (c, w) = Some s1 \<and> mxc_CheckClientAvailability s1 = Some (None, (c2, w2)) \<and>
    mx_reported (if unat (mc_allowDelta c) < k then Unavailable else Available) n (c2, w2)"
  using mx_stall.stalled [of n "(c, w)" k] assms by (auto simp: mx_fetched_def)

theorem stalled_chain_reported_witness:
  "\<exists>s1 c2 w2. mx_stall.checks 3 (demo_mx_client, 0) = Some s1 \<and> mxc_CheckClientAvailability s1 = Some (None, (c2, w2)) \<and>
    mx_reported Unavailable 11 (c2, w2)"
  using stalled_chain_reported [of demo_mx_client 11 3 0]
  by (simp add: demo_mx_client_fields steady_def demo_proxy_def)

section \<open>Calls that return\<close>

text \<open>The parts a client is made of return from every call, and the proxy answers with no nil pointer.\<close>

definition mx_parts_return :: "'w mx_client \<Rightarrow> bool" where
  "mx_parts_return c \<longleftrightarrow> proxy_returns (dg_proxy (mc_getter c)) \<and> proxy_returns (th_proxy (mc_txHandler c)) \<and>
     (\<forall>t. never_panics (mc_tokensMapper c t)) \<and>
     (\<forall>a. never_panics (nth_GetNonce (th_nonceTxHandler (mc_txHandler c)) a)) \<and>
     (\<forall>tx. never_panics (nth_SendTransaction (th_nonceTxHandler (mc_txHandler c)) tx))"

lemma SendTransaction_returns:
  assumes "mx_parts_return c"
  shows "returns (SendTransactionReturnHash (mc_txHandler c) calls gas w)"
proof -
  let ?th = "mc_txHandler c"
  have sign: "returns (signTransaction ?th calls gas w)" for w
  proof -
    obtain r w1 where r: "GetNetworkConfig (th_proxy ?th) w = Some (r, w1)" "r \<noteq> Inr None"
      using assms unfolding mx_parts_return_def proxy_returns_def by blast
    have "returns (nth_GetNonce (th_nonceTxHandler ?th) (th_relayerAddress ?th) w1)"
      using assms by (simp add: mx_parts_return_def never_panics_returns)
    then show ?thesis
      using r by (auto simp: signTransaction_def split: sum.splits option.splits)
  qed
  have send: "returns (nth_SendTransaction (th_nonceTxHandler ?th) tx w)" for tx w
    using assms by (simp add: mx_parts_return_def never_panics_returns)
  show ?thesis
    using sign send by (auto simp: SendTransactionReturnHash_def split: sum.splits)
qed

lemma checkIsPaused_returns: "mx_parts_return c \<Longrightarrow> returns (checkIsPaused c w)"
  using queries_return(3) [of "mc_getter c"]
  by (auto simp: mx_parts_return_def never_panics_returns checkIsPaused_def IsPaused_def split: sum.splits)

lemma guarded_send_returns:
  assumes "mx_parts_return c"
  shows "returns (checkIsPaused c w \<bind> (\<lambda>(err, w). case err of Some err \<Rightarrow> Some (Inl err, w)
      | None \<Rightarrow> SendTransactionReturnHash (mc_txHandler c) calls gas w))"
  using checkIsPaused_returns [OF assms] SendTransaction_returns [OF assms] by (auto split: option.splits)

lemma responseDeposits_returns:
  assumes "mx_parts_return c" "7 dvd length raw"
  shows "returns (responseDeposits c i cache raw w)"
  using assms
proof (induction c i cache raw w rule: responseDeposits.induct)
  case (2 c i cache blockNonce nonce "from" to token amount status rest w)
  have conv: "returns (convertCached (mc_tokensMapper c) cache (string_of_bytes token) token w)"
    using 2(2) by (intro convertCached_returns) (simp add: mx_parts_return_def never_panics_returns)
  have "7 dvd length rest"
    using 2(3) by simp presburger
  then have "returns (responseDeposits c (Suc i) (gm_set (string_of_bytes token) converted cache) rest w1)"
    if "parseUInt64FromByteSlice nonce = Inr n" "convertCached (mc_tokensMapper c) cache (string_of_bytes token) token w = Some (Inr converted, w1)"
    for converted n w1
    using 2(1) [OF that(1) refl] that(2) 2(2) by simp
  moreover obtain r w1 where "convertCached (mc_tokensMapper c) cache (string_of_bytes token) token w = Some (r, w1)"
    using conv by (auto simp: returns_ex)
  ultimately show ?case
    by (auto simp: Let_def split: sum.splits)
qed (auto dest: dvd_imp_le)

lemma mx_client_returns:
  assumes "mx_parts_return c"
  shows "never_panics (mxc_GetPending c)" "never_panics (mxc_ProposeTransfer c b)" "never_panics (mxc_ProposeSetStatus c b)"
    "never_panics (mxc_Sign c a)" "never_panics (mxc_PerformAction c a b)"
proof -
  show "never_panics (mxc_ProposeTransfer c b)" "never_panics (mxc_ProposeSetStatus c b)"
    "never_panics (mxc_Sign c a)" "never_panics (mxc_PerformAction c a b)"
    unfolding never_panics_returns mxc_ProposeTransfer_def mxc_ProposeSetStatus_def mxc_Sign_def mxc_PerformAction_def
    using guarded_send_returns [OF assms] by (cases b; simp)+
  have create: "returns (createPendingBatchFromResponse c raw w)" for raw w
  proof -
    have "7 dvd length (drop 1 raw)" if "(int (length raw) - 1) mod 7 = 0" "1 < int (length raw)"
    proof -
      have "int (length (drop 1 raw)) = int (length raw) - 1" using that by simp
      then show ?thesis using that(1) by (metis mod_eq_0_iff_dvd int_dvd_int_iff of_nat_numeral)
    qed
    then show ?thesis
      using responseDeposits_returns [OF assms]
      by (auto simp: createPendingBatchFromResponse_def Let_def split: sum.splits)
  qed
  have "returns (GetCurrentBatchAsDataBytes (mc_getter c) w)" for w
    using queries_return(1) [of "mc_getter c"] assms
    by (simp add: GetCurrentBatchAsDataBytes_def mx_parts_return_def never_panics_returns)
  then show "never_panics (mxc_GetPending c)"
    using create by (auto simp: never_panics_returns mxc_GetPending_def split: sum.splits)
qed

end
