(* ===== verification/Eth_Client_Correct.thy ===== *)
theory Eth_Client_Correct
  imports Eth_Client Batch_Validator Stall_Detector
begin

text \<open>
  What the Ethereum client guarantees: the batch it reads is the one in the contract, the hash that the
  relayers sign binds the transfer that is executed, a transfer is sent only with the quorum of
  signatures and with enough funds, how the quorum and the availability are judged, and when its calls
  return.
\<close>

section \<open>Reading a batch\<close>

definition eth_deposit_of :: "('t, 'w) eth_client \<Rightarrow> (bytes \<Rightarrow> bytes) \<Rightarrow> contract_Deposit \<Rightarrow> DepositTransfer" where
  "eth_deposit_of c tok d = \<lparr> Nonce = bigUint64 (the (cd_Nonce d)), ToBytes = cd_Recipient d,
     DisplayableTo = ToBech32String (ec_addressConverter c) (cd_Recipient d), FromBytes = cd_Depositor d,
     DisplayableFrom = hexEncode (cd_Depositor d), TokenBytes = cd_TokenAddress d,
     ConvertedTokenBytes = tok (cd_TokenAddress d), DisplayableToken = hexEncode (cd_TokenAddress d),
     Amount = cd_Amount d \<rparr>"

definition no_nil_numbers :: "contract_Deposit \<Rightarrow> bool" where
  "no_nil_numbers d \<longleftrightarrow> cd_Nonce d \<noteq> None \<and> cd_Amount d \<noteq> None"

lemma fetchedDeposits_exact:
  assumes "ToHexString (ec_addressConverter c) = ac_ToHexString"
    and "\<And>t v. gm_get cache (hexEncode t) = Some v \<Longrightarrow> v = tok t" "\<forall>d \<in> set ds. no_nil_numbers d"
    and "\<And>d w. d \<in> set ds \<Longrightarrow> \<exists>w'. ec_tokensMapper c (cd_TokenAddress d) w = Some (Inr (tok (cd_TokenAddress d)), w')"
  shows "\<exists>w'. fetchedDeposits c cache ds w = Some (Inr (map (eth_deposit_of c tok) ds), w')"
  using assms(2-4)
proof (induction ds arbitrary: cache w)
  case (Cons d ds)
  have hex: "ToHexString (ec_addressConverter c) x = hexEncode x" for x
    by (simp add: assms(1) ac_ToHexString_def)
  obtain w1 where c1: "convertCached (ec_tokensMapper c) cache (hexEncode (cd_TokenAddress d)) (cd_TokenAddress d) w =
      Some (Inr (tok (cd_TokenAddress d)), w1)"
    using convertCached_function [where f = "ec_tokensMapper c" and tok = tok and cache = cache and key = hexEncode,
        OF Cons.prems(3) Cons.prems(1)] by (meson list.set_intros(1))
  have "v = tok u" if "gm_get (gm_set (hexEncode (cd_TokenAddress d)) (tok (cd_TokenAddress d)) cache) (hexEncode u) = Some v" for u v
    using that Cons.prems(1) by (auto split: if_splits)
  then obtain w2 where "fetchedDeposits c (gm_set (hexEncode (cd_TokenAddress d)) (tok (cd_TokenAddress d)) cache) ds w1 =
      Some (Inr (map (eth_deposit_of c tok) ds), w2)"
    using Cons.IH Cons.prems(2,3) by (metis list.set_intros(2))
  then show ?case
    using c1 Cons.prems(2) by (auto simp: hex eth_deposit_of_def [of c tok d] no_nil_numbers_def Let_def)
qed simp

text \<open>
  C20. The client reads the batch of the contract faithfully. Asked for the batch of a nonce, it asks the
  contract for the batch and for the deposits under that nonce. When both are answered, without nil
  numbers, and each of the tokens of these deposits has a conversion, the result has the identifier the
  contract's batch carries (which is not compared with the nonce asked for), the deposits in order with
  their converted tokens, and unset statuses, provided the announced number of deposits is the number of
  returned ones; otherwise it is the error that says so. Nonces beyond 64 bits lose their upper bits.
\<close>

theorem GetBatch_exact:
  assumes "ToHexString (ec_addressConverter c) = ac_ToHexString"
    and "cw_GetBatch (ec_clientWrapper c) (uint nonce) w = Some (Inr batch, w1)"
    and "cw_GetBatchDeposits (ec_clientWrapper c) (uint nonce) w1 = Some (Inr deposits, w2)"
    and "cb_Nonce batch = Some batchNonce" "\<forall>d \<in> set deposits. no_nil_numbers d"
    and "\<And>d w. d \<in> set deposits \<Longrightarrow>
      \<exists>w'. ec_tokensMapper c (cd_TokenAddress d) w = Some (Inr (tok (cd_TokenAddress d)), w')"
  shows "(unat (cb_DepositsCount batch) = length deposits \<longrightarrow>
      (\<exists>w'. ethc_GetBatch c nonce w = Some (Inr (Some \<lparr> ID = bigUint64 batchNonce,
         Deposits = map (eth_deposit_of c tok) deposits, Statuses = replicate (length deposits) 0 \<rparr>), w'))) \<and>
    (unat (cb_DepositsCount batch) \<noteq> length deposits \<longrightarrow>
      (\<exists>err. ethc_GetBatch c nonce w = Some (Inl err, w2) \<and> errors_Is err errDepositsAndBatchDepositsCountDiffer))"
proof -
  obtain w' where "fetchedDeposits c [] deposits w2 = Some (Inr (map (eth_deposit_of c tok) deposits), w')"
    using fetchedDeposits_exact [where c = c and tok = tok and cache = "[]", OF assms(1) _ assms(5,6)] by fastforce
  moreover have "uint (cb_DepositsCount batch) = int (length deposits) \<longleftrightarrow> unat (cb_DepositsCount batch) = length deposits"
    by (metis of_nat_eq_iff of_nat_unat)
  ultimately show ?thesis
    using assms(2-4) by (auto simp: ethc_GetBatch_def)
qed

section \<open>Sums per token\<close>

definition token_total :: "bytes \<Rightarrow> bytes list \<Rightarrow> int list \<Rightarrow> int" where
  "token_total t tokens amounts = sum_list (map snd (filter (\<lambda>p. fst p = t) (zip tokens amounts)))"

lemma token_total_simps [simp]:
  "token_total t [] amounts = 0"
  "token_total t (u # tokens) (a # amounts) = (if u = t then a else 0) + token_total t tokens amounts"
  by (simp_all add: token_total_def)

lemma addTransfers_sum:
  assumes "length tokens = length amounts" "wf_map m"
  shows "\<exists>m'. addTransfers m tokens amounts = Some m' \<and> wf_map m' \<and>
    (\<forall>t. gm_get m' t = (if t \<in> set tokens then Some (token_total t tokens amounts + (case gm_get m t of None \<Rightarrow> 0 | Some e \<Rightarrow> e))
                         else gm_get m t))"
  using assms
proof (induction tokens amounts arbitrary: m rule: list_induct2)
  case (Cons u tokens a amounts)
  let ?m = "gm_set u ((case gm_get m u of None \<Rightarrow> 0 | Some e \<Rightarrow> e) + a) m"
  obtain m' where "addTransfers ?m tokens amounts = Some m'" "wf_map m'"
    "\<forall>t. gm_get m' t = (if t \<in> set tokens then Some (token_total t tokens amounts + (case gm_get ?m t of None \<Rightarrow> 0 | Some e \<Rightarrow> e))
                         else gm_get ?m t)"
    using Cons.IH [of ?m] Cons.prems by auto
  moreover have "token_total t tokens amounts = 0" if "t \<notin> set tokens" for t
  proof -
    have "filter (\<lambda>p. fst p = t) (zip tokens amounts) = []"
      using that by (auto simp: filter_empty_conv dest: set_zip_leftD)
    then show ?thesis by (simp add: token_total_def)
  qed
  ultimately show ?case
    by (intro exI [of _ m']) (auto simp: Let_def split: option.splits)
qed simp

text \<open>
  The needed amounts are added up per token: every token of the batch is listed once, with the sum of
  the amounts of all its deposits, and no other token is.
\<close>

theorem cumulated_transfers_are_totals:
  assumes "length tokens = length amounts"
  shows "\<exists>m. getCumulatedTransfers tokens amounts = Some m \<and> distinct (map fst m) \<and>
    (\<forall>t. gm_get m t = (if t \<in> set tokens then Some (token_total t tokens amounts) else None))"
proof -
  obtain m where "addTransfers [] tokens amounts = Some m" "wf_map m"
    "\<forall>t. gm_get m t = (if t \<in> set tokens then Some (token_total t tokens amounts + (case gm_get [] t of None \<Rightarrow> 0 | Some e \<Rightarrow> e))
       else gm_get [] t)"
    using addTransfers_sum [OF assms, of "[]"] by auto
  then show ?thesis by (intro exI [of _ m]) (simp add: getCumulatedTransfers_def wf_map_def)
qed

theorem cumulated_transfers_are_totals_witness:
  "\<exists>m. getCumulatedTransfers [[1], [2], [1]] [10, 20, 30] = Some m \<and> gm_get m [1] = Some 40 \<and> gm_get m [3] = None"
  using cumulated_transfers_are_totals [of "[[1], [2], [1]]" "[10, 20, 30]"] by auto

section \<open>What the signed hash binds\<close>

lemma GenerateMessageHash_iff:
  "ethc_GenerateMessageHash c (Some b) = Some (Inr h) \<longleftrightarrow>
     (\<exists>args l pack. generateTransferArgs (ec_lib c) = Inr args \<and> extractList c b = Some l \<and>
        lib_Pack (ec_lib c) args l (uint (ID b)) ''ExecuteBatchedTransfer'' = Inr pack \<and>
        h = lib_Keccak256Hash (ec_lib c) (messagePrefix @ lib_Keccak256Hash (ec_lib c) pack))"
  by (auto simp: ethc_GenerateMessageHash_def split: sum.splits bind_splits)


section \<open>Executing a transfer\<close>

lemma checkTransfers_ok:
  assumes "checkTransfers c ts w = Some (None, w')" "(t, required) \<in> set ts"
  shows "\<exists>w1 w2 balance. ec_BalanceOf c t (ec_safeContractAddress c) w1 = Some (Inr (Some balance), w2) \<and> required \<le> balance"
  using assms
proof (induction c ts w rule: checkTransfers.induct)
  case (2 c a r ts w)
  obtain balance w1 where b: "ec_BalanceOf c a (ec_safeContractAddress c) w = Some (Inr (Some balance), w1)" "r \<le> balance"
    "checkTransfers c ts w1 = Some (None, w')"
    using 2(2) by (cases "ec_BalanceOf c a (ec_safeContractAddress c) w") (auto split: sum.splits option.splits if_splits)
  show ?case
  proof (cases "(t, required) \<in> set ts")
    case True
    then show ?thesis using 2(1) b by auto
  next
    case False
    then show ?thesis using 2(3) b by auto
  qed
qed simp

lemma extractDeposits_lengths:
  "extractDeposits lib ds = Some l \<Longrightarrow> length (al_tokens l) = length ds \<and> length (al_amounts l) = length ds \<and>
     length (al_recipients l) = length ds \<and> length (al_nonces l) = length ds"
  by (induction ds arbitrary: l) (auto split: option.splits bind_splits)

text \<open>The balance of the safe covers every token of the lists.\<close>

definition covered :: "('t, 'w) eth_client \<Rightarrow> argListsBatch \<Rightarrow> bool" where
  "covered c l \<longleftrightarrow> (\<forall>t \<in> set (al_tokens l). \<exists>w1 w2 balance.
     ec_BalanceOf c t (ec_safeContractAddress c) w1 = Some (Inr (Some balance), w2) \<and>
     token_total t (al_tokens l) (al_amounts l) \<le> balance)"

lemma checkAvailableTokens_ok:
  assumes "range_order ord" "extractList c batch = Some l"
    and "checkAvailableTokens ord c (al_tokens l) (al_amounts l) w = Some (None, w')"
  shows "covered c l"
proof -
  have "length (al_tokens l) = length (al_amounts l)"
    using extractDeposits_lengths assms(2) unfolding extractList_def by metis
  then obtain m where m: "getCumulatedTransfers (al_tokens l) (al_amounts l) = Some m"
    "\<And>t. t \<in> set (al_tokens l) \<Longrightarrow> gm_get m t = Some (token_total t (al_tokens l) (al_amounts l))"
    using addTransfers_sum [of "al_tokens l" "al_amounts l" "[]"] by (auto simp: getCumulatedTransfers_def)
  have "checkTransfers c (ord m) w = Some (None, w')"
    using assms(3) m(1) by (simp add: checkAvailableTokens_def checkCumulatedTransfers_def)
  moreover have "(t, token_total t (al_tokens l) (al_amounts l)) \<in> set (ord m)" if "t \<in> set (al_tokens l)" for t
    using m(2) [OF that] assms(1) by (simp add: map_of_SomeD)
  ultimately show ?thesis
    unfolding covered_def using checkTransfers_ok by metis
qed

lemma checkRelayerFunds_ok:
  "checkRelayerFundsForFee c fee w = Some (None, w') \<longleftrightarrow>
     (\<exists>balance. cw_BalanceAt (ec_clientWrapper c) (ec_relayerAddress c) w = Some (Inr (Some balance), w') \<and> fee \<le> balance)"
  by (cases "cw_BalanceAt (ec_clientWrapper c) (ec_relayerAddress c) w")
    (auto simp: checkRelayerFundsForFee_def split: sum.splits option.splits if_splits)

lemma sendTransfer_sent:
  assumes "range_order ord" "sendTransfer ord c msgHash batch quorum auth w = Some (Inr hash, w')"
  shows "\<exists>l w1 w2 w3 balance. 0 \<le> quorum \<and> quorum \<le> int (length (ec_Signatures c msgHash w)) \<and>
    extractList c batch = Some l \<and> covered c l \<and>
    cw_BalanceAt (ec_clientWrapper c) (ec_relayerAddress c) w1 = Some (Inr (Some balance), w2) \<and>
    sint (opt_GasLimit auth) * opt_GasPrice auth \<le> balance \<and>
    cw_ExecuteTransfer (ec_clientWrapper c) auth l (uint (ID batch)) (take (nat quorum) (ec_Signatures c msgHash w)) w3 =
      Some (Inr (Some hash), w')"
proof -
  have q: "0 \<le> quorum" "quorum \<le> int (length (ec_Signatures c msgHash w))"
    using assms(2) by (auto simp: sendTransfer_def Let_def split: if_splits)
  then obtain l where l: "extractList c batch = Some l"
    using assms(2) by (cases "extractList c batch") (auto simp: sendTransfer_def Let_def split: if_splits)
  then obtain w1 where w1: "checkAvailableTokens ord c (al_tokens l) (al_amounts l) w = Some (None, w1)"
    using assms(2) q by (cases "checkAvailableTokens ord c (al_tokens l) (al_amounts l) w")
      (auto simp: sendTransfer_def Let_def split: if_splits option.splits)
  then obtain w2 where w2: "checkRelayerFundsForFee c (sint (opt_GasLimit auth) * opt_GasPrice auth) w1 = Some (None, w2)"
    using assms(2) q l by (cases "checkRelayerFundsForFee c (sint (opt_GasLimit auth) * opt_GasPrice auth) w1")
      (auto simp: sendTransfer_def Let_def split: if_splits option.splits)
  have "cw_ExecuteTransfer (ec_clientWrapper c) auth l (uint (ID batch)) (take (nat quorum) (ec_Signatures c msgHash w)) w2 =
      Some (Inr (Some hash), w')"
    using assms(2) q l w1 w2
    by (cases "cw_ExecuteTransfer (ec_clientWrapper c) auth l (uint (ID batch)) (take (nat quorum) (ec_Signatures c msgHash w)) w2")
      (auto simp: sendTransfer_def Let_def split: if_splits option.splits sum.splits)
  then show ?thesis
    using q l w2 checkAvailableTokens_ok [OF assms(1) l w1] unfolding checkRelayerFunds_ok by blast
qed

text \<open>A transfer that succeeded went through the checks and was then sent.\<close>

lemma ExecuteTransfer_sends:
  assumes "ethc_ExecuteTransfer ord c msgHash b quorum w = Some (Inr hash, w')"
  obtains batch w1 nonce wn chainId w2 gasPrice auth where "b = Some batch"
    "cw_IsPaused (ec_clientWrapper c) w = Some (Inr False, w1)"
    "ethc_getNonce c (ec_relayerAddress c) w1 = Some (Inr nonce, wn)"
    "cw_ChainID (ec_clientWrapper c) wn = Some (Inr chainId, w2)"
    "ec_GetCurrentGasPrice c w2 = Inr gasPrice"
    "auth = \<lparr> opt_Nonce = nonce, opt_Value = 0, opt_GasLimit = ec_transferGasLimitBase c +
      of_nat (length (Deposits batch)) * ec_transferGasLimitForEach c, opt_GasPrice = gasPrice \<rparr>"
    "sendTransfer ord c msgHash batch quorum auth w2 = Some (Inr hash, w')"
proof -
  obtain batch where b: "b = Some batch"
    using assms by (cases b) (auto simp: ethc_ExecuteTransfer_def)
  obtain w1 where p: "cw_IsPaused (ec_clientWrapper c) w = Some (Inr False, w1)"
    using assms b by (cases "cw_IsPaused (ec_clientWrapper c) w")
      (auto simp: ethc_ExecuteTransfer_def split: sum.splits bool.splits)
  obtain nonce wn where n: "ethc_getNonce c (ec_relayerAddress c) w1 = Some (Inr nonce, wn)"
    using assms b p by (cases "ethc_getNonce c (ec_relayerAddress c) w1")
      (auto simp: ethc_ExecuteTransfer_def split: sum.splits)
  obtain chainId w2 where ch: "cw_ChainID (ec_clientWrapper c) wn = Some (Inr chainId, w2)"
    using assms b p n by (cases "cw_ChainID (ec_clientWrapper c) wn")
      (auto simp: ethc_ExecuteTransfer_def split: sum.splits)
  obtain gasPrice where g: "lib_NewKeyedTransactor (ec_lib c) chainId = None" "ec_GetCurrentGasPrice c w2 = Inr gasPrice"
    using assms b p n ch by (auto simp: ethc_ExecuteTransfer_def split: sum.splits option.splits)
  show thesis
    by (rule that [OF b p n ch g(2) refl]) (use assms b p n ch g in \<open>simp add: ethc_ExecuteTransfer_def\<close>)
qed

lemma ExecuteTransfer_sent:
  assumes "range_order ord" "ethc_ExecuteTransfer ord c msgHash b quorum w = Some (Inr hash, w')"
  shows "\<exists>batch l auth gasPrice w1 w2 w3 w4 w5 balance. b = Some batch \<and>
    cw_IsPaused (ec_clientWrapper c) w = Some (Inr False, w1) \<and>
    0 \<le> quorum \<and> quorum \<le> int (length (ec_Signatures c msgHash w2)) \<and>
    ec_GetCurrentGasPrice c w2 = Inr gasPrice \<and> opt_GasPrice auth = gasPrice \<and>
    opt_GasLimit auth = ec_transferGasLimitBase c + of_nat (length (Deposits batch)) * ec_transferGasLimitForEach c \<and>
    extractList c batch = Some l \<and> covered c l \<and>
    cw_BalanceAt (ec_clientWrapper c) (ec_relayerAddress c) w3 = Some (Inr (Some balance), w4) \<and>
    sint (opt_GasLimit auth) * gasPrice \<le> balance \<and>
    cw_ExecuteTransfer (ec_clientWrapper c) auth l (uint (ID batch)) (take (nat quorum) (ec_Signatures c msgHash w2)) w5 =
      Some (Inr (Some hash), w') \<and> length (take (nat quorum) (ec_Signatures c msgHash w2)) = nat quorum"
  using assms(2)
proof (rule ExecuteTransfer_sends)
  fix batch w1 nonce wn chainId w2 gasPrice auth
  assume s: "b = Some batch" "cw_IsPaused (ec_clientWrapper c) w = Some (Inr False, w1)"
    "ec_GetCurrentGasPrice c w2 = Inr gasPrice"
    "auth = \<lparr> opt_Nonce = nonce, opt_Value = 0, opt_GasLimit = ec_transferGasLimitBase c +
      of_nat (length (Deposits batch)) * ec_transferGasLimitForEach c, opt_GasPrice = gasPrice \<rparr>"
    "sendTransfer ord c msgHash batch quorum auth w2 = Some (Inr hash, w')"
  from sendTransfer_sent [OF assms(1) s(5)] obtain l w3 w4 w5 balance where
    "0 \<le> quorum" "quorum \<le> int (length (ec_Signatures c msgHash w2))" "extractList c batch = Some l" "covered c l"
    "cw_BalanceAt (ec_clientWrapper c) (ec_relayerAddress c) w3 = Some (Inr (Some balance), w4)"
    "sint (opt_GasLimit auth) * opt_GasPrice auth \<le> balance"
    "cw_ExecuteTransfer (ec_clientWrapper c) auth l (uint (ID batch)) (take (nat quorum) (ec_Signatures c msgHash w2)) w5 =
      Some (Inr (Some hash), w')"
    by blast
  then show ?thesis
    using s
    by (intro exI [of _ batch] exI [of _ l] exI [of _ auth] exI [of _ gasPrice] exI [of _ w1] exI [of _ w2] exI [of _ w3]
      exI [of _ w4] exI [of _ w5] exI [of _ balance]) simp
qed

text \<open>
  C18. A transfer that succeeded was sent with every check passed: the batch exists, the contract answered
  that it is not paused, the held signatures for the message hash reach the quorum and exactly the first
  quorum of them are sent, the safe holds at least the summed amount of every token, the relayer can pay
  the gas limit at the current gas price, and what was executed are the lists and the identifier of this
  very batch, whatever order the map of sums is walked in.
\<close>

theorem transfer_sent_only_when_covered:
  assumes "range_order ord" "ethc_ExecuteTransfer ord c msgHash b quorum w = Some (Inr hash, w')"
  shows "\<exists>batch l auth gasPrice w1 w2 w3 w4 w5 balance. b = Some batch \<and>
    cw_IsPaused (ec_clientWrapper c) w = Some (Inr False, w1) \<and>
    0 \<le> quorum \<and> quorum \<le> int (length (ec_Signatures c msgHash w2)) \<and>
    ec_GetCurrentGasPrice c w2 = Inr gasPrice \<and> opt_GasPrice auth = gasPrice \<and>
    opt_GasLimit auth = ec_transferGasLimitBase c + of_nat (length (Deposits batch)) * ec_transferGasLimitForEach c \<and>
    extractList c batch = Some l \<and> covered c l \<and>
    cw_BalanceAt (ec_clientWrapper c) (ec_relayerAddress c) w3 = Some (Inr (Some balance), w4) \<and>
    sint (opt_GasLimit auth) * gasPrice \<le> balance \<and>
    cw_ExecuteTransfer (ec_clientWrapper c) auth l (uint (ID batch)) (take (nat quorum) (ec_Signatures c msgHash w2)) w5 =
      Some (Inr (Some hash), w') \<and> length (take (nat quorum) (ec_Signatures c msgHash w2)) = nat quorum"
  by (rule ExecuteTransfer_sent [OF assms])

section \<open>The quorum\<close>

text \<open>
  C25. With a quorum of a sensible size, from one to less than two to the power of 63, the client reports
  the quorum as reached exactly when it holds at least that many signatures for the hash; a quorum of
  zero is an error.
\<close>

theorem quorum_reached_iff:
  assumes "cw_Quorum (ec_clientWrapper c) w = Some (Inr (Some q), w')"
  shows "(0 < q \<and> q < 2 ^ 63 \<longrightarrow>
      ethc_IsQuorumReached c msgHash w = Some (Inr (q \<le> int (length (ec_Signatures c msgHash w))), w')) \<and>
    (q = 0 \<longrightarrow> (\<exists>err. ethc_IsQuorumReached c msgHash w = Some (Inl err, w') \<and> errors_Is err ErrInvalidValue))"
proof -
  have "\<not> bigUint64 q < 1" if "0 < q" "q < 2 ^ 63"
    using that by (simp add: bigUint64_def word_less_def uint_word_of_int)
  then show ?thesis
    using assms by (auto simp: ethc_IsQuorumReached_def Let_def minQuorumValue_def bigInt64_small bigUint64_def)
qed

text \<open>
  C28. A quorum from two to the power of 63 on, below two to the power of 64, is reported as reached
  without a single signature: it becomes a negative number when it is converted to a signed integer.
\<close>

theorem huge_quorum_always_reached:
  assumes "cw_Quorum (ec_clientWrapper c) w = Some (Inr (Some q), w')" "2 ^ 63 \<le> q" "q < 2 ^ 64"
  shows "ethc_IsQuorumReached c msgHash w = Some (Inr True, w')"
proof -
  have "\<not> bigUint64 q < 1"
    using assms(2,3) by (simp add: bigUint64_def word_less_def uint_word_of_int)
  moreover have "bigInt64 q \<le> 0"
  proof -
    have "bigInt64 q = signed_take_bit 63 q"
      by (simp add: bigInt64_def signed_of_int)
    also have "signed_take_bit 63 q = signed_take_bit 63 (q - 2 ^ 64)"
      by (simp add: signed_take_bit_eq_iff_take_bit_eq take_bit_eq_mod mod_diff_right_eq [symmetric])
    also have "\<dots> = q - 2 ^ 64"
      using assms(2,3) by (intro signed_take_bit_int_eq_self) simp_all
    finally show ?thesis using assms(3) by simp
  qed
  ultimately show ?thesis
    using assms(1) by (simp add: ethc_IsQuorumReached_def Let_def minQuorumValue_def)
qed

section \<open>Availability\<close>

definition eth_steady :: "u64 \<Rightarrow> ('t, 'w) eth_client \<times> 'w \<Rightarrow> bool" where
  "eth_steady n = (\<lambda>(c, w). \<forall>w. \<exists>w'. cw_BlockNumber (ec_clientWrapper c) w = Some (Inr n, w'))"

definition eth_fetched :: "u64 \<Rightarrow> ('t, 'w) eth_client \<times> 'w \<Rightarrow> u64" where
  "eth_fetched n = (\<lambda>(c, w). if ec_lastBlockNumber c = n then ec_retriesAvailabilityCheck c else 0)"

definition eth_reported :: "ClientStatus \<Rightarrow> u64 \<Rightarrow> ('t, 'w) eth_client \<times> 'w \<Rightarrow> bool" where
  "eth_reported status n = (\<lambda>(c, w). \<exists>w1 message. w = eth_setStatusForAvailabilityCheck c status message n w1)"

interpretation eth_stall: stall_detector ethc_CheckClientAvailability eth_steady eth_fetched "\<lambda>(c, w). ec_allowDelta c" eth_reported
proof (unfold_locales, clarify)
  fix n and c :: "('t, 'w) eth_client" and w
  assume *: "eth_steady n (c, w)"
  then obtain w' where "cw_BlockNumber (ec_clientWrapper c) w = Some (Inr n, w')"
    unfolding eth_steady_def by blast
  then show "\<exists>s'. ethc_CheckClientAvailability (c, w) = Some (None, s') \<and> eth_steady n s' \<and>
    (case s' of (c, w) \<Rightarrow> ec_allowDelta c) = ec_allowDelta c \<and> eth_fetched n s' = eth_fetched n (c, w) + 1 \<and>
    eth_reported (if ec_allowDelta c < eth_fetched n (c, w) then Unavailable else Available) n s'"
    using * by (auto simp: ethc_CheckClientAvailability_def Let_def eth_steady_def eth_fetched_def eth_reported_def
      eth_incrementRetriesAvailabilityCheck_def eth_setStatusForAvailabilityCheck_def)
qed

text \<open>
  A stalled Ethereum chain is noticed as well: when the block is new to the client and no other
  follows, the check after \<open>k\<close> earlier checks of this block reports the client as unavailable exactly
  when \<open>k\<close> exceeds the allowed delta. No check fails or panics.
\<close>

lemma stalled_ethereum_reported:
  assumes "\<And>w. \<exists>w'. cw_BlockNumber (ec_clientWrapper c) w = Some (Inr n, w')" "ec_lastBlockNumber c \<noteq> n" "k < 2 ^ 64"
  shows "\<exists>s1 c2 w2. eth_stall.checks k (c, w) = Some s1 \<and> ethc_CheckClientAvailability s1 = Some (None, (c2, w2)) \<and>
    eth_reported (if unat (ec_allowDelta c) < k then Unavailable else Available) n (c2, w2)"
  using eth_stall.stalled [of n "(c, w)" k] assms by (auto simp: eth_fetched_def eth_steady_def)

section \<open>A client to evaluate\<close>

definition demo_deposit :: contract_Deposit where
  "demo_deposit = \<lparr> cd_Nonce = Some 1, cd_TokenAddress = [1, 2], cd_Amount = Some 10, cd_Depositor = [3], cd_Recipient = [5], cd_Status = 0 \<rparr>"

text \<open>The world counts the executed transfers; three signatures are held, the quorum is two.\<close>

definition demo_wrapper :: "nat ClientWrapper" where
  "demo_wrapper = \<lparr>
     cw_StatusHandler = \<lparr> sh_SetIntMetric = (\<lambda>k v w. w), sh_AddIntMetric = (\<lambda>k v w. w), sh_SetStringMetric = (\<lambda>k v w. w) \<rparr>,
     cw_GetBatch = (\<lambda>n w. Some (Inr \<lparr> cb_Nonce = Some n, cb_BlockNumber = 1, cb_LastUpdatedBlockNumber = 1, cb_DepositsCount = 1 \<rparr>, w)),
     cw_GetBatchDeposits = (\<lambda>n w. Some (Inr [demo_deposit], w)), cw_GetRelayers = (\<lambda>w. Some (Inr [], w)),
     cw_WasBatchExecuted = (\<lambda>n w. Some (Inr False, w)), cw_ChainID = (\<lambda>w. Some (Inr (Some 1), w)),
     cw_BlockNumber = (\<lambda>w. Some (Inr 7, w)), cw_NonceAt = (\<lambda>a b w. Some (Inr 0, w)),
     cw_ExecuteTransfer = (\<lambda>opts l n sigs w. Some (Inr (Some ''hash''), Suc w)), cw_Quorum = (\<lambda>w. Some (Inr (Some 2), w)),
     cw_GetStatusesAfterExecution = (\<lambda>n w. Some (Inr [3], w)), cw_BalanceAt = (\<lambda>a w. Some (Inr (Some 1000000), w)),
     cw_IsPaused = (\<lambda>w. Some (Inr False, w)) \<rparr>"

definition demo_eth_lib :: "string eth_lib" where
  "demo_eth_lib = \<lparr> lib_BytesToAddress = id, lib_AddressString = hexEncode, lib_NewType = Inr,
     lib_Pack = (\<lambda>args l i s. Inr (concat (al_recipients l @ al_tokens l) @ map of_int (al_amounts l @ al_nonces l @ [i]))),
     lib_Keccak256Hash = (\<lambda>b. b), lib_SignHash = Inr, lib_NewKeyedTransactor = (\<lambda>n. None) \<rparr>"

definition demo_eth_client :: "(string, nat) eth_client" where
  "demo_eth_client = \<lparr> ec_lib = demo_eth_lib, ec_clientWrapper = demo_wrapper, ec_BalanceOf = (\<lambda>t a w. Some (Inr (Some 50), w)),
     ec_addressConverter = \<lparr> ToHexString = ac_ToHexString, ToHexStringWithPrefix = ac_ToHexStringWithPrefix, ToBech32String = hexEncode \<rparr>,
     ec_BroadcastSignature = (\<lambda>s h w. Some ((), w)), ec_relayerAddress = [9], ec_tokensMapper = (\<lambda>t w. Some (Inr (rev t), w)),
     ec_Signatures = (\<lambda>h w. [[1], [2], [3]]), ec_safeContractAddress = [8], ec_GetCurrentGasPrice = (\<lambda>w. Inr 10),
     ec_transferGasLimitBase = 100, ec_transferGasLimitForEach = 20, ec_allowDelta = 3, ec_lastBlockNumber = 0,
     ec_retriesAvailabilityCheck = 0 \<rparr>"

lemma demo_eth_client_fields [simp]:
  "ec_clientWrapper demo_eth_client = demo_wrapper" "ec_lib demo_eth_client = demo_eth_lib"
  "ec_addressConverter demo_eth_client = \<lparr> ToHexString = ac_ToHexString, ToHexStringWithPrefix = ac_ToHexStringWithPrefix, ToBech32String = hexEncode \<rparr>"
  "ec_tokensMapper demo_eth_client = (\<lambda>t w. Some (Inr (rev t), w))" "ec_allowDelta demo_eth_client = 3" "ec_lastBlockNumber demo_eth_client = 0"
  "ec_Signatures demo_eth_client = (\<lambda>h w. [[1], [2], [3]])" "ec_relayerAddress demo_eth_client = [9]"
  "ec_GetCurrentGasPrice demo_eth_client = (\<lambda>w. Inr 10)" "ec_transferGasLimitBase demo_eth_client = 100"
  "ec_transferGasLimitForEach demo_eth_client = 20"
  by (simp_all add: demo_eth_client_def)

lemma demo_wrapper_calls [simp]:
  "cw_GetBatch demo_wrapper n w = Some (Inr \<lparr> cb_Nonce = Some n, cb_BlockNumber = 1, cb_LastUpdatedBlockNumber = 1, cb_DepositsCount = 1 \<rparr>, w)"
  "cw_GetBatchDeposits demo_wrapper n w = Some (Inr [demo_deposit], w)" "cw_BlockNumber demo_wrapper w = Some (Inr 7, w)"
  "cw_Quorum demo_wrapper w = Some (Inr (Some 2), w)"
  by (simp_all add: demo_wrapper_def)

definition demo_eth_batch :: TransferBatch where
  "demo_eth_batch = \<lparr> ID = 6, Deposits = [\<lparr> Nonce = 4, ToBytes = [5], DisplayableTo = ''to'', FromBytes = [3], DisplayableFrom = ''from'',
     TokenBytes = [1, 2], ConvertedTokenBytes = [2, 1], DisplayableToken = ''token'', Amount = Some 10 \<rparr>], Statuses = [0] \<rparr>"

theorem GetBatch_exact_witness:
  "\<exists>w'. ethc_GetBatch demo_eth_client 6 0 = Some (Inr (Some \<lparr> ID = 6, Deposits = [\<lparr> Nonce = 1, ToBytes = [5],
     DisplayableTo = hexEncode [5], FromBytes = [3], DisplayableFrom = hexEncode [3], TokenBytes = [1, 2], ConvertedTokenBytes = [2, 1],
     DisplayableToken = hexEncode [1, 2], Amount = Some 10 \<rparr>], Statuses = [0] \<rparr>), w')"
  using GetBatch_exact [of demo_eth_client 6 0 "\<lparr> cb_Nonce = Some 6, cb_BlockNumber = 1, cb_LastUpdatedBlockNumber = 1, cb_DepositsCount = 1 \<rparr>"
    0 "[demo_deposit]" 0 6 rev]
  by (simp add: no_nil_numbers_def demo_deposit_def eth_deposit_of_def bigUint64_def)

text \<open>
  Two batches that differ in their statuses only have the same hash; with the identity for the hash and
  a packing that keeps these lists apart, no collision is left.
\<close>

lemma demo_hashes:
  "ethc_GenerateMessageHash demo_eth_client (Some demo_eth_batch) = Some (Inr (messagePrefix @ [5, 2, 1, 10, 4, 6]))"
  "ethc_GenerateMessageHash demo_eth_client (Some (demo_eth_batch\<lparr>Statuses := [3]\<rparr>)) =
    Some (Inr (messagePrefix @ [5, 2, 1, 10, 4, 6]))"
  by code_simp+


lemma demo_transfer_executed: "ethc_ExecuteTransfer rev demo_eth_client [7] (Some demo_eth_batch) 2 0 = Some (Inr ''hash'', 1)"
  by code_simp

theorem transfer_sent_only_when_covered_witness:
  "\<exists>l w3 w4 balance. ethc_ExecuteTransfer rev demo_eth_client [7] (Some demo_eth_batch) 2 0 = Some (Inr ''hash'', 1) \<and>
    extractList demo_eth_client demo_eth_batch = Some l \<and> covered demo_eth_client l \<and>
    cw_BalanceAt demo_wrapper [9] w3 = Some (Inr (Some balance), w4) \<and> 1200 \<le> balance"
proof -
  have "length (Deposits demo_eth_batch) = 1"
    by (simp add: demo_eth_batch_def)
  then obtain l w3 w4 balance where "extractList demo_eth_client demo_eth_batch = Some l" "covered demo_eth_client l"
    "cw_BalanceAt demo_wrapper [9] w3 = Some (Inr (Some balance), w4)" "1200 \<le> balance"
    using transfer_sent_only_when_covered [OF range_order_rev demo_transfer_executed] by auto
  then show ?thesis using demo_transfer_executed by blast
qed

theorem quorum_reached_iff_witness:
  "ethc_IsQuorumReached demo_eth_client [7] 0 = Some (Inr True, 0)"
  using quorum_reached_iff [of demo_eth_client 0 2 0 "[7]"] by simp

theorem huge_quorum_always_reached_witness:
  "ethc_IsQuorumReached (demo_eth_client\<lparr>ec_clientWrapper := demo_wrapper\<lparr>cw_Quorum := (\<lambda>w. Some (Inr (Some (2 ^ 63)), w))\<rparr>,
     ec_Signatures := (\<lambda>h w. [])\<rparr>) [7] 0 = Some (Inr True, 0)"
  by (rule huge_quorum_always_reached [of _ _ "2 ^ 63"]) simp_all

end
