(* ===== verification/Relayer_Clients.thy ===== *)
theory Relayer_Clients
  imports Half_Bridge_Runs Mx_Client_Correct Eth_Client_Correct
begin

text \<open>
  The two clients behind the interfaces of the executor: under assumptions on the contracts, the nodes
  and the SDK, each of them behaves as the executor needs it, and a batch that the MultiversX client
  hands out can be hashed and executed by the Ethereum client. So the half-bridges built on these
  clients keep running.
\<close>

section \<open>The MultiversX client\<close>

text \<open>A slice has fewer than \<open>2 ^ 63\<close> elements; here for the values of an answer.\<close>

definition short_answers :: "'w Proxy \<Rightarrow> bool" where
  "short_answers p \<longleftrightarrow> (\<forall>request w w' answer.
     ExecuteVMQuery p request w = Some (Inr (Some answer), w') \<longrightarrow> length (ReturnData answer) < 2 ^ 63)"

lemma mx_pending_batch:
  assumes "mxc_GetPending c w = Some (Inr b, w')" "short_answers (dg_proxy (mc_getter c))"
  shows "\<exists>batch. b = Some batch \<and> length (Statuses batch) < 2 ^ 63 \<and> (\<forall>d \<in> set (Deposits batch). Amount d \<noteq> None)"
proof -
  obtain raw w1 where raw: "GetCurrentBatchAsDataBytes (mc_getter c) w = Some (Inr raw, w1)"
    "createPendingBatchFromResponse c raw w1 = Some (Inr b, w')"
    using assms(1) by (cases "GetCurrentBatchAsDataBytes (mc_getter c) w")
      (auto simp: mxc_GetPending_def split: sum.splits if_splits)
  have "length raw < 2 ^ 63"
    using raw(1) assms(2) unfolding GetCurrentBatchAsDataBytes_def query_bytes_iff contract_answers_def short_answers_def
    by auto
  with createPendingBatch_shape [OF raw(2)] show ?thesis by auto
qed

lemma GetCurrentNonce_returns:
  assumes "proxy_returns (dg_proxy dg)"
  shows "returns (GetCurrentNonce (dg, w))"
proof -
  have p: "returns (GetShardOfAddress (dg_proxy dg) a w)" "returns (GetNetworkStatus (dg_proxy dg) shard w)" for a shard w
    using assms by (simp_all add: proxy_returns_def never_panics_returns)
  have "returns (getShardID (dg, w))"
    using p(1) by (auto simp: getShardID_def Let_def)
  then obtain shard err dg' w' where g: "getShardID (dg, w) = Some ((shard, err), (dg', w'))"
    by (auto simp: returns_ex)
  then have "dg_proxy dg' = dg_proxy dg"
    using shard_looked_up_once [OF g] by simp
  with g p(2) show ?thesis
    by (auto simp: GetCurrentNonce_def split: sum.splits option.splits)
qed

lemma mx_CheckClientAvailability_returns:
  assumes "proxy_returns (dg_proxy (mc_getter c))"
  shows "returns (mxc_CheckClientAvailability (c, w))"
  using GetCurrentNonce_returns [OF assms]
  by (auto simp: mxc_CheckClientAvailability_def Let_def split: sum.splits)

lemma mx_interface_returns:
  assumes "mx_parts_return c"
  shows "never_panics (mx_GetPending (mx_client_interface cells put c))"
    "never_panics (mx_WasProposedTransfer (mx_client_interface cells put c) b)"
    "never_panics (mx_QuorumReached (mx_client_interface cells put c) a)"
    "never_panics (mx_WasExecuted (mx_client_interface cells put c) a)"
    "never_panics (mx_GetActionIDForProposeTransfer (mx_client_interface cells put c) b)"
    "never_panics (mx_WasProposedSetStatus (mx_client_interface cells put c) b)"
    "never_panics (mx_GetActionIDForSetStatusOnPendingTransfer (mx_client_interface cells put c) b)"
    "never_panics (mx_GetLastExecutedEthBatchID (mx_client_interface cells put c))"
    "never_panics (mx_GetLastExecutedEthTxID (mx_client_interface cells put c))"
    "never_panics (mx_ProposeSetStatus (mx_client_interface cells put c) b)"
    "never_panics (mx_ProposeTransfer (mx_client_interface cells put c) b)"
    "never_panics (mx_Sign (mx_client_interface cells put c) a)"
    "never_panics (mx_WasSigned (mx_client_interface cells put c) a)"
    "never_panics (mx_PerformAction (mx_client_interface cells put c) a b)"
    "never_panics (mx_CheckClientAvailability (mx_client_interface cells put c))"
proof -
  have p: "proxy_returns (dg_proxy (mc_getter c))"
    using assms by (simp add: mx_parts_return_def)
  have "returns (mxc_CheckClientAvailability (mx_load m c, w))" for m w
    by (rule mx_CheckClientAvailability_returns) (simp add: mx_load_def p)
  then show "never_panics (mx_CheckClientAvailability (mx_client_interface cells put c))"
    by (auto simp: never_panics_returns mx_client_interface_def)
qed (use mx_client_returns [OF assms] queries_return [of "mc_getter c"] assms in
  \<open>auto simp: mx_client_interface_def mx_parts_return_def never_panics_returns WasProposedTransfer_def QuorumReached_def
     WasExecuted_def GetActionIDForProposeTransfer_def WasProposedSetStatus_def GetActionIDForSetStatusOnPendingTransfer_def
     GetLastExecutedEthBatchID_def GetLastExecutedEthTxID_def WasSigned_def split: option.splits\<close>)

section \<open>The Ethereum client\<close>

text \<open>
  The parts of the Ethereum client: every call returns, a success comes with no nil pointer, and the
  quorum of the contract is a number of relayers.
\<close>

definition eth_parts_return :: "('t, 'w) eth_client \<Rightarrow> bool" where
  "eth_parts_return c \<longleftrightarrow>
     (let cw = ec_clientWrapper c in
      (\<forall>n w. \<exists>r w'. cw_GetBatch cw n w = Some (r, w') \<and> (\<forall>batch. r = Inr batch \<longrightarrow> cb_Nonce batch \<noteq> None)) \<and>
      (\<forall>n w. \<exists>r w'. cw_GetBatchDeposits cw n w = Some (r, w') \<and> (\<forall>ds. r = Inr ds \<longrightarrow> (\<forall>d \<in> set ds. no_nil_numbers d))) \<and>
      (\<forall>n. never_panics (cw_WasBatchExecuted cw n)) \<and> never_panics (cw_ChainID cw) \<and> never_panics (cw_BlockNumber cw) \<and>
      (\<forall>a n. never_panics (cw_NonceAt cw a n)) \<and>
      (\<forall>opts l n sigs w. \<exists>r w'. cw_ExecuteTransfer cw opts l n sigs w = Some (r, w') \<and> r \<noteq> Inr None) \<and>
      (\<forall>w. \<exists>r w'. cw_Quorum cw w = Some (r, w') \<and> r \<noteq> Inr None \<and> (\<forall>q. r = Inr (Some q) \<longrightarrow> 0 \<le> q \<and> q < 2 ^ 63)) \<and>
      (\<forall>n. never_panics (cw_GetStatusesAfterExecution cw n)) \<and>
      (\<forall>a w. \<exists>r w'. cw_BalanceAt cw a w = Some (r, w') \<and> r \<noteq> Inr None) \<and> never_panics (cw_IsPaused cw)) \<and>
     (\<forall>t a w. \<exists>r w'. ec_BalanceOf c t a w = Some (r, w') \<and> r \<noteq> Inr None) \<and>
     (\<forall>t. never_panics (ec_tokensMapper c t)) \<and> (\<forall>s h. never_panics (ec_BroadcastSignature c s h))"

lemma eth_parts:
  assumes "eth_parts_return c"
  shows "\<exists>r w'. cw_GetBatch (ec_clientWrapper c) n w = Some (r, w') \<and> (\<forall>batch. r = Inr batch \<longrightarrow> cb_Nonce batch \<noteq> None)"
    "\<exists>r w'. cw_GetBatchDeposits (ec_clientWrapper c) n w = Some (r, w') \<and> (\<forall>ds. r = Inr ds \<longrightarrow> (\<forall>d \<in> set ds. no_nil_numbers d))"
    "returns (cw_WasBatchExecuted (ec_clientWrapper c) n w)" "returns (cw_ChainID (ec_clientWrapper c) w)"
    "returns (cw_BlockNumber (ec_clientWrapper c) w)" "returns (cw_NonceAt (ec_clientWrapper c) a n w)"
    "\<exists>r w'. cw_ExecuteTransfer (ec_clientWrapper c) opts l n sigs w = Some (r, w') \<and> r \<noteq> Inr None"
    "\<exists>r w'. cw_Quorum (ec_clientWrapper c) w = Some (r, w') \<and> r \<noteq> Inr None \<and> (\<forall>q. r = Inr (Some q) \<longrightarrow> 0 \<le> q \<and> q < 2 ^ 63)"
    "returns (cw_GetStatusesAfterExecution (ec_clientWrapper c) n w)"
    "\<exists>r w'. cw_BalanceAt (ec_clientWrapper c) a w = Some (r, w') \<and> r \<noteq> Inr None" "returns (cw_IsPaused (ec_clientWrapper c) w)"
    "\<exists>r w'. ec_BalanceOf c t a w = Some (r, w') \<and> r \<noteq> Inr None"
    "returns (ec_tokensMapper c t w)" "returns (ec_BroadcastSignature c s h w)"
  using assms unfolding eth_parts_return_def Let_def never_panics_returns by simp_all

lemma fetchedDeposits_returns:
  assumes "eth_parts_return c" "\<forall>d \<in> set ds. no_nil_numbers d"
  shows "\<exists>r w'. fetchedDeposits c cache ds w = Some (r, w') \<and> (\<forall>out. r = Inr out \<longrightarrow> length out = length ds)"
  using assms(2)
proof (induction ds arbitrary: cache w)
  case (Cons d ds)
  let ?disp = "ToHexString (ec_addressConverter c) (cd_TokenAddress d)"
  obtain n a where na: "cd_Nonce d = Some n" "cd_Amount d = Some a"
    using Cons.prems by (auto simp: no_nil_numbers_def)
  obtain r w1 where r: "convertCached (ec_tokensMapper c) cache ?disp (cd_TokenAddress d) w = Some (r, w1)"
    using convertCached_returns [of "ec_tokensMapper c"] eth_parts(13) [OF assms(1)] by (metis returns_ex)
  show ?case
  proof (cases r)
    case (Inr converted)
    obtain r' w2 where "fetchedDeposits c (gm_set ?disp converted cache) ds w1 = Some (r', w2)"
      "\<forall>out. r' = Inr out \<longrightarrow> length out = length ds"
      using Cons by (metis list.set_intros(2))
    with r Inr na show ?thesis by (cases r') (auto simp: Let_def)
  qed (use r na in \<open>simp add: Let_def\<close>)
qed simp

lemma GetBatch_returns:
  assumes "eth_parts_return c"
  shows "\<exists>r w'. ethc_GetBatch c n w = Some (r, w') \<and>
    (\<forall>b. r = Inr b \<longrightarrow> (\<exists>batch. b = Some batch \<and> length (Statuses batch) < 2 ^ 63))"
proof -
  obtain r1 w1 where r1: "cw_GetBatch (ec_clientWrapper c) (uint n) w = Some (r1, w1)" "\<forall>batch. r1 = Inr batch \<longrightarrow> cb_Nonce batch \<noteq> None"
    using eth_parts(1) [OF assms] by blast
  obtain r2 w2 where r2: "cw_GetBatchDeposits (ec_clientWrapper c) (uint n) w1 = Some (r2, w2)"
    "\<forall>ds. r2 = Inr ds \<longrightarrow> (\<forall>d \<in> set ds. no_nil_numbers d)"
    using eth_parts(2) [OF assms] by blast
  show ?thesis
  proof (cases r1; cases r2)
    fix batch ds
    assume r: "r1 = Inr batch" "r2 = Inr ds"
    obtain r3 w3 where r3: "fetchedDeposits c [] ds w2 = Some (r3, w3)" "\<forall>out. r3 = Inr out \<longrightarrow> length out = length ds"
      using fetchedDeposits_returns [OF assms, of ds "[]" w2] r2(2) r(2) by auto
    have "length ds < 2 ^ 63" if "uint (cb_DepositsCount batch) = int (length ds)"
      using uint_lt2p [of "cb_DepositsCount batch"] that by simp
    then show ?thesis
      using r r1 r2(1) r3 by (cases r3) (auto simp: ethc_GetBatch_def)
  qed (use r1 r2 in \<open>auto simp: ethc_GetBatch_def\<close>)
qed

lemma extractDeposits_amounts: "\<forall>d \<in> set ds. Amount d \<noteq> None \<Longrightarrow> \<exists>l. extractDeposits lib ds = Some l"
  by (induction ds) auto

lemma GenerateMessageHash_amounts:
  "\<forall>d \<in> set (Deposits batch). Amount d \<noteq> None \<Longrightarrow> ethc_GenerateMessageHash c (Some batch) \<noteq> None"
  using extractDeposits_amounts [of "Deposits batch" "ec_lib c"]
  by (auto simp: ethc_GenerateMessageHash_def extractList_def split: sum.splits)

lemma checkTransfers_returns: "eth_parts_return c \<Longrightarrow> returns (checkTransfers c ts w)"
proof (induction c ts w rule: checkTransfers.induct)
  case (2 c a required ts w)
  obtain r w1 where r: "ec_BalanceOf c a (ec_safeContractAddress c) w = Some (r, w1)" "r \<noteq> Inr None"
    using eth_parts(12) [OF 2(2)] by blast
  with 2 show ?case by (auto split: sum.splits option.splits)
qed simp

lemma sendTransfer_returns:
  assumes "eth_parts_return c" "extractList c batch = Some l" "0 \<le> q"
  shows "returns (sendTransfer ord c h batch q auth w)"
proof -
  have "length (al_tokens l) = length (al_amounts l)"
    using extractDeposits_lengths assms(2) unfolding extractList_def by metis
  then have tokens: "returns (checkAvailableTokens ord c (al_tokens l) (al_amounts l) w)" for w
    using addTransfers_sum [of "al_tokens l" "al_amounts l" "[]"] checkTransfers_returns [OF assms(1)]
    by (auto simp: checkAvailableTokens_def checkCumulatedTransfers_def getCumulatedTransfers_def)
  have fee: "returns (checkRelayerFundsForFee c fee w)" for fee w
    using eth_parts(10) [OF assms(1), of "ec_relayerAddress c" w]
    by (auto simp: checkRelayerFundsForFee_def split: sum.splits option.splits)
  have send: "returns (cw_ExecuteTransfer (ec_clientWrapper c) auth l n sigs w \<bind> (\<lambda>(r, w).
      case r of Inl err \<Rightarrow> Some (Inl err, w) | Inr None \<Rightarrow> None | Inr (Some txHash) \<Rightarrow> Some (Inr txHash, w)))" for n sigs w
    using eth_parts(7) [OF assms(1), of auth l n sigs w] by (auto split: sum.splits option.splits)
  show ?thesis
    using assms(2,3) tokens fee send by (auto simp: sendTransfer_def Let_def intro!: returns_bind split: option.splits)
qed

lemma ExecuteTransfer_returns:
  assumes "eth_parts_return c" "ethc_GenerateMessageHash c b = Some (Inr h)" "0 \<le> q"
  shows "returns (ethc_ExecuteTransfer ord c h b q w)"
proof (cases b)
  case (Some batch)
  obtain l where l: "extractList c batch = Some l"
    using assms(2) Some GenerateMessageHash_iff by blast
  have nonce: "returns (ethc_getNonce c a w)" for a w
    using eth_parts(5,6) [OF assms(1)] by (auto simp: ethc_getNonce_def intro!: returns_bind split: sum.splits)
  show ?thesis
    using Some nonce eth_parts(4,11) [OF assms(1)] sendTransfer_returns [OF assms(1) l assms(3)]
    by (auto simp: ethc_ExecuteTransfer_def intro!: returns_bind split: sum.splits option.splits bool.splits)
qed (simp add: ethc_ExecuteTransfer_def)

lemma eth_interface_returns:
  assumes "eth_parts_return c"
  shows "never_panics (eth_GetBatch (eth_client_interface ord cells put c) n)"
    "never_nil (eth_GetBatch (eth_client_interface ord cells put c) n)"
    "never_panics (eth_WasExecuted (eth_client_interface ord cells put c) n)"
    "never_panics (eth_BroadcastSignatureForMessageHash (eth_client_interface ord cells put c) h)"
    "never_panics (eth_GetTransactionsStatuses (eth_client_interface ord cells put c) n)"
    "never_panics (eth_GetQuorumSize (eth_client_interface ord cells put c))"
    "never_panics (eth_IsQuorumReached (eth_client_interface ord cells put c) h)"
    "never_panics (eth_CheckClientAvailability (eth_client_interface ord cells put c))"
    "executes_hashed (eth_client_interface ord cells put c)"
    "sensible_quorum (eth_client_interface ord cells put c)"
proof -
  let ?e = "eth_client_interface ord cells put c"
  show "never_panics (eth_GetBatch ?e n)"
    using GetBatch_returns [OF assms] unfolding never_panics_def eth_client_interface_def by force
  show "never_nil (eth_GetBatch ?e n)"
    unfolding never_nil_def
  proof (intro allI impI)
    fix w w' r
    assume "eth_GetBatch ?e n w = Some (Inr r, w')"
    then show "\<exists>batch. r = Some batch \<and> length (Statuses batch) < 2 ^ 63"
      using GetBatch_returns [OF assms, of n w] by (auto simp: eth_client_interface_def)
  qed
  show "never_panics (eth_WasExecuted ?e n)" "never_panics (eth_GetTransactionsStatuses ?e n)"
    using eth_parts(3,9) [OF assms]
    by (simp_all add: never_panics_returns eth_client_interface_def ethc_WasExecuted_def ethc_GetTransactionsStatuses_def)
  show "never_panics (eth_BroadcastSignatureForMessageHash ?e h)"
    using eth_parts(14) [OF assms]
    by (simp add: never_panics_returns eth_client_interface_def BroadcastSignatureForMessageHash_def split: sum.splits)
  have quorum: "\<exists>r w'. eth_GetQuorumSize ?e w = Some (r, w') \<and> (\<forall>q. r = Inr q \<longrightarrow> 0 \<le> bigInt64 q)" for w
    using eth_parts(8) [OF assms, of w]
    by (auto simp: bigInt64_small eth_client_interface_def ethc_GetQuorumSize_def split: sum.splits option.splits)
  show "never_panics (eth_GetQuorumSize ?e)"
    unfolding never_panics_def using quorum by (metis option.distinct(1))
  show "sensible_quorum ?e"
    unfolding sensible_quorum_def using quorum by (metis option.inject prod.inject)
  show "never_panics (eth_IsQuorumReached ?e h)"
    unfolding never_panics_returns
  proof
    fix w
    show "returns (eth_IsQuorumReached ?e h w)"
      using eth_parts(8) [OF assms, of w]
      by (auto simp: eth_client_interface_def ethc_IsQuorumReached_def Let_def split: sum.splits option.splits)
  qed
  have "returns (ethc_CheckClientAvailability (eth_load m c, w))" for m w
    using eth_parts(5) [OF assms] by (auto simp: ethc_CheckClientAvailability_def eth_load_def Let_def split: sum.splits)
  then show "never_panics (eth_CheckClientAvailability ?e)"
    by (auto simp: never_panics_returns eth_client_interface_def)
  show "executes_hashed ?e"
    using ExecuteTransfer_returns [OF assms] by (simp add: executes_hashed_def never_panics_returns eth_client_interface_def)
qed

section \<open>The executor on the two clients\<close>

text \<open>What the assembled relayer takes from outside: the nodes, the contracts and the SDK behave.\<close>

definition relayer_parts_return :: "'w mx_client \<Rightarrow> ('t, 'w) eth_client \<Rightarrow> 'w ArgsBridgeExecutor \<Rightarrow> bool" where
  "relayer_parts_return mc ec args \<longleftrightarrow>
     mx_parts_return mc \<and> short_answers (dg_proxy (mc_getter mc)) \<and> eth_parts_return ec \<and>
     (\<exists>topology. arg_TopologyProvider args = Some topology \<and> never_panics topology) \<and>
     (\<exists>validator. arg_BatchValidator args = Some validator \<and> (\<forall>b. never_panics (validator b))) \<and>
     (\<forall>d. never_panics (arg_WaitTimer args d))"

lemma clients_hash_pending:
  assumes "short_answers (dg_proxy (mc_getter mc))"
  shows "hashes_pending (mx_client_interface mcells mput mc) (eth_client_interface ord ecells eput ec)"
    "never_nil (mx_GetPending (mx_client_interface mcells mput mc))"
  using mx_pending_batch [OF _ assms] GenerateMessageHash_amounts
  unfolding hashes_pending_def never_nil_def mx_client_interface_def eth_client_interface_def by fastforce+

text \<open>An executor that uses these two clients; the changing fields of the clients live anywhere in the world.\<close>

definition built_on :: "((bytes \<times> int) list \<Rightarrow> (bytes \<times> int) list) \<Rightarrow> 'w mx_client \<Rightarrow> ('t, 'w) eth_client
    \<Rightarrow> 'w ArgsBridgeExecutor \<Rightarrow> bool" where
  "built_on ord mc ec args \<longleftrightarrow> (\<exists>mcells mput ecells eput.
     arg_MultiversXClient args = Some (mx_client_interface mcells mput mc) \<and>
     arg_EthereumClient args = Some (eth_client_interface ord ecells eput ec))"

lemma relayer_clients_safe:
  assumes "relayer_parts_return mc ec args" "built_on ord mc ec args"
  shows "safe_clients (createBridgeExecutor args)"
proof -
  obtain mcells mput ecells eput where
    c: "ex_multiversXClient (createBridgeExecutor args) = mx_client_interface mcells mput mc"
      "ex_ethereumClient (createBridgeExecutor args) = eth_client_interface ord ecells eput ec"
    using assms(2) by (auto simp: built_on_def createBridgeExecutor_def)
  have parts: "mx_parts_return mc" "short_answers (dg_proxy (mc_getter mc))" "eth_parts_return ec"
    using assms(1) by (simp_all add: relayer_parts_return_def)
  have "never_panics (ex_topologyProvider (createBridgeExecutor args))"
    "\<forall>b. never_panics (ex_batchValidator (createBridgeExecutor args) b)" "\<forall>d. never_panics (ex_waitTimer (createBridgeExecutor args) d)"
    using assms(1) by (auto simp: relayer_parts_return_def createBridgeExecutor_def)
  then show ?thesis
    unfolding safe_clients_def Let_def c
    using mx_interface_returns [OF parts(1)] eth_interface_returns [OF parts(3)] clients_hash_pending [OF parts(2)] by simp
qed

text \<open>The operations that the recorded calls of such an executor are about.\<close>

lemma built_on_ops:
  assumes "built_on ord mc ec args"
  shows "mx_GetPending (ex_multiversXClient (createBridgeExecutor args)) = mxc_GetPending mc"
    "mx_ProposeTransfer (ex_multiversXClient (createBridgeExecutor args)) = mxc_ProposeTransfer mc"
    "eth_GetBatch (ex_ethereumClient (createBridgeExecutor args)) = ethc_GetBatch ec"
    "eth_ExecuteTransfer (ex_ethereumClient (createBridgeExecutor args)) = ethc_ExecuteTransfer ord ec"
    "eth_GenerateMessageHash (ex_ethereumClient (createBridgeExecutor args)) = ethc_GenerateMessageHash ec"
  using assms by (auto simp: built_on_def createBridgeExecutor_def mx_client_interface_def eth_client_interface_def)

section \<open>A relayer to evaluate\<close>

definition demo_relayer_args :: "nat ArgsBridgeExecutor" where
  "demo_relayer_args =
     \<lparr> arg_Log = Some (\<lambda>_. ''level''),
       arg_TopologyProvider = Some (\<lambda>w. Some (True, w)),
       arg_MultiversXClient = Some (mx_client_interface (\<lambda>_. mx_store demo_mx_client) (\<lambda>_ w. w) demo_mx_client),
       arg_EthereumClient = Some (eth_client_interface rev (\<lambda>_. eth_store demo_eth_client) (\<lambda>_ w. w) demo_eth_client),
       arg_TimeForWaitOnEthereum = second,
       arg_WaitTimer = (\<lambda>_ w. Some (True, w)),
       arg_StatusHandler = Some \<lparr> sh_SetIntMetric = (\<lambda>k v w. w), sh_AddIntMetric = (\<lambda>k v w. w), sh_SetStringMetric = (\<lambda>k v w. w) \<rparr>,
       arg_SignaturesHolder = Some (\<lambda>w. w),
       arg_BatchValidator = Some (\<lambda>_ w. Some (Inr True, w)),
       arg_MaxQuorumRetriesOnEthereum = 3,
       arg_MaxQuorumRetriesOnMultiversX = 3,
       arg_MaxRestriesOnWasProposed = 3 \<rparr>"

lemma demo_relayer_built: "built_on rev demo_mx_client demo_eth_client demo_relayer_args"
  by (auto simp: built_on_def demo_relayer_args_def)

lemma demo_relayer_executor: "NewBridgeExecutor demo_relayer_args = Inr (createBridgeExecutor demo_relayer_args)"
  by (simp add: NewBridgeExecutor_def checkArgs_def demo_relayer_args_def durationLimit_def minRetries_def)

lemma demo_relayer_parts: "relayer_parts_return demo_mx_client demo_eth_client demo_relayer_args"
proof -
  have "mx_parts_return demo_mx_client"
    by (simp add: mx_parts_return_def proxy_returns_def never_panics_def demo_mx_defs demo_proxy_def)
  moreover have "short_answers (dg_proxy (mc_getter demo_mx_client))"
    by (auto simp: short_answers_def demo_mx_client_fields demo_proxy_def encode_transfer_def)
  moreover have "eth_parts_return demo_eth_client"
    by (simp add: eth_parts_return_def never_panics_def demo_wrapper_def demo_eth_client_def no_nil_numbers_def demo_deposit_def)
  ultimately show ?thesis
    by (auto simp: relayer_parts_return_def demo_relayer_args_def never_panics_def)
qed

end
