(* ===== verification/Bridge_Factory_Correct.thy ===== *)
theory Bridge_Factory_Correct
  imports Bridge_Factory Relayer_Clients
begin

text \<open>
  What a successful construction leaves behind: the equations of every method of the factory when it
  succeeds, and from them the wiring of the whole relayer.
\<close>

section \<open>Successful control flow\<close>

lemma tryOk_success: "tryOk r k s = Some (None, s') \<longleftrightarrow> (\<exists>v. r = Inr v \<and> k v s = Some (None, s'))"
  by (simp add: tryOk_def split: sum.split)

lemma tryNil_success: "tryNil err k s = Some (None, s') \<longleftrightarrow> err = None \<and> k s = Some (None, s')"
  by (simp add: tryNil_def split: option.split)

lemma andThen_success:
  "andThen f g s = Some (None, s') \<longleftrightarrow> (\<exists>t. f s = Some (None, t) \<and> g t = Some (None, s'))"
  by (auto simp: andThen_def bind_Some_conv tryNil_def split: option.splits)

lemma notNil_success: "notNil x k s = Some r \<longleftrightarrow> (\<exists>v. x = Some v \<and> k v s = Some r)"
  by (simp add: notNil_def split: option.split)

lemmas success_simps = tryOk_success tryNil_success andThen_success notNil_success

section \<open>Successful methods\<close>

definition registered :: "pollingHandler \<Rightarrow> ('t, 'b, 'w) components \<Rightarrow> ('t, 'b, 'w) components" where
  "registered ph c = c\<lparr>cmp_closableHandlers := cmp_closableHandlers c @ [Some (ClosePollingHandler ph)],
     cmp_pollingHandlers := cmp_pollingHandlers c @ [ph]\<rparr>"

lemma addPollingHandler_success:
  "addPollingHandler lib ph (c, w) = Some (None, s) \<longleftrightarrow> fl_NewPollingHandler lib ph = None \<and> s = (registered ph c, w)"
  by (auto simp: addPollingHandler_def success_simps addClosableComponent_def registered_def)

lemma createMultiversXKeysAndAddresses_success:
  assumes "createMultiversXKeysAndAddresses lib cfg (c, w) = Some (None, s)"
  obtains bs key relayer multisig where "fl_LoadPrivateKeyFromPemFile lib (mcf_PrivateKeyFile cfg) = Inr bs"
    "fl_PrivateKeyFromByteArray lib bs = Inr key" "fl_GetAddressFromPrivateKey lib bs = Inr relayer"
    "fl_NewAddressFromBech32String lib (mcf_MultisigContractAddress cfg) = Inr multisig"
    "s = (c\<lparr>cmp_multiversXRelayerPrivateKey := Some key, cmp_multiversXRelayerAddress := Some relayer,
       cmp_multiversXMultisigContractAddress := Some multisig\<rparr>, w)"
  using assms by (cases "fl_NewAddressFromBech32String lib (mcf_MultisigContractAddress cfg)")
    (auto simp: createMultiversXKeysAndAddresses_def success_simps)

lemma createDataGetter_success:
  assumes "createDataGetter (c, w) = Some (None, s)" "cmp_multiversXMultisigContractAddress c = Some multisig"
    "cmp_multiversXRelayerAddress c = Some relayer"
  shows "s = (c\<lparr>cmp_mxDataGetter := Some \<lparr> dg_multisigContractAddress = multisig, dg_relayerAddress = relayer,
    dg_proxy = cmp_proxy c, dg_wasShardIDFetched = False, dg_shardID = 0 \<rparr>\<rparr>, w)"
  using assms by (auto simp: createDataGetter_def success_simps NewMXClientDataGetter_def)

definition mx_provider :: "'w mxClientDataGetter \<Rightarrow> 'w multiversXRoleProvider" where
  "mx_provider getter = \<lparr> mrp_dataGetter = GetAllStakedRelayers getter, mrp_whitelistedAddresses = [] \<rparr>"

definition eth_provider :: "'w ClientWrapper \<Rightarrow> 'w ethereumRoleProvider" where
  "eth_provider cw = \<lparr> erp_ethereumChainInteractor = cw_GetRelayers cw, erp_whitelistedAddresses = [] \<rparr>"

definition mx_role_handler :: "('b, 'l, 'w) ArgsEthereumToMultiversXBridge \<Rightarrow> pollingHandler" where
  "mx_role_handler args = \<lparr> ph_Name = ''MultiversX role provider'', ph_PollingInterval = roleProviderInterval args,
     ph_PollingWhenError = pollingDurationOnError, ph_Executor = PollMultiversXRoleProvider \<rparr>"

definition eth_role_handler :: "('b, 'l, 'w) ArgsEthereumToMultiversXBridge \<Rightarrow> Chain \<Rightarrow> pollingHandler" where
  "eth_role_handler args chain = \<lparr> ph_Name = chain @ '' role provider'', ph_PollingInterval = roleProviderInterval args,
     ph_PollingWhenError = pollingDurationOnError, ph_Executor = PollEthereumRoleProvider \<rparr>"

lemma createMultiversXRoleProvider_success:
  assumes "createMultiversXRoleProvider lib args (c, w) = Some (None, s)" "cmp_mxDataGetter c = Some getter"
  shows "s = (registered (mx_role_handler args) (c\<lparr>cmp_multiversXRoleProvider := Some (mx_provider getter)\<rparr>),
    w\<lparr>rw_mxRelayers := []\<rparr>)"
  using assms by (auto simp: createMultiversXRoleProvider_def success_simps addPollingHandler_success mx_role_handler_def
    NewMultiversXRoleProvider_def mx_provider_def checkMultiversXRoleProviderSpecificArgs_def)

lemma createEthereumRoleProvider_success:
  assumes "createEthereumRoleProvider lib args (c, w) = Some (None, s)" "fa_ClientWrapper args = Some cw"
  shows "s = (registered (eth_role_handler args (cmp_evmCompatibleChain c))
      (c\<lparr>cmp_ethereumRoleProvider := Some (eth_provider cw)\<rparr>), w\<lparr>rw_ethRelayers := []\<rparr>)"
  using assms by (auto simp: createEthereumRoleProvider_def success_simps addPollingHandler_success eth_role_handler_def
    NewEthereumRoleProvider_def eth_provider_def checkEthereumRoleProviderSpecificArgs_def)

lemma createMultiversXClient_success:
  assumes "createMultiversXClient lib args (c, w) = Some (None, s)" "cmp_mxDataGetter c = Some getter"
  obtains client where
    "mx_NewClient (fl_sdk lib) (mxClientArgs lib args (multiversXToErc20_ConvertToken getter) c) = Inr client"
    "s = (addClosableComponent (Some CloseMultiversXClient) (c\<lparr>cmp_multiversXClient := Some client\<rparr>),
       mxCells_put (mx_store client) w)"
  using assms by (auto simp: createMultiversXClient_def success_simps NewMultiversXToErc20Mapper_def split: sum.split_asm)

lemma createAntifloodComponents_fst:
  assumes "createAntifloodComponents lib cfg (c, w) = Some (r, s)"
  shows "fst s = c"
proof -
  from assms obtain q u where "fl_NewP2PAntiFloodComponents lib cfg (net_ID (cmp_messenger c)) w = Some (q, u)"
    by (auto simp: createAntifloodComponents_def bind_Some_conv)
  with assms show ?thesis by (cases q) (auto simp: createAntifloodComponents_def)
qed

text \<open>The libraries of the network that are called on the way, and the world they leave.\<close>

definition network_created :: "('t, 'b, 'r, 'pk, 'l, 'w) factory_lib \<Rightarrow> 'w NetMessenger \<Rightarrow> 'w \<Rightarrow> 'w \<Rightarrow> bool" where
  "network_created lib messenger w w' \<longleftrightarrow> (\<exists>cfg antiflood v evaluator.
     fl_NewP2PAntiFloodComponents lib cfg (net_ID messenger) w = Some (Inr antiflood, v) \<and>
     net_SetPeerDenialEvaluator messenger evaluator v = Some (None, w'))"

lemma createAntifloodComponents_success:
  assumes "createAntifloodComponents lib cfg (c, w) = Some (Inr antiflood, s)"
  shows "fl_NewP2PAntiFloodComponents lib cfg (net_ID (cmp_messenger c)) w = Some (Inr antiflood, snd s)"
proof -
  from assms obtain q u where "fl_NewP2PAntiFloodComponents lib cfg (net_ID (cmp_messenger c)) w = Some (q, u)"
    by (auto simp: createAntifloodComponents_def bind_Some_conv)
  with assms show ?thesis by (cases q) (auto simp: createAntifloodComponents_def)
qed

lemma createBroadcaster_success:
  assumes "createBroadcaster lib args (c, w) = Some (None, s)"
  obtains gs antiflood b w' where
    "NewBroadcaster (fl_nowNano lib) (fl_toPublic lib) (broadcasterArgs lib antiflood c) = Inr b"
    "network_created lib (cmp_messenger c) (w\<lparr>rw_gas := gs\<rparr>) w'"
    "s = (c\<lparr>cmp_broadcaster := Some b\<rparr>, br_put b w')"
proof -
  let ?cfg = "pcf_AntifloodConfig (cfg_P2P (cfg_GeneralConfig (fa_Configs args)))"
  from assms obtain gs antiflood c' v evaluator w' b where
    r: "createAntifloodComponents lib ?cfg (c, w\<lparr>rw_gas := gs\<rparr>) = Some (Inr antiflood, (c', v))" and
    n: "net_SetPeerDenialEvaluator (cmp_messenger c') evaluator v = Some (None, w')"
    "NewBroadcaster (fl_nowNano lib) (fl_toPublic lib) (broadcasterArgs lib antiflood c') = Inr b"
    "s = (c'\<lparr>cmp_broadcaster := Some b\<rparr>, br_put b w')"
    unfolding createBroadcaster_def Let_def by (auto simp: success_simps bind_Some_conv)
  have "c' = c" using createAntifloodComponents_fst [OF r] by simp
  then show thesis
    using n createAntifloodComponents_success [OF r] by (intro that [of antiflood b gs w']) (auto simp: network_created_def)
qed

lemma createEthereumClient_success:
  assumes "createEthereumClient lib args (c, w) = Some (None, s)" "cmp_mxDataGetter c = Some getter"
  obtains gs antiflood b0 b key client w' where
    "NewBroadcaster (fl_nowNano lib) (fl_toPublic lib) (broadcasterArgs lib antiflood c) = Inr b0"
    "b = b0\<lparr>br_clients := br_clients b0 @ [holder_client (fl_ordMessages lib)]\<rparr>"
    "NewEthereumClient (fl_ethLib lib key) (ethClientArgs lib args key (erc20ToMultiversX_ConvertToken getter)
       (c\<lparr>cmp_broadcaster := Some b\<rparr>)) = Inr client"
    "fst s = c\<lparr>cmp_broadcaster := Some b, cmp_ethereumRelayerAddress := fl_KeyToAddress lib key,
       cmp_ethToMultiversXSignaturesHolder := Some (), cmp_ethClient := Some client\<rparr>"
    "network_created lib (cmp_messenger c) (w\<lparr>rw_gas := gs\<rparr>) w'"
    "snd s = ethCells_put (eth_store client) ((br_put b0 w')\<lparr>rw_signatures := NewSignatureHolder\<rparr>)"
proof -
  from assms(1) obtain t where t: "createBroadcaster lib args (c, w) = Some (None, t)"
    unfolding createEthereumClient_def andThen_success by auto
  then obtain gs antiflood b0 w' where b: "NewBroadcaster (fl_nowNano lib) (fl_toPublic lib) (broadcasterArgs lib antiflood c) = Inr b0"
    and net: "network_created lib (cmp_messenger c) (w\<lparr>rw_gas := gs\<rparr>) w'" and t': "t = (c\<lparr>cmp_broadcaster := Some b0\<rparr>, br_put b0 w')"
    by (rule createBroadcaster_success)
  from assms t t' obtain bs key client where
    c: "NewEthereumClient (fl_ethLib lib key) (ethClientArgs lib args key (erc20ToMultiversX_ConvertToken getter)
       (c\<lparr>cmp_broadcaster := Some (b0\<lparr>br_clients := br_clients b0 @ [holder_client (fl_ordMessages lib)]\<rparr>)\<rparr>)) = Inr client"
    "s = (c\<lparr>cmp_broadcaster := Some (b0\<lparr>br_clients := br_clients b0 @ [holder_client (fl_ordMessages lib)]\<rparr>),
       cmp_ethereumRelayerAddress := fl_KeyToAddress lib key,
       cmp_ethToMultiversXSignaturesHolder := Some (), cmp_ethClient := Some client\<rparr>,
       ethCells_put (eth_store client) ((br_put b0 w')\<lparr>rw_signatures := NewSignatureHolder\<rparr>))"
    by (auto simp: createEthereumClient_def success_simps NewErc20ToMultiversXMapper_def AddBroadcastClient_def
      ethClientArgs_def Let_def)
  show thesis by (rule that [OF b refl c(1) _ net]) (simp_all add: c(2))
qed

lemma NewBridgeExecutor_created: "NewBridgeExecutor a = Inr bridge \<longleftrightarrow> checkArgs a = None \<and> bridge = createBridgeExecutor a"
  by (auto simp: NewBridgeExecutor_def split: option.splits)

lemma executorArgs_clients:
  assumes "cmp_multiversXClient d = cmp_multiversXClient c" "cmp_ethClient d = cmp_ethClient c"
  shows "executorArgs lib args d = executorArgs lib args c"
  using assms by (simp add: executorArgs_def fun_eq_iff)

lemma NewStatusHandler_storer: "NewStatusHandler js name (Some st) w = Inr sh \<Longrightarrow> sth_storer sh = st"
  by (auto simp: NewStatusHandler_def tryLoadPersistedData_def split: if_splits sum.splits)

lemma createEthereumToMultiversXBridge_success:
  assumes "createEthereumToMultiversXBridge lib args (c, w) = Some (None, s)"
  obtains cfg relayer topology sh holder validator a where
    "cmp_multiversXRelayerAddress c = Some relayer"
    "NewTopologyHandler (topologyArgs lib cfg relayer c) = Inr topology"
    "createBatchValidator lib (cmp_evmCompatibleChain c) MultiversX
       (cfg_BatchValidator (cfg_GeneralConfig (fa_Configs args))) = Inr validator"
    "a = executorArgs lib args c topology (status_interface rw_ethMetrics ethMetrics_put sh) (Some (\<lambda>w. w)) validator"
    "NewBridgeExecutor a = Inr (createBridgeExecutor a)"
    "fst s = c\<lparr>cmp_ethToMultiversXStepDuration := duration (uint (smc_StepDurationInMillis cfg)) millisecond,
       cmp_ethToMultiversXStatusHandler := Some sh, cmp_metricsHolder := holder,
       cmp_ethToMultiversXExecutor := Some (createBridgeExecutor a),
       cmp_ethToMultiversXMachineStates := Some (eth_machineStates (fl_marshalBatch lib))\<rparr>"
    "snd s = ethMetrics_put (sth_metrics sh) w" "sth_storer sh = cmp_statusStorer c"
proof -
  let ?name = "EvmCompatibleChainToMultiversXName (cmp_evmCompatibleChain c)"
  from assms obtain cfg where cfg: "gm_get (cfg_StateMachine (cfg_GeneralConfig (fa_Configs args))) ?name = Some cfg"
    by (auto simp: createEthereumToMultiversXBridge_def Let_def split: option.split_asm)
  let ?c = "c\<lparr>cmp_ethToMultiversXStepDuration := duration (uint (smc_StepDurationInMillis cfg)) millisecond\<rparr>"
  from assms cfg obtain relayer topology sh holder validator bridge where r:
    "cmp_multiversXRelayerAddress c = Some relayer" "NewTopologyHandler (topologyArgs lib cfg relayer ?c) = Inr topology"
    "createBatchValidator lib (cmp_evmCompatibleChain c) MultiversX
       (cfg_BatchValidator (cfg_GeneralConfig (fa_Configs args))) = Inr validator"
    "NewBridgeExecutor (executorArgs lib args (?c\<lparr>cmp_ethToMultiversXStatusHandler := Some sh, cmp_metricsHolder := holder\<rparr>)
       topology (status_interface rw_ethMetrics ethMetrics_put sh) (Some (\<lambda>w. w)) validator) = Inr bridge"
    "s = (?c\<lparr>cmp_ethToMultiversXStatusHandler := Some sh, cmp_metricsHolder := holder,
       cmp_ethToMultiversXExecutor := Some bridge,
       cmp_ethToMultiversXMachineStates := Some (eth_machineStates (fl_marshalBatch lib))\<rparr>, ethMetrics_put (sth_metrics sh) w)" "sth_storer sh = cmp_statusStorer c"
    by (auto simp: createEthereumToMultiversXBridge_def Let_def success_simps eth_CreateSteps_def
      eth_createMachineStates_eq case_prod_beta dest: NewStatusHandler_storer)
  have t: "topologyArgs lib cfg relayer ?c = topologyArgs lib cfg relayer c"
    by (simp add: topologyArgs_def)
  have e: "executorArgs lib args (?c\<lparr>cmp_ethToMultiversXStatusHandler := Some sh, cmp_metricsHolder := holder\<rparr>) =
      executorArgs lib args c"
    by (rule executorArgs_clients) simp_all
  show thesis
    by (rule that [OF r(1) r(2) [unfolded t] r(3) refl])
       (use r(4,5,6) in \<open>simp_all add: e NewBridgeExecutor_created\<close>)
qed


lemma createMultiversXToEthereumBridge_success:
  assumes "createMultiversXToEthereumBridge lib args (c, w) = Some (None, s)"
    "cmp_ethToMultiversXSignaturesHolder c = Some ()"
  obtains cfg relayer topology sh holder validator a where
    "cmp_multiversXRelayerAddress c = Some relayer"
    "NewTopologyHandler (topologyArgs lib cfg relayer c) = Inr topology"
    "createBatchValidator lib MultiversX (cmp_evmCompatibleChain c)
       (cfg_BatchValidator (cfg_GeneralConfig (fa_Configs args))) = Inr validator"
    "a = executorArgs lib args c topology (status_interface rw_mxMetrics mxMetrics_put sh) (Some clear_signatures) validator"
    "NewBridgeExecutor a = Inr (createBridgeExecutor a)"
    "fst s = c\<lparr>cmp_multiversXToEthStepDuration := duration (uint (smc_StepDurationInMillis cfg)) millisecond,
       cmp_multiversXToEthStatusHandler := Some sh, cmp_metricsHolder := holder,
       cmp_multiversXToEthExecutor := Some (createBridgeExecutor a),
       cmp_multiversXToEthMachineStates := Some (mx_machineStates (fl_marshalBatch lib))\<rparr>"
    "snd s = mxMetrics_put (sth_metrics sh) w" "sth_storer sh = cmp_statusStorer c"
proof -
  let ?name = "MultiversXToEvmCompatibleChainName (cmp_evmCompatibleChain c)"
  from assms(1) obtain cfg where cfg: "gm_get (cfg_StateMachine (cfg_GeneralConfig (fa_Configs args))) ?name = Some cfg"
    by (auto simp: createMultiversXToEthereumBridge_def Let_def split: option.split_asm)
  let ?c = "c\<lparr>cmp_multiversXToEthStepDuration := duration (uint (smc_StepDurationInMillis cfg)) millisecond\<rparr>"
  from assms cfg obtain relayer topology sh holder validator bridge where r:
    "cmp_multiversXRelayerAddress c = Some relayer" "NewTopologyHandler (topologyArgs lib cfg relayer ?c) = Inr topology"
    "createBatchValidator lib MultiversX (cmp_evmCompatibleChain c)
       (cfg_BatchValidator (cfg_GeneralConfig (fa_Configs args))) = Inr validator"
    "NewBridgeExecutor (executorArgs lib args (?c\<lparr>cmp_multiversXToEthStatusHandler := Some sh, cmp_metricsHolder := holder\<rparr>)
       topology (status_interface rw_mxMetrics mxMetrics_put sh) (Some clear_signatures) validator) = Inr bridge"
    "s = (?c\<lparr>cmp_multiversXToEthStatusHandler := Some sh, cmp_metricsHolder := holder,
       cmp_multiversXToEthExecutor := Some bridge,
       cmp_multiversXToEthMachineStates := Some (mx_machineStates (fl_marshalBatch lib))\<rparr>, mxMetrics_put (sth_metrics sh) w)" "sth_storer sh = cmp_statusStorer c"
    by (auto simp: createMultiversXToEthereumBridge_def Let_def success_simps mx_CreateSteps_def
      mx_createMachineStates_eq case_prod_beta dest: NewStatusHandler_storer)
  have t: "topologyArgs lib cfg relayer ?c = topologyArgs lib cfg relayer c"
    by (simp add: topologyArgs_def)
  have e: "executorArgs lib args (?c\<lparr>cmp_multiversXToEthStatusHandler := Some sh, cmp_metricsHolder := holder\<rparr>) =
      executorArgs lib args c"
    by (rule executorArgs_clients) simp_all
  show thesis
    by (rule that [OF r(1) r(2) [unfolded t] r(3) refl])
       (use r(4,5,6) in \<open>simp_all add: e NewBridgeExecutor_created\<close>)
qed

definition machine_handler :: "string \<Rightarrow> int \<Rightarrow> polled \<Rightarrow> pollingHandler" where
  "machine_handler name interval machine = \<lparr> ph_Name = name @ '' State machine'', ph_PollingInterval = interval,
     ph_PollingWhenError = pollingDurationOnError, ph_Executor = machine \<rparr>"

lemma createEthStateMachine_success:
  assumes "createEthStateMachine lib (c, w) = Some (None, s)" "cmp_ethToMultiversXMachineStates c = Some steps"
    "cmp_ethToMultiversXStatusHandler c = Some sh"
  obtains machine where "createEthereumToMultiversXStateMachine (fl_ordSteps lib)
      (EvmCompatibleChainToMultiversXName (cmp_evmCompatibleChain c)) steps
      (on_world (status_interface rw_ethMetrics ethMetrics_put sh)) = Inr machine"
    "s = (registered (machine_handler (EvmCompatibleChainToMultiversXName (cmp_evmCompatibleChain c))
      (cmp_ethToMultiversXStepDuration c) PollEthToMultiversX) (c\<lparr>cmp_ethToMultiversXStateMachine := Some machine\<rparr>), w)"
  using assms by (auto simp: createEthStateMachine_def Let_def success_simps addPollingHandler_success machine_handler_def
    createEthereumToMultiversXStateMachine_def)

lemma createMxStateMachine_success:
  assumes "createMxStateMachine lib (c, w) = Some (None, s)" "cmp_multiversXToEthMachineStates c = Some steps"
    "cmp_multiversXToEthStatusHandler c = Some sh"
  obtains machine where "createMultiversXToEthereumStateMachine (fl_ordSteps lib)
      (MultiversXToEvmCompatibleChainName (cmp_evmCompatibleChain c)) steps
      (on_world (status_interface rw_mxMetrics mxMetrics_put sh)) = Inr machine"
    "s = (registered (machine_handler (MultiversXToEvmCompatibleChainName (cmp_evmCompatibleChain c))
      (cmp_multiversXToEthStepDuration c) PollMultiversXToEth) (c\<lparr>cmp_multiversXToEthStateMachine := Some machine\<rparr>), w)"
  using assms by (auto simp: createMxStateMachine_def Let_def success_simps addPollingHandler_success machine_handler_def
    createMultiversXToEthereumStateMachine_def)

section \<open>The assembled relayer\<close>

text \<open>
  How the parts of a constructed relayer hang together: which objects the clients and the broadcaster
  use, and what the two executors are made of.
\<close>

definition clients_assembled :: "('t, 'b, 'r, 'pk, 'l, 'x relayer_world) factory_lib
    \<Rightarrow> ('b, 'l, 'x relayer_world) ArgsEthereumToMultiversXBridge \<Rightarrow> ('t, 'b, 'x relayer_world) components
    \<Rightarrow> 'x relayer_world mx_client \<Rightarrow> ('t, 'x relayer_world) eth_client \<Rightarrow> 'x relayer_world broadcaster \<Rightarrow> bool" where
  "clients_assembled lib args c mc ec b \<longleftrightarrow>
     cmp_multiversXClient c = Some mc \<and> cmp_ethClient c = Some ec \<and> cmp_broadcaster c = Some b \<and>
     cmp_ethToMultiversXSignaturesHolder c = Some () \<and>
     (\<exists>getter cw antiflood key.
       cmp_mxDataGetter c = Some getter \<and> fa_ClientWrapper args = Some cw \<and> fa_Proxy args = Some (dg_proxy getter) \<and>
       cmp_multiversXRoleProvider c = Some (mx_provider getter) \<and> cmp_ethereumRoleProvider c = Some (eth_provider cw) \<and>
       mx_NewClient (fl_sdk lib) (mxClientArgs lib args (multiversXToErc20_ConvertToken getter) c) = Inr mc \<and>
       br_env b = broadcasterEnv lib (the (fa_Messenger args)) antiflood (mx_provider getter) (eth_provider cw) \<and>
       br_clients b = [holder_client (fl_ordMessages lib)] \<and> br_joinTopicName b \<noteq> br_signTopicName b \<and>
       NewEthereumClient (fl_ethLib lib key)
         (ethClientArgs lib args key (erc20ToMultiversX_ConvertToken getter) c) = Inr ec)"

definition eth_half_assembled :: "('t, 'b, 'r, 'pk, 'l, 'x relayer_world) factory_lib
    \<Rightarrow> ('b, 'l, 'x relayer_world) ArgsEthereumToMultiversXBridge \<Rightarrow> ('t, 'b, 'x relayer_world) components
    \<Rightarrow> 'x relayer_world ArgsBridgeExecutor \<Rightarrow> bool" where
  "eth_half_assembled lib args c a \<longleftrightarrow>
     (\<exists>topology (sh :: ('b, 'x relayer_world) statusHandler) validator.
       a = executorArgs lib args c topology (status_interface rw_ethMetrics ethMetrics_put sh) (Some (\<lambda>w. w)) validator \<and>
       createBatchValidator lib (cmp_evmCompatibleChain c) MultiversX
         (cfg_BatchValidator (cfg_GeneralConfig (fa_Configs args))) = Inr validator \<and>
       cmp_ethToMultiversXStatusHandler c = Some sh \<and> sth_storer sh = cmp_statusStorer c \<and>
       NewBridgeExecutor a = Inr (createBridgeExecutor a) \<and>
       cmp_ethToMultiversXExecutor c = Some (createBridgeExecutor a) \<and>
       cmp_ethToMultiversXMachineStates c = Some (eth_machineStates (fl_marshalBatch lib)) \<and>
       (\<exists>machine. cmp_ethToMultiversXStateMachine c = Some machine \<and>
          createEthereumToMultiversXStateMachine (fl_ordSteps lib)
            (EvmCompatibleChainToMultiversXName (cmp_evmCompatibleChain c)) (eth_machineStates (fl_marshalBatch lib))
            (on_world (status_interface rw_ethMetrics ethMetrics_put sh)) = Inr machine))"

definition mx_half_assembled :: "('t, 'b, 'r, 'pk, 'l, 'x relayer_world) factory_lib
    \<Rightarrow> ('b, 'l, 'x relayer_world) ArgsEthereumToMultiversXBridge \<Rightarrow> ('t, 'b, 'x relayer_world) components
    \<Rightarrow> 'x relayer_world ArgsBridgeExecutor \<Rightarrow> bool" where
  "mx_half_assembled lib args c a \<longleftrightarrow>
     (\<exists>topology (sh :: ('b, 'x relayer_world) statusHandler) validator.
       a = executorArgs lib args c topology (status_interface rw_mxMetrics mxMetrics_put sh) (Some clear_signatures) validator \<and>
       createBatchValidator lib MultiversX (cmp_evmCompatibleChain c)
         (cfg_BatchValidator (cfg_GeneralConfig (fa_Configs args))) = Inr validator \<and>
       cmp_multiversXToEthStatusHandler c = Some sh \<and> sth_storer sh = cmp_statusStorer c \<and>
       NewBridgeExecutor a = Inr (createBridgeExecutor a) \<and>
       cmp_multiversXToEthExecutor c = Some (createBridgeExecutor a) \<and>
       cmp_multiversXToEthMachineStates c = Some (mx_machineStates (fl_marshalBatch lib)) \<and>
       (\<exists>machine. cmp_multiversXToEthStateMachine c = Some machine \<and>
          createMultiversXToEthereumStateMachine (fl_ordSteps lib)
            (MultiversXToEvmCompatibleChainName (cmp_evmCompatibleChain c)) (mx_machineStates (fl_marshalBatch lib))
            (on_world (status_interface rw_mxMetrics mxMetrics_put sh)) = Inr machine))"

text \<open>What is registered for polling and for closing at a point of the construction.\<close>

definition handlers :: "pollingHandler list \<Rightarrow> closable list \<Rightarrow> ('t, 'b, 'w) components \<Rightarrow> bool" where
  "handlers phs cls c \<longleftrightarrow> cmp_pollingHandlers c = phs \<and> cmp_closableHandlers c = map Some cls \<and>
     \<not> cmp_joinLoop c \<and> \<not> cmp_cancelFunc c"

text \<open>The part of the memory that decides whose signatures are taken.\<close>

definition trusted :: "'x relayer_world \<Rightarrow> (bytes, unit) gomap \<times> (bytes, unit) gomap \<times> signaturesHolder" where
  "trusted w = (rw_mxRelayers w, rw_ethRelayers w, rw_signatures w)"

lemma trusted_update [simp]:
  "trusted (w\<lparr>rw_gas := g\<rparr>) = trusted w" "trusted (mxCells_put x w) = trusted w" "trusted (ethCells_put y w) = trusted w"
  "trusted (br_put b w) = trusted w" "trusted (ethMetrics_put m w) = trusted w" "trusted (mxMetrics_put m w) = trusted w"
  by (simp_all add: trusted_def mxCells_put_def ethCells_put_def br_put_def ethMetrics_put_def mxMetrics_put_def)

lemma trusted_outside: "outside_only w w' \<Longrightarrow> trusted w' = trusted w"
  by (auto simp: outside_only_def trusted_def)

text \<open>Creating the network components does not touch the relayer's memory.\<close>

definition network_outside :: "('t, 'b, 'r, 'pk, 'l, 'x relayer_world) factory_lib \<Rightarrow> 'x relayer_world NetMessenger \<Rightarrow> bool" where
  "network_outside lib messenger \<longleftrightarrow> (\<forall>w w'. network_created lib messenger w w' \<longrightarrow> outside_only w w')"

lemma handlers_registered:
  "handlers phs cls c \<Longrightarrow> handlers (phs @ [ph]) (cls @ [ClosePollingHandler ph]) (registered ph c)"
  by (simp add: handlers_def registered_def)

lemma mxClientArgs_cong:
  assumes "cmp_multiversXRelayerPrivateKey d = cmp_multiversXRelayerPrivateKey c"
    "cmp_multiversXMultisigContractAddress d = cmp_multiversXMultisigContractAddress c"
    "cmp_multiversXRoleProvider d = cmp_multiversXRoleProvider c"
  shows "mxClientArgs lib args tm d = mxClientArgs lib args tm c"
  using assms by (simp add: mxClientArgs_def)

lemma ethClientArgs_cong:
  assumes "cmp_addressConverter d = cmp_addressConverter c" "cmp_broadcaster d = cmp_broadcaster c"
  shows "ethClientArgs lib args key tm d = ethClientArgs lib args key tm c"
  using assms by (simp add: ethClientArgs_def)

lemma NewBroadcaster_fields:
  assumes "NewBroadcaster now toPublic args = Inr b"
  shows "br_env b = arg_br_env args" "br_clients b = []" "br_joinTopicName b = arg_br_Name args @ joinTopicSuffix"
    "br_signTopicName b = arg_br_Name args @ signTopicSuffix"
  using assms by (auto simp: NewBroadcaster_def split: option.splits sum.splits)

lemma providers_created:
  assumes "createMultiversXKeysAndAddresses lib cfg (c, w) = Some (None, s1)"
    "createDataGetter s1 = Some (None, s2)" "createMultiversXRoleProvider lib args s2 = Some (None, s3)"
    "handlers [] [CloseTimer] c" "cmp_proxy c = proxy" "cmp_messenger c = messenger"
  shows "\<exists>getter relayer. cmp_mxDataGetter (fst s3) = Some getter \<and> dg_proxy getter = proxy \<and>
    cmp_multiversXRelayerAddress (fst s3) = Some relayer \<and> cmp_messenger (fst s3) = messenger \<and>
    cmp_multiversXRoleProvider (fst s3) = Some (mx_provider getter) \<and>
    handlers [mx_role_handler args] [CloseTimer, ClosePollingHandler (mx_role_handler args)] (fst s3) \<and>
    rw_mxRelayers (snd s3) = []"
proof -
  obtain key relayer multisig where s1: "s1 = (c\<lparr>cmp_multiversXRelayerPrivateKey := Some key,
      cmp_multiversXRelayerAddress := Some relayer, cmp_multiversXMultisigContractAddress := Some multisig\<rparr>, w)"
    using assms(1) by (rule createMultiversXKeysAndAddresses_success)
  have s2: "s2 = ((fst s1)\<lparr>cmp_mxDataGetter := Some \<lparr> dg_multisigContractAddress = multisig, dg_relayerAddress = relayer,
      dg_proxy = proxy, dg_wasShardIDFetched = False, dg_shardID = 0 \<rparr>\<rparr>, w)"
    using createDataGetter_success [OF assms(2) [unfolded s1]] by (simp add: s1 assms(5))
  have "fst s3 = registered (mx_role_handler args) ((fst s2)\<lparr>cmp_multiversXRoleProvider :=
      Some (mx_provider (the (cmp_mxDataGetter (fst s2))))\<rparr>)" "rw_mxRelayers (snd s3) = []"
    using createMultiversXRoleProvider_success [OF assms(3) [unfolded s2]] by (simp_all add: s2)
  with assms(4,6) show ?thesis by (simp add: s1 s2 registered_def handlers_def)
qed

lemma clients_created:
  assumes "createMultiversXClient lib args s3 = Some (None, s4)" "createEthereumRoleProvider lib args s4 = Some (None, s5)"
    "createEthereumClient lib args s5 = Some (None, s6)"
    "cmp_mxDataGetter (fst s3) = Some getter" "fa_Proxy args = Some (dg_proxy getter)" "fa_ClientWrapper args = Some cw"
    "cmp_multiversXRoleProvider (fst s3) = Some (mx_provider getter)" "cmp_messenger (fst s3) = the (fa_Messenger args)"
    "handlers phs cls (fst s3)"
  shows "\<exists>mc ec b ph. clients_assembled lib args (fst s6) mc ec b \<and>
    (network_outside lib (cmp_messenger (fst s3)) \<and> rw_mxRelayers (snd s3) = [] \<longrightarrow> trusted (snd s6) = ([], [], NewSignatureHolder)) \<and>
    ph = eth_role_handler args (cmp_evmCompatibleChain (fst s6)) \<and>
    handlers (phs @ [ph]) (cls @ [CloseMultiversXClient, ClosePollingHandler ph]) (fst s6)"
proof -
  obtain mc where mc: "mx_NewClient (fl_sdk lib) (mxClientArgs lib args (multiversXToErc20_ConvertToken getter) (fst s3)) = Inr mc"
    "fst s4 = addClosableComponent (Some CloseMultiversXClient) ((fst s3)\<lparr>cmp_multiversXClient := Some mc\<rparr>)"
    "snd s4 = mxCells_put (mx_store mc) (snd s3)"
    using assms(1) createMultiversXClient_success [of lib args "fst s3" "snd s3" s4 getter] assms(4)
    by (metis fst_conv snd_conv prod.collapse)
  have s5: "fst s5 = registered (eth_role_handler args (cmp_evmCompatibleChain (fst s4)))
      ((fst s4)\<lparr>cmp_ethereumRoleProvider := Some (eth_provider cw)\<rparr>)" "snd s5 = (snd s4)\<lparr>rw_ethRelayers := []\<rparr>"
    using createEthereumRoleProvider_success [of lib args "fst s4" "snd s4" s5 cw] assms(2,6) by simp_all
  have c5: "cmp_mxDataGetter (fst s5) = Some getter"
    by (simp add: s5(1) mc(2) registered_def addClosableComponent_def assms)
  obtain gs antiflood b0 b key ec u where e:
    "NewBroadcaster (fl_nowNano lib) (fl_toPublic lib) (broadcasterArgs lib antiflood (fst s5)) = Inr b0"
    "b = b0\<lparr>br_clients := br_clients b0 @ [holder_client (fl_ordMessages lib)]\<rparr>"
    "NewEthereumClient (fl_ethLib lib key) (ethClientArgs lib args key (erc20ToMultiversX_ConvertToken getter)
       ((fst s5)\<lparr>cmp_broadcaster := Some b\<rparr>)) = Inr ec"
    "fst s6 = (fst s5)\<lparr>cmp_broadcaster := Some b, cmp_ethereumRelayerAddress := fl_KeyToAddress lib key,
       cmp_ethToMultiversXSignaturesHolder := Some (), cmp_ethClient := Some ec\<rparr>"
    "network_created lib (cmp_messenger (fst s5)) ((snd s5)\<lparr>rw_gas := gs\<rparr>) u"
    "snd s6 = ethCells_put (eth_store ec) ((br_put b0 u)\<lparr>rw_signatures := NewSignatureHolder\<rparr>)"
    using createEthereumClient_success [of lib args "fst s5" "snd s5" s6 getter] assms(3) c5 by (metis prod.collapse)
  have m: "mx_NewClient (fl_sdk lib) (mxClientArgs lib args (multiversXToErc20_ConvertToken getter) (fst s6)) = Inr mc"
    using mc(1) by (simp add: e(4) s5(1) mc(2) registered_def addClosableComponent_def mxClientArgs_def)
  have k: "NewEthereumClient (fl_ethLib lib key) (ethClientArgs lib args key (erc20ToMultiversX_ConvertToken getter) (fst s6)) = Inr ec"
    using e(3) by (simp add: e(4) ethClientArgs_def)
  have b: "br_env b = broadcasterEnv lib (the (fa_Messenger args)) antiflood (mx_provider getter) (eth_provider cw)"
    "br_clients b = [holder_client (fl_ordMessages lib)]" "br_joinTopicName b \<noteq> br_signTopicName b"
    using NewBroadcaster_fields [OF e(1)] by (simp_all add: e(2) broadcasterArgs_def s5(1) mc(2) registered_def
      addClosableComponent_def assms joinTopicSuffix_def signTopicSuffix_def)
  have f: "cmp_multiversXClient (fst s6) = Some mc" "cmp_mxDataGetter (fst s6) = Some getter"
    "cmp_multiversXRoleProvider (fst s6) = Some (mx_provider getter)" "cmp_ethereumRoleProvider (fst s6) = Some (eth_provider cw)"
    "cmp_ethClient (fst s6) = Some ec" "cmp_broadcaster (fst s6) = Some b" "cmp_ethToMultiversXSignaturesHolder (fst s6) = Some ()"
    by (simp_all add: e(4) s5(1) mc(2) registered_def addClosableComponent_def assms)
  have "clients_assembled lib args (fst s6) mc ec b"
    unfolding clients_assembled_def using f b m k assms(5,6) by blast
  moreover have "handlers (phs @ [eth_role_handler args (cmp_evmCompatibleChain (fst s6))])
      (cls @ [CloseMultiversXClient, ClosePollingHandler (eth_role_handler args (cmp_evmCompatibleChain (fst s6)))]) (fst s6)"
    using assms(9) by (simp add: e(4) s5(1) mc(2) registered_def addClosableComponent_def handlers_def)
  moreover have "trusted (snd s6) = ([], [], NewSignatureHolder)"
    if "network_outside lib (cmp_messenger (fst s3))" "rw_mxRelayers (snd s3) = []"
  proof -
    have "cmp_messenger (fst s5) = cmp_messenger (fst s3)"
      by (simp add: s5(1) mc(2) registered_def addClosableComponent_def)
    with that(1) e(5) have "outside_only ((snd s5)\<lparr>rw_gas := gs\<rparr>) u"
      by (simp add: network_outside_def)
    from trusted_outside [OF this] that(2) show ?thesis
      by (simp add: e(6) s5(2) mc(3) trusted_def mxCells_put_def ethCells_put_def br_put_def)
  qed
  ultimately show ?thesis by blast
qed

text \<open>The methods that follow leave the clients as they are.\<close>

lemma clients_assembled_cong:
  assumes "cmp_multiversXClient d = cmp_multiversXClient c" "cmp_ethClient d = cmp_ethClient c"
    "cmp_broadcaster d = cmp_broadcaster c" "cmp_ethToMultiversXSignaturesHolder d = cmp_ethToMultiversXSignaturesHolder c"
    "cmp_mxDataGetter d = cmp_mxDataGetter c" "cmp_multiversXRoleProvider d = cmp_multiversXRoleProvider c"
    "cmp_ethereumRoleProvider d = cmp_ethereumRoleProvider c" "cmp_addressConverter d = cmp_addressConverter c"
    "cmp_multiversXRelayerPrivateKey d = cmp_multiversXRelayerPrivateKey c"
    "cmp_multiversXMultisigContractAddress d = cmp_multiversXMultisigContractAddress c"
  shows "clients_assembled lib args d = clients_assembled lib args c"
  unfolding clients_assembled_def fun_eq_iff using assms
  by (simp add: mxClientArgs_cong [OF assms(9,10,6)] ethClientArgs_cong [OF assms(8,3)])

lemma machine_registered:
  assumes "handlers phs cls c"
  shows "\<exists>ph. ph_Executor ph = polled \<and>
    handlers (phs @ [ph]) (cls @ [ClosePollingHandler ph]) (registered (machine_handler name interval polled) c)"
  using handlers_registered [OF assms] by (intro exI [of _ "machine_handler name interval polled"]) (simp add: machine_handler_def)

lemma eth_half_created:
  assumes "createEthereumToMultiversXBridge lib args s6 = Some (None, s7)" "createEthStateMachine lib s7 = Some (None, s8)"
    "clients_assembled lib args (fst s6) mc ec b" "handlers phs cls (fst s6)"
  shows "\<exists>a ph. eth_half_assembled lib args (fst s8) a \<and> clients_assembled lib args (fst s8) mc ec b \<and>
    ph_Executor ph = PollEthToMultiversX \<and> cmp_evmCompatibleChain (fst s8) = cmp_evmCompatibleChain (fst s6) \<and>
    handlers (phs @ [ph]) (cls @ [ClosePollingHandler ph]) (fst s8) \<and>
    trusted (snd s8) = trusted (snd s6)"
proof -
  have run: "createEthereumToMultiversXBridge lib args (fst s6, snd s6) = Some (None, s7)"
    using assms(1) by simp
  obtain cfg relayer topology sh holder validator a where e0: "cmp_multiversXRelayerAddress (fst s6) = Some relayer"
    "NewTopologyHandler (topologyArgs lib cfg relayer (fst s6)) = Inr topology" and e:
    "createBatchValidator lib (cmp_evmCompatibleChain (fst s6)) MultiversX
       (cfg_BatchValidator (cfg_GeneralConfig (fa_Configs args))) = Inr validator"
    "a = executorArgs lib args (fst s6) topology (status_interface rw_ethMetrics ethMetrics_put sh) (Some (\<lambda>w. w)) validator"
    "NewBridgeExecutor a = Inr (createBridgeExecutor a)"
    "fst s7 = (fst s6)\<lparr>cmp_ethToMultiversXStepDuration := duration (uint (smc_StepDurationInMillis cfg)) millisecond,
       cmp_ethToMultiversXStatusHandler := Some sh, cmp_metricsHolder := holder,
       cmp_ethToMultiversXExecutor := Some (createBridgeExecutor a),
       cmp_ethToMultiversXMachineStates := Some (eth_machineStates (fl_marshalBatch lib))\<rparr>"
    "snd s7 = ethMetrics_put (sth_metrics sh) (snd s6)" "sth_storer sh = cmp_statusStorer (fst s6)"
    by (rule createEthereumToMultiversXBridge_success [OF run])
  have run7: "createEthStateMachine lib (fst s7, snd s7) = Some (None, s8)"
    using assms(2) by simp
  have f7: "cmp_ethToMultiversXMachineStates (fst s7) = Some (eth_machineStates (fl_marshalBatch lib))"
    "cmp_ethToMultiversXStatusHandler (fst s7) = Some sh"
    by (simp_all add: e(4))
  obtain machine where m: "createEthereumToMultiversXStateMachine (fl_ordSteps lib)
      (EvmCompatibleChainToMultiversXName (cmp_evmCompatibleChain (fst s7))) (eth_machineStates (fl_marshalBatch lib))
      (on_world (status_interface rw_ethMetrics ethMetrics_put sh)) = Inr machine"
    and s8: "s8 = (registered (machine_handler (EvmCompatibleChainToMultiversXName (cmp_evmCompatibleChain (fst s7)))
      (cmp_ethToMultiversXStepDuration (fst s7)) PollEthToMultiversX)
      ((fst s7)\<lparr>cmp_ethToMultiversXStateMachine := Some machine\<rparr>), snd s7)"
    by (rule createEthStateMachine_success [OF run7 f7])
  have x: "executorArgs lib args (fst s8) = executorArgs lib args (fst s6)"
    by (rule executorArgs_clients) (simp_all add: s8 e(4) registered_def)
  have "eth_half_assembled lib args (fst s8) a"
    unfolding eth_half_assembled_def x using e(1-3)
    by (intro exI [of _ topology] exI [of _ sh] exI [of _ validator]) (use m in \<open>simp add: s8 e(4,6) registered_def\<close>)
  moreover have "clients_assembled lib args (fst s8) mc ec b"
    using assms(3) by (subst clients_assembled_cong [where c = "fst s6"]) (simp_all add: s8 e(4) registered_def)
  moreover have "\<exists>ph. ph_Executor ph = PollEthToMultiversX \<and> handlers (phs @ [ph]) (cls @ [ClosePollingHandler ph]) (fst s8)"
    using machine_registered [of phs cls "(fst s7)\<lparr>cmp_ethToMultiversXStateMachine := Some machine\<rparr>"] assms(4)
    by (simp add: s8 e(4) handlers_def)
  ultimately show ?thesis by (simp add: s8 e(4,5) registered_def) blast
qed

lemma mx_half_created:
  assumes "createMultiversXToEthereumBridge lib args s8 = Some (None, s9)" "createMxStateMachine lib s9 = Some (None, s10)"
    "clients_assembled lib args (fst s8) mc ec b" "handlers phs cls (fst s8)"
  shows "\<exists>a ph. mx_half_assembled lib args (fst s10) a \<and> clients_assembled lib args (fst s10) mc ec b \<and>
    (\<forall>ae. eth_half_assembled lib args (fst s8) ae \<longrightarrow> eth_half_assembled lib args (fst s10) ae) \<and>
    ph_Executor ph = PollMultiversXToEth \<and> cmp_evmCompatibleChain (fst s10) = cmp_evmCompatibleChain (fst s8) \<and>
    handlers (phs @ [ph]) (cls @ [ClosePollingHandler ph]) (fst s10) \<and>
    trusted (snd s10) = trusted (snd s8)"
proof -
  have run: "createMultiversXToEthereumBridge lib args (fst s8, snd s8) = Some (None, s9)"
    using assms(1) by simp
  have holder: "cmp_ethToMultiversXSignaturesHolder (fst s8) = Some ()"
    using assms(3) by (simp add: clients_assembled_def)
  obtain cfg relayer topology sh holder validator a where e0: "cmp_multiversXRelayerAddress (fst s8) = Some relayer"
    "NewTopologyHandler (topologyArgs lib cfg relayer (fst s8)) = Inr topology" and e:
    "createBatchValidator lib MultiversX (cmp_evmCompatibleChain (fst s8))
       (cfg_BatchValidator (cfg_GeneralConfig (fa_Configs args))) = Inr validator"
    "a = executorArgs lib args (fst s8) topology (status_interface rw_mxMetrics mxMetrics_put sh) (Some clear_signatures) validator"
    "NewBridgeExecutor a = Inr (createBridgeExecutor a)"
    "fst s9 = (fst s8)\<lparr>cmp_multiversXToEthStepDuration := duration (uint (smc_StepDurationInMillis cfg)) millisecond,
       cmp_multiversXToEthStatusHandler := Some sh, cmp_metricsHolder := holder,
       cmp_multiversXToEthExecutor := Some (createBridgeExecutor a),
       cmp_multiversXToEthMachineStates := Some (mx_machineStates (fl_marshalBatch lib))\<rparr>"
    "snd s9 = mxMetrics_put (sth_metrics sh) (snd s8)" "sth_storer sh = cmp_statusStorer (fst s8)"
    by (rule createMultiversXToEthereumBridge_success [OF run holder])
  have run9: "createMxStateMachine lib (fst s9, snd s9) = Some (None, s10)"
    using assms(2) by simp
  have f9: "cmp_multiversXToEthMachineStates (fst s9) = Some (mx_machineStates (fl_marshalBatch lib))"
    "cmp_multiversXToEthStatusHandler (fst s9) = Some sh"
    by (simp_all add: e(4))
  obtain machine where m: "createMultiversXToEthereumStateMachine (fl_ordSteps lib)
      (MultiversXToEvmCompatibleChainName (cmp_evmCompatibleChain (fst s9))) (mx_machineStates (fl_marshalBatch lib))
      (on_world (status_interface rw_mxMetrics mxMetrics_put sh)) = Inr machine"
    and s10: "s10 = (registered (machine_handler (MultiversXToEvmCompatibleChainName (cmp_evmCompatibleChain (fst s9)))
      (cmp_multiversXToEthStepDuration (fst s9)) PollMultiversXToEth)
      ((fst s9)\<lparr>cmp_multiversXToEthStateMachine := Some machine\<rparr>), snd s9)"
    by (rule createMxStateMachine_success [OF run9 f9])
  have x: "executorArgs lib args (fst s10) = executorArgs lib args (fst s8)"
    by (rule executorArgs_clients) (simp_all add: s10 e(4) registered_def)
  have "mx_half_assembled lib args (fst s10) a"
    unfolding mx_half_assembled_def x using e(1-3)
    by (intro exI [of _ topology] exI [of _ sh] exI [of _ validator]) (use m in \<open>simp add: s10 e(4,6) registered_def\<close>)
  moreover have "clients_assembled lib args (fst s10) mc ec b"
    using assms(3) by (subst clients_assembled_cong [where c = "fst s8"]) (simp_all add: s10 e(4) registered_def)
  moreover have "\<exists>ph. ph_Executor ph = PollMultiversXToEth \<and> handlers (phs @ [ph]) (cls @ [ClosePollingHandler ph]) (fst s10)"
    using machine_registered [of phs cls "(fst s9)\<lparr>cmp_multiversXToEthStateMachine := Some machine\<rparr>"] assms(4)
    by (simp add: s10 e(4) handlers_def)
  moreover have "\<forall>ae. eth_half_assembled lib args (fst s8) ae \<longrightarrow> eth_half_assembled lib args (fst s10) ae"
    unfolding eth_half_assembled_def x by (simp add: s10 e(4) registered_def)
  ultimately show ?thesis by (simp add: s10 e(4,5) registered_def) blast
qed

lemma construction:
  assumes "NewEthMultiversXBridgeComponents lib args w = Some (Inr c, w')"
  obtains mc ec b ae am ph1 ph2 ph3 ph4 where "clients_assembled lib args c mc ec b" "eth_half_assembled lib args c ae"
    "mx_half_assembled lib args c am" "map ph_Executor [ph1, ph2, ph3, ph4] =
       [PollMultiversXRoleProvider, PollEthereumRoleProvider, PollEthToMultiversX, PollMultiversXToEth]"
    "handlers [ph1, ph2, ph3, ph4] [CloseTimer, ClosePollingHandler ph1, CloseMultiversXClient, ClosePollingHandler ph2,
       ClosePollingHandler ph3, ClosePollingHandler ph4] c"
    "network_outside lib (the (fa_Messenger args)) \<Longrightarrow> trusted w' = ([], [], NewSignatureHolder)"
proof -
  from assms obtain conv where
    chk: "checkArgsEthereumToMultiversXBridge lib args = None" and
    run: "createComponents lib args (addClosableComponent (Some CloseTimer)
      ((initialComponents lib args)\<lparr>cmp_addressConverter := Some conv\<rparr>), w) = Some (None, (c, w'))"
    by (auto simp: NewEthMultiversXBridgeComponents_def bind_Some_conv split: option.split_asm sum.split_asm prod.split_asm)
  from chk obtain proxy cw where args: "fa_Proxy args = Some proxy" "fa_ClientWrapper args = Some cw"
    by (auto simp: checkArgsEthereumToMultiversXBridge_def split: if_splits)
  let ?c0 = "addClosableComponent (Some CloseTimer) ((initialComponents lib args)\<lparr>cmp_addressConverter := Some conv\<rparr>)"
  obtain s1 s2 s3 s4 s5 s6 s7 s8 s9 where st:
    "createMultiversXKeysAndAddresses lib (cfg_MultiversX (cfg_GeneralConfig (fa_Configs args))) (?c0, w) = Some (None, s1)"
    "createDataGetter s1 = Some (None, s2)" "createMultiversXRoleProvider lib args s2 = Some (None, s3)"
    "createMultiversXClient lib args s3 = Some (None, s4)" "createEthereumRoleProvider lib args s4 = Some (None, s5)"
    "createEthereumClient lib args s5 = Some (None, s6)" "createEthereumToMultiversXBridge lib args s6 = Some (None, s7)"
    "createEthStateMachine lib s7 = Some (None, s8)" "createMultiversXToEthereumBridge lib args s8 = Some (None, s9)"
    "createMxStateMachine lib s9 = Some (None, (c, w'))"
    using run unfolding createComponents_def andThen_success by (elim exE conjE) (rule that)
  have c0: "handlers [] [CloseTimer] ?c0" "cmp_proxy ?c0 = proxy" "cmp_messenger ?c0 = the (fa_Messenger args)"
    by (simp_all add: handlers_def addClosableComponent_def initialComponents_def args)
  obtain getter where p: "cmp_mxDataGetter (fst s3) = Some getter" "dg_proxy getter = proxy"
    "cmp_messenger (fst s3) = the (fa_Messenger args)" "cmp_multiversXRoleProvider (fst s3) = Some (mx_provider getter)"
    "handlers [mx_role_handler args] [CloseTimer, ClosePollingHandler (mx_role_handler args)] (fst s3)" "rw_mxRelayers (snd s3) = []"
    using providers_created [OF st(1-3) c0] by auto
  obtain mc ec b ph2 where q: "clients_assembled lib args (fst s6) mc ec b"
    "network_outside lib (the (fa_Messenger args)) \<longrightarrow> trusted (snd s6) = ([], [], NewSignatureHolder)"
    "ph2 = eth_role_handler args (cmp_evmCompatibleChain (fst s6))"
    "handlers [mx_role_handler args, ph2] [CloseTimer, ClosePollingHandler (mx_role_handler args), CloseMultiversXClient,
       ClosePollingHandler ph2] (fst s6)"
    using clients_created [OF st(4-6) p(1) _ args(2) p(4,3,5)] args(1) p(2,3,6) by auto
  obtain ae ph3 where r: "eth_half_assembled lib args (fst s8) ae" "clients_assembled lib args (fst s8) mc ec b"
    "ph_Executor ph3 = PollEthToMultiversX" "trusted (snd s8) = trusted (snd s6)"
    "handlers [mx_role_handler args, ph2, ph3] [CloseTimer, ClosePollingHandler (mx_role_handler args), CloseMultiversXClient,
       ClosePollingHandler ph2, ClosePollingHandler ph3] (fst s8)"
    using eth_half_created [OF st(7,8) q(1,4)] by auto
  obtain am ph4 where "mx_half_assembled lib args c am" "clients_assembled lib args c mc ec b"
    "eth_half_assembled lib args c ae" "ph_Executor ph4 = PollMultiversXToEth" "trusted w' = trusted (snd s8)"
    "handlers [mx_role_handler args, ph2, ph3, ph4] [CloseTimer, ClosePollingHandler (mx_role_handler args), CloseMultiversXClient,
       ClosePollingHandler ph2, ClosePollingHandler ph3, ClosePollingHandler ph4] c"
    using mx_half_created [OF st(9,10) r(2,5)] r(1) by auto
  with q(2,3) r(3,4) show thesis
    by (intro that [of mc ec b ae am "mx_role_handler args" ph2 ph3 ph4])
       (simp_all add: mx_role_handler_def eth_role_handler_def)
qed

end
