(* ===== verification/Rest_Api.thy ===== *)
theory Rest_Api
  imports Status_Metrics Bridge_Components Timer_Loop
begin

text \<open>
  The REST server that reports the metrics: the groups of endpoints, \<^verbatim>\<open>api/groups\<close>, the server,
  \<^verbatim>\<open>api/gin\<close>, and its start, \<^verbatim>\<open>factory/webServer.go\<close>. The gin library is outside: an engine is the list
  of the calls that configured it, oldest first, and the path of a router group is a parameter. The
  two goroutines of the server, the listener and the reset of the source limiter, are functions of
  their own; the server records that it started them.
\<close>

section \<open>Errors and constants\<close>

definition api_ErrNilFacade :: go_error where
  "api_ErrNilFacade = Sentinel ''api/errors'' ''nil facade''"

definition api_ErrNilAntiFloodConfig :: go_error where
  "api_ErrNilAntiFloodConfig = Sentinel ''api/errors'' ''nil antiflood config''"

definition api_ErrNilApiConfig :: go_error where
  "api_ErrNilApiConfig = Sentinel ''api/errors'' ''nil api config''"

definition ErrGettingMetrics :: go_error where
  "ErrGettingMetrics = Sentinel ''groups'' ''error getting metrics''"

definition clientQueryParam :: string where
  "clientQueryParam = ''name''"

definition statusPath :: string where
  "statusPath = ''/status''"

definition statusListPath :: string where
  "statusListPath = ''/status/list''"

section \<open>Requests, responses and the engine\<close>

text \<open>The query parameters of a request, and a JSON answer with its HTTP status.\<close>

type_synonym url_values = "(string, string list) gomap"

record GenericAPIResponse =
  resp_Status :: int
  resp_Data :: "GeneralMetrics option"
  resp_Error :: string
  resp_Code :: string

definition StatusOK :: int where
  "StatusOK = 200"

definition StatusInternalServerError :: int where
  "StatusInternalServerError = 500"

definition MethodGet :: string where
  "MethodGet = ''GET''"

datatype node_handler = StatusMetrics | StatusListMetrics

record EndpointHandlerData =
  ep_Path :: string
  ep_Method :: string
  ep_Handler :: node_handler

text \<open>The middleware: the response logger with its threshold, and the two throttlers with their limits.\<close>

datatype processor = ResponseLogger int | SourceThrottler u32 | GlobalThrottler u32

datatype gin_call =
    UseCors
  | UseProcessor processor
  | HandleRoute string string string node_handler
  | GetLog
  | RegisterPprof

type_synonym engine = "gin_call list"

record http_Server =
  srv_Addr :: string
  srv_Handler :: engine

text \<open>
  The libraries: two errors and two return codes of the chain's API, the check of a configuration
  struct, the set-up of gin's global writers and mode, the path of a group, the throttlers, and the
  HTTP server.
\<close>

record 'w rest_lib =
  rl_ErrNilFacadeHandler :: go_error
  rl_ErrNilHttpServer :: go_error
  rl_ReturnCodeSuccess :: string
  rl_ReturnCodeInternalError :: string
  rl_nilAntiFloodConfig :: "AntifloodConfig \<Rightarrow> bool"
  rl_nilApiConfig :: "ApiRoutesConfig \<Rightarrow> bool"
  rl_setupGin :: "'w \<Rightarrow> 'w"
  rl_BasePath :: "string \<Rightarrow> string"
  rl_NewSourceThrottler :: "u32 \<Rightarrow> go_error option"
  rl_NewGlobalThrottler :: "u32 \<Rightarrow> go_error option"
  rl_Reset :: "'w \<Rightarrow> 'w"
  rl_cancelReset :: "'w \<Rightarrow> 'w"
  rl_ListenAndServe :: "http_Server \<Rightarrow> ('w, go_error option) prog"
  rl_Shutdown :: "http_Server \<Rightarrow> int \<Rightarrow> ('w, go_error option) prog"
  rl_Trace :: "string \<Rightarrow> log_value list \<Rightarrow> 'w \<Rightarrow> 'w"

section \<open>Groups of endpoints\<close>

fun stringsSplit :: "char \<Rightarrow> string \<Rightarrow> string list" where
  "stringsSplit sep [] = [[]]"
| "stringsSplit sep (c # cs) =
     (if c = sep then [] # stringsSplit sep cs
      else (c # hd (stringsSplit sep cs)) # tl (stringsSplit sep cs))"

record endpointProperties =
  isOpen :: bool

fun routeProperties :: "RouteConfig list \<Rightarrow> string \<Rightarrow> endpointProperties" where
  "routeProperties [] path = \<lparr> isOpen = False \<rparr>"
| "routeProperties (route # routes) path =
     (if rte_Name route = path then \<lparr> isOpen = rte_Open route \<rparr> else routeProperties routes path)"

definition getEndpointProperties :: "string \<Rightarrow> string \<Rightarrow> ApiRoutesConfig \<Rightarrow> endpointProperties" where
  "getEndpointProperties basePath path apiConfig =
     (let basePath = last (stringsSplit (CHR ''/'') basePath) in
      case gm_get (arc_APIPackages apiConfig) basePath of
        None \<Rightarrow> \<lparr> isOpen = False \<rparr>
      | Some package \<Rightarrow> routeProperties (apc_Routes package) path)"

text \<open>The group knows its path through the library; gin gets the path it was made with.\<close>

fun RegisterRoutes :: "'w rest_lib \<Rightarrow> string \<Rightarrow> ApiRoutesConfig \<Rightarrow> EndpointHandlerData list \<Rightarrow> engine \<Rightarrow> engine" where
  "RegisterRoutes lib groupPath apiConfig [] engine = engine"
| "RegisterRoutes lib groupPath apiConfig (handlerData # endpoints) engine =
     (let properties = getEndpointProperties (rl_BasePath lib groupPath) (ep_Path handlerData) apiConfig in
      RegisterRoutes lib groupPath apiConfig endpoints
        (if \<not> isOpen properties then engine
         else engine @ [HandleRoute groupPath (ep_Method handlerData) (ep_Path handlerData) (ep_Handler handlerData)]))"

record 'w nodeGroup =
  ng_endpoints :: "EndpointHandlerData list"
  ng_facade :: "'w relayerFacade"

definition GetEndpoints :: "'w nodeGroup \<Rightarrow> EndpointHandlerData list" where
  "GetEndpoints ng = ng_endpoints ng"

definition NewNodeGroup :: "'w rest_lib \<Rightarrow> 'w relayerFacade option \<Rightarrow> go_error + 'w nodeGroup" where
  "NewNodeGroup lib facade =
     (case facade of
        None \<Rightarrow> Inl (Wrapped (rl_ErrNilFacadeHandler lib) '' for node group'')
      | Some f \<Rightarrow> Inr \<lparr>
          ng_endpoints =
            [\<lparr> ep_Path = statusPath, ep_Method = MethodGet, ep_Handler = StatusMetrics \<rparr>,
             \<lparr> ep_Path = statusListPath, ep_Method = MethodGet, ep_Handler = StatusListMetrics \<rparr>],
          ng_facade = f \<rparr>)"

type_synonym 'w holder_order = "(string \<times> ('w \<Rightarrow> GeneralMetrics)) list \<Rightarrow> (string \<times> ('w \<Rightarrow> GeneralMetrics)) list"

definition statusListMetrics :: "'w rest_lib \<Rightarrow> 'w holder_order \<Rightarrow> 'w nodeGroup \<Rightarrow> GenericAPIResponse" where
  "statusListMetrics lib ord ng =
     \<lparr> resp_Status = StatusOK, resp_Data = Some (GetMetricsList ord (ng_facade ng)), resp_Error = '''',
       resp_Code = rl_ReturnCodeSuccess lib \<rparr>"

definition statusMetrics :: "'w rest_lib \<Rightarrow> 'w nodeGroup \<Rightarrow> url_values \<Rightarrow> 'w \<Rightarrow> GenericAPIResponse" where
  "statusMetrics lib ng queryVals w =
     (let params = (case gm_get queryVals clientQueryParam of None \<Rightarrow> [] | Some ps \<Rightarrow> ps);
          name = (if length params > 0 then params ! 0 else '''') in
      case GetMetrics name (ng_facade ng) w of
        Inl err \<Rightarrow> \<lparr> resp_Status = StatusInternalServerError, resp_Data = None,
          resp_Error = Error ErrGettingMetrics @ '': '' @ Error err, resp_Code = rl_ReturnCodeInternalError lib \<rparr>
      | Inr info \<Rightarrow> \<lparr> resp_Status = StatusOK, resp_Data = Some info, resp_Error = '''',
          resp_Code = rl_ReturnCodeSuccess lib \<rparr>)"

fun callHandler :: "'w rest_lib \<Rightarrow> 'w holder_order \<Rightarrow> 'w nodeGroup \<Rightarrow> node_handler \<Rightarrow> url_values \<Rightarrow> 'w
    \<Rightarrow> GenericAPIResponse" where
  "callHandler lib ord ng StatusMetrics queryVals w = statusMetrics lib ng queryVals w"
| "callHandler lib ord ng StatusListMetrics queryVals w = statusListMetrics lib ord ng"

definition ng_UpdateFacade :: "'w rest_lib \<Rightarrow> 'w relayerFacade option \<Rightarrow> 'w nodeGroup
    \<Rightarrow> go_error option \<times> 'w nodeGroup" where
  "ng_UpdateFacade lib newFacade ng =
     (case newFacade of
        None \<Rightarrow> (Some (rl_ErrNilFacadeHandler lib), ng)
      | Some f \<Rightarrow> (None, ng\<lparr>ng_facade := f\<rparr>))"

section \<open>The HTTP server\<close>

definition NewHttpServer :: "'w rest_lib \<Rightarrow> http_Server option \<Rightarrow> go_error + http_Server" where
  "NewHttpServer lib server =
     (case server of None \<Rightarrow> Inl (rl_ErrNilHttpServer lib) | Some s \<Rightarrow> Inr s)"

text \<open>The error of the listener is only logged.\<close>

definition http_Start :: "'w rest_lib \<Rightarrow> http_Server \<Rightarrow> ('w, unit) prog" where
  "http_Start lib h w = do { (err, w) \<leftarrow> rl_ListenAndServe lib h w; Some ((), w) }"

definition http_Close :: "'w rest_lib \<Rightarrow> http_Server \<Rightarrow> ('w, go_error option) prog" where
  "http_Close lib h = rl_Shutdown lib h second"

section \<open>The web server\<close>

record 'w ArgsNewWebServer =
  aw_Facade :: "'w relayerFacade option"
  aw_ApiConfig :: ApiRoutesConfig
  aw_AntiFloodConfig :: AntifloodConfig

record 'w webServer =
  ws_facade :: "'w relayerFacade"
  ws_apiConfig :: ApiRoutesConfig
  ws_antiFloodConfig :: AntifloodConfig
  ws_httpServer :: "http_Server option"
  ws_groups :: "(string, 'w nodeGroup) gomap"
  ws_cancelFunc :: bool
  ws_resetLoop :: bool
  ws_serving :: bool

definition ws_checkArgs :: "'w rest_lib \<Rightarrow> 'w ArgsNewWebServer \<Rightarrow> go_error option" where
  "ws_checkArgs lib args =
     (if aw_Facade args = None then Some api_ErrNilFacade
      else if rl_nilAntiFloodConfig lib (aw_AntiFloodConfig args) then Some api_ErrNilAntiFloodConfig
      else if rl_nilApiConfig lib (aw_ApiConfig args) then Some api_ErrNilApiConfig
      else None)"

definition NewWebServerHandler :: "'w rest_lib \<Rightarrow> 'w ArgsNewWebServer \<Rightarrow> go_error + 'w webServer" where
  "NewWebServerHandler lib args =
     (case ws_checkArgs lib args of
        Some err \<Rightarrow> Inl err
      | None \<Rightarrow> Inr \<lparr> ws_facade = the (aw_Facade args), ws_apiConfig = aw_ApiConfig args,
          ws_antiFloodConfig = aw_AntiFloodConfig args, ws_httpServer = None, ws_groups = [],
          ws_cancelFunc = False, ws_resetLoop = False, ws_serving = False \<rparr>)"

definition createGroups :: "'w rest_lib \<Rightarrow> 'w webServer \<Rightarrow> go_error option \<times> 'w webServer" where
  "createGroups lib ws =
     (case NewNodeGroup lib (Some (ws_facade ws)) of
        Inl err \<Rightarrow> (Some err, ws)
      | Inr nodeGroup \<Rightarrow> (None, ws\<lparr>ws_groups := gm_set ''node'' nodeGroup []\<rparr>))"

text \<open>The reset goroutine is started before the global throttler is created.\<close>

definition createAntifloodLimiters :: "'w rest_lib \<Rightarrow> 'w webServer \<Rightarrow> (go_error + processor list) \<times> 'w webServer" where
  "createAntifloodLimiters lib ws =
     (if \<not> afc_Enabled (ws_antiFloodConfig ws) then (Inr [], ws)
      else
        (let wsAntifloodCfg = afc_WebServer (ws_antiFloodConfig ws) in
         case rl_NewSourceThrottler lib (wac_SameSourceRequests wsAntifloodCfg) of
           Some err \<Rightarrow> (Inl err, ws)
         | None \<Rightarrow>
             (let ws = ws\<lparr>ws_cancelFunc := True, ws_resetLoop := True\<rparr> in
              case rl_NewGlobalThrottler lib (wac_SimultaneousRequests wsAntifloodCfg) of
                Some err \<Rightarrow> (Inl err, ws)
              | None \<Rightarrow> (Inr [SourceThrottler (wac_SameSourceRequests wsAntifloodCfg),
                  GlobalThrottler (wac_SimultaneousRequests wsAntifloodCfg)], ws))))"

definition microsecond :: int where
  "microsecond = 1000"

definition createMiddlewareLimiters :: "'w rest_lib \<Rightarrow> 'w webServer \<Rightarrow> (go_error + processor list) \<times> 'w webServer" where
  "createMiddlewareLimiters lib ws =
     (let middlewares = (if alc_LoggingEnabled (arc_Logging (ws_apiConfig ws))
            then [ResponseLogger (duration (alc_ThresholdInMicroSeconds (arc_Logging (ws_apiConfig ws))) microsecond)]
            else []) in
      case createAntifloodLimiters lib ws of
        (Inl err, ws) \<Rightarrow> (Inl err, ws)
      | (Inr antiFloodLimiters, ws) \<Rightarrow> (Inr (middlewares @ antiFloodLimiters), ws))"

text \<open>The loop over the groups follows the order \<open>ord\<close> of the map.\<close>

type_synonym 'w groups_order = "(string \<times> 'w nodeGroup) list \<Rightarrow> (string \<times> 'w nodeGroup) list"

definition registerLoggerWsRoute :: "engine \<Rightarrow> engine" where
  "registerLoggerWsRoute engine = engine @ [GetLog]"

definition registerRoutes :: "'w rest_lib \<Rightarrow> 'w groups_order \<Rightarrow> 'w webServer \<Rightarrow> engine \<Rightarrow> engine" where
  "registerRoutes lib ord ws engine =
     (let engine = fold (\<lambda>(groupName, groupHandler).
            RegisterRoutes lib (''/'' @ groupName) (ws_apiConfig ws) (ng_endpoints groupHandler)) (ord (ws_groups ws)) engine;
          engine = registerLoggerWsRoute engine in
      if rf_pprofEnabled (ws_facade ws) then engine @ [RegisterPprof] else engine)"

definition StartHttpServer :: "'w rest_lib \<Rightarrow> 'w groups_order \<Rightarrow> ('w webServer \<times> 'w, go_error option) prog" where
  "StartHttpServer lib ord = (\<lambda>(ws, w).
     if rf_apiInterface (ws_facade ws) = WebServerOffString then Some (None, (ws, w))
     else
       (let w = rl_setupGin lib w; engine = [UseCors]; (err, ws) = createGroups lib ws in
        tryNil err (\<lambda>(ws, w).
          (let (r, ws) = createMiddlewareLimiters lib ws in
           tryOk r (\<lambda>processors (ws, w).
             (let engine = registerRoutes lib ord ws (engine @ map UseProcessor processors) in
              tryOk (NewHttpServer lib (Some \<lparr> srv_Addr = rf_apiInterface (ws_facade ws), srv_Handler = engine \<rparr>))
                (\<lambda>server (ws, w). Some (None, (ws\<lparr>ws_httpServer := Some server, ws_serving := True\<rparr>, w))) (ws, w)))
           (ws, w))) (ws, w)))"

definition ws_UpdateFacade :: "'w rest_lib \<Rightarrow> 'w groups_order \<Rightarrow> 'w relayerFacade option \<Rightarrow> 'w webServer
    \<Rightarrow> go_error option \<times> 'w webServer" where
  "ws_UpdateFacade lib ord facade ws =
     (case facade of
        None \<Rightarrow> (Some api_ErrNilFacade, ws)
      | Some f \<Rightarrow> (None, ws\<lparr> ws_facade := f,
          ws_groups := fold (\<lambda>(groupName, groupHandler). gm_set groupName (snd (ng_UpdateFacade lib facade groupHandler)))
            (ord (ws_groups ws)) (ws_groups ws) \<rparr>))"

text \<open>
  The goroutine that resets the source limiter, statement by statement. Its context and the cancel
  function were made before it started.
\<close>

definition sourceLimiterReset :: "'w rest_lib \<Rightarrow> 'w webServer \<Rightarrow> 'w loop_exec" where
  "sourceLimiterReset lib ws chosen now = (\<lambda>(g, w).
     (let betweenResetDuration = duration (uint (wac_SameSourceResetIntervalInSec (afc_WebServer (ws_antiFloodConfig ws)))) second in
      case lp_at g of
        LoopEntered \<Rightarrow> Some (g\<lparr>lp_deadline := Some (now + betweenResetDuration), lp_at := LoopTimerMade\<rparr>, w)
      | LoopTimerMade \<Rightarrow> Some (g\<lparr>lp_at := LoopResets\<rparr>, w)
      | LoopResets \<Rightarrow> Some (g\<lparr>lp_deadline := Some (now + betweenResetDuration), lp_at := LoopSelects\<rparr>, w)
      | LoopSelects \<Rightarrow>
          (case chosen of
             TimerCase \<Rightarrow>
               if lp_fired g
               then Some (g\<lparr>lp_fired := False, lp_acted := now # lp_acted g, lp_at := LoopResets\<rparr>, rl_Reset lib w)
               else None
           | DoneCase \<Rightarrow>
               if lp_done g then Some (g\<lparr>lp_deadline := None, lp_at := LoopReturned\<rparr>, w) else None)
      | LoopReturned \<Rightarrow> None))"

definition ws_Close :: "'w rest_lib \<Rightarrow> 'w webServer \<Rightarrow> ('w, go_error option) prog" where
  "ws_Close lib ws w =
     (let w = (if ws_cancelFunc ws then rl_cancelReset lib w else w) in
      do {
        (err, w) \<leftarrow> (case ws_httpServer ws of None \<Rightarrow> Some (None, w) | Some h \<Rightarrow> http_Close lib h w);
        Some (map_option (\<lambda>e. Wrapped e '' while closing the http server in gin/webServer'') err, w)
      })"

definition StartWebServer :: "'w rest_lib \<Rightarrow> 'w groups_order \<Rightarrow> 'l Configs \<Rightarrow> 'w metricsHolder option
    \<Rightarrow> ('w, go_error + 'w webServer) prog" where
  "StartWebServer lib ord configs metricsHolder w =
     (case NewRelayerFacade metricsHolder (flg_RestApiInterface (cfg_FlagsConfig configs))
             (flg_EnablePprof (cfg_FlagsConfig configs)) of
        Inl err \<Rightarrow> Some (Inl err, w)
      | Inr relayerFacade \<Rightarrow>
     (case NewWebServerHandler lib \<lparr> aw_Facade = Some relayerFacade, aw_ApiConfig = cfg_ApiRoutesConfig configs,
             aw_AntiFloodConfig = cfg_Antiflood (cfg_GeneralConfig configs) \<rparr> of
        Inl err \<Rightarrow> Some (Inl err, w)
      | Inr httpServerWrapper \<Rightarrow> do {
          (err, (ws, w)) \<leftarrow> StartHttpServer lib ord (httpServerWrapper, w);
          Some (case err of Some e \<Rightarrow> Inl e | None \<Rightarrow> Inr ws, w)
        }))"

section \<open>The writers of gin's log\<close>

text \<open>
  \<^verbatim>\<open>bytes.TrimSpace\<close> removes white space as Unicode defines it from both ends; these are the UTF-8
  encodings of all white-space characters. None is a proper prefix or suffix of another one, and the
  last byte of each fits only its own encoding, so each end loses one whole character at a time.
\<close>

definition whiteSpace :: "bytes list" where
  "whiteSpace = map (\<lambda>b. [b]) [9, 10, 11, 12, 13, 32] @ [[0xC2, 0x85], [0xC2, 0xA0], [0xE1, 0x9A, 0x80]] @
     map (\<lambda>b. [0xE2, 0x80, b]) [0x80, 0x81, 0x82, 0x83, 0x84, 0x85, 0x86, 0x87, 0x88, 0x89, 0x8A, 0xA8, 0xA9, 0xAF] @
     [[0xE2, 0x81, 0x9F], [0xE3, 0x80, 0x80]]"

definition dropSpace :: "bytes list \<Rightarrow> bytes \<Rightarrow> bytes option" where
  "dropSpace spaces p = map_option (\<lambda>s. drop (length s) p) (find (\<lambda>s. take (length s) p = s) spaces)"

lemma dropSpace_shorter: "dropSpace spaces p = Some q \<Longrightarrow> [] \<notin> set spaces \<Longrightarrow> length q < length p"
proof -
  assume "dropSpace spaces p = Some q" "[] \<notin> set spaces"
  then obtain s where "s \<in> set spaces" "take (length s) p = s" "q = drop (length s) p" "s \<noteq> []"
    by (auto simp: dropSpace_def find_Some_iff) (metis nth_mem)
  then show ?thesis by (cases p) auto
qed

function trimLeft :: "bytes list \<Rightarrow> bytes \<Rightarrow> bytes" where
  "trimLeft spaces p =
     (if [] \<in> set spaces then p
      else case dropSpace spaces p of None \<Rightarrow> p | Some q \<Rightarrow> trimLeft spaces q)"
  by pat_completeness auto
termination
  by (relation "measure (\<lambda>(spaces, p). length p)") (auto dest: dropSpace_shorter)

declare trimLeft.simps [simp del]

definition TrimSpace :: "bytes \<Rightarrow> bytes" where
  "TrimSpace p = rev (trimLeft (map rev whiteSpace) (rev (trimLeft whiteSpace p)))"

definition ginWriter_Write :: "'w rest_lib \<Rightarrow> bytes \<Rightarrow> 'w \<Rightarrow> nat \<times> 'w" where
  "ginWriter_Write lib p w =
     (length p, rl_Trace lib ''gin server'' [LString ''message'', LString (string_of_bytes (TrimSpace p))] w)"

definition ginErrorWriter_Write :: "'w rest_lib \<Rightarrow> bytes \<Rightarrow> 'w \<Rightarrow> nat \<times> 'w" where
  "ginErrorWriter_Write lib p w =
     (length p, rl_Trace lib ''gin server'' [LString ''error'', LString (string_of_bytes (TrimSpace p))] w)"

section \<open>Lemmas\<close>

lemma stringsSplit_nonempty [simp]: "stringsSplit sep s \<noteq> []"
  by (induction s) auto

lemma stringsSplit_token: "sep \<notin> set s \<Longrightarrow> stringsSplit sep s = [s]"
  by (induction s) auto

lemma stringsSplit_append: "stringsSplit sep (p @ sep # s) = stringsSplit sep p @ stringsSplit sep s"
  by (induction p) auto

lemma last_stringsSplit: "sep \<notin> set s \<Longrightarrow> last (stringsSplit sep (p @ sep # s)) = s"
  by (simp add: stringsSplit_append stringsSplit_token)

text \<open>A route is open when the first entry of its name in the package of its group says so.\<close>

definition route_open :: "ApiRoutesConfig \<Rightarrow> string \<Rightarrow> string \<Rightarrow> bool" where
  "route_open apiConfig package path \<longleftrightarrow> (\<exists>pc. gm_get (arc_APIPackages apiConfig) package = Some pc \<and>
     map_of (map (\<lambda>r. (rte_Name r, rte_Open r)) (apc_Routes pc)) path = Some True)"

lemma routeProperties_open: "isOpen (routeProperties routes path) \<longleftrightarrow>
    map_of (map (\<lambda>r. (rte_Name r, rte_Open r)) routes) path = Some True"
  by (induction routes) auto

lemma getEndpointProperties_open:
  assumes "CHR ''/'' \<notin> set package"
  shows "isOpen (getEndpointProperties (p @ CHR ''/'' # package) path apiConfig) \<longleftrightarrow> route_open apiConfig package path"
  by (simp add: getEndpointProperties_def last_stringsSplit [OF assms] route_open_def routeProperties_open split: option.split)

definition node_routes :: "ApiRoutesConfig \<Rightarrow> engine" where
  "node_routes apiConfig = map (\<lambda>(path, h). HandleRoute ''/node'' MethodGet path h)
     (filter (\<lambda>(path, h). route_open apiConfig ''node'' path) [(statusPath, StatusMetrics), (statusListPath, StatusListMetrics)])"

lemma node_routes_registered:
  assumes "rl_BasePath lib ''/node'' = p @ ''/node''" "NewNodeGroup lib (Some f) = Inr ng"
  shows "RegisterRoutes lib ''/node'' apiConfig (ng_endpoints ng) engine = engine @ node_routes apiConfig"
proof -
  have "isOpen (getEndpointProperties (rl_BasePath lib ''/node'') path apiConfig) \<longleftrightarrow> route_open apiConfig ''node'' path" for path
    using getEndpointProperties_open [of "''node''" p path apiConfig] by (simp only: assms(1)) simp
  moreover have "ng_endpoints ng = [\<lparr> ep_Path = statusPath, ep_Method = MethodGet, ep_Handler = StatusMetrics \<rparr>,
      \<lparr> ep_Path = statusListPath, ep_Method = MethodGet, ep_Handler = StatusListMetrics \<rparr>]"
    using assms(2) by (auto simp: NewNodeGroup_def)
  ultimately show ?thesis by (simp add: node_routes_def)
qed

text \<open>The middleware that the configuration asks for.\<close>

definition configured_processors :: "ApiRoutesConfig \<Rightarrow> AntifloodConfig \<Rightarrow> processor list" where
  "configured_processors apiConfig antiflood =
     (if alc_LoggingEnabled (arc_Logging apiConfig)
      then [ResponseLogger (duration (alc_ThresholdInMicroSeconds (arc_Logging apiConfig)) microsecond)] else []) @
     (if afc_Enabled antiflood
      then [SourceThrottler (wac_SameSourceRequests (afc_WebServer antiflood)),
            GlobalThrottler (wac_SimultaneousRequests (afc_WebServer antiflood))] else [])"

lemma createMiddlewareLimiters_configured:
  assumes "createMiddlewareLimiters lib ws = (Inr processors, ws')"
  shows "processors = configured_processors (ws_apiConfig ws) (ws_antiFloodConfig ws) \<and>
    ws' = (if afc_Enabled (ws_antiFloodConfig ws) then ws\<lparr>ws_cancelFunc := True, ws_resetLoop := True\<rparr> else ws)"
  using assms
  by (auto simp: createMiddlewareLimiters_def createAntifloodLimiters_def configured_processors_def Let_def
    split: if_splits option.split_asm)

lemma range_order_single: "range_order ord \<Longrightarrow> ord [x] = [x]"
  by (auto simp: range_order_def dest!: spec [of _ "[x]"])

text \<open>What a started server is: its engine serves exactly the open routes, behind the configured middleware.\<close>

lemma StartWebServer_success:
  assumes "StartWebServer lib ord configs (Some holder) w = Some (Inr ws, w')"
    "range_order ord" "rl_BasePath lib ''/node'' = p @ ''/node''"
    "flg_RestApiInterface (cfg_FlagsConfig configs) \<noteq> WebServerOffString"
  obtains ng where "ws_groups ws = [(''node'', ng)]" "rf_metricsHolder (ng_facade ng) = holder" "ws_serving ws"
    "ws_httpServer ws = Some \<lparr> srv_Addr = flg_RestApiInterface (cfg_FlagsConfig configs),
       srv_Handler = UseCors # map UseProcessor (configured_processors (cfg_ApiRoutesConfig configs)
           (cfg_Antiflood (cfg_GeneralConfig configs))) @ node_routes (cfg_ApiRoutesConfig configs) @ [GetLog] @
         (if flg_EnablePprof (cfg_FlagsConfig configs) then [RegisterPprof] else []) \<rparr>"
    "ws_resetLoop ws = afc_Enabled (cfg_Antiflood (cfg_GeneralConfig configs))"
    "ws_cancelFunc ws = afc_Enabled (cfg_Antiflood (cfg_GeneralConfig configs))"
proof -
  let ?f = "\<lparr> rf_metricsHolder = holder, rf_apiInterface = flg_RestApiInterface (cfg_FlagsConfig configs),
    rf_pprofEnabled = flg_EnablePprof (cfg_FlagsConfig configs) \<rparr>"
  obtain ng where ng: "NewNodeGroup lib (Some ?f) = Inr ng" "ng_facade ng = ?f"
    by (simp add: NewNodeGroup_def)
  let ?ws = "\<lparr> ws_facade = ?f, ws_apiConfig = cfg_ApiRoutesConfig configs,
    ws_antiFloodConfig = cfg_Antiflood (cfg_GeneralConfig configs), ws_httpServer = None, ws_groups = [(''node'', ng)],
    ws_cancelFunc = False, ws_resetLoop = False, ws_serving = False \<rparr>"
  from assms(1,4) ng obtain processors ws1 where m: "createMiddlewareLimiters lib ?ws = (Inr processors, ws1)" and
    ws: "ws = ws1\<lparr>ws_httpServer := Some \<lparr> srv_Addr = rf_apiInterface (ws_facade ws1),
      srv_Handler = registerRoutes lib ord ws1 (UseCors # map UseProcessor processors) \<rparr>, ws_serving := True\<rparr>"
    by (auto simp: StartWebServer_def NewRelayerFacade_def NewWebServerHandler_def ws_checkArgs_def StartHttpServer_def
      createGroups_def tryNil_def tryOk_def NewHttpServer_def Let_def bind_Some_conv
      split: if_splits option.split_asm sum.split_asm prod.split_asm)
  from createMiddlewareLimiters_configured [OF m] have ws1: "processors = configured_processors (cfg_ApiRoutesConfig configs)
      (cfg_Antiflood (cfg_GeneralConfig configs))"
    "ws1 = (if afc_Enabled (cfg_Antiflood (cfg_GeneralConfig configs)) then ?ws\<lparr>ws_cancelFunc := True, ws_resetLoop := True\<rparr> else ?ws)"
    by simp_all
  have reg: "registerRoutes lib ord ws1 e = e @ node_routes (cfg_ApiRoutesConfig configs) @ [GetLog] @
      (if flg_EnablePprof (cfg_FlagsConfig configs) then [RegisterPprof] else [])" for e
    using node_routes_registered [OF assms(3) ng(1)]
    by (simp add: registerRoutes_def registerLoggerWsRoute_def ws1(2) range_order_single [OF assms(2)])
  have "ws_facade ws1 = ?f" "ws_groups ws1 = [(''node'', ng)]"
    "ws_resetLoop ws1 = afc_Enabled (cfg_Antiflood (cfg_GeneralConfig configs))"
    "ws_cancelFunc ws1 = afc_Enabled (cfg_Antiflood (cfg_GeneralConfig configs))"
    by (simp_all add: ws1(2))
  then show thesis
    by (intro that [of ng]) (simp_all add: ws reg ws1(1) ng(2))
qed

text \<open>An answer of \<^verbatim>\<open>/node/status\<close> is the metrics of the named handler at that moment, or an error.\<close>

lemma statusMetrics_answer:
  "statusMetrics lib ng queryVals w =
     (let name = (case gm_get queryVals clientQueryParam of Some (n # ns) \<Rightarrow> n | _ \<Rightarrow> '''') in
      case gm_get (rf_metricsHolder (ng_facade ng)) name of
        None \<Rightarrow> \<lparr> resp_Status = 500, resp_Data = None, resp_Error = ''error getting metrics: missing status handler'',
          resp_Code = rl_ReturnCodeInternalError lib \<rparr>
      | Some metrics \<Rightarrow> \<lparr> resp_Status = 200, resp_Data = Some (metrics w), resp_Error = '''', resp_Code = rl_ReturnCodeSuccess lib \<rparr>)"
proof -
  let ?params = "case gm_get queryVals clientQueryParam of None \<Rightarrow> [] | Some ps \<Rightarrow> ps"
  have name: "(if length ?params > 0 then ?params ! 0 else '''') =
      (case gm_get queryVals clientQueryParam of Some (n # ns) \<Rightarrow> n | _ \<Rightarrow> '''')"
    by (simp split: option.split list.split)
  show ?thesis
    unfolding statusMetrics_def Let_def name GetMetrics_def holder_GetAllMetrics_def
    by (simp add: ErrGettingMetrics_def ErrMissingStatusHandler_def StatusOK_def StatusInternalServerError_def split: option.split)
qed

text \<open>Replacing the facade reaches the group that the routes use.\<close>

lemma ws_UpdateFacade_groups:
  assumes "range_order ord" "ws_groups ws = [(''node'', ng)]"
  shows "ws_UpdateFacade lib ord (Some f) ws = (None, ws\<lparr>ws_facade := f, ws_groups := [(''node'', ng\<lparr>ng_facade := f\<rparr>)]\<rparr>)"
  using assms by (simp add: ws_UpdateFacade_def ng_UpdateFacade_def range_order_single)

lemma ws_Close_wraps:
  "ws_Close lib ws w = Some (Some err, w') \<Longrightarrow> \<exists>e h v. ws_httpServer ws = Some h \<and>
     rl_Shutdown lib h second v = Some (Some e, w') \<and> err = Wrapped e '' while closing the http server in gin/webServer''"
  by (auto simp: ws_Close_def http_Close_def Let_def bind_Some_conv split: option.split_asm)

text \<open>
  The reset loop keeps the contract of the timer loops. Its interval does not overflow, so the limiter
  is reset at most once per configured number of seconds, and never after the loop returned.
\<close>

abbreviation resetInterval :: "'w webServer \<Rightarrow> int" where
  "resetInterval ws \<equiv> duration (uint (wac_SameSourceResetIntervalInSec (afc_WebServer (ws_antiFloodConfig ws)))) second"

interpretation reset: timer_loop "sourceLimiterReset lib ws" "resetInterval ws" "\<lambda>w. Some (rl_Reset lib w)" False
  for lib ws
  by unfold_locales (simp_all add: sourceLimiterReset_def)

lemma resetInterval_exact: "resetInterval ws = uint (wac_SameSourceResetIntervalInSec (afc_WebServer (ws_antiFloodConfig ws))) * second"
proof -
  have "uint (x :: u32) * second < 2 ^ 63" for x
    using uint_lt2p [of x] by (simp add: second_def)
  then show ?thesis by (simp add: duration_exact second_def)
qed

lemma source_limiter_resets_paced:
  assumes "loop_steps (sourceLimiterReset lib ws) (start, loop_entered True, w0) (now, g, w)"
  shows "int (length (lp_acted g)) * (uint (wac_SameSourceResetIntervalInSec (afc_WebServer (ws_antiFloodConfig ws))) * second)
    \<le> now - start"
proof -
  have "0 \<le> resetInterval ws" by (simp only: resetInterval_exact) (simp add: second_def)
  with reset.paced(1) [of lib ws start w0 now g w] assms show ?thesis
    by (simp only: resetInterval_exact not_False_eq_True)
qed

text \<open>Trimming only removes bytes at the ends, and leaves no white space there.\<close>

lemma trimLeft_suffix: "\<exists>s. p = s @ trimLeft spaces p"
proof (induction spaces p rule: trimLeft.induct)
  case (1 spaces p)
  show ?case
  proof (cases "[] \<in> set spaces \<or> dropSpace spaces p = None")
    case False
    then obtain n where n: "dropSpace spaces p = Some (drop n p)"
      by (auto simp: dropSpace_def)
    then have "trimLeft spaces p = trimLeft spaces (drop n p)"
      using False by (subst trimLeft.simps) simp
    moreover obtain s where "drop n p = s @ trimLeft spaces (drop n p)"
      using 1 [of "drop n p"] False n by auto
    ultimately show ?thesis
      by (metis append_assoc append_take_drop_id)
  next
    case True
    then have "trimLeft spaces p = p" by (subst trimLeft.simps) auto
    then show ?thesis by simp
  qed
qed

lemma trimLeft_trimmed: "[] \<notin> set spaces \<Longrightarrow> dropSpace spaces (trimLeft spaces p) = None"
  by (induction spaces p rule: trimLeft.induct) (subst trimLeft.simps, auto split: option.split)

lemma dropSpace_None: "dropSpace spaces p = None \<longleftrightarrow> (\<forall>s \<in> set spaces. \<forall>q. p \<noteq> s @ q)"
  by (auto simp: dropSpace_def find_None_iff) (metis append_take_drop_id)

lemma TrimSpace_trims:
  "\<exists>a b. p = a @ TrimSpace p @ b" "s \<in> set whiteSpace \<Longrightarrow> TrimSpace p \<noteq> s @ q" "s \<in> set whiteSpace \<Longrightarrow> TrimSpace p \<noteq> q @ s"
proof -
  obtain a b where ab: "p = a @ trimLeft whiteSpace p" "rev (trimLeft whiteSpace p) = b @ rev (TrimSpace p)"
    unfolding TrimSpace_def rev_rev_ident by (metis trimLeft_suffix)
  then have cut: "trimLeft whiteSpace p = TrimSpace p @ rev b"
    by (metis rev_append rev_rev_ident)
  with ab(1) show "\<exists>a b. p = a @ TrimSpace p @ b" by metis
  have ne: "[] \<notin> set whiteSpace" "[] \<notin> set (map rev whiteSpace)"
    by (auto simp: whiteSpace_def)
  show "TrimSpace p \<noteq> s @ q" if "s \<in> set whiteSpace"
    using trimLeft_trimmed [OF ne(1), of p] that by (auto simp: cut dropSpace_None)
  show "TrimSpace p \<noteq> q @ s" if "s \<in> set whiteSpace"
  proof
    assume "TrimSpace p = q @ s"
    then have "trimLeft (map rev whiteSpace) (rev (trimLeft whiteSpace p)) = rev s @ rev q"
      by (metis TrimSpace_def rev_append rev_rev_ident)
    with trimLeft_trimmed [OF ne(2), of "rev (trimLeft whiteSpace p)"] that show False
      by (auto simp: dropSpace_None)
  qed
qed

end
