(* ===== verification/Relayer_Reporting.thy ===== *)
theory Relayer_Reporting
  imports Bridge_Factory_Correct Rest_Api
begin

text \<open>
  What the REST server of a constructed relayer reports: the factory registers the status handlers of
  both half-bridges, whose metrics are part of the shared memory, with the holder that the server asks.
\<close>

text \<open>The metrics of a handler as one map; a text replaces a number of the same name.\<close>

definition reported :: "statusHandlerPersistenceData \<Rightarrow> GeneralMetrics" where
  "reported m = fold (\<lambda>(k, v). gm_set k (StringValue v)) (StringMetrics m)
     (fold (\<lambda>(k, v). gm_set k (IntValue v)) (IntMetrics m) [])"

lemma reported_sth_at: "status_GetAllMetrics (sth_at m sh) = reported m"
  by (simp add: status_GetAllMetrics_def sth_at_def reported_def)

definition reporting_parts :: "('t, 'b, 'w) components \<Rightarrow> 'w metricsHolder \<times> Chain \<times> ('b, 'w) Storer \<times> int" where
  "reporting_parts c = (cmp_metricsHolder c, cmp_evmCompatibleChain c, cmp_statusStorer c, cmp_timeBeforeRepeatJoin c)"

lemma addPollingHandler_keeps_holder:
  "addPollingHandler lib ph s = Some (None, s') \<Longrightarrow> reporting_parts (fst s') = reporting_parts (fst s)"
  by (cases s) (auto simp: addPollingHandler_success registered_def reporting_parts_def)

lemma providers_keep_holder:
  "createMultiversXKeysAndAddresses lib cfg s = Some (None, s') \<Longrightarrow> reporting_parts (fst s') = reporting_parts (fst s)"
  "createDataGetter s = Some (None, s') \<Longrightarrow> reporting_parts (fst s') = reporting_parts (fst s)"
  "createMultiversXRoleProvider lib args s = Some (None, s') \<Longrightarrow> reporting_parts (fst s') = reporting_parts (fst s)"
  "createEthereumRoleProvider lib args s = Some (None, s') \<Longrightarrow> reporting_parts (fst s') = reporting_parts (fst s)"
proof -
  show "reporting_parts (fst s') = reporting_parts (fst s)" if "createMultiversXKeysAndAddresses lib cfg s = Some (None, s')"
    using that by (cases s) (auto elim!: createMultiversXKeysAndAddresses_success simp: reporting_parts_def)
  show "reporting_parts (fst s') = reporting_parts (fst s)" if "createDataGetter s = Some (None, s')"
    using that by (cases s) (auto simp: createDataGetter_def success_simps reporting_parts_def)
  show "reporting_parts (fst s') = reporting_parts (fst s)" if "createMultiversXRoleProvider lib args s = Some (None, s')"
    using that by (cases s) (auto simp: createMultiversXRoleProvider_def success_simps reporting_parts_def
      dest!: addPollingHandler_keeps_holder)
  show "reporting_parts (fst s') = reporting_parts (fst s)" if "createEthereumRoleProvider lib args s = Some (None, s')"
    using that by (cases s) (auto simp: createEthereumRoleProvider_def success_simps reporting_parts_def
      dest!: addPollingHandler_keeps_holder)
qed

lemma clients_keep_holder:
  "createMultiversXClient lib args s = Some (None, s') \<Longrightarrow> reporting_parts (fst s') = reporting_parts (fst s)"
  "createEthereumClient lib args s = Some (None, s') \<Longrightarrow> reporting_parts (fst s') = reporting_parts (fst s)"
proof -
  show "reporting_parts (fst s') = reporting_parts (fst s)" if "createMultiversXClient lib args s = Some (None, s')"
  proof -
    have run: "createMultiversXClient lib args (fst s, snd s) = Some (None, s')" using that by simp
    then obtain getter where getter: "cmp_mxDataGetter (fst s) = Some getter"
      by (cases s; cases "cmp_mxDataGetter (fst s)") (auto simp: createMultiversXClient_def success_simps NewMultiversXToErc20Mapper_def)
    show ?thesis
      by (rule createMultiversXClient_success [OF run getter]) (simp add: addClosableComponent_def reporting_parts_def)
  qed
  show "reporting_parts (fst s') = reporting_parts (fst s)" if run: "createEthereumClient lib args s = Some (None, s')"
  proof -
    from run obtain t where t: "createBroadcaster lib args (fst s, snd s) = Some (None, t)"
      unfolding createEthereumClient_def andThen_success by auto
    obtain b w where "t = ((fst s)\<lparr>cmp_broadcaster := Some b\<rparr>, br_put b w)"
      by (rule createBroadcaster_success [OF t])
    with run t show ?thesis
      by (auto simp: createEthereumClient_def success_simps AddBroadcastClient_def Let_def reporting_parts_def)
  qed
qed

lemma machines_keep_holder:
  "createEthStateMachine lib s = Some (None, s') \<Longrightarrow> reporting_parts (fst s') = reporting_parts (fst s)"
  "createMxStateMachine lib s = Some (None, s') \<Longrightarrow> reporting_parts (fst s') = reporting_parts (fst s)"
  by (cases s; auto simp: createEthStateMachine_def createMxStateMachine_def success_simps Let_def reporting_parts_def
      dest!: addPollingHandler_keeps_holder)+

lemma AddStatusHandler_success:
  "AddStatusHandler name sh mh = (None, mh') \<longleftrightarrow> gm_get mh name = None \<and> mh' = gm_set name sh mh"
  by (auto simp: AddStatusHandler_def)

lemma eth_bridge_registers:
  assumes "createEthereumToMultiversXBridge lib args s = Some (None, s')"
  shows "\<exists>holder. reporting_parts (fst s') = (holder, cmp_evmCompatibleChain (fst s), cmp_statusStorer (fst s),
      cmp_timeBeforeRepeatJoin (fst s)) \<and>
    AddStatusHandler (EvmCompatibleChainToMultiversXName (cmp_evmCompatibleChain (fst s))) (\<lambda>w. reported (rw_ethMetrics w))
      (cmp_metricsHolder (fst s)) = (None, holder)"
  using assms by (cases s) (auto simp: createEthereumToMultiversXBridge_def Let_def success_simps reporting_parts_def
    reported_sth_at AddStatusHandler_def split: option.split_asm if_splits)

lemma mx_bridge_registers:
  assumes "createMultiversXToEthereumBridge lib args s = Some (None, s')"
  shows "\<exists>holder. reporting_parts (fst s') = (holder, cmp_evmCompatibleChain (fst s), cmp_statusStorer (fst s),
      cmp_timeBeforeRepeatJoin (fst s)) \<and>
    AddStatusHandler (MultiversXToEvmCompatibleChainName (cmp_evmCompatibleChain (fst s))) (\<lambda>w. reported (rw_mxMetrics w))
      (cmp_metricsHolder (fst s)) = (None, holder)"
  using assms by (cases s) (auto simp: createMultiversXToEthereumBridge_def Let_def success_simps reporting_parts_def
    reported_sth_at AddStatusHandler_def split: option.split_asm if_splits)

text \<open>The holder after the construction: the given one with both half-bridges under new names.\<close>

lemma construction_registers:
  assumes "NewEthMultiversXBridgeComponents lib args w = Some (Inr c, w')"
    "chain = ecf_Chain (cfg_Eth (cfg_GeneralConfig (fa_Configs args)))" "the (fa_MetricsHolder args) = given"
  shows "cmp_metricsHolder c = gm_set (MultiversXToEvmCompatibleChainName chain) (\<lambda>w. reported (rw_mxMetrics w))
      (gm_set (EvmCompatibleChainToMultiversXName chain) (\<lambda>w. reported (rw_ethMetrics w)) given)"
    "gm_get given (EvmCompatibleChainToMultiversXName chain) = None" "gm_get given (MultiversXToEvmCompatibleChainName chain) = None"
    "MultiversXToEvmCompatibleChainName chain \<noteq> EvmCompatibleChainToMultiversXName chain"
    "cmp_statusStorer c = the (fa_StatusStorer args)" "cmp_timeBeforeRepeatJoin c = fa_TimeBeforeRepeatJoin args"
proof -
  from assms(1) obtain conv where
    run: "createComponents lib args (addClosableComponent (Some CloseTimer)
      ((initialComponents lib args)\<lparr>cmp_addressConverter := Some conv\<rparr>), w) = Some (None, (c, w'))"
    by (auto simp: NewEthMultiversXBridgeComponents_def bind_Some_conv split: option.split_asm sum.split_asm prod.split_asm)
  let ?c0 = "addClosableComponent (Some CloseTimer) ((initialComponents lib args)\<lparr>cmp_addressConverter := Some conv\<rparr>)"
  obtain s1 s2 s3 s4 s5 s6 s7 s8 s9 where st:
    "createMultiversXKeysAndAddresses lib (cfg_MultiversX (cfg_GeneralConfig (fa_Configs args))) (?c0, w) = Some (None, s1)"
    "createDataGetter s1 = Some (None, s2)" "createMultiversXRoleProvider lib args s2 = Some (None, s3)"
    "createMultiversXClient lib args s3 = Some (None, s4)" "createEthereumRoleProvider lib args s4 = Some (None, s5)"
    "createEthereumClient lib args s5 = Some (None, s6)" "createEthereumToMultiversXBridge lib args s6 = Some (None, s7)"
    "createEthStateMachine lib s7 = Some (None, s8)" "createMultiversXToEthereumBridge lib args s8 = Some (None, s9)"
    "createMxStateMachine lib s9 = Some (None, (c, w'))"
    using run unfolding createComponents_def andThen_success by (elim exE conjE) (rule that)
  have "reporting_parts (fst s6) = (given, chain, the (fa_StatusStorer args), fa_TimeBeforeRepeatJoin args)"
    using providers_keep_holder(1) [OF st(1)] providers_keep_holder(2) [OF st(2)] providers_keep_holder(3) [OF st(3)]
      clients_keep_holder(1) [OF st(4)] providers_keep_holder(4) [OF st(5)] clients_keep_holder(2) [OF st(6)] assms(2,3)
    by (simp add: reporting_parts_def addClosableComponent_def initialComponents_def)
  then have s8: "gm_get given (EvmCompatibleChainToMultiversXName chain) = None"
    "reporting_parts (fst s8) = (gm_set (EvmCompatibleChainToMultiversXName chain) (\<lambda>w. reported (rw_ethMetrics w)) given, chain, the (fa_StatusStorer args), fa_TimeBeforeRepeatJoin args)"
    using eth_bridge_registers [OF st(7)] machines_keep_holder(1) [OF st(8)]
    by (auto simp: reporting_parts_def AddStatusHandler_success)
  then have "gm_get (cmp_metricsHolder (fst s8)) (MultiversXToEvmCompatibleChainName chain) = None" and
    c: "cmp_metricsHolder c = gm_set (MultiversXToEvmCompatibleChainName chain) (\<lambda>w. reported (rw_mxMetrics w)) (cmp_metricsHolder (fst s8))"
    "cmp_statusStorer c = the (fa_StatusStorer args)" "cmp_timeBeforeRepeatJoin c = fa_TimeBeforeRepeatJoin args"
    using mx_bridge_registers [OF st(9)] machines_keep_holder(2) [OF st(10)]
    by (auto simp: reporting_parts_def AddStatusHandler_success)
  with s8 show "cmp_metricsHolder c = gm_set (MultiversXToEvmCompatibleChainName chain) (\<lambda>w. reported (rw_mxMetrics w))
      (gm_set (EvmCompatibleChainToMultiversXName chain) (\<lambda>w. reported (rw_ethMetrics w)) given)"
    "gm_get given (EvmCompatibleChainToMultiversXName chain) = None" "gm_get given (MultiversXToEvmCompatibleChainName chain) = None"
    "MultiversXToEvmCompatibleChainName chain \<noteq> EvmCompatibleChainToMultiversXName chain"
    "cmp_statusStorer c = the (fa_StatusStorer args)" "cmp_timeBeforeRepeatJoin c = fa_TimeBeforeRepeatJoin args"
    by (auto simp: reporting_parts_def split: if_splits)
qed

lemma construction_interval:
  "NewEthMultiversXBridgeComponents lib args w = Some (Inr c, w') \<Longrightarrow> second * 30 \<le> fa_TimeBeforeRepeatJoin args"
  by (auto simp: NewEthMultiversXBridgeComponents_def checkArgsEthereumToMultiversXBridge_def minTimeBeforeRepeatJoin_def
      split: option.split_asm if_splits)

end
