(* ===== verification/Executor_Effects.thy ===== *)
theory Executor_Effects
  imports Half_Bridge_Runs
begin

text \<open>
  What an execution of a half-bridge can do to the world: nothing but what its interfaces do. For any
  reflexive and transitive relation on worlds, when each operation of the interfaces relates the world
  before and after it, so do the operations of the executor, the steps and the state machines.
\<close>

section \<open>Effects within a relation\<close>

definition within :: "('w \<Rightarrow> 'w \<Rightarrow> bool) \<Rightarrow> ('w, 'a) prog \<Rightarrow> bool" where
  "within R f \<longleftrightarrow> (\<forall>w r w'. f w = Some (r, w') \<longrightarrow> R w w')"

lemma withinI: "(\<And>w. wlp (f w) (\<lambda>(r, w'). R w w')) \<Longrightarrow> within R f"
  by (auto simp: within_def wlp_iff)

lemma withinD: "within R f \<Longrightarrow> f w = Some (r, w') \<Longrightarrow> R w w'"
  by (simp add: within_def)

definition handler_within :: "('w \<Rightarrow> 'w \<Rightarrow> bool) \<Rightarrow> 'w StatusHandler \<Rightarrow> bool" where
  "handler_within R h \<longleftrightarrow> (\<forall>w k i v. R w (sh_SetIntMetric h k i w) \<and> R w (sh_AddIntMetric h k i w) \<and>
     R w (sh_SetStringMetric h k v w))"

definition mx_within :: "('w \<Rightarrow> 'w \<Rightarrow> bool) \<Rightarrow> 'w MultiversXClient \<Rightarrow> bool" where
  "mx_within R m \<longleftrightarrow>
     within R (mx_GetPending m) \<and> (\<forall>b. within R (mx_WasProposedTransfer m b)) \<and> (\<forall>a. within R (mx_QuorumReached m a)) \<and>
     (\<forall>a. within R (mx_WasExecuted m a)) \<and> (\<forall>b. within R (mx_GetActionIDForProposeTransfer m b)) \<and>
     (\<forall>b. within R (mx_WasProposedSetStatus m b)) \<and>
     (\<forall>b. within R (mx_GetActionIDForSetStatusOnPendingTransfer m b)) \<and>
     within R (mx_GetLastExecutedEthBatchID m) \<and> within R (mx_GetLastExecutedEthTxID m) \<and>
     (\<forall>b. within R (mx_ProposeSetStatus m b)) \<and> (\<forall>b. within R (mx_ProposeTransfer m b)) \<and>
     (\<forall>a. within R (mx_Sign m a)) \<and> (\<forall>a. within R (mx_WasSigned m a)) \<and>
     (\<forall>a b. within R (mx_PerformAction m a b)) \<and> within R (mx_CheckClientAvailability m)"

definition eth_within :: "('w \<Rightarrow> 'w \<Rightarrow> bool) \<Rightarrow> 'w EthereumClient \<Rightarrow> bool" where
  "eth_within R e \<longleftrightarrow>
     (\<forall>n. within R (eth_GetBatch e n)) \<and> (\<forall>n. within R (eth_WasExecuted e n)) \<and>
     (\<forall>h. within R (eth_BroadcastSignatureForMessageHash e h)) \<and>
     (\<forall>h b q. within R (eth_ExecuteTransfer e h b q)) \<and> (\<forall>n. within R (eth_GetTransactionsStatuses e n)) \<and>
     within R (eth_GetQuorumSize e) \<and> (\<forall>h. within R (eth_IsQuorumReached e h)) \<and>
     within R (eth_CheckClientAvailability e)"

definition executor_within :: "('w \<Rightarrow> 'w \<Rightarrow> bool) \<Rightarrow> 'w bridgeExecutor \<Rightarrow> bool" where
  "executor_within R ex \<longleftrightarrow>
     within R (ex_topologyProvider ex) \<and> (\<forall>d. within R (ex_waitTimer ex d)) \<and>
     (\<forall>b. within R (ex_batchValidator ex b)) \<and> (\<forall>w. R w (ex_ClearStoredSignatures ex w)) \<and>
     handler_within R (ex_statusHandler ex) \<and> mx_within R (ex_multiversXClient ex) \<and>
     eth_within R (ex_ethereumClient ex)"

lemma within_mono: "within R f \<Longrightarrow> R \<le> S \<Longrightarrow> within S f"
  by (auto simp: within_def)

lemma handler_within_mono: "handler_within R h \<Longrightarrow> R \<le> S \<Longrightarrow> handler_within S h"
  unfolding handler_within_def by (meson predicate2D)

lemma executor_within_mono:
  assumes "executor_within R ex" "R \<le> S"
  shows "executor_within S ex"
proof -
  have "R w w' \<Longrightarrow> S w w'" for w w'
    using assms(2) by auto
  with assms(1) show ?thesis
    by (simp add: executor_within_def mx_within_def eth_within_def within_mono [OF _ assms(2)]
      handler_within_mono [OF _ assms(2)])
qed

section \<open>Operations and steps\<close>

named_theorems effects \<open>what an operation of the executor keeps\<close>

locale world_effects =
  fixes R :: "'w \<Rightarrow> 'w \<Rightarrow> bool"
  assumes R_refl: "R w w" and R_trans: "R u v \<Longrightarrow> R v w \<Longrightarrow> R u w"
begin

lemma within_call:
  "within R f \<Longrightarrow> R w0 w \<Longrightarrow> (\<And>r w'. R w0 w' \<Longrightarrow> Q (r, w')) \<Longrightarrow> wlp (f w) Q"
  unfolding within_def by (rule wlp_I) (metis R_trans surj_pair)

definition kept :: "'w bridgeExecutor \<Rightarrow> 'w \<Rightarrow> 'w bstate \<Rightarrow> bool" where
  "kept ex0 w0 s \<longleftrightarrow> executor_within R ex0 \<and> forget (fst s) = forget ex0 \<and> R w0 (snd s)"

lemma kept_update [simp]:
  "kept ex0 w0 (ex\<lparr>ex_batch := x1\<rparr>, w) = kept ex0 w0 (ex, w)"
  "kept ex0 w0 (ex\<lparr>ex_actionID := x2\<rparr>, w) = kept ex0 w0 (ex, w)"
  "kept ex0 w0 (ex\<lparr>ex_msgHash := x3\<rparr>, w) = kept ex0 w0 (ex, w)"
  "kept ex0 w0 (ex\<lparr>ex_quorumRetriesOnEthereum := x4\<rparr>, w) = kept ex0 w0 (ex, w)"
  "kept ex0 w0 (ex\<lparr>ex_quorumRetriesOnMultiversX := x4\<rparr>, w) = kept ex0 w0 (ex, w)"
  "kept ex0 w0 (ex\<lparr>ex_retriesOnWasProposed := x4\<rparr>, w) = kept ex0 w0 (ex, w)"
  by (simp_all add: kept_def forget_def)

lemma kept_fields:
  assumes "kept ex0 w0 s"
  shows "ex_topologyProvider (fst s) = ex_topologyProvider ex0" "ex_multiversXClient (fst s) = ex_multiversXClient ex0"
    "ex_ethereumClient (fst s) = ex_ethereumClient ex0" "ex_waitTimer (fst s) = ex_waitTimer ex0"
    "ex_statusHandler (fst s) = ex_statusHandler ex0" "ex_ClearStoredSignatures (fst s) = ex_ClearStoredSignatures ex0"
    "ex_batchValidator (fst s) = ex_batchValidator ex0"
  using assms forget_fields unfolding kept_def by metis+

lemma kept_world: "kept ex0 w0 s \<Longrightarrow> R w0 (snd s)"
  by (simp add: kept_def)

lemma kept_world_update: "kept ex0 w0 s \<Longrightarrow> R (snd s) w \<Longrightarrow> kept ex0 w0 (fst s, w)"
  by (auto simp: kept_def intro: R_trans)

lemma kept_ops:
  assumes "kept ex0 w0 s"
  shows "within R (ex_topologyProvider (fst s))" "within R (ex_waitTimer (fst s) d)"
    "within R (ex_batchValidator (fst s) bt)" "R w (ex_ClearStoredSignatures (fst s) w)"
    "R w (sh_SetIntMetric (ex_statusHandler (fst s)) k i w)" "R w (sh_AddIntMetric (ex_statusHandler (fst s)) k i w)"
    "R w (sh_SetStringMetric (ex_statusHandler (fst s)) k v w)"
    "within R (mx_GetPending (ex_multiversXClient (fst s)))"
    "within R (mx_WasProposedTransfer (ex_multiversXClient (fst s)) bo)"
    "within R (mx_QuorumReached (ex_multiversXClient (fst s)) a)"
    "within R (mx_WasExecuted (ex_multiversXClient (fst s)) a)"
    "within R (mx_GetActionIDForProposeTransfer (ex_multiversXClient (fst s)) bo)"
    "within R (mx_WasProposedSetStatus (ex_multiversXClient (fst s)) bo)"
    "within R (mx_GetActionIDForSetStatusOnPendingTransfer (ex_multiversXClient (fst s)) bo)"
    "within R (mx_GetLastExecutedEthBatchID (ex_multiversXClient (fst s)))"
    "within R (mx_GetLastExecutedEthTxID (ex_multiversXClient (fst s)))"
    "within R (mx_ProposeSetStatus (ex_multiversXClient (fst s)) bo)"
    "within R (mx_ProposeTransfer (ex_multiversXClient (fst s)) bo)"
    "within R (mx_Sign (ex_multiversXClient (fst s)) a)" "within R (mx_WasSigned (ex_multiversXClient (fst s)) a)"
    "within R (mx_PerformAction (ex_multiversXClient (fst s)) a bo)"
    "within R (mx_CheckClientAvailability (ex_multiversXClient (fst s)))"
    "within R (eth_GetBatch (ex_ethereumClient (fst s)) n)" "within R (eth_WasExecuted (ex_ethereumClient (fst s)) n)"
    "within R (eth_BroadcastSignatureForMessageHash (ex_ethereumClient (fst s)) h)"
    "within R (eth_ExecuteTransfer (ex_ethereumClient (fst s)) h bo q)"
    "within R (eth_GetTransactionsStatuses (ex_ethereumClient (fst s)) n)"
    "within R (eth_GetQuorumSize (ex_ethereumClient (fst s)))"
    "within R (eth_IsQuorumReached (ex_ethereumClient (fst s)) h)"
    "within R (eth_CheckClientAvailability (ex_ethereumClient (fst s)))"
  using assms unfolding kept_fields [OF assms]
  by (simp_all add: kept_def executor_within_def mx_within_def eth_within_def handler_within_def)

text \<open>A call of an interface, and what the executor stores afterwards.\<close>

lemma call_kept:
  assumes "kept ex0 w0 s" "within R f" "\<And>r w. kept ex0 w0 (fst s, w) \<Longrightarrow> Q (r, w)"
  shows "wlp (f (snd s)) Q"
  using assms(2) kept_world [OF assms(1)]
proof (rule within_call)
  show "Q (r, w')" if "R w0 w'" for r w'
    using assms(1) that by (intro assms(3)) (simp add: kept_def)
qed

lemma callw_kept:
  "kept ex0 w0 s \<Longrightarrow> within R (f (fst s)) \<Longrightarrow> (\<And>r t. kept ex0 w0 t \<Longrightarrow> Q (r, t)) \<Longrightarrow> wlp (callw f s) Q"
  unfolding wpg_callw by (erule (1) call_kept) simp

lemma withBatch_kept:
  "kept ex0 w0 s \<Longrightarrow> (\<And>bt. within R (f (fst s) bt)) \<Longrightarrow> (\<And>r t. kept ex0 w0 t \<Longrightarrow> Q (r, t)) \<Longrightarrow> wlp (withBatch f s) Q"
  unfolding wpg_withBatch by (auto split: option.split intro: call_kept)

lemma dropHash_kept:
  "(\<And>Q'. (\<And>r t. kept ex0 w0 t \<Longrightarrow> Q' (r, t)) \<Longrightarrow> wlp (f s) Q') \<Longrightarrow> (\<And>r t. kept ex0 w0 t \<Longrightarrow> Q (r, t)) \<Longrightarrow>
     wlp (dropHash f s) Q"
  unfolding wpg_dropHash by simp

lemma metric_kept: "kept ex0 w0 (ex, w) \<Longrightarrow> kept ex0 w0 (ex, sh_SetIntMetric (ex_statusHandler ex) k i w)"
  using kept_world_update [of ex0 w0 "(ex, w)"] kept_ops(5) [of ex0 w0 "(ex, w)"] by simp

lemma PrintInfo_kept [intro!]: "kept ex0 w0 s \<Longrightarrow> kept ex0 w0 (PrintInfo l m xs s)"
  using kept_ops(7) [of ex0 w0 s "snd s"] kept_world_update [of ex0 w0 s]
  by (cases s) (simp add: PrintInfo_def setExecutionMessageInStatusHandler_def)

lemma logIf_quiet [simp]: "logIf e m s = s"
  by (simp add: logIf_def split: option.split)

lemma calls_kept [effects]:
  "kept ex0 w0 s \<Longrightarrow> (\<And>r t. kept ex0 w0 t \<Longrightarrow> Q1 (r, t)) \<Longrightarrow> wlp (MyTurnAsLeader s) Q1"
  "kept ex0 w0 s \<Longrightarrow> (\<And>r t. kept ex0 w0 t \<Longrightarrow> Q2 (r, t)) \<Longrightarrow> wlp (WasActionSignedOnMultiversX s) Q2"
  "kept ex0 w0 s \<Longrightarrow> (\<And>r t. kept ex0 w0 t \<Longrightarrow> Q3 (r, t)) \<Longrightarrow> wlp (ProcessQuorumReachedOnMultiversX s) Q3"
  "kept ex0 w0 s \<Longrightarrow> (\<And>r t. kept ex0 w0 t \<Longrightarrow> Q4 (r, t)) \<Longrightarrow> wlp (waitWithContextSucceeded s) Q4"
  "kept ex0 w0 s \<Longrightarrow> (\<And>r t. kept ex0 w0 t \<Longrightarrow> Q5 (r, t)) \<Longrightarrow> wlp (WasActionPerformedOnMultiversX s) Q5"
  "kept ex0 w0 s \<Longrightarrow> (\<And>r t. kept ex0 w0 t \<Longrightarrow> Q6 (r, t)) \<Longrightarrow> wlp (ProcessQuorumReachedOnEthereum s) Q6"
  "kept ex0 w0 s \<Longrightarrow> (\<And>r t. kept ex0 w0 t \<Longrightarrow> Q7 (r, t)) \<Longrightarrow> wlp (ValidateBatch bt s) Q7"
  "kept ex0 w0 s \<Longrightarrow> (\<And>r t. kept ex0 w0 t \<Longrightarrow> Q8 (r, t)) \<Longrightarrow> wlp (CheckMultiversXClientAvailability s) Q8"
  "kept ex0 w0 s \<Longrightarrow> (\<And>r t. kept ex0 w0 t \<Longrightarrow> Q9 (r, t)) \<Longrightarrow> wlp (CheckEthereumClientAvailability s) Q9"
  unfolding call_defs by - (rule callw_kept; (assumption | erule kept_ops | blast))+

lemma withBatches_kept [effects]:
  "kept ex0 w0 s \<Longrightarrow> (\<And>r t. kept ex0 w0 t \<Longrightarrow> Q10 (r, t)) \<Longrightarrow> wlp (WasTransferProposedOnMultiversX s) Q10"
  "kept ex0 w0 s \<Longrightarrow> (\<And>r t. kept ex0 w0 t \<Longrightarrow> Q11 (r, t)) \<Longrightarrow> wlp (WasSetStatusProposedOnMultiversX s) Q11"
  "kept ex0 w0 s \<Longrightarrow> (\<And>r t. kept ex0 w0 t \<Longrightarrow> Q12 (r, t)) \<Longrightarrow> wlp (WasTransferPerformedOnEthereum s) Q12"
  "kept ex0 w0 s \<Longrightarrow> (\<And>r t. kept ex0 w0 t \<Longrightarrow> Q13 (r, t)) \<Longrightarrow> wlp (GetBatchStatusesFromEthereum s) Q13"
  unfolding call_defs by - (rule withBatch_kept; (assumption | erule kept_ops | blast))+

lemma sends_kept [effects]:
  "kept ex0 w0 s \<Longrightarrow> (\<And>r t. kept ex0 w0 t \<Longrightarrow> Q14 (r, t)) \<Longrightarrow> wlp (ProposeTransferOnMultiversX s) Q14"
  "kept ex0 w0 s \<Longrightarrow> (\<And>r t. kept ex0 w0 t \<Longrightarrow> Q15 (r, t)) \<Longrightarrow> wlp (ProposeSetStatusOnMultiversX s) Q15"
  "kept ex0 w0 s \<Longrightarrow> (\<And>r t. kept ex0 w0 t \<Longrightarrow> Q16 (r, t)) \<Longrightarrow> wlp (PerformActionOnMultiversX s) Q16"
  "kept ex0 w0 s \<Longrightarrow> (\<And>r t. kept ex0 w0 t \<Longrightarrow> Q17 (r, t)) \<Longrightarrow> wlp (SignActionOnMultiversX s) Q17"
  unfolding call_defs
  by - (rule dropHash_kept, rule withBatch_kept callw_kept; (assumption | erule kept_ops | blast))+

lemma stores_kept [effects]:
  "kept ex0 w0 s \<Longrightarrow> (\<And>r t. kept ex0 w0 t \<Longrightarrow> Q18 (r, t)) \<Longrightarrow> wlp (GetBatchFromMultiversX s) Q18"
  "kept ex0 w0 s \<Longrightarrow> (\<And>r t. kept ex0 w0 t \<Longrightarrow> Q19 (r, t)) \<Longrightarrow> wlp (GetLastExecutedEthBatchIDFromMultiversX s) Q19"
  "kept ex0 w0 s \<Longrightarrow> (\<And>r t. kept ex0 w0 t \<Longrightarrow> Q20 (r, t)) \<Longrightarrow> wlp (VerifyLastDepositNonceExecutedOnEthereumBatch s) Q20"
  "kept ex0 w0 s \<Longrightarrow> (\<And>r t. kept ex0 w0 t \<Longrightarrow> Q21 (r, t)) \<Longrightarrow> wlp (GetAndStoreActionIDForProposeTransferOnMultiversX s) Q21"
  "kept ex0 w0 s \<Longrightarrow> (\<And>r t. kept ex0 w0 t \<Longrightarrow> Q22 (r, t)) \<Longrightarrow> wlp (GetAndStoreActionIDForProposeSetStatusFromMultiversX s) Q22"
  "kept ex0 w0 s \<Longrightarrow> (\<And>r t. kept ex0 w0 t \<Longrightarrow> Q23 (r, t)) \<Longrightarrow> wlp (GetAndStoreBatchFromEthereum n s) Q23"
  unfolding wpg_GetBatchFromMultiversX wpg_GetLastExecutedEthBatchID wpg_VerifyLastDepositNonce
    wpg_GetAndStoreActionIDForProposeTransfer wpg_GetAndStoreActionIDForProposeSetStatus wpg_GetAndStoreBatchFromEthereum
  by (auto split: sum.split option.split intro!: call_kept kept_ops intro: metric_kept)

lemma SignTransfer_kept [effects]:
  assumes "kept ex0 w0 s" "\<And>r t. kept ex0 w0 t \<Longrightarrow> Q (r, t)"
  shows "wlp (SignTransferOnEthereum s) Q"
proof -
  have "wlp (eth_BroadcastSignatureForMessageHash (ex_ethereumClient (fst s)) h (snd s)) (\<lambda>(u, w). Q (None, ((fst s)\<lparr>ex_msgHash := h\<rparr>, w)))" for h
    using assms(1) kept_ops(25) [OF assms(1)] by (rule call_kept) (simp add: assms(2))
  then show ?thesis
    unfolding wpg_SignTransferOnEthereum using assms(1)
    by (auto split: option.split sum.split intro!: assms(2) wlp_I)
qed

lemma PerformTransfer_kept [effects]:
  assumes "kept ex0 w0 s" "\<And>r t. kept ex0 w0 t \<Longrightarrow> Q (r, t)"
  shows "wlp (PerformTransferOnEthereum s) Q"
proof -
  have send: "wlp (eth_ExecuteTransfer (ex_ethereumClient (fst s)) h bo q w) (\<lambda>(r, w). Q (case r of Inl err \<Rightarrow> Some err | Inr h \<Rightarrow> None, (fst s, w)))"
    if "kept ex0 w0 (fst s, w)" for h bo q w
    using call_kept [OF that, of "eth_ExecuteTransfer (ex_ethereumClient (fst s)) h bo q"] kept_ops(26) [OF assms(1)] assms(2) by simp
  have "wlp (eth_GetQuorumSize (ex_ethereumClient (fst s)) (snd s)) (\<lambda>(r, w). case r of Inl err \<Rightarrow> Q (Some err, (fst s, w))
      | Inr n \<Rightarrow> wlp (eth_ExecuteTransfer (ex_ethereumClient (fst s)) (ex_msgHash (fst s)) (Some bt) (bigInt64 n) w)
          (\<lambda>(r, w). Q (case r of Inl err \<Rightarrow> Some err | Inr h \<Rightarrow> None, (fst s, w))))" for bt
    using assms(1) kept_ops(28) [OF assms(1)] by (rule call_kept) (simp add: assms(2) send split: sum.split)
  then show ?thesis
    unfolding wpg_PerformTransferOnEthereum using assms by (simp split: option.split)
qed

lemma clear_kept: "kept ex0 w0 s \<Longrightarrow> kept ex0 w0 (fst s, ex_ClearStoredSignatures (fst s) (snd s))"
  by (intro kept_world_update kept_ops)

lemma confirmation_loop_kept:
  "kept ex0 w0 s \<Longrightarrow> wlp (waitForTransferConfirmation_loop n p s) (\<lambda>(r, t). kept ex0 w0 t)"
  by (induction n arbitrary: p s) (auto simp: wp_simps intro!: effects)

lemma statuses_loop_kept:
  "kept ex0 w0 s \<Longrightarrow> wlp (waitAndReturnFinalBatchStatuses_loop n s) (\<lambda>(r, t). kept ex0 w0 t)"
  by (induction n arbitrary: s) (auto simp: wp_simps intro!: effects split: sum.split)

lemma waits_kept [effects]:
  "kept ex0 w0 s \<Longrightarrow> (\<And>r t. kept ex0 w0 t \<Longrightarrow> Q1 (r, t)) \<Longrightarrow> wlp (WaitForTransferConfirmation s) Q1"
  "kept ex0 w0 s \<Longrightarrow> (\<And>r t. kept ex0 w0 t \<Longrightarrow> Q2 (r, t)) \<Longrightarrow> wlp (WaitAndReturnFinalBatchStatuses s) Q2"
  unfolding WaitForTransferConfirmation_def WaitAndReturnFinalBatchStatuses_def
  by (erule confirmation_loop_kept [THEN wpg_mono] statuses_loop_kept [THEN wpg_mono]; auto)+

lemma eth_steps_kept:
  assumes "kept ex0 w0 s"
  shows "wlp (eth_getPendingStep_Execute marshal s) (\<lambda>(j, t). kept ex0 w0 t)"
    "wlp (eth_proposeTransferStep_Execute s) (\<lambda>(j, t). kept ex0 w0 t)"
    "wlp (eth_signProposedTransferStep_Execute s) (\<lambda>(j, t). kept ex0 w0 t)"
    "wlp (eth_waitForQuorumStep_Execute s) (\<lambda>(j, t). kept ex0 w0 t)"
    "wlp (eth_performActionIDStep_Execute s) (\<lambda>(j, t). kept ex0 w0 t)"
  using assms unfolding eth_getPendingStep_Execute_def eth_proposeTransferStep_Execute_def
    eth_signProposedTransferStep_Execute_def eth_waitForQuorumStep_Execute_def eth_performActionIDStep_Execute_def
  by (auto simp: wp_simps intro!: effects split: sum.split option.split)

lemma mx_steps_kept:
  assumes "kept ex0 w0 s"
  shows "wlp (mx_getPendingStep_Execute marshal s) (\<lambda>(j, t). kept ex0 w0 t)"
    "wlp (mx_signProposedTransferStep_Execute s) (\<lambda>(j, t). kept ex0 w0 t)"
    "wlp (mx_waitForQuorumOnTransferStep_Execute s) (\<lambda>(j, t). kept ex0 w0 t)"
    "wlp (mx_performTransferStep_Execute s) (\<lambda>(j, t). kept ex0 w0 t)"
    "wlp (mx_waitTransferConfirmationStep_Execute s) (\<lambda>(j, t). kept ex0 w0 t)"
    "wlp (mx_proposeSetStatusStep_Execute s) (\<lambda>(j, t). kept ex0 w0 t)"
    "wlp (mx_signProposedSetStatusStep_Execute s) (\<lambda>(j, t). kept ex0 w0 t)"
    "wlp (mx_waitForQuorumOnSetStatusStep_Execute s) (\<lambda>(j, t). kept ex0 w0 t)"
    "wlp (mx_performSetStatusStep_Execute s) (\<lambda>(j, t). kept ex0 w0 t)"
  using assms unfolding mx_getPendingStep_Execute_def mx_signProposedTransferStep_Execute_def
    mx_waitForQuorumOnTransferStep_Execute_def mx_performTransferStep_Execute_def mx_waitTransferConfirmationStep_Execute_def
    mx_proposeSetStatusStep_Execute_def mx_signProposedSetStatusStep_Execute_def mx_waitForQuorumOnSetStatusStep_Execute_def
    mx_performSetStatusStep_Execute_def resetCountersOnMultiversX_def
  by (auto simp: wp_simps intro!: effects split: sum.split option.split)

lemma resolved_any: "(\<And>b'. Q b') \<Longrightarrow> wlp (ResolveNewDeposits n b) Q"
  by (rule wlp_I)

lemma mx_resolve_kept:
  assumes "kept ex0 w0 s"
  shows "wlp (mx_resolveSetStatusStep_Execute s) (\<lambda>(j, t). kept ex0 w0 t)"
  using clear_kept [OF assms] unfolding mx_resolveSetStatusStep_Execute_def setStoredStatuses_def
  by (auto simp: wp_simps intro!: effects resolved_any split: sum.split option.split)

text \<open>
  An execution of a machine at a step of the map, whose own status handler stays within the relation
  too: the world changes within the relation and the fixed fields of the executor stay.
\<close>

lemma Execute_kept:
  assumes "at_step steps i sm" "steps = eth_machineStates marshal \<or> steps = mx_machineStates marshal"
    "\<And>k v ex w. \<exists>w'. sh_SetStringMetric (sm_statusHandler sm) k v (ex, w) = (ex, w') \<and> R w w'"
    "executor_within R (fst s)"
  shows "wlp (Execute (sm, s)) (\<lambda>(err, (sm', t)). forget (fst t) = forget (fst s) \<and> R (snd s) (snd t))"
proof -
  obtain st where st: "sm_currentStep sm = Some st" "gm_get steps i = Some (Some st)"
    using at_step_D [OF assms(1)] by blast
  obtain w' where w': "sh_SetStringMetric (sm_statusHandler sm) MetricCurrentStateMachineStep (step_Identifier st) s = (fst s, w')"
    "R (snd s) w'"
    using assms(3) [of MetricCurrentStateMachineStep "step_Identifier st" "fst s" "snd s"] by auto
  have k: "kept (fst s) (snd s) (fst s, w')"
    using assms(4) w'(2) by (simp add: kept_def)
  from st(2) assms(2) have "wlp (step_Execute st (fst s, w')) (\<lambda>(j, t). kept (fst s) (snd s) t)"
    by (auto simp: eth_machineStates_def eth_stepsSlice_def mx_machineStates_def mx_stepsSlice_def
      eth_steps_kept [OF k] mx_steps_kept [OF k] mx_resolve_kept [OF k] split: if_splits)
  then show ?thesis
    by (auto simp: Execute_def executeStep_def st(1) w' wp_simps kept_def split: sum.split elim!: wpg_mono)
qed

end

end
