(* ===== verification/Client_Effects.thy ===== *)
theory Client_Effects
  imports Executor_Effects Relayer_Clients
begin

text \<open>
  What the two clients do to the world: nothing but what the proxy, the transaction handler, the
  contract wrappers, the token mapper, the broadcaster and the status handlers do.
\<close>

section \<open>The MultiversX client\<close>

definition proxy_within :: "('w \<Rightarrow> 'w \<Rightarrow> bool) \<Rightarrow> 'w Proxy \<Rightarrow> bool" where
  "proxy_within R p \<longleftrightarrow> (\<forall>request. within R (ExecuteVMQuery p request)) \<and> (\<forall>shard. within R (GetNetworkStatus p shard)) \<and>
     (\<forall>a. within R (GetShardOfAddress p a)) \<and> within R (GetNetworkConfig p)"

definition mx_parts_within :: "('w \<Rightarrow> 'w \<Rightarrow> bool) \<Rightarrow> 'w mx_client \<Rightarrow> bool" where
  "mx_parts_within R c \<longleftrightarrow>
     proxy_within R (dg_proxy (mc_getter c)) \<and> proxy_within R (th_proxy (mc_txHandler c)) \<and>
     (\<forall>a. within R (nth_GetNonce (th_nonceTxHandler (mc_txHandler c)) a)) \<and>
     (\<forall>tx. within R (nth_SendTransaction (th_nonceTxHandler (mc_txHandler c)) tx)) \<and>
     (\<forall>t. within R (mc_tokensMapper c t)) \<and> handler_within R (mc_statusHandler c)"

definition wrapper_within :: "('w \<Rightarrow> 'w \<Rightarrow> bool) \<Rightarrow> 'w ClientWrapper \<Rightarrow> bool" where
  "wrapper_within R cw \<longleftrightarrow>
     handler_within R (cw_StatusHandler cw) \<and> (\<forall>n. within R (cw_GetBatch cw n)) \<and> (\<forall>n. within R (cw_GetBatchDeposits cw n)) \<and>
     within R (cw_GetRelayers cw) \<and> (\<forall>n. within R (cw_WasBatchExecuted cw n)) \<and> within R (cw_ChainID cw) \<and>
     within R (cw_BlockNumber cw) \<and> (\<forall>a n. within R (cw_NonceAt cw a n)) \<and>
     (\<forall>opts l n sigs. within R (cw_ExecuteTransfer cw opts l n sigs)) \<and> within R (cw_Quorum cw) \<and>
     (\<forall>n. within R (cw_GetStatusesAfterExecution cw n)) \<and> (\<forall>a. within R (cw_BalanceAt cw a)) \<and> within R (cw_IsPaused cw)"

definition eth_parts_within :: "('w \<Rightarrow> 'w \<Rightarrow> bool) \<Rightarrow> ('t, 'w) eth_client \<Rightarrow> bool" where
  "eth_parts_within R c \<longleftrightarrow>
     wrapper_within R (ec_clientWrapper c) \<and> (\<forall>t a. within R (ec_BalanceOf c t a)) \<and>
     (\<forall>s h. within R (ec_BroadcastSignature c s h)) \<and> (\<forall>t. within R (ec_tokensMapper c t))"

context world_effects
begin

lemma within_Some [simp]: "within R (\<lambda>w. Some (r w, w))"
  by (simp add: within_def R_refl)

lemma query_within:
  assumes "proxy_within R (dg_proxy dg)"
  shows "within R (ExecuteQueryReturningBytes dg request)"
proof (rule withinI)
  have q: "within R (ExecuteVMQuery (dg_proxy dg) request)" for request
    using assms by (simp add: proxy_within_def)
  show "wlp (ExecuteQueryReturningBytes dg request w) (\<lambda>(r, w'). R w w')" for w
    by (auto simp: ExecuteQueryReturningBytes_def wp_simps R_refl split: option.split sum.split
      intro!: within_call [OF q R_refl])
qed

lemma queries_within:
  assumes "proxy_within R (dg_proxy dg)"
  shows "within R (executeQueryFromBuilder dg b)" "within R (executeQueryUint64FromBuilder dg b)"
    "within R (executeQueryBoolFromBuilder dg b)"
  by (rule withinI, auto simp: executeQueryFromBuilder_def executeQueryUint64FromBuilder_def executeQueryBoolFromBuilder_def
    ExecuteQueryReturningUint64_def ExecuteQueryReturningBool_def wp_simps R_refl split: sum.split option.split list.split
    intro!: within_call [OF query_within [OF assms] R_refl])+

lemma getter_within:
  assumes "proxy_within R (dg_proxy dg)"
  shows "within R (GetCurrentBatchAsDataBytes dg)" "within R (GetTokenIdForErc20Address dg bs)"
    "within R (GetERC20AddressForTokenId dg bs)" "within R (WasProposedTransfer dg bo)" "within R (WasExecuted dg a)"
    "within R (GetActionIDForProposeTransfer dg bo)" "within R (WasProposedSetStatus dg bo)"
    "within R (GetActionIDForSetStatusOnPendingTransfer dg bo)" "within R (QuorumReached dg a)"
    "within R (GetLastExecutedEthBatchID dg)" "within R (GetLastExecutedEthTxID dg)" "within R (WasSigned dg a)"
    "within R (GetAllStakedRelayers dg)" "within R (IsPaused dg)"
  using queries_within [OF assms]
  unfolding GetCurrentBatchAsDataBytes_def GetTokenIdForErc20Address_def GetERC20AddressForTokenId_def WasProposedTransfer_def
    WasExecuted_def GetActionIDForProposeTransfer_def WasProposedSetStatus_def GetActionIDForSetStatusOnPendingTransfer_def
    QuorumReached_def GetLastExecutedEthBatchID_def GetLastExecutedEthTxID_def WasSigned_def GetAllStakedRelayers_def IsPaused_def
  by (cases bo; simp)+

lemma mappers_within:
  assumes "proxy_within R (dg_proxy dg)"
  shows "within R (erc20ToMultiversX_ConvertToken dg bs)" "within R (multiversXToErc20_ConvertToken dg bs)"
  by (rule withinI, auto simp: erc20ToMultiversX_ConvertToken_def multiversXToErc20_ConvertToken_def wp_simps
    split: sum.split list.split intro!: within_call [OF getter_within(2) [OF assms] R_refl]
      within_call [OF getter_within(3) [OF assms] R_refl])+

text \<open>From here on a world \<open>w0\<close> is fixed and every world met is related to it.\<close>

lemma withinI0: "(\<And>w0 w. R w0 w \<Longrightarrow> wlp (f w) (\<lambda>(r, w'). R w0 w')) \<Longrightarrow> within R f"
  by (rule withinI) (simp add: R_refl)

lemma convertCached_within:
  assumes "\<And>t. within R (conv t)"
  shows "within R (convertCached conv cache d bs)"
  using assms by (auto simp: convertCached_def within_def R_refl split: option.splits)

lemma responseDeposits_within:
  assumes "\<forall>t. within R (mc_tokensMapper c t)"
  shows "R w0 w \<Longrightarrow> wlp (responseDeposits c i cache bss w) (\<lambda>(r, w'). R w0 w')"
proof (induction bss arbitrary: i cache w rule: measure_induct_rule [where f = length])
  case (less bss)
  show ?case
  proof (cases rule: responseDeposits.cases [of "(c, i, cache, bss, w)"])
    case (2 c' i' cache' b1 b2 b3 b4 b5 b6 b7 rest w')
    have "wlp (responseDeposits c' k m rest v) (\<lambda>(r, v'). R w0 v')" if "R w0 v" for k m v
      using less.IH [OF _ that, of rest] 2 by simp
    then have ih: "wlp (responseDeposits c' k m rest v) Q" if "R w0 v" "\<And>r v'. R w0 v' \<Longrightarrow> Q (r, v')" for k m v Q
      by (rule wpg_mono) (use that in auto)
    show ?thesis
      using 2 less.prems assms by (auto simp: wp_simps Let_def split: sum.split
        intro!: within_call [OF convertCached_within] ih)
  qed (use less.prems in \<open>auto simp: wp_simps\<close>)
qed

lemma GetPending_within:
  assumes "mx_parts_within R c"
  shows "within R (mxc_GetPending c)"
proof (rule withinI0)
  have p: "proxy_within R (dg_proxy (mc_getter c))" and t: "\<forall>t. within R (mc_tokensMapper c t)"
    using assms by (simp_all add: mx_parts_within_def)
  show "wlp (mxc_GetPending c w) (\<lambda>(r, w'). R w0 w')" if "R w0 w" for w0 w
    using that by (auto simp: mxc_GetPending_def createPendingBatchFromResponse_def Let_def wp_simps split: sum.split
      intro!: within_call [OF getter_within(1) [OF p]] responseDeposits_within [OF t, THEN wpg_mono])
qed

lemma SendTransaction_within:
  assumes "mx_parts_within R c"
  shows "within R (SendTransactionReturnHash (mc_txHandler c) b g)"
proof (rule withinI0)
  let ?th = "mc_txHandler c"
  have p: "within R (GetNetworkConfig (th_proxy ?th))" "\<And>a. within R (nth_GetNonce (th_nonceTxHandler ?th) a)"
    "\<And>tx. within R (nth_SendTransaction (th_nonceTxHandler ?th) tx)"
    using assms by (simp_all add: mx_parts_within_def proxy_within_def)
  show "wlp (SendTransactionReturnHash ?th b g w) (\<lambda>(r, w'). R w0 w')" if "R w0 w" for w0 w
    using that by (auto simp: SendTransactionReturnHash_def signTransaction_def Let_def wp_simps split: sum.split option.split
      intro!: p [THEN within_call])
qed

lemma mx_sends_within:
  assumes "mx_parts_within R c"
  shows "within R (mxc_ProposeSetStatus c bo)" "within R (mxc_ProposeTransfer c bo)" "within R (mxc_Sign c a)"
    "within R (mxc_PerformAction c a bo)"
proof -
  have p: "within R (IsPaused (mc_getter c))"
    using assms getter_within(14) by (simp add: mx_parts_within_def)
  have paused: "within R (checkIsPaused c)"
    by (rule withinI0) (auto simp: checkIsPaused_def wp_simps split: sum.split intro!: p [THEN within_call])
  show "within R (mxc_ProposeSetStatus c bo)" "within R (mxc_ProposeTransfer c bo)" "within R (mxc_Sign c a)"
    "within R (mxc_PerformAction c a bo)"
    by (rule withinI0, auto simp: mxc_ProposeSetStatus_def mxc_ProposeTransfer_def mxc_Sign_def mxc_PerformAction_def wp_simps
      split: option.split intro!: paused [THEN within_call] SendTransaction_within [OF assms, THEN within_call])+
qed

lemma metrics_within:
  assumes "handler_within R h" "R w0 w"
  shows "R w0 (sh_SetStringMetric h k v w)" "R w0 (sh_SetIntMetric h k i w)" "R w0 (sh_AddIntMetric h k i w)"
  using assms unfolding handler_within_def by (meson R_trans)+

lemma mx_available_within:
  assumes "mx_parts_within R c" "\<And>m w. R w (put m w)"
  shows "within R (mx_CheckClientAvailability (mx_client_interface cells put c))"
proof (rule withinI0)
  let ?p = "dg_proxy (mc_getter c)"
  have p: "\<And>a. within R (GetShardOfAddress ?p a)" "\<And>s. within R (GetNetworkStatus ?p s)" and h: "handler_within R (mc_statusHandler c)"
    using assms(1) by (simp_all add: mx_parts_within_def proxy_within_def)
  have put: "R w0 w \<Longrightarrow> R w0 (put m w)" for w0 w m
    by (rule R_trans [OF _ assms(2)])
  show "wlp (mx_CheckClientAvailability (mx_client_interface cells put c) w) (\<lambda>(r, w'). R w0 w')" if "R w0 w" for w0 w
    using that by (auto simp: mx_client_interface_def mxc_CheckClientAvailability_def GetCurrentNonce_def getShardID_def mx_load_def
      mx_setStatusForAvailabilityCheck_def mx_incrementRetriesAvailabilityCheck_def Let_def wp_simps split: sum.split option.split
      intro!: p [THEN within_call] put metrics_within h)
qed

lemma mx_client_within:
  assumes "mx_parts_within R c" "\<And>m w. R w (put m w)"
  shows "mx_within R (mx_client_interface cells put c)"
proof -
  have p: "proxy_within R (dg_proxy (mc_getter c))"
    using assms(1) by (simp add: mx_parts_within_def)
  show ?thesis
    using mx_available_within [OF assms] GetPending_within [OF assms(1)] mx_sends_within [OF assms(1)] getter_within [OF p]
    by (simp add: mx_within_def mx_client_interface_def)
qed

section \<open>The Ethereum client\<close>

lemma eth_parts_ops:
  assumes "eth_parts_within R c"
  shows "within R (cw_GetBatch (ec_clientWrapper c) n)" "within R (cw_GetBatchDeposits (ec_clientWrapper c) n)"
    "within R (cw_WasBatchExecuted (ec_clientWrapper c) n)" "within R (cw_ChainID (ec_clientWrapper c))"
    "within R (cw_BlockNumber (ec_clientWrapper c))" "within R (cw_NonceAt (ec_clientWrapper c) a n)"
    "within R (cw_ExecuteTransfer (ec_clientWrapper c) opts l n sigs)" "within R (cw_Quorum (ec_clientWrapper c))"
    "within R (cw_GetStatusesAfterExecution (ec_clientWrapper c) n)" "within R (cw_BalanceAt (ec_clientWrapper c) a)"
    "within R (cw_IsPaused (ec_clientWrapper c))" "within R (ec_BalanceOf c t a)" "within R (ec_BroadcastSignature c sg h)"
    "within R (ec_tokensMapper c t)"
  using assms by (simp_all add: eth_parts_within_def wrapper_within_def)

lemma fetchedDeposits_within:
  assumes "eth_parts_within R c"
  shows "R w0 w \<Longrightarrow> wlp (fetchedDeposits c cache ds w) (\<lambda>(r, w'). R w0 w')"
proof (induction ds arbitrary: cache w)
  case (Cons d ds)
  have ih: "wlp (fetchedDeposits c m ds v) Q" if "R w0 v" "\<And>r v'. R w0 v' \<Longrightarrow> Q (r, v')" for m v Q
    using Cons.IH [OF that(1)] by (rule wpg_mono) (use that in auto)
  show ?case
    using Cons.prems by (auto simp: wp_simps Let_def split: sum.split option.split
      intro!: ih within_call [OF convertCached_within] eth_parts_ops [OF assms])
qed simp

lemma eth_GetBatch_within:
  assumes "eth_parts_within R c"
  shows "within R (ethc_GetBatch c n)"
proof (rule withinI0)
  note ops = eth_parts_ops [OF assms, THEN within_call]
  show "wlp (ethc_GetBatch c n w) (\<lambda>(r, w'). R w0 w')" if "R w0 w" for w0 w
    using that by (auto simp: ethc_GetBatch_def wp_simps split: sum.split option.split
      intro!: ops fetchedDeposits_within [OF assms, THEN wpg_mono])
qed

lemma checkTransfers_within:
  assumes "eth_parts_within R c"
  shows "R w0 w \<Longrightarrow> wlp (checkTransfers c ts w) (\<lambda>(r, w'). R w0 w')"
proof (induction ts arbitrary: w)
  case (Cons t ts)
  then show ?case
    by (cases t) (auto simp: wp_simps split: sum.split option.split intro!: eth_parts_ops(12) [OF assms, THEN within_call])
qed simp

lemma checks_within:
  assumes "eth_parts_within R c"
  shows "within R (checkAvailableTokens ord c ts as)" "within R (checkRelayerFundsForFee c fee)" "within R (ethc_getNonce c a)"
  using checkTransfers_within [OF assms]
  by (rule_tac withinI0, auto simp: checkAvailableTokens_def checkCumulatedTransfers_def checkRelayerFundsForFee_def
    ethc_getNonce_def wp_simps split: sum.split option.split intro!: wlp_I [of "getCumulatedTransfers ts as"]
      eth_parts_ops [OF assms, THEN within_call])+

lemma sendTransfer_within:
  assumes "eth_parts_within R c"
  shows "within R (sendTransfer ord c h batch q auth)"
proof (rule withinI0)
  note ops = eth_parts_ops(7) [OF assms, THEN within_call] checks_within [OF assms, THEN within_call]
  show "wlp (sendTransfer ord c h batch q auth w) (\<lambda>(r, w'). R w0 w')" if "R w0 w" for w0 w
    using that by (auto simp: sendTransfer_def Let_def wp_simps split: sum.split option.split
      intro!: wlp_I [of "extractList c batch"] ops)
qed

lemma ExecuteTransfer_within:
  assumes "eth_parts_within R c"
  shows "within R (ethc_ExecuteTransfer ord c h bo q)"
proof (rule withinI0)
  note ops = eth_parts_ops [OF assms, THEN within_call] checks_within(3) [OF assms, THEN within_call]
    sendTransfer_within [OF assms, THEN within_call]
  show "wlp (ethc_ExecuteTransfer ord c h bo q w) (\<lambda>(r, w'). R w0 w')" if "R w0 w" for w0 w
    using that by (auto simp: ethc_ExecuteTransfer_def wp_simps split: sum.split option.split bool.split intro!: ops)
qed

lemma eth_client_within:
  assumes "eth_parts_within R c" "\<And>m w. R w (put m w)"
  shows "eth_within R (eth_client_interface ord cells put c)"
proof -
  note ops = eth_parts_ops [OF assms(1), THEN within_call]
  have h: "handler_within R (cw_StatusHandler (ec_clientWrapper c))"
    using assms(1) by (simp add: eth_parts_within_def wrapper_within_def)
  have put: "R w0 w \<Longrightarrow> R w0 (put m w)" for w0 w m
    by (rule R_trans [OF _ assms(2)])
  have quorum: "within R (ethc_IsQuorumReached c hash)"
    "within R (eth_GetQuorumSize (eth_client_interface ord cells put c))" for hash
    by (rule withinI0, auto simp: ethc_IsQuorumReached_def eth_client_interface_def ethc_GetQuorumSize_def Let_def wp_simps
      split: sum.split option.split intro!: ops)+
  have "within R (eth_CheckClientAvailability (eth_client_interface ord cells put c))"
    by (rule withinI0) (auto simp: eth_client_interface_def ethc_CheckClientAvailability_def eth_load_def
      eth_setStatusForAvailabilityCheck_def eth_incrementRetriesAvailabilityCheck_def Let_def wp_simps split: sum.split
      intro!: ops put metrics_within h)
  moreover have "within R (BroadcastSignatureForMessageHash c hash)" for hash
    using eth_parts_ops(13) [OF assms(1)] by (auto simp: BroadcastSignatureForMessageHash_def within_def R_refl split: sum.splits)
  ultimately show ?thesis
    using quorum eth_GetBatch_within [OF assms(1)] ExecuteTransfer_within [OF assms(1)] eth_parts_ops [OF assms(1)]
    by (simp add: eth_within_def eth_client_interface_def ethc_WasExecuted_def ethc_GetTransactionsStatuses_def)
qed

text \<open>The signatures a successful transfer sent were read in a world related to the one it was called in.\<close>

lemma ExecuteTransfer_reads:
  assumes "eth_parts_within R c" "range_order ord" "ethc_ExecuteTransfer ord c h b q w = Some (Inr hash, w')"
  shows "\<exists>batch l auth v u. b = Some batch \<and> extractList c batch = Some l \<and> covered c l \<and> R w v \<and>
    length (take (nat q) (ec_Signatures c h v)) = nat q \<and> 0 \<le> q \<and>
    cw_ExecuteTransfer (ec_clientWrapper c) auth l (uint (ID batch)) (take (nat q) (ec_Signatures c h v)) u =
      Some (Inr (Some hash), w')"
  using assms(3)
proof (rule ExecuteTransfer_sends)
  fix batch w1 nonce wn chainId w2 gasPrice auth
  assume s: "b = Some batch" "cw_IsPaused (ec_clientWrapper c) w = Some (Inr False, w1)"
    "ethc_getNonce c (ec_relayerAddress c) w1 = Some (Inr nonce, wn)" "cw_ChainID (ec_clientWrapper c) wn = Some (Inr chainId, w2)"
    "sendTransfer ord c h batch q auth w2 = Some (Inr hash, w')"
  have "R w w2"
    using withinD [OF eth_parts_ops(11) [OF assms(1)] s(2)] withinD [OF checks_within(3) [OF assms(1)] s(3)]
      withinD [OF eth_parts_ops(4) [OF assms(1)] s(4)] by (blast intro: R_trans)
  moreover obtain l u where "extractList c batch = Some l" "covered c l" "0 \<le> q" "nat q \<le> length (ec_Signatures c h w2)"
    "cw_ExecuteTransfer (ec_clientWrapper c) auth l (uint (ID batch)) (take (nat q) (ec_Signatures c h w2)) u = Some (Inr (Some hash), w')"
    using sendTransfer_sent [OF assms(2) s(5)] by auto
  ultimately show ?thesis
    using s(1) by (intro exI [of _ batch] exI [of _ l] exI [of _ auth] exI [of _ w2] exI [of _ u]) simp
qed

end

end
