(* ===== verification/Relayer_Actions.thy ===== *)
theory Relayer_Actions
  imports Bridge_Factory_Correct Client_Effects
begin

text \<open>
  What the goroutines of a relayer do to the memory they share, as atomic actions, and the invariant
  that all of them keep: each whitelist is the list of one answer of its contract, and every held
  signature came in a received message that passed all checks.
\<close>

section \<open>Actions\<close>

text \<open>The libraries of the network do not reach into the relayer's memory.\<close>

definition p2p_outside :: "'x relayer_world p2p_env \<Rightarrow> bool" where
  "p2p_outside env \<longleftrightarrow>
     (\<forall>m p. within outside_only (CanProcessMessage env m p)) \<and>
     (\<forall>p t n k q. within outside_only (CanProcessMessagesOnTopic env p t n k q)) \<and>
     (\<forall>p r d w. outside_only w (BlacklistPeer env p r d w)) \<and> (\<forall>t d w. outside_only w (messenger_Broadcast env t d w)) \<and>
     (\<forall>t d p. within outside_only (messenger_SendToConnectedPeer env t d p))"

inductive relayer_action :: "((bytes \<times> SignedMessage) list \<Rightarrow> (bytes \<times> SignedMessage) list) \<Rightarrow> 'x relayer_world broadcaster
    \<Rightarrow> 'x relayer_world mxClientDataGetter \<Rightarrow> 'x relayer_world ClientWrapper
    \<Rightarrow> 'x relayer_world \<Rightarrow> 'x relayer_world \<Rightarrow> bool"
  for ord b getter cw where
  message_received: "br_receive ord b message peer w = Some (err, w') \<Longrightarrow> relayer_action ord b getter cw w w'"
| signature_sent: "br_call (BroadcastSignature sig h) b w = Some (u, w') \<Longrightarrow> relayer_action ord b getter cw w w'"
| join_sent: "br_call BroadcastJoinTopic b w = Some (u, w') \<Longrightarrow> relayer_action ord b getter cw w w'"
| mx_relayers_polled: "answered (GetAllStakedRelayers getter) r \<Longrightarrow> mrp_finish isValid (mx_provider getter) r w = Some (err, w') \<Longrightarrow>
    relayer_action ord b getter cw w w'"
| eth_relayers_polled: "answered (cw_GetRelayers cw) r \<Longrightarrow> erp_finish (eth_provider cw) r w = Some (err, w') \<Longrightarrow>
    relayer_action ord b getter cw w w'"
| signatures_cleared: "relayer_action ord b getter cw w (clear_signatures w)"
| gas_fetched: "relayer_action ord b getter cw w (w\<lparr>rw_gas := g\<rparr>)"
| eth_metric: "relayer_action ord b getter cw w (ethMetrics_put m w)"
| mx_metric: "relayer_action ord b getter cw w (mxMetrics_put m w)"
| mx_checked: "relayer_action ord b getter cw w (mxCells_put x w)"
| eth_checked: "relayer_action ord b getter cw w (ethCells_put y w)"
| outside_changed: "outside_only w w' \<Longrightarrow> relayer_action ord b getter cw w w'"

abbreviation relayer_actions :: "((bytes \<times> SignedMessage) list \<Rightarrow> (bytes \<times> SignedMessage) list)
    \<Rightarrow> 'x relayer_world broadcaster \<Rightarrow> 'x relayer_world mxClientDataGetter \<Rightarrow> 'x relayer_world ClientWrapper
    \<Rightarrow> 'x relayer_world \<Rightarrow> 'x relayer_world \<Rightarrow> bool" where
  "relayer_actions ord b getter cw \<equiv> (relayer_action ord b getter cw)\<^sup>*\<^sup>*"

interpretation acts: world_effects "relayer_actions ord b getter cw" for ord b getter cw
  by unfold_locales auto

interpretation outside: world_effects outside_only
proof (unfold_locales, goal_cases)
  case (1 w)
  show ?case unfolding outside_only_def by (intro exI [of _ "rw_outside w"]) simp
next
  case (2 u v w)
  then show ?case by (auto simp: outside_only_def)
qed

section \<open>Polls as sequences of actions\<close>

text \<open>
  While the query of a poll is running the other goroutines may act; what the code does with the answer
  is one action.
\<close>

lemma mrp_poll_acts:
  assumes "proxy_within (relayer_actions ord b getter cw) (dg_proxy getter)"
  shows "within (relayer_actions ord b getter cw) (mrp_poll isValid (mx_provider getter))"
proof -
  have "relayer_actions ord b getter cw w w'" if "mrp_poll isValid (mx_provider getter) w = Some (err, w')" for w err w'
  proof -
    from that obtain r v where query: "GetAllStakedRelayers getter w = Some (r, v)"
      and rest: "mrp_finish isValid (mx_provider getter) r v = Some (err, w')"
      by (auto simp: mrp_poll_finish mx_provider_def bind_Some_conv)
    have "relayer_actions ord b getter cw w v"
      using acts.getter_within(13) [OF assms] query by (rule withinD)
    moreover have "relayer_action ord b getter cw v w'"
      using query by (intro mx_relayers_polled [OF _ rest]) (auto simp: answered_def)
    ultimately show ?thesis by (rule rtranclp.rtrancl_into_rtrancl)
  qed
  then show ?thesis by (auto simp: within_def)
qed

lemma erp_poll_acts:
  assumes "wrapper_within (relayer_actions ord b getter cw) cw"
  shows "within (relayer_actions ord b getter cw) (erp_poll (eth_provider cw))"
proof -
  have "relayer_actions ord b getter cw w w'" if "erp_poll (eth_provider cw) w = Some (err, w')" for w err w'
  proof -
    from that obtain r v where query: "cw_GetRelayers cw w = Some (r, v)"
      and rest: "erp_finish (eth_provider cw) r v = Some (err, w')"
      by (auto simp: erp_poll_finish eth_provider_def bind_Some_conv)
    have "relayer_actions ord b getter cw w v"
      using assms query unfolding wrapper_within_def by (blast dest: withinD)
    moreover have "relayer_action ord b getter cw v w'"
      using query by (intro eth_relayers_polled [OF _ rest]) (auto simp: answered_def)
    ultimately show ?thesis by (rule rtranclp.rtrancl_into_rtrancl)
  qed
  then show ?thesis by (auto simp: within_def)
qed

lemma gas_round_acts:
  assumes "\<And>n r. within (relayer_actions ord b getter cw) (gas_do env n r)"
    "\<And>r w. relayer_actions ord b getter cw w (gas_closeBody env r w)"
  shows "within (relayer_actions ord b getter cw) (gas_round env)"
proof (rule acts.withinI0)
  let ?A = "relayer_actions ord b getter cw"
  have close: "?A w0 w \<Longrightarrow> ?A w0 (gas_closeBody env r w)" for w0 w r
    by (rule acts.R_trans [OF _ assms(2)])
  have gas: "?A w0 w \<Longrightarrow> ?A w0 (w\<lparr>rw_gas := g\<rparr>)" for w0 w g
    by (erule rtranclp.rtrancl_into_rtrancl) (rule gas_fetched)
  show "wlp (gas_round env w) (\<lambda>(r, w'). ?A w0 w')" if "?A w0 w" for w0 w
    using that by (auto simp: gas_round_def doRequestWithRetryMechanism_def gas_doRequest_def gas_doRequestReturningBytes_def
      Let_def wp_simps split: gasHandler.split sum.split option.split prod.split intro!: acts.within_call [OF assms(1)] close gas)
qed

text \<open>A status handler of the relayer: it saves to the storer, then keeps its metrics.\<close>

lemma status_acts:
  assumes "\<And>k v w. R w (snd (st_Put (sth_storer sh) k v w))" "\<And>m w. R w (put m w)" "world_effects R"
  shows "handler_within R (status_interface get put sh)"
proof -
  have "R w (snd (persistChanges metric (s, w)))" if "sth_storer s = sth_storer sh" for s metric w
    using assms(1) [of w] that world_effects.R_refl [OF assms(3)]
    by (auto simp: persistChanges_def case_prod_beta Let_def split: sum.split)
  then show ?thesis
    by (auto simp: handler_within_def status_interface_def status_call_def SetIntMetric_def AddIntMetric_def SetStringMetric_def
      sth_at_def case_prod_beta Let_def intro!: world_effects.R_trans [OF assms(3) _ assms(2)])
qed

section \<open>The world effect of a message\<close>

lemma p2p_outside_ops:
  assumes "p2p_outside env"
  shows "within outside_only (CanProcessMessage env m p)" "within outside_only (CanProcessMessagesOnTopic env p t n k q)"
    "outside_only w (BlacklistPeer env p r dur w)" "outside_only w (messenger_Broadcast env t d w)"
    "within outside_only (messenger_SendToConnectedPeer env t d p)"
  using assms by (simp_all add: p2p_outside_def)

lemma canProcess_outside:
  assumes "p2p_outside (br_env b)" "canProcessMessage m p (b, w) = Some (err, (b', w'))"
  shows "outside_only w w'"
proof -
  note ops = p2p_outside_ops [OF assms(1)]
  have "wlp (canProcessMessage m p (b, w)) (\<lambda>(err, s'). outside_only w (snd s'))"
    by (auto simp: canProcessMessage_def wp_simps outside.R_refl split: option.split
      intro!: outside.within_call [OF ops(1)] outside.within_call [OF ops(2)])
  from wlp_D [OF this assms(2)] show ?thesis by simp
qed

lemma sendAll_outside:
  "p2p_outside (br_env (fst s)) \<Longrightarrow> outside_only w (snd s) \<Longrightarrow> sendAll p msgs s = Some (u, s') \<Longrightarrow> outside_only w (snd s')"
proof (induction msgs arbitrary: s)
  case (Cons m ms)
  obtain b v where s: "s = (b, v)" by (cases s)
  obtain err t where t: "sendSignedMessageToPeer m p s = Some (err, t)" "sendAll p ms t = Some (u, s')"
    using Cons.prems(3) by (auto simp: bind_Some_conv)
  have "outside_only v (snd t)"
    using t(1) p2p_outside_ops(5) [OF Cons.prems(1)] outside.R_refl
    by (auto simp: s sendSignedMessageToPeer_def within_def bind_Some_conv split: sum.splits)
  with Cons.prems(2) have "outside_only w (snd t)"
    unfolding s by (auto intro: outside.R_trans)
  moreover have "fst t = fst s" by (rule fst_sendSignedMessageToPeer [OF t(1)])
  ultimately show ?case using Cons.IH [OF _ _ t(2)] Cons.prems(1) by simp
qed simp

text \<open>
  A received message changes nothing but the outside, or it is verified, its sender is whitelisted, and
  then its verified Ethereum signature is handed to the clients.
\<close>

definition delivered :: "MessageP2P \<Rightarrow> 'w p2p_env \<Rightarrow> 'w \<Rightarrow> 'w \<Rightarrow> SignedMessage \<Rightarrow> EthereumSignature \<Rightarrow> bool" where
  "delivered message env w v msg e \<longleftrightarrow>
     unmarshalSigned env (p2p_Data message) = Inr msg \<and>
     (\<exists>pk. PublicKeyFromByteArray env (msg_PublicKeyBytes msg) = Inr pk \<and>
        singleSigner_Verify env pk (msg_Payload msg @ putUint64 (msg_Nonce msg)) (msg_Signature msg) = None) \<and>
     env_IsWhitelisted env w (msg_PublicKeyBytes msg) \<and> unmarshalEth env (msg_Payload msg) = Inr e \<and>
     env_VerifyEthSignature env v (eth_Signature e) (eth_MessageHash e) = None"

lemma blacklist_outside: "p2p_outside (br_env b) \<Longrightarrow> outside_only w (snd (blacklistBoth m p r (b, w)))"
  by (auto simp: blacklistBoth_def Let_def intro: outside.R_trans p2p_outside_ops)

lemma preProcess_outside:
  assumes "p2p_outside (br_env b)" "preProcessMessage m p (b, w) = Some (r, s)"
  shows "fst s = b \<and> outside_only w (snd s)"
  using assms(2)
proof (cases rule: preProcessMessage_cases)
  case (1 err)
  then have "outside_only w (snd s)"
    unfolding blacklisted_def using blacklist_outside [OF assms(1)] outside.R_refl by (metis snd_conv)
  with 1 show ?thesis by (simp add: fst_blacklisted)
qed (simp add: outside.R_refl)

lemma receive_effect:
  assumes "p2p_outside (br_env b)" "ProcessReceivedMessage ord message peer (b, w) = Some (err, (b', w'))"
  shows "outside_only w w' \<or> (\<exists>v msg e. outside_only w v \<and> delivered message (br_env b) w v msg e \<and>
    w' = fold (\<lambda>c. bc_ProcessNewMessage c (Some msg) (Some e)) (br_clients b) v)"
proof -
  obtain r s where pre: "preProcessMessage message peer (b, w) = Some (r, s)"
    using assms(2) by (auto simp: ProcessReceivedMessage_def bind_Some_conv)
  note out = preProcess_outside [OF assms(1) pre]
  from pre show ?thesis
  proof (cases rule: preProcessMessage_cases)
    case (1 e)
    with assms(2) pre out show ?thesis by (auto simp: ProcessReceivedMessage_def)
  next
    case (2 msg pk)
    show ?thesis
    proof (cases "env_IsWhitelisted (br_env b) w (msg_PublicKeyBytes msg) \<and> nonce_of (br_nonces b) (msg_PublicKeyBytes msg) < msg_Nonce msg")
      case False
      with assms(2) pre 2 have "w' = w"
        by (auto simp: ProcessReceivedMessage_def processNonce_def Let_def split: if_splits)
      then show ?thesis by (simp add: outside.R_refl)
    next
      case True
      let ?b = "b\<lparr>br_nonces := gm_set (msg_PublicKeyBytes msg) (msg_Nonce msg) (br_nonces b)\<rparr>"
      have pn: "processNonce msg (br_nonces b) = (None, br_nonces ?b)"
        using True by (simp add: processNonce_None)
      obtain e u where u: "canProcessMessage (Some message) peer (?b, w) = Some (e, u)"
        using True assms(2) pre 2 pn by (auto simp: ProcessReceivedMessage_def Let_def bind_Some_conv)
      have fu: "fst u = ?b" using fst_canProcessMessage [OF u] by simp
      have ou: "outside_only w (snd u)"
        using canProcess_outside [of ?b "Some message" peer w e "fst u" "snd u"] assms(1) u by simp
      consider "w' = snd u" | x where "processJoinMessage ord message u = Some (x, (b', w'))" | "(b', w') = processSignMessage msg u"
        using assms(2) pre 2 True pn u fu
        by (auto simp: ProcessReceivedMessage_def Let_def bind_Some_conv split: if_splits)
      then show ?thesis
      proof cases
        case 1
        with ou show ?thesis by simp
      next
        case (2 x)
        then obtain y where "sendAll (p2p_Peer message) (map snd (ord (retrieveUniqueMessages u))) u = Some (y, (b', w'))"
          by (auto simp: processJoinMessage_def broadcastCurrentSignatures_def bind_Some_conv)
        from sendAll_outside [OF _ ou this] fu assms(1) show ?thesis by simp
      next
        case 3
        obtain v where v: "u = (?b, v)" using fu by (cases u) auto
        from 3 2 True ou show ?thesis
          by (auto simp: v processSignMessage_def getEthereumSignature_def notifyClients_def delivered_def
            split: sum.splits option.splits)
      qed
    qed
  qed
qed

section \<open>Authentic worlds\<close>

definition staked_relayer :: "'w mxClientDataGetter \<Rightarrow> bytes \<Rightarrow> bool" where
  "staked_relayer getter pk \<longleftrightarrow> (\<exists>results. answered (GetAllStakedRelayers getter) (Inr results) \<and> pk \<in> set results)"

definition ethereum_relayer :: "'w ClientWrapper \<Rightarrow> bytes \<Rightarrow> bool" where
  "ethereum_relayer cw a \<longleftrightarrow> (\<exists>results. answered (cw_GetRelayers cw) (Inr results) \<and> a \<in> set results)"

text \<open>
  A message that a staked relayer signed and that carries an Ethereum signature from which the key of
  a relayer of the Ethereum contract is recovered.
\<close>

definition authenticated :: "('t, 'b, 'r, 'pk, 'l, 'w) factory_lib \<Rightarrow> 'w mxClientDataGetter \<Rightarrow> 'w ClientWrapper
    \<Rightarrow> MessageP2P \<Rightarrow> EthereumSignature \<Rightarrow> bool" where
  "authenticated lib getter cw message e \<longleftrightarrow> (\<exists>msg pk pkBytes epk.
     fl_unmarshalSigned lib (p2p_Data message) = Inr msg \<and>
     fl_PublicKeyFromByteArray lib (msg_PublicKeyBytes msg) = Inr pk \<and>
     fl_Verify lib pk (msg_Payload msg @ putUint64 (msg_Nonce msg)) (msg_Signature msg) = None \<and>
     staked_relayer getter (msg_PublicKeyBytes msg) \<and> fl_unmarshalEth lib (msg_Payload msg) = Inr e \<and>
     Ecrecover (fl_crypto lib) (eth_MessageHash e) (eth_Signature e) = Inr pkBytes \<and>
     UnmarshalPubkey (fl_crypto lib) pkBytes = Inr epk \<and>
     ethereum_relayer cw (PubkeyToAddress (fl_crypto lib) epk) \<and>
     VerifySignature (fl_crypto lib) pkBytes (eth_MessageHash e) (take 64 (eth_Signature e)))"

text \<open>A whitelist that is the list of one answer of a contract, or empty before the first poll.\<close>

definition polled_whitelist :: "('w, go_error + bytes list) prog \<Rightarrow> (bytes, unit) gomap \<Rightarrow> bool" where
  "polled_whitelist query m \<longleftrightarrow> m = [] \<or> (\<exists>results. answered query (Inr results) \<and> fst ` set m = set results)"

definition authentic_world :: "('t, 'b, 'r, 'pk, 'l, 'x relayer_world) factory_lib \<Rightarrow> 'x relayer_world mxClientDataGetter
    \<Rightarrow> 'x relayer_world ClientWrapper \<Rightarrow> 'x relayer_world \<Rightarrow> bool" where
  "authentic_world lib getter cw w \<longleftrightarrow>
     polled_whitelist (GetAllStakedRelayers getter) (rw_mxRelayers w) \<and>
     polled_whitelist (cw_GetRelayers cw) (rw_ethRelayers w) \<and>
     (\<forall>e \<in> set (ethMessages (rw_signatures w)). \<exists>message \<in> set (rw_received w). authenticated lib getter cw message e)"

lemma authentic_relayers:
  assumes "authentic_world lib getter cw w"
  shows "pk \<in> fst ` set (rw_mxRelayers w) \<Longrightarrow> staked_relayer getter pk"
    "a \<in> fst ` set (rw_ethRelayers w) \<Longrightarrow> ethereum_relayer cw a"
  using assms unfolding authentic_world_def polled_whitelist_def staked_relayer_def ethereum_relayer_def by auto

lemma outside_authentic: "outside_only w w' \<Longrightarrow> authentic_world lib getter cw w \<Longrightarrow> authentic_world lib getter cw w'"
  by (auto simp: outside_only_def authentic_world_def)

text \<open>A broadcaster as the factory assembles it.\<close>

definition assembled_broadcaster :: "('t, 'b, 'r, 'pk, 'l, 'x relayer_world) factory_lib \<Rightarrow> 'x relayer_world mxClientDataGetter
    \<Rightarrow> 'x relayer_world ClientWrapper \<Rightarrow> 'x relayer_world broadcaster \<Rightarrow> bool" where
  "assembled_broadcaster lib getter cw b \<longleftrightarrow>
     (\<exists>messenger antiflood. br_env b = broadcasterEnv lib messenger antiflood (mx_provider getter) (eth_provider cw)) \<and>
     br_clients b = [holder_client (fl_ordMessages lib)]"

lemma delivered_authenticated:
  assumes "assembled_broadcaster lib getter cw b" "delivered message (br_env b) w v msg e" "outside_only w v"
    "authentic_world lib getter cw w"
  shows "authenticated lib getter cw message e"
proof -
  obtain messenger antiflood where env: "br_env b = broadcasterEnv lib messenger antiflood (mx_provider getter) (eth_provider cw)"
    using assms(1) by (auto simp: assembled_broadcaster_def)
  have keys: "gm_get m k \<noteq> None \<longleftrightarrow> k \<in> fst ` set m" for m :: "(bytes, unit) gomap" and k
    using gm_get_unit [of m k] by auto
  have "msg_PublicKeyBytes msg \<in> fst ` set (rw_mxRelayers w)"
    using assms(2) by (simp add: delivered_def env broadcasterEnv_def mrp_whitelists_def mrp_IsWhitelisted_def mrp_at_def gm_get_unit)
  then have mx: "staked_relayer getter (msg_PublicKeyBytes msg)"
    by (rule authentic_relayers(1) [OF assms(4)])
  have "VerifyEthSignature (fl_crypto lib) (erp_at v (eth_provider cw)) (eth_Signature e) (eth_MessageHash e) = None"
    using assms(2) by (simp add: delivered_def env broadcasterEnv_def erp_verifies_def)
  then obtain pkBytes epk where eth: "Ecrecover (fl_crypto lib) (eth_MessageHash e) (eth_Signature e) = Inr pkBytes"
    "UnmarshalPubkey (fl_crypto lib) pkBytes = Inr epk" "PubkeyToAddress (fl_crypto lib) epk \<in> fst ` set (rw_ethRelayers v)"
    "VerifySignature (fl_crypto lib) pkBytes (eth_MessageHash e) (take 64 (eth_Signature e))"
    by (auto simp: VerifyEthSignature_iff erp_isWhitelisted_def erp_at_def keys simp del: not_None_eq)
  have "ethereum_relayer cw (PubkeyToAddress (fl_crypto lib) epk)"
    using authentic_relayers(2) [OF outside_authentic [OF assms(3,4)] eth(3)] .
  with mx eth assms(2) show ?thesis
    unfolding authenticated_def by (auto simp: delivered_def env broadcasterEnv_def)
qed

lemma receive_authentic:
  assumes "p2p_outside (br_env b)" "assembled_broadcaster lib getter cw b" "authentic_world lib getter cw w"
    "br_receive (fl_ordMessages lib) b message peer w = Some (err, w')"
  shows "authentic_world lib getter cw w'"
proof -
  obtain b' v where run: "ProcessReceivedMessage (fl_ordMessages lib) message peer (br_at w b, w) = Some (err, (b', v))"
    and w': "w' = (br_put b' v)\<lparr>rw_received := message # rw_received (br_put b' v)\<rparr>"
    using assms(4) by (auto simp: br_receive_def br_call_def bind_Some_conv)
  have b: "br_env (br_at w b) = br_env b" "br_clients (br_at w b) = [holder_client (fl_ordMessages lib)]"
    using assms(2) by (simp_all add: br_at_def assembled_broadcaster_def)
  have p: "p2p_outside (br_env (br_at w b))"
    using assms(1) b(1) by simp
  consider "outside_only w v" | u msg e where "outside_only w u" "delivered message (br_env b) w u msg e"
      "v = u\<lparr>rw_signatures := ProcessNewMessage (Some msg) (Some e) (rw_signatures u)\<rparr>"
    using receive_effect [OF p run] by (auto simp: b holder_client_def)
  then show ?thesis
  proof cases
    case 1
    then show ?thesis
      using outside_authentic [OF 1 assms(3)] by (auto simp: w' authentic_world_def br_put_def)
  next
    case (2 u msg e)
    have "authenticated lib getter cw message e"
      by (rule delivered_authenticated [OF assms(2) 2(2,1) assms(3)])
    with outside_authentic [OF 2(1) assms(3)] show ?thesis
      by (auto simp: w' 2(3) authentic_world_def br_put_def ProcessNewMessage_def)
  qed
qed

lemma broadcast_outside:
  assumes "p2p_outside (br_env b)" "broadcastMessage payload topic (br_at w b, w) = Some (err, t)"
  shows "outside_only w (snd t)"
  using assms(2) p2p_outside_ops(4) [OF assms(1), of w] outside.R_refl [of w]
  by (auto simp: broadcastMessage_def createMessage_def br_at_def Let_def bind_Some_conv split: sum.splits)

lemma send_outside:
  assumes "p2p_outside (br_env b)"
    "br_call (BroadcastSignature sig h) b w = Some (u, w') \<or> br_call BroadcastJoinTopic b w = Some (u, w')"
  shows "\<exists>v k n. outside_only w v \<and> w' = v\<lparr>rw_counter := k, rw_nonces := n\<rparr>"
proof -
  obtain payload topic err b' v where v: "broadcastMessage payload topic (br_at w b, w) = Some (err, (b', v))" "w' = br_put b' v"
    using assms(2) by (auto simp: br_call_def BroadcastSignature_def BroadcastJoinTopic_def Let_def bind_Some_conv)
  with broadcast_outside [OF assms(1) v(1)] show ?thesis
    by (intro exI [of _ v]) (auto simp: br_put_def)
qed

text \<open>A poll replaces the whitelist by the answer, or leaves it as it is.\<close>

lemma mrp_finish_whitelist:
  assumes "mrp_finish isValid (mx_provider getter) r w = Some (err, w')"
  shows "w' = w \<or> (\<exists>results m. r = Inr results \<and> fst ` set m = set results \<and> w' = w\<lparr>rw_mxRelayers := m\<rparr>)"
proof -
  obtain rp v where run: "mrp_Execute isValid ((mrp_at w (mx_provider getter))\<lparr>mrp_dataGetter := (\<lambda>w. Some (r, w))\<rparr>, w) = Some (err, (rp, v))"
    and w': "w' = v\<lparr>rw_mxRelayers := mrp_whitelistedAddresses rp\<rparr>"
    using assms by (auto simp: mrp_finish_def bind_Some_conv)
  from run show ?thesis
  proof (cases rule: mrp_Execute_cases)
    case (3 results)
    then have "r = Inr results" "w' = w\<lparr>rw_mxRelayers := fold (\<lambda>a. gm_set a ()) results []\<rparr>"
      "fst ` set (fold (\<lambda>a. gm_set a ()) results []) = set results"
      by (simp_all add: w')
    then show ?thesis by blast
  qed (simp_all add: w' mrp_at_def)
qed

lemma erp_finish_whitelist:
  assumes "erp_finish (eth_provider cw) r w = Some (err, w')"
  shows "w' = w \<or> (\<exists>results m. r = Inr results \<and> fst ` set m = set results \<and> w' = w\<lparr>rw_ethRelayers := m\<rparr>)"
proof (cases r)
  case (Inr results)
  then have "w' = w\<lparr>rw_ethRelayers := fold (\<lambda>a. gm_set a ()) results []\<rparr>"
    "fst ` set (fold (\<lambda>a. gm_set a ()) results []) = set results"
    using assms by (simp_all add: erp_finish_def erp_Execute_def erp_processResults_def erp_at_def)
  with Inr show ?thesis by blast
qed (use assms in \<open>simp add: erp_finish_def erp_Execute_def erp_at_def\<close>)

lemma polls_authentic:
  assumes "authentic_world lib getter cw w"
  shows "mrp_finish isValid (mx_provider getter) r w = Some (err, w') \<Longrightarrow> answered (GetAllStakedRelayers getter) r \<Longrightarrow>
      authentic_world lib getter cw w'"
    and "erp_finish (eth_provider cw) r w = Some (err, w') \<Longrightarrow> answered (cw_GetRelayers cw) r \<Longrightarrow>
      authentic_world lib getter cw w'"
proof -
  assume "mrp_finish isValid (mx_provider getter) r w = Some (err, w')" and r: "answered (GetAllStakedRelayers getter) r"
  from mrp_finish_whitelist [OF this(1)] consider "w' = w"
    | results m where "r = Inr results" "fst ` set m = set results" "w' = w\<lparr>rw_mxRelayers := m\<rparr>"
    by blast
  then show "authentic_world lib getter cw w'"
  proof cases
    case (2 results m)
    then have "polled_whitelist (GetAllStakedRelayers getter) m"
      using r by (auto simp: polled_whitelist_def)
    with assms show ?thesis by (simp add: authentic_world_def 2(3))
  qed (simp add: assms)
next
  assume "erp_finish (eth_provider cw) r w = Some (err, w')" and r: "answered (cw_GetRelayers cw) r"
  from erp_finish_whitelist [OF this(1)] consider "w' = w"
    | results m where "r = Inr results" "fst ` set m = set results" "w' = w\<lparr>rw_ethRelayers := m\<rparr>"
    by blast
  then show "authentic_world lib getter cw w'"
  proof cases
    case (2 results m)
    then have "polled_whitelist (cw_GetRelayers cw) m"
      using r by (auto simp: polled_whitelist_def)
    with assms show ?thesis by (simp add: authentic_world_def 2(3))
  qed (simp add: assms)
qed

lemma action_authentic:
  assumes "p2p_outside (br_env b)" "assembled_broadcaster lib getter cw b"
    "relayer_action (fl_ordMessages lib) b getter cw w w'" "authentic_world lib getter cw w"
  shows "authentic_world lib getter cw w'"
  using assms(3)
proof cases
  case (message_received message peer err)
  with assms(1,2,4) show ?thesis by (blast intro: receive_authentic)
next
  case (signature_sent sig h u)
  with send_outside [OF assms(1)] outside_authentic [OF _ assms(4)] show ?thesis
    by (fastforce simp: authentic_world_def)
next
  case (join_sent u)
  with send_outside [OF assms(1)] outside_authentic [OF _ assms(4)] show ?thesis
    by (fastforce simp: authentic_world_def)
next
  case (mx_relayers_polled r isValid err)
  then show ?thesis using polls_authentic(1) [OF assms(4)] by blast
next
  case (eth_relayers_polled r err)
  then show ?thesis using polls_authentic(2) [OF assms(4)] by blast
next
  case outside_changed
  with assms(4) show ?thesis by (blast intro: outside_authentic)
qed (use assms(4) in \<open>auto simp: authentic_world_def clear_signatures_def ClearStoredSignatures_def ethMetrics_put_def
  mxMetrics_put_def mxCells_put_def ethCells_put_def\<close>)

lemma actions_authentic:
  assumes "p2p_outside (br_env b)" "assembled_broadcaster lib getter cw b"
  shows "relayer_actions (fl_ordMessages lib) b getter cw w w' \<Longrightarrow> authentic_world lib getter cw w \<Longrightarrow> authentic_world lib getter cw w'"
  by (induction rule: rtranclp_induct) (auto intro: action_authentic [OF assms])

end
