(* ===== verification/Relayer_System.thy ===== *)
theory Relayer_System
  imports Relayer_Actions
begin

text \<open>
  The two half-bridges of a relayer running over one shared world, interleaved with each other and with
  the other goroutines: every run of the whole is a run of each half, and an invariant that the
  interfaces and the other goroutines keep holds whenever a half-bridge calls an interface.
\<close>

section \<open>Calls answered in worlds that satisfy an invariant\<close>

definition answered_in :: "('w \<Rightarrow> bool) \<Rightarrow> ('w, 'a) prog \<Rightarrow> 'a \<Rightarrow> bool" where
  "answered_in I f r \<longleftrightarrow> (\<exists>w w'. I w \<and> f w = Some (r, w'))"

fun genuine_in :: "('w \<Rightarrow> bool) \<Rightarrow> 'w bridgeExecutor \<Rightarrow> event \<Rightarrow> bool" where
  "genuine_in I ex (EvGetPending r) = answered_in I (mx_GetPending (ex_multiversXClient ex)) r"
| "genuine_in I ex (EvProposeTransfer b r) = answered_in I (mx_ProposeTransfer (ex_multiversXClient ex) b) r"
| "genuine_in I ex (EvProposeSetStatus b r) = answered_in I (mx_ProposeSetStatus (ex_multiversXClient ex) b) r"
| "genuine_in I ex (EvSign a r) = answered_in I (mx_Sign (ex_multiversXClient ex) a) r"
| "genuine_in I ex (EvPerformAction a b r) = answered_in I (mx_PerformAction (ex_multiversXClient ex) a b) r"
| "genuine_in I ex (EvGetBatch n r) = answered_in I (eth_GetBatch (ex_ethereumClient ex) n) r"
| "genuine_in I ex (EvExecuteTransfer h b q r) = answered_in I (eth_ExecuteTransfer (ex_ethereumClient ex) h b q) r"
| "genuine_in I ex (EvIsQuorumReached h r) = answered_in I (eth_IsQuorumReached (ex_ethereumClient ex) h) r"
| "genuine_in I ex (EvLeader r) = answered_in I (ex_topologyProvider ex) r"
| "genuine_in I ex e = True"

definition traced_rel :: "('w \<Rightarrow> bool) \<Rightarrow> 'w bridgeExecutor \<Rightarrow> 'w \<times> event list \<Rightarrow> 'w \<times> event list \<Rightarrow> bool" where
  "traced_rel I ex s s' \<longleftrightarrow> (I (fst s) \<and> list_all (genuine_in I ex) (snd s) \<longrightarrow> I (fst s') \<and> list_all (genuine_in I ex) (snd s'))"

interpretation traced: world_effects "traced_rel I ex" for I ex
  by unfold_locales (auto simp: traced_rel_def)

lemma tr_within:
  assumes "within (\<lambda>w w'. I w \<longrightarrow> I w') f" "\<And>r. answered_in I f r \<Longrightarrow> genuine_in I ex (ev r)"
  shows "within (traced_rel I ex) (tr ev f)"
proof -
  have "genuine_in I ex (ev r)" if "f w = Some (r, w')" "I w" for w r w'
    by (rule assms(2)) (use that in \<open>auto simp: answered_in_def\<close>)
  with assms(1) show ?thesis by (auto simp: within_def traced_rel_def tr_def bind_Some_conv)
qed

lemma untraced_within: "within (\<lambda>w w'. I w \<longrightarrow> I w') f \<Longrightarrow> within (traced_rel I ex) (untraced f)"
  by (auto simp: within_def traced_rel_def untraced_def bind_Some_conv)

lemma traceExecutor_within:
  assumes "executor_within (\<lambda>w w'. I w \<longrightarrow> I w') ex"
  shows "executor_within (traced_rel I ex) (traceExecutor ex)"
proof -
  have "handler_within (traced_rel I ex) (traceSH (ex_statusHandler ex))"
    using assms by (auto simp: executor_within_def handler_within_def traceSH_def traced_rel_def)
  moreover have "mx_within (traced_rel I ex) (traceMx (ex_multiversXClient ex))"
    using assms by (auto simp: executor_within_def mx_within_def traceMx_def intro!: tr_within)
  moreover have "eth_within (traced_rel I ex) (traceEth (ex_ethereumClient ex))"
    using assms by (auto simp: executor_within_def eth_within_def traceEth_def intro!: tr_within)
  ultimately show ?thesis
    using assms unfolding executor_within_def
    by (auto intro!: tr_within untraced_within simp: traced_rel_def)
qed

section \<open>Interleaved runs\<close>

text \<open>A half-bridge: its machine, its recording executor and the calls recorded so far.\<close>

type_synonym 'w half = "('w \<times> event list) bstate stateMachine \<times> ('w \<times> event list) bridgeExecutor \<times> event list"

definition half_config :: "'w half \<Rightarrow> 'w \<Rightarrow> 'w config" where
  "half_config h w = (fst h, (fst (snd h), (w, snd (snd h))))"

definition half_of :: "'w config \<Rightarrow> 'w half" where
  "half_of c = (fst c, fst (snd c), snd (snd (snd c)))"

definition world_of :: "'w config \<Rightarrow> 'w" where
  "world_of c = fst (snd (snd c))"

lemma half_config_of [simp]: "half_config (half_of c) (world_of c) = c"
  by (simp add: half_config_def half_of_def world_of_def)

text \<open>
  The runs of a relayer from given halves and a world: the polling handlers execute the machines, and
  the other goroutines act by the steps of \<open>W\<close>.
\<close>

inductive relayer_run :: "('w \<Rightarrow> 'w \<Rightarrow> bool) \<Rightarrow> 'w half \<times> 'w half \<times> 'w \<Rightarrow> 'w half \<Rightarrow> 'w half \<Rightarrow> 'w \<Rightarrow> bool"
  for W :: "'w \<Rightarrow> 'w \<Rightarrow> bool" and c0 :: "'w half \<times> 'w half \<times> 'w" where
  run_start: "c0 = (e, m, w) \<Longrightarrow> relayer_run W c0 e m w"
| run_eth: "relayer_run W c0 e m w \<Longrightarrow> Execute (half_config e w) = Some (err, c) \<Longrightarrow> relayer_run W c0 (half_of c) m (world_of c)"
| run_mx: "relayer_run W c0 e m w \<Longrightarrow> Execute (half_config m w) = Some (err, c) \<Longrightarrow> relayer_run W c0 e (half_of c) (world_of c)"
| run_others: "relayer_run W c0 e m w \<Longrightarrow> W w w' \<Longrightarrow> relayer_run W c0 e m w'"

lemma half_world: "other_goroutines (snd (half_config h w)) (snd (half_config h w'))"
  by (simp add: half_config_def other_goroutines_def)

lemma run_moves:
  "reachable other_goroutines c0 (half_config h w) \<Longrightarrow> reachable other_goroutines c0 (half_config h w')"
  using reachable_env [of other_goroutines c0 "fst h" "snd (half_config h w)" "snd (half_config h w')"] half_world [of h w w']
  by (simp add: half_config_def)

text \<open>Seen from one half-bridge, everything else is what other goroutines do.\<close>

lemma relayer_run_halves:
  assumes "relayer_run W (e0, m0, w0) e m w"
  shows "reachable other_goroutines (half_config e0 w0) (half_config e w) \<and>
    reachable other_goroutines (half_config m0 w0) (half_config m w)"
  using assms
proof (induction rule: relayer_run.induct)
  case (run_start e m w)
  then show ?case by (simp add: reachable_init)
next
  case (run_eth e m w err c)
  have "reachable other_goroutines (half_config e0 w0) c"
    using run_eth by (blast intro: reachable_exec)
  moreover have "reachable other_goroutines (half_config m0 w0) (half_config m (world_of c))"
    using run_eth.IH by (blast intro: run_moves)
  ultimately show ?case by simp
next
  case (run_mx e m w err c)
  have "reachable other_goroutines (half_config m0 w0) c"
    using run_mx by (blast intro: reachable_exec)
  moreover have "reachable other_goroutines (half_config e0 w0) (half_config e (world_of c))"
    using run_mx.IH by (blast intro: run_moves)
  ultimately show ?case by simp
next
  case (run_others e m w w')
  then show ?case by (auto intro: run_moves [of _ _ w])
qed

lemma relayer_run_projects:
  assumes "relayer_run W (e0, m0, w0) e m w" "eth_initial eargs (half_config e0 w0)" "mx_initial margs (half_config m0 w0)"
  shows "eth_run eargs (half_config e w)" "mx_run margs (half_config m w)"
  using relayer_run_halves [OF assms(1)] assms(2,3) unfolding eth_run_def mx_run_def by blast+

section \<open>Invariants of the shared world\<close>

lemma executor_within_forget:
  assumes "forget ex = forget ex'"
  shows "executor_within R ex = executor_within R ex'"
proof -
  have "ex_topologyProvider ex = ex_topologyProvider ex'" "ex_multiversXClient ex = ex_multiversXClient ex'"
    "ex_ethereumClient ex = ex_ethereumClient ex'" "ex_waitTimer ex = ex_waitTimer ex'" "ex_statusHandler ex = ex_statusHandler ex'"
    "ex_ClearStoredSignatures ex = ex_ClearStoredSignatures ex'" "ex_batchValidator ex = ex_batchValidator ex'"
    using assms forget_fields by metis+
  then show ?thesis by (simp add: executor_within_def)
qed

lemma Execute_handler:
  assumes "Execute (sm, s) = Some (err, (sm', s'))"
  shows "sm_statusHandler sm' = sm_statusHandler sm"
proof -
  have "wlp (Execute (sm, s)) (\<lambda>(err, (sm', s')). sm_statusHandler sm' = sm_statusHandler sm)"
    by (auto simp: Execute_def executeStep_def wp_simps split: option.split sum.split intro!: wlp_I)
  from wlp_D [OF this assms] show ?thesis by simp
qed

text \<open>
  What holds of a half-bridge in a run: its executor records the calls of the one it was made from, its
  machine uses the given status handler, and the recorded calls were answered where the invariant held.
\<close>

definition half_sound :: "('w \<Rightarrow> bool) \<Rightarrow> 'w bridgeExecutor \<Rightarrow> 'w StatusHandler \<Rightarrow> 'w half \<Rightarrow> bool" where
  "half_sound I ex0 hh h \<longleftrightarrow> wired ex0 (fst (snd h)) \<and> sm_statusHandler (fst h) = machineSH hh \<and>
     list_all (genuine_in I ex0) (snd (snd h))"

lemma half_step:
  assumes "at_step steps i (fst h)" "steps = eth_machineStates marshal \<or> steps = mx_machineStates marshal"
    "executor_within (\<lambda>w w'. I w \<longrightarrow> I w') ex0" "handler_within (\<lambda>w w'. I w \<longrightarrow> I w') hh"
    "half_sound I ex0 hh h" "I w" "Execute (half_config h w) = Some (err, c)"
  shows "half_sound I ex0 hh (half_of c) \<and> I (world_of c)"
proof -
  obtain sm ex l where h: "h = (sm, ex, l)" by (cases h)
  obtain sm' ex' w' l' where c: "c = (sm', (ex', (w', l')))" by (metis surj_pair)
  have run: "Execute (sm, (ex, (w, l))) = Some (err, (sm', (ex', (w', l'))))"
    using assms(7) by (simp add: h c half_config_def)
  have sound: "wired ex0 ex" "sm_statusHandler sm = machineSH hh" "list_all (genuine_in I ex0) l"
    using assms(5) by (simp_all add: half_sound_def h)
  have within: "executor_within (traced_rel I ex0) ex"
    using executor_within_forget [OF sound(1) [unfolded wired_def]] traceExecutor_within [OF assms(3)] by simp
  have handler: "\<exists>v. sh_SetStringMetric (sm_statusHandler sm) k m (x, u) = (x, v) \<and> traced_rel I ex0 u v" for k m x u
    using assms(4) unfolding sound(2) by (cases u) (auto simp: machineSH_def handler_within_def traced_rel_def)
  have at: "at_step steps i sm"
    using assms(1) by (simp add: h)
  have "wlp (Execute (sm, (ex, (w, l)))) (\<lambda>(err, (sm', t)). forget (fst t) = forget ex \<and> traced_rel I ex0 (w, l) (snd t))"
    using traced.Execute_kept [OF at assms(2) handler, of "(ex, (w, l))"] within by simp
  from wlp_D [OF this run] have "forget ex' = forget ex" "traced_rel I ex0 (w, l) (w', l')"
    by simp_all
  with sound assms(6) show ?thesis
    using Execute_handler [OF run] by (auto simp: c half_sound_def half_of_def world_of_def traced_rel_def wired_def)
qed

lemma relayer_run_invariant:
  assumes "relayer_run W (e0, m0, w0) e m w"
    and "eth_initial eargs (half_config e0 w0)" "mx_initial margs (half_config m0 w0)"
    and "half_sound I (createBridgeExecutor eargs) eh e0" "half_sound I (createBridgeExecutor margs) mh m0" "I w0"
    and "\<And>w w'. W w w' \<Longrightarrow> I w \<Longrightarrow> I w'"
    and "executor_within (\<lambda>w w'. I w \<longrightarrow> I w') (createBridgeExecutor eargs)" "handler_within (\<lambda>w w'. I w \<longrightarrow> I w') eh"
    and "executor_within (\<lambda>w w'. I w \<longrightarrow> I w') (createBridgeExecutor margs)" "handler_within (\<lambda>w w'. I w \<longrightarrow> I w') mh"
  shows "half_sound I (createBridgeExecutor eargs) eh e \<and> half_sound I (createBridgeExecutor margs) mh m \<and> I w"
  using assms(1)
proof (induction rule: relayer_run.induct)
  case (run_start e m w)
  then show ?case using assms(4-6) by simp
next
  case (run_eth e m w err c)
  obtain i marshal where "at_step (eth_machineStates marshal) i (fst e)"
    using eth_run_inv relayer_run_projects(1) [OF run_eth.hyps(1) assms(2,3)] by (fastforce simp: half_config_def)
  from half_step [OF this _ assms(8,9) _ _ run_eth.hyps(2)] run_eth.IH show ?case by blast
next
  case (run_mx e m w err c)
  obtain i marshal where "at_step (mx_machineStates marshal) i (fst m)"
    using mx_run_inv relayer_run_projects(2) [OF run_mx.hyps(1) assms(2,3)] by (fastforce simp: half_config_def)
  from half_step [OF this _ assms(10,11) _ _ run_mx.hyps(2)] run_mx.IH show ?case by blast
next
  case (run_others e m w w')
  then show ?case using assms(7) by blast
qed

end
