(* ===== verification/Relayer_Correct.thy ===== *)
theory Relayer_Correct
  imports Relayer_System
begin

text \<open>
  A relayer as the factory constructs it, with both half-bridges and its other goroutines running: what
  the two executors do to the shared world are actions of the relayer, so the invariants of these
  actions hold throughout.
\<close>

section \<open>What the constructed parts do to the world\<close>

text \<open>
  The calls that leave the process: while one is running, the other goroutines of the relayer may act,
  and nothing else happens to its memory.
\<close>

definition outside_calls :: "('x relayer_world \<Rightarrow> 'x relayer_world \<Rightarrow> bool) \<Rightarrow> ('t, 'b, 'r, 'pk, 'l, 'x relayer_world) factory_lib
    \<Rightarrow> ('b, 'l, 'x relayer_world) ArgsEthereumToMultiversXBridge \<Rightarrow> ('t, 'b, 'x relayer_world) components \<Rightarrow> bool" where
  "outside_calls R lib args c \<longleftrightarrow>
     proxy_within R (the (fa_Proxy args)) \<and> wrapper_within R (the (fa_ClientWrapper args)) \<and>
     (\<forall>t a. within R (the (fa_Erc20ContractsHolder args) t a)) \<and>
     handler_within R (the (fa_MultiversXClientStatusHandler args)) \<and>
     (\<forall>p t n. sdk_NewNonceTransactionHandler (fl_sdk lib) p t = Inr n \<longrightarrow>
        (\<forall>a. within R (nth_GetNonce n a)) \<and> (\<forall>tx. within R (nth_SendTransaction n tx))) \<and>
     (\<forall>d r. within R (bv_do (fl_bvEnv lib) d r)) \<and> (\<forall>r w. R w (bv_closeBody (fl_bvEnv lib) r w)) \<and>
     (\<forall>d. within R (fl_waitTimer lib d)) \<and> (\<forall>k v w. R w (snd (st_Put (cmp_statusStorer c) k v w)))"

lemma mx_NewClient_parts:
  assumes "mx_NewClient sdk a = Inr mc"
  shows "\<exists>n. sdk_NewNonceTransactionHandler sdk (the (ca_Proxy a)) (sint (1000000000 * ca_IntervalToResendTxsInSeconds a)) = Inr n \<and>
      th_nonceTxHandler (mc_txHandler mc) = n"
    "dg_proxy (mc_getter mc) = the (ca_Proxy a)" "th_proxy (mc_txHandler mc) = the (ca_Proxy a)"
    "mc_tokensMapper mc = the (ca_TokensMapper a)" "mc_statusHandler mc = the (ca_StatusHandler a)"
  using assms by (auto simp: mx_NewClient_def NewMXClientDataGetter_def Let_def split: option.splits sum.splits)

lemma NewEthereumClient_parts:
  assumes "NewEthereumClient l a = Inr ec"
  shows "ec_clientWrapper ec = the (ae_ClientWrapper a)" "ec_BalanceOf ec = the (ae_Erc20ContractsHandler a)"
    "ec_BroadcastSignature ec = the (ae_Broadcaster a)" "ec_tokensMapper ec = the (ae_TokensMapper a)"
    "ec_Signatures ec = the (ae_SignatureHolder a)"
  using assms by (auto simp: NewEthereumClient_def split: option.splits)

text \<open>The actions of a constructed relayer.\<close>

definition actions_of :: "('t, 'b, 'r, 'pk, 'l, 'x relayer_world) factory_lib
    \<Rightarrow> ('b, 'l, 'x relayer_world) ArgsEthereumToMultiversXBridge \<Rightarrow> ('t, 'b, 'x relayer_world) components
    \<Rightarrow> 'x relayer_world \<Rightarrow> 'x relayer_world \<Rightarrow> bool" where
  "actions_of lib args c =
     relayer_action (fl_ordMessages lib) (the (cmp_broadcaster c)) (the (cmp_mxDataGetter c)) (the (fa_ClientWrapper args))"

interpretation act_of: world_effects "(actions_of lib args c)\<^sup>*\<^sup>*" for lib args c
  by unfold_locales auto

lemma clients_act:
  assumes "clients_assembled lib args c mc ec b" "outside_calls (actions_of lib args c)\<^sup>*\<^sup>* lib args c"
  shows "mx_parts_within (actions_of lib args c)\<^sup>*\<^sup>* mc" "eth_parts_within (actions_of lib args c)\<^sup>*\<^sup>* ec"
proof -
  let ?R = "(actions_of lib args c)\<^sup>*\<^sup>*"
  obtain getter cw key where a: "cmp_mxDataGetter c = Some getter" "fa_ClientWrapper args = Some cw" "fa_Proxy args = Some (dg_proxy getter)"
    "cmp_broadcaster c = Some b"
    "mx_NewClient (fl_sdk lib) (mxClientArgs lib args (multiversXToErc20_ConvertToken getter) c) = Inr mc"
    "NewEthereumClient (fl_ethLib lib key) (ethClientArgs lib args key (erc20ToMultiversX_ConvertToken getter) c) = Inr ec"
    using assms(1) by (auto simp: clients_assembled_def)
  have p: "proxy_within ?R (dg_proxy getter)"
    using assms(2) a(3) by (simp add: outside_calls_def)
  note m = mx_NewClient_parts [OF a(5)] and e = NewEthereumClient_parts [OF a(6)]
  show "mx_parts_within ?R mc"
    using assms(2) m p act_of.mappers_within(2) [OF p] a(3)
    by (auto simp: mx_parts_within_def outside_calls_def mxClientArgs_def Let_def)
  have "within ?R (br_call (BroadcastSignature sg h) b)" for sg h
    using signature_sent [of sg h b _ _ _ "fl_ordMessages lib" getter cw] a(1,2,4)
    by (auto simp: within_def actions_of_def)
  then show "eth_parts_within ?R ec"
    using assms(2) e act_of.mappers_within(1) [OF p] a(2,4)
    by (auto simp: eth_parts_within_def outside_calls_def ethClientArgs_def Let_def)
qed

context world_effects
begin

lemma validator_within:
  assumes "createBatchValidator lib src dst cfg = Inr validator"
    "\<And>d r. within R (bv_do (fl_bvEnv lib) d r)" "\<And>r w. R w (bv_closeBody (fl_bvEnv lib) r w)"
  shows "within R (validator bo)"
proof -
  have close: "R w0 w \<Longrightarrow> R w0 (bv_closeBody (fl_bvEnv lib) r w)" for w0 w r
    by (rule R_trans [OF _ assms(3)])
  have "within R (bv_ValidateBatch (fl_bvEnv lib) bv bo)" for bv
    by (rule withinI0) (auto simp: bv_ValidateBatch_def bv_doRequest_def bv_doRequestReturningBytes_def Let_def wp_simps
      split: sum.split option.split prod.split intro!: within_call [OF assms(2)] close)
  moreover have "within R (disabled_ValidateBatch bo)"
    by (simp add: within_def disabled_ValidateBatch_def R_refl)
  ultimately show ?thesis
    using assms(1) by (auto simp: createBatchValidator_def CreateBatchValidator_def split: if_splits sum.splits)
qed

lemma topology_within: "within R (topology_MyTurnAsLeader sha t)"
  by (rule withinI) (auto simp: topology_MyTurnAsLeader_def Let_def wp_simps R_refl intro!: wlp_I)

end

lemma executor_act:
  assumes "clients_assembled lib args c mc ec b" "outside_calls (actions_of lib args c)\<^sup>*\<^sup>* lib args c"
    "createBatchValidator lib src dst cfg = Inr validator" "handler_within (actions_of lib args c)\<^sup>*\<^sup>* sth"
    "\<And>w. (actions_of lib args c)\<^sup>*\<^sup>* w (clear w)"
  shows "executor_within (actions_of lib args c)\<^sup>*\<^sup>*
    (createBridgeExecutor (executorArgs lib args c topology sth (Some clear) validator))"
proof -
  let ?R = "(actions_of lib args c)\<^sup>*\<^sup>*"
  have clients: "cmp_multiversXClient c = Some mc" "cmp_ethClient c = Some ec"
    using assms(1) by (simp_all add: clients_assembled_def)
  have "?R w (mxCells_put x w)" "?R w (ethCells_put y w)" for w x y
    by (simp_all add: actions_of_def relayer_action.intros r_into_rtranclp)
  then have "mx_within ?R (mx_client_interface rw_mxCells mxCells_put mc)"
    "eth_within ?R (eth_client_interface (fl_ordAmounts lib) rw_ethCells ethCells_put ec)"
    using clients_act [OF assms(1,2)] by (blast intro: act_of.mx_client_within act_of.eth_client_within)+
  moreover have "within ?R (validator bo)" for bo
    using assms(2) by (intro act_of.validator_within [OF assms(3)]) (simp_all add: outside_calls_def)
  moreover have "within ?R (fl_waitTimer lib d)" for d
    using assms(2) by (simp add: outside_calls_def)
  ultimately show ?thesis
    using assms(4,5) act_of.topology_within
    by (simp add: executor_within_def createBridgeExecutor_def executorArgs_def clients Let_def)
qed

lemma status_act:
  assumes "outside_calls (actions_of lib args c)\<^sup>*\<^sup>* lib args c" "sth_storer sh = cmp_statusStorer c"
  shows "handler_within (actions_of lib args c)\<^sup>*\<^sup>* (status_interface rw_ethMetrics ethMetrics_put sh)"
    "handler_within (actions_of lib args c)\<^sup>*\<^sup>* (status_interface rw_mxMetrics mxMetrics_put sh)"
proof -
  have "(actions_of lib args c)\<^sup>*\<^sup>* w (ethMetrics_put m w)" "(actions_of lib args c)\<^sup>*\<^sup>* w (mxMetrics_put m w)" for w m
    by (simp_all add: actions_of_def relayer_action.intros r_into_rtranclp)
  moreover have "(actions_of lib args c)\<^sup>*\<^sup>* w (snd (st_Put (sth_storer sh) k v w))" for k v w
    using assms by (simp add: outside_calls_def)
  ultimately show "handler_within (actions_of lib args c)\<^sup>*\<^sup>* (status_interface rw_ethMetrics ethMetrics_put sh)"
    "handler_within (actions_of lib args c)\<^sup>*\<^sup>* (status_interface rw_mxMetrics mxMetrics_put sh)"
    by (auto intro: status_acts act_of.world_effects_axioms)
qed

lemma eth_half_acts:
  assumes "clients_assembled lib args c mc ec b" "outside_calls (actions_of lib args c)\<^sup>*\<^sup>* lib args c"
    "eth_half_assembled lib args c a"
  shows "executor_within (actions_of lib args c)\<^sup>*\<^sup>* (createBridgeExecutor a)" "built_on (fl_ordAmounts lib) mc ec a"
proof -
  obtain topology sh validator src dst cfg where
    a: "a = executorArgs lib args c topology (status_interface rw_ethMetrics ethMetrics_put sh) (Some (\<lambda>w. w)) validator"
    and v: "createBatchValidator lib src dst cfg = Inr validator" and sh: "sth_storer sh = cmp_statusStorer c"
    using assms(3) unfolding eth_half_assembled_def by blast
  show "executor_within (actions_of lib args c)\<^sup>*\<^sup>* (createBridgeExecutor a)"
    unfolding a by (rule executor_act [OF assms(1,2) v status_act(1) [OF assms(2) sh]]) simp
  show "built_on (fl_ordAmounts lib) mc ec a"
    using assms(1) by (auto simp: built_on_def a executorArgs_def clients_assembled_def Let_def)
qed

lemma mx_half_acts:
  assumes "clients_assembled lib args c mc ec b" "outside_calls (actions_of lib args c)\<^sup>*\<^sup>* lib args c"
    "mx_half_assembled lib args c a"
  shows "executor_within (actions_of lib args c)\<^sup>*\<^sup>* (createBridgeExecutor a)" "built_on (fl_ordAmounts lib) mc ec a"
proof -
  obtain topology sh validator src dst cfg where
    a: "a = executorArgs lib args c topology (status_interface rw_mxMetrics mxMetrics_put sh) (Some clear_signatures) validator"
    and v: "createBatchValidator lib src dst cfg = Inr validator" and sh: "sth_storer sh = cmp_statusStorer c"
    using assms(3) unfolding mx_half_assembled_def by blast
  have "(actions_of lib args c)\<^sup>*\<^sup>* w (clear_signatures w)" for w
    by (simp add: actions_of_def relayer_action.intros r_into_rtranclp)
  then show "executor_within (actions_of lib args c)\<^sup>*\<^sup>* (createBridgeExecutor a)"
    unfolding a by (rule executor_act [OF assms(1,2) v status_act(2) [OF assms(2) sh]])
  show "built_on (fl_ordAmounts lib) mc ec a"
    using assms(1) by (auto simp: built_on_def a executorArgs_def clients_assembled_def Let_def)
qed

section \<open>Started half-bridges\<close>

text \<open>
  The half-bridges of the components: the machine that the factory stored, its executor, and no call
  made yet. To record the calls, the machine is read over the traced executor: its steps and its current
  step are the ones of the same identifiers, its status handler the one of the components.
\<close>

definition recorded :: "'t MachineStates \<Rightarrow> 't StatusHandler \<Rightarrow> 's stateMachine \<Rightarrow> 't stateMachine" where
  "recorded steps handler sm =
     \<lparr> sm_stateMachineName = sm_stateMachineName sm,
       sm_steps = filter (\<lambda>p. gm_get (sm_steps sm) (fst p) \<noteq> None) steps,
       sm_currentStep = Option.bind (sm_currentStep sm) (\<lambda>step. Option.bind (gm_get steps (step_Identifier step)) id),
       sm_statusHandler = handler \<rparr>"

definition eth_half_started :: "('t, 'b, 'r, 'pk, 'l, 'x relayer_world) factory_lib \<Rightarrow> ('t, 'b, 'x relayer_world) components
    \<Rightarrow> 'x relayer_world half \<Rightarrow> bool" where
  "eth_half_started lib c h \<longleftrightarrow> (\<exists>machine ex sh. cmp_ethToMultiversXStateMachine c = Some machine \<and> cmp_ethToMultiversXExecutor c = Some ex \<and>
     cmp_ethToMultiversXStatusHandler c = Some sh \<and>
     h = (recorded (eth_machineStates (fl_marshalBatch lib)) (machineSH (status_interface rw_ethMetrics ethMetrics_put sh)) machine,
       traceExecutor ex, []))"

definition mx_half_started :: "('t, 'b, 'r, 'pk, 'l, 'x relayer_world) factory_lib \<Rightarrow> ('t, 'b, 'x relayer_world) components
    \<Rightarrow> 'x relayer_world half \<Rightarrow> bool" where
  "mx_half_started lib c h \<longleftrightarrow> (\<exists>machine ex sh. cmp_multiversXToEthStateMachine c = Some machine \<and> cmp_multiversXToEthExecutor c = Some ex \<and>
     cmp_multiversXToEthStatusHandler c = Some sh \<and>
     h = (recorded (mx_machineStates (fl_marshalBatch lib)) (machineSH (status_interface rw_mxMetrics mxMetrics_put sh)) machine,
       traceExecutor ex, []))"

lemma NewStateMachine_recorded:
  assumes "NewStateMachine ord \<lparr> arg_StateMachineName = name, arg_Steps = Some steps, arg_StartStateIdentifier = start,
       arg_sm_Log = Some (), arg_sm_StatusHandler = Some handler \<rparr> = Inr sm"
    "\<exists>st. gm_get steps start = Some (Some st) \<and> step_Identifier st = start"
    "\<exists>st. gm_get traced start = Some (Some st)" "None \<notin> snd ` set traced" "map fst traced = map fst steps"
  shows "NewStateMachine id \<lparr> arg_StateMachineName = name, arg_Steps = Some traced, arg_StartStateIdentifier = start,
       arg_sm_Log = Some (), arg_sm_StatusHandler = Some handler' \<rparr> = Inr (recorded traced handler' sm)"
proof -
  obtain st st' where st: "gm_get steps start = Some (Some st)" "step_Identifier st = start" "gm_get traced start = Some (Some st')"
    using assms(2,3) by blast
  then have sm: "sm = \<lparr> sm_stateMachineName = name, sm_steps = steps, sm_currentStep = Some st, sm_statusHandler = handler \<rparr>"
    using assms(1) by (auto simp: NewStateMachine_def getNextStep_def split: option.splits sum.splits)
  have "fst ` set traced = fst ` set steps"
    using arg_cong [OF assms(5), of set] by simp
  then have "fst p \<in> dom (gm_get steps)" if "p \<in> set traced" for p
    using that by (metis dom_map_of_conv_image_fst imageI)
  then have "filter (\<lambda>p. gm_get steps (fst p) \<noteq> None) traced = traced"
    by (intro filter_True ballI) (auto dest: domD)
  moreover have "firstNilStep traced = None"
    using assms(4) by (simp add: firstNilStep_None)
  ultimately show ?thesis
    using st by (simp add: sm recorded_def NewStateMachine_def sm_checkArgs_def getNextStep_def)
qed

lemma recorded_eth_machine:
  "createEthereumToMultiversXStateMachine ord name (eth_machineStates marshal) handler = Inr sm \<Longrightarrow>
    createEthereumToMultiversXStateMachine id name (eth_machineStates marshal) traced =
      Inr (recorded (eth_machineStates marshal) traced sm)"
  unfolding createEthereumToMultiversXStateMachine_def
  by (erule NewStateMachine_recorded; simp add: eth_machineStates_def eth_stepsSlice_def)

lemma recorded_mx_machine:
  "createMultiversXToEthereumStateMachine ord name (mx_machineStates marshal) handler = Inr sm \<Longrightarrow>
    createMultiversXToEthereumStateMachine id name (mx_machineStates marshal) traced =
      Inr (recorded (mx_machineStates marshal) traced sm)"
  unfolding createMultiversXToEthereumStateMachine_def
  by (erule NewStateMachine_recorded; simp add: mx_machineStates_def mx_stepsSlice_def)

lemma eth_started:
  assumes "eth_half_assembled lib args c a" "eth_half_started lib c h" "outside_calls (actions_of lib args c)\<^sup>*\<^sup>* lib args c"
  obtains hh where "eth_initial a (half_config h w)" "half_sound I (createBridgeExecutor a) hh h"
    "handler_within (actions_of lib args c)\<^sup>*\<^sup>* hh"
proof -
  obtain sh sm name where sm: "createEthereumToMultiversXStateMachine (fl_ordSteps lib) name (eth_machineStates (fl_marshalBatch lib))
       (on_world (status_interface rw_ethMetrics ethMetrics_put sh)) = Inr sm"
    and h: "h = (recorded (eth_machineStates (fl_marshalBatch lib)) (machineSH (status_interface rw_ethMetrics ethMetrics_put sh)) sm,
       traceExecutor (createBridgeExecutor a), [])" "NewBridgeExecutor a = Inr (createBridgeExecutor a)"
    "sth_storer sh = cmp_statusStorer c"
    using assms(1,2) unfolding eth_half_assembled_def eth_half_started_def by auto
  have "eth_initial a (half_config h w)"
    unfolding eth_initial_def
    by (intro exI [of _ "fl_marshalBatch lib"] exI [of _ id] exI [of _ name]
        exI [of _ "status_interface rw_ethMetrics ethMetrics_put sh"] exI [of _ "createBridgeExecutor a"]
        exI [of _ "eth_machineStates (fl_marshalBatch lib)"] exI [of _ "fst h"] exI [of _ w])
       (simp add: h recorded_eth_machine [OF sm] range_order_def eth_CreateSteps_def eth_createMachineStates_eq half_config_def)
  moreover have "half_sound I (createBridgeExecutor a) (status_interface rw_ethMetrics ethMetrics_put sh) h"
    by (simp add: half_sound_def h(1) recorded_def wired_initial)
  ultimately show thesis
    using that status_act(1) [OF assms(3) h(3)] by blast
qed

lemma mx_started:
  assumes "mx_half_assembled lib args c a" "mx_half_started lib c h" "outside_calls (actions_of lib args c)\<^sup>*\<^sup>* lib args c"
  obtains hh where "mx_initial a (half_config h w)" "half_sound I (createBridgeExecutor a) hh h"
    "handler_within (actions_of lib args c)\<^sup>*\<^sup>* hh"
proof -
  obtain sh sm name where sm: "createMultiversXToEthereumStateMachine (fl_ordSteps lib) name (mx_machineStates (fl_marshalBatch lib))
       (on_world (status_interface rw_mxMetrics mxMetrics_put sh)) = Inr sm"
    and h: "h = (recorded (mx_machineStates (fl_marshalBatch lib)) (machineSH (status_interface rw_mxMetrics mxMetrics_put sh)) sm,
       traceExecutor (createBridgeExecutor a), [])" "NewBridgeExecutor a = Inr (createBridgeExecutor a)"
    "sth_storer sh = cmp_statusStorer c"
    using assms(1,2) unfolding mx_half_assembled_def mx_half_started_def by auto
  have "mx_initial a (half_config h w)"
    unfolding mx_initial_def
    by (intro exI [of _ "fl_marshalBatch lib"] exI [of _ id] exI [of _ name]
        exI [of _ "status_interface rw_mxMetrics mxMetrics_put sh"] exI [of _ "createBridgeExecutor a"]
        exI [of _ "mx_machineStates (fl_marshalBatch lib)"] exI [of _ "fst h"] exI [of _ w])
       (simp add: h recorded_mx_machine [OF sm] range_order_def mx_CreateSteps_def mx_createMachineStates_eq half_config_def)
  moreover have "half_sound I (createBridgeExecutor a) (status_interface rw_mxMetrics mxMetrics_put sh) h"
    by (simp add: half_sound_def h(1) recorded_def wired_initial)
  ultimately show thesis
    using that status_act(2) [OF assms(3) h(3)] by blast
qed

section \<open>Runs of a constructed relayer\<close>

text \<open>
  A constructed relayer running: the factory built the components \<open>c\<close>, the libraries behave, and \<open>e\<close>,
  \<open>m\<close> and \<open>w\<close> are the two halves and the world after some interleaving.
\<close>

definition constructed_run :: "('t, 'b, 'r, 'pk, 'l, 'x relayer_world) factory_lib
    \<Rightarrow> ('b, 'l, 'x relayer_world) ArgsEthereumToMultiversXBridge \<Rightarrow> ('t, 'b, 'x relayer_world) components
    \<Rightarrow> 'x relayer_world \<Rightarrow> 'x relayer_world half \<Rightarrow> 'x relayer_world half \<Rightarrow> 'x relayer_world \<Rightarrow> bool" where
  "constructed_run lib args c w0 e m w \<longleftrightarrow>
     (\<exists>w00 e0 m0. NewEthMultiversXBridgeComponents lib args w00 = Some (Inr c, w0) \<and>
        eth_half_started lib c e0 \<and> mx_half_started lib c m0 \<and> relayer_run (actions_of lib args c) (e0, m0, w0) e m w)"

text \<open>What the libraries promise: they reach into the relayer's memory only through its goroutines.\<close>

definition libraries_confined :: "('t, 'b, 'r, 'pk, 'l, 'x relayer_world) factory_lib
    \<Rightarrow> ('b, 'l, 'x relayer_world) ArgsEthereumToMultiversXBridge \<Rightarrow> ('t, 'b, 'x relayer_world) components \<Rightarrow> bool" where
  "libraries_confined lib args c \<longleftrightarrow>
     network_outside lib (the (fa_Messenger args)) \<and> p2p_outside (br_env (the (cmp_broadcaster c))) \<and>
     outside_calls (actions_of lib args c)\<^sup>*\<^sup>* lib args c"

text \<open>The worlds that a constructed relayer reaches.\<close>

definition reached :: "('t, 'b, 'r, 'pk, 'l, 'x relayer_world) factory_lib
    \<Rightarrow> ('b, 'l, 'x relayer_world) ArgsEthereumToMultiversXBridge \<Rightarrow> ('t, 'b, 'x relayer_world) components
    \<Rightarrow> 'x relayer_world \<Rightarrow> 'x relayer_world \<Rightarrow> bool" where
  "reached lib args c w0 w \<longleftrightarrow> (actions_of lib args c)\<^sup>*\<^sup>* w0 w \<and>
     authentic_world lib (the (cmp_mxDataGetter c)) (the (fa_ClientWrapper args)) w"

lemma assembled_broadcaster_of:
  assumes "clients_assembled lib args c mc ec b"
  shows "assembled_broadcaster lib (the (cmp_mxDataGetter c)) (the (fa_ClientWrapper args)) (the (cmp_broadcaster c))"
  using assms by (force simp: clients_assembled_def assembled_broadcaster_def)

lemma actions_reached:
  assumes "clients_assembled lib args c mc ec b" "libraries_confined lib args c"
  shows "(actions_of lib args c)\<^sup>*\<^sup>* \<le> (\<lambda>w w'. reached lib args c w0 w \<longrightarrow> reached lib args c w0 w')"
proof (intro predicate2I impI)
  fix w w'
  assume acts: "(actions_of lib args c)\<^sup>*\<^sup>* w w'" and "reached lib args c w0 w"
  then have w: "(actions_of lib args c)\<^sup>*\<^sup>* w0 w" "authentic_world lib (the (cmp_mxDataGetter c)) (the (fa_ClientWrapper args)) w"
    by (simp_all add: reached_def)
  have "p2p_outside (br_env (the (cmp_broadcaster c)))"
    using assms(2) by (simp add: libraries_confined_def)
  from actions_authentic [OF this assembled_broadcaster_of [OF assms(1)] acts [unfolded actions_of_def] w(2)] w(1) acts
  show "reached lib args c w0 w'" by (simp add: reached_def)
qed

lemma constructed_run_sound:
  assumes "constructed_run lib args c w0 e m w" "libraries_confined lib args c"
  obtains mc ec b ae am eh mh where "clients_assembled lib args c mc ec b"
    "built_on (fl_ordAmounts lib) mc ec ae" "built_on (fl_ordAmounts lib) mc ec am"
    "eth_run ae (half_config e w)" "mx_run am (half_config m w)" "reached lib args c w0 w"
    "half_sound (reached lib args c w0) (createBridgeExecutor ae) eh e"
    "half_sound (reached lib args c w0) (createBridgeExecutor am) mh m"
proof -
  obtain w00 e0 m0 where run: "NewEthMultiversXBridgeComponents lib args w00 = Some (Inr c, w0)"
    "eth_half_started lib c e0" "mx_half_started lib c m0" "relayer_run (actions_of lib args c) (e0, m0, w0) e m w"
    using assms(1) by (auto simp: constructed_run_def)
  have lib: "outside_calls (actions_of lib args c)\<^sup>*\<^sup>* lib args c" "network_outside lib (the (fa_Messenger args))"
    using assms(2) by (simp_all add: libraries_confined_def)
  obtain mc ec b ae am where c: "clients_assembled lib args c mc ec b" "eth_half_assembled lib args c ae"
    "mx_half_assembled lib args c am" "trusted w0 = ([], [], NewSignatureHolder)"
    using construction [OF run(1)] lib(2) by metis
  let ?I = "reached lib args c w0"
  note keeps = actions_reached [OF c(1) assms(2), of w0]
  obtain eh where e: "eth_initial ae (half_config e0 w0)" "half_sound ?I (createBridgeExecutor ae) eh e0"
    "handler_within (actions_of lib args c)\<^sup>*\<^sup>* eh"
    by (rule eth_started [OF c(2) run(2) lib(1)])
  obtain mh where m: "mx_initial am (half_config m0 w0)" "half_sound ?I (createBridgeExecutor am) mh m0"
    "handler_within (actions_of lib args c)\<^sup>*\<^sup>* mh"
    by (rule mx_started [OF c(3) run(3) lib(1)])
  have start: "?I w0"
    using c(4) by (simp add: reached_def authentic_world_def trusted_def NewSignatureHolder_def polled_whitelist_def)
  have others: "?I v'" if "actions_of lib args c v v'" "?I v" for v v'
    using keeps that by (blast dest: predicate2D intro: r_into_rtranclp)
  have "half_sound ?I (createBridgeExecutor ae) eh e \<and> half_sound ?I (createBridgeExecutor am) mh m \<and> ?I w"
    by (rule relayer_run_invariant [OF run(4) e(1) m(1) e(2) m(2) start others])
       (use eth_half_acts(1) [OF c(1) lib(1) c(2)] mx_half_acts(1) [OF c(1) lib(1) c(3)] e(3) m(3) keeps in
         \<open>auto intro: executor_within_mono handler_within_mono\<close>)
  then show thesis
    using that [OF c(1) eth_half_acts(2) [OF c(1) lib(1) c(2)] mx_half_acts(2) [OF c(1) lib(1) c(3)]
      relayer_run_projects [OF run(4) e(1) m(1)]] by blast
qed

section \<open>Whitelists\<close>

lemma authentic_lists:
  assumes "authentic_world lib getter cw w"
  obtains keys addresses where "keys = [] \<or> answered (GetAllStakedRelayers getter) (Inr keys)" "fst ` set (rw_mxRelayers w) = set keys"
    "addresses = [] \<or> answered (cw_GetRelayers cw) (Inr addresses)" "fst ` set (rw_ethRelayers w) = set addresses"
proof -
  have "\<exists>l. (l = [] \<or> answered query (Inr l)) \<and> fst ` set m = set l" if "polled_whitelist query m"
    for query :: "('x, go_error + bytes list) prog" and m
    using that unfolding polled_whitelist_def by (metis image_empty list.set(1))
  from this [of "GetAllStakedRelayers getter" "rw_mxRelayers w"] this [of "cw_GetRelayers cw" "rw_ethRelayers w"] assms that
  show thesis by (auto simp: authentic_world_def)
qed

text \<open>What the role providers answer from a whitelist in the shared memory.\<close>

lemma role_lists:
  assumes "range_order ord"
  shows "mrp_whitelists mrp w pk \<longleftrightarrow> pk \<in> fst ` set (rw_mxRelayers w)" "sorted (mrp_keys ord mrp w)"
    "set (mrp_keys ord mrp w) = fst ` set (rw_mxRelayers w)"
    "erp_isWhitelisted (erp_at w erp) a \<longleftrightarrow> a \<in> fst ` set (rw_ethRelayers w)"
  using assms by (simp_all add: mrp_whitelists_def mrp_IsWhitelisted_def mrp_at_def mrp_keys_def mrp_SortedPublicKeys_def sortedKeys_def
    erp_isWhitelisted_def erp_at_def gm_get_unit)

section \<open>Held signatures\<close>

lemma assembled_wiring:
  assumes "clients_assembled lib args c mc ec b"
  shows "ec_Signatures ec = held_signatures (fl_ordKeys lib)" "ec_clientWrapper ec = the (fa_ClientWrapper args)"
    "cmp_multiversXClient c = Some mc" "cmp_ethClient c = Some ec"
proof -
  obtain getter key where ec: "NewEthereumClient (fl_ethLib lib key)
      (ethClientArgs lib args key (erc20ToMultiversX_ConvertToken getter) c) = Inr ec"
    using assms by (auto simp: clients_assembled_def)
  from NewEthereumClient_parts(1,5) [OF this]
  show "ec_Signatures ec = held_signatures (fl_ordKeys lib)" "ec_clientWrapper ec = the (fa_ClientWrapper args)"
    by (simp_all add: ethClientArgs_def Let_def)
  show "cmp_multiversXClient c = Some mc" "cmp_ethClient c = Some ec"
    using assms by (simp_all add: clients_assembled_def)
qed

lemma held_authenticated:
  assumes "reached lib args c w0 v" "range_order (fl_ordKeys lib)" "sig \<in> set (held_signatures (fl_ordKeys lib) h v)"
  shows "\<exists>message \<in> set (rw_received v).
    authenticated lib (the (cmp_mxDataGetter c)) (the (fa_ClientWrapper args)) message \<lparr> eth_Signature = sig, eth_MessageHash = h \<rparr>"
proof -
  obtain e where e: "e \<in> set (ethMessages (rw_signatures v))" "eth_MessageHash e = h" "eth_Signature e = sig"
    using assms(3) Signatures_set [OF assms(2)] by (auto simp: held_signatures_def)
  have "e = \<lparr> eth_Signature = sig, eth_MessageHash = h \<rparr>"
    using e(2,3) by (cases e) simp
  with e(1) assms(1) show ?thesis
    by (auto simp: reached_def authentic_world_def)
qed

lemma assembled_network:
  assumes "clients_assembled lib args c mc ec b"
  shows "\<exists>mrp erp. cmp_multiversXRoleProvider c = Some mrp \<and> cmp_ethereumRoleProvider c = Some erp \<and>
      env_IsWhitelisted (br_env b) = mrp_whitelists mrp \<and> env_VerifyEthSignature (br_env b) = erp_verifies (fl_crypto lib) erp"
    "br_clients b = [holder_client (fl_ordMessages lib)]" "cmp_broadcaster c = Some b"
    "ec_BroadcastSignature ec = (\<lambda>sig h. br_call (BroadcastSignature sig h) b)"
proof -
  obtain getter cw antiflood key where a: "cmp_multiversXRoleProvider c = Some (mx_provider getter)"
    "cmp_ethereumRoleProvider c = Some (eth_provider cw)" "cmp_broadcaster c = Some b"
    "br_env b = broadcasterEnv lib (the (fa_Messenger args)) antiflood (mx_provider getter) (eth_provider cw)"
    "br_clients b = [holder_client (fl_ordMessages lib)]"
    "NewEthereumClient (fl_ethLib lib key) (ethClientArgs lib args key (erc20ToMultiversX_ConvertToken getter) c) = Inr ec"
    using assms by (auto simp: clients_assembled_def)
  from a show "\<exists>mrp erp. cmp_multiversXRoleProvider c = Some mrp \<and> cmp_ethereumRoleProvider c = Some erp \<and>
      env_IsWhitelisted (br_env b) = mrp_whitelists mrp \<and> env_VerifyEthSignature (br_env b) = erp_verifies (fl_crypto lib) erp"
    "br_clients b = [holder_client (fl_ordMessages lib)]" "cmp_broadcaster c = Some b"
    by (simp_all add: broadcasterEnv_def)
  show "ec_BroadcastSignature ec = (\<lambda>sig h. br_call (BroadcastSignature sig h) b)"
    using NewEthereumClient_parts(3) [OF a(6)] a(3) by (simp add: ethClientArgs_def Let_def)
qed

lemma assembled_executors:
  assumes "clients_assembled lib args c mc ec b" "eth_half_assembled lib args c ae" "mx_half_assembled lib args c am" "a \<in> {ae, am}"
  shows "ex_multiversXClient (createBridgeExecutor a) = mx_client_interface rw_mxCells mxCells_put mc"
    "ex_ethereumClient (createBridgeExecutor a) = eth_client_interface (fl_ordAmounts lib) rw_ethCells ethCells_put ec"
proof -
  obtain topology handler clear validator where "a = executorArgs lib args c topology handler clear validator"
    using assms(2-4) unfolding eth_half_assembled_def mx_half_assembled_def by blast
  then show "ex_multiversXClient (createBridgeExecutor a) = mx_client_interface rw_mxCells mxCells_put mc"
    "ex_ethereumClient (createBridgeExecutor a) = eth_client_interface (fl_ordAmounts lib) rw_ethCells ethCells_put ec"
    using assembled_wiring(3,4) [OF assms(1)] by (simp_all add: createBridgeExecutor_def executorArgs_def Let_def)
qed

end
