(* ===== verification/Relayer_Lifecycle.thy ===== *)
theory Relayer_Lifecycle
  imports Bridge_Factory_Correct
begin

text \<open>
  The start and the end of a relayer: the goroutine that repeats the join message, and \<^verbatim>\<open>Close\<close>, which
  closes everything that the construction registered.
\<close>

section \<open>The join messages\<close>

text \<open>What one firing of the timer does: the message is created and sent, an error is only logged.\<close>

definition send_join :: "('t, 'b, 'x relayer_world) components \<Rightarrow> 'x relayer_world \<Rightarrow> 'x relayer_world option" where
  "send_join c w = (case cmp_broadcaster c of None \<Rightarrow> None | Some b \<Rightarrow> map_option snd (br_call BroadcastJoinTopic b w))"

interpretation join: timer_loop "startBroadcastJoinRetriesLoop c" "cmp_timeBeforeRepeatJoin c" "send_join c" True
  for c :: "('t, 'b, 'x relayer_world) components"
proof
  fix g :: loop_state and now w
  assume "lp_at g = LoopSelects"
  then show "startBroadcastJoinRetriesLoop c TimerCase now (g, w) = (if lp_fired g
      then map_option (Pair (g\<lparr>lp_fired := False, lp_acted := now # lp_acted g, lp_at := LoopResets\<rparr>)) (send_join c w) else None)"
    by (cases "cmp_broadcaster c"; cases "br_call BroadcastJoinTopic (the (cmp_broadcaster c)) w")
       (auto simp: startBroadcastJoinRetriesLoop_def send_join_def notNil_def)
qed (simp_all add: startBroadcastJoinRetriesLoop_def)

lemma br_call_join: "\<exists>w'. br_call BroadcastJoinTopic b w = Some ((), w')"
  by (simp add: br_call_def BroadcastJoinTopic_def broadcastMessage_def createMessage_def Let_def split: sum.split)

text \<open>One round of the loop: the timer fires after the interval, and the join message goes out.\<close>

lemma join_round:
  assumes "0 \<le> cmp_timeBeforeRepeatJoin c" "cmp_broadcaster c = Some b"
  obtains g w' where "loop_steps (startBroadcastJoinRetriesLoop c) (0, loop_entered False, w) (cmp_timeBeforeRepeatJoin c, g, w')"
    "lp_acted g = [cmp_timeBeforeRepeatJoin c]" "lp_at g = LoopResets"
proof -
  let ?t = "cmp_timeBeforeRepeatJoin c" and ?loop = "startBroadcastJoinRetriesLoop c"
  let ?g = "(loop_entered True)\<lparr>lp_deadline := Some ?t, lp_at := LoopSelects\<rparr>"
  obtain w' where w': "br_call BroadcastJoinTopic b w = Some ((), w')"
    using br_call_join by blast
  have "loop_step ?loop (0, loop_entered False, w) (0, (loop_entered False)\<lparr>lp_deadline := Some ?t, lp_at := LoopTimerMade\<rparr>, w)"
    "loop_step ?loop (0, (loop_entered False)\<lparr>lp_deadline := Some ?t, lp_at := LoopTimerMade\<rparr>, w)
       (0, (loop_entered True)\<lparr>lp_deadline := Some ?t, lp_at := LoopResets\<rparr>, w)"
    "loop_step ?loop (0, (loop_entered True)\<lparr>lp_deadline := Some ?t, lp_at := LoopResets\<rparr>, w) (0, ?g, w)"
    by (rule loop_runs [of _ TimerCase]; simp add: startBroadcastJoinRetriesLoop_def loop_entered_def)+
  then have start: "loop_steps ?loop (0, loop_entered False, w) (0, ?g, w)"
    by (meson converse_rtranclp_into_rtranclp rtranclp.rtrancl_refl)
  have "loop_step ?loop (0, ?g, w) (?t, ?g, w)"
    using assms(1) by (rule clock_advances)
  moreover have "loop_step ?loop (?t, ?g, w) (?t, ?g\<lparr>lp_deadline := None, lp_fired := True\<rparr>, w)"
    by (rule timer_fires [of _ ?t]) simp_all
  moreover have "loop_step ?loop (?t, ?g\<lparr>lp_deadline := None, lp_fired := True\<rparr>, w)
      (?t, ?g\<lparr>lp_deadline := None, lp_fired := False, lp_acted := [?t], lp_at := LoopResets\<rparr>, w')"
    by (rule loop_runs [of _ TimerCase]) (simp add: startBroadcastJoinRetriesLoop_def loop_entered_def assms(2) notNil_def w')
  ultimately have "loop_steps ?loop (0, loop_entered False, w)
      (?t, ?g\<lparr>lp_deadline := None, lp_fired := False, lp_acted := [?t], lp_at := LoopResets\<rparr>, w')"
    using start by (meson rtranclp.rtrancl_into_rtrancl)
  then show thesis by (rule that) simp_all
qed

section \<open>Closing\<close>

text \<open>What closing a list of things means: all are closed, in order, and the last error is returned.\<close>

fun closed_in_order :: "('w, go_error option) prog list \<Rightarrow> ('w, go_error option) prog" where
  "closed_in_order [] w = Some (None, w)"
| "closed_in_order (f # fs) w = do {
     (err, w) \<leftarrow> f w;
     (later, w) \<leftarrow> closed_in_order fs w;
     Some (if later \<noteq> None then later else err, w)
   }"

lemma closeHandlers_in_order:
  "closeHandlers lib c (map Some cls) lastError w =
     map_option (\<lambda>(err, w). (if err \<noteq> None then err else lastError, w)) (closed_in_order (map (closeOne lib c) cls) w)"
proof (induction cls arbitrary: lastError w)
  case (Cons cl cls)
  show ?case
  proof (cases "closeOne lib c cl w")
    case (Some r)
    then show ?thesis
      using Cons by (cases "closed_in_order (map (closeOne lib c) cls) (snd r)") (auto simp: case_prod_beta)
  qed simp
qed simp

lemma Close_in_order:
  assumes "handlers phs cls c"
  shows "components_Close lib (c\<lparr>cmp_joinLoop := j, cmp_cancelFunc := k\<rparr>) w =
    closed_in_order (map (closeOne lib c) cls) (if k then fl_cancelJoin lib w else w)"
proof -
  have one: "closeOne lib (c\<lparr>cmp_joinLoop := j, cmp_cancelFunc := k\<rparr>) = closeOne lib c"
  proof (intro ext)
    show "closeOne lib (c\<lparr>cmp_joinLoop := j, cmp_cancelFunc := k\<rparr>) cl v = closeOne lib c cl v" for cl v
      by (cases cl) simp_all
  qed
  have last: "(\<lambda>(err, v). (if err \<noteq> None then err else None, v)) = id"
    by (auto simp: fun_eq_iff)
  have "closeHandlers lib (c\<lparr>cmp_joinLoop := j, cmp_cancelFunc := k\<rparr>) (map Some cls) None v = closed_in_order (map (closeOne lib c) cls) v" for v
    unfolding closeHandlers_in_order one last by (simp add: option.map_id)
  then show ?thesis
    using assms by (simp add: components_Close_def handlers_def)
qed

end
