(* ===== verification/Relay_Main.thy ===== *)
theory Relay_Main
  imports Relayer_Reporting Relayer_Correct Relayer_Lifecycle
begin

text \<open>
  The process, \<^verbatim>\<open>cmd/bridge/main.go\<close>, \<^verbatim>\<open>cmd/bridge/flags.go\<close> and \<^verbatim>\<open>factory/storageFactory.go\<close>: the flags,
  the creation of everything the factory needs, the start of relayer and REST server, and the closing
  after a signal. The libraries (command line, logger, TOML, storage, proxy, ethclient, contract
  bindings, network) are arguments. The metrics of the two clients and the tokens that the holder of
  the ERC20 contracts has bindings for are memory of the process outside the relayer's own.
\<close>

section \<open>Flags\<close>

text \<open>A flag with its default; a boolean flag has none. The help texts are left out.\<close>

datatype cli_flag = StringFlag string string | BoolFlag string

primrec flag_Name :: "cli_flag \<Rightarrow> string" where
  "flag_Name (StringFlag name val) = name"
| "flag_Name (BoolFlag name) = name"

text \<open>The name of the debug level and the default address of the REST server are library constants.\<close>

record flag_lib =
  LogDebug_String :: string
  DefaultRestInterface :: string

definition logLevel :: "flag_lib \<Rightarrow> cli_flag" where
  "logLevel fl = StringFlag ''log-level'' (''*:'' @ LogDebug_String fl)"

definition configurationFile :: cli_flag where
  "configurationFile = StringFlag ''config'' ''config/config.toml''"

definition configurationApiFile :: cli_flag where
  "configurationApiFile = StringFlag ''config-api'' ''config/api.toml''"

definition logSaveFile :: cli_flag where
  "logSaveFile = BoolFlag ''log-save''"

definition profileMode :: cli_flag where
  "profileMode = BoolFlag ''profile-mode''"

definition restApiInterface :: "flag_lib \<Rightarrow> cli_flag" where
  "restApiInterface fl = StringFlag ''rest-api-interface'' (DefaultRestInterface fl)"

definition workingDirectory :: cli_flag where
  "workingDirectory = StringFlag ''working-directory'' ''''"

definition disableAnsiColor :: cli_flag where
  "disableAnsiColor = BoolFlag ''disable-ansi-color''"

definition logWithLoggerName :: cli_flag where
  "logWithLoggerName = BoolFlag ''log-logger-name''"

definition getFlags :: "flag_lib \<Rightarrow> cli_flag list" where
  "getFlags fl = [workingDirectory, logLevel fl, disableAnsiColor, configurationFile, configurationApiFile, logSaveFile,
     logWithLoggerName, profileMode, restApiInterface fl]"

text \<open>The context of the command line library: the value of a flag, given or default.\<close>

record cli_context =
  GlobalString :: "string \<Rightarrow> string"
  GlobalBool :: "string \<Rightarrow> bool"

definition getFlagsConfig :: "flag_lib \<Rightarrow> cli_context \<Rightarrow> ContextFlagsConfig" where
  "getFlagsConfig fl ctx = \<lparr>
     flg_WorkingDir = GlobalString ctx (flag_Name workingDirectory),
     flg_LogLevel = GlobalString ctx (flag_Name (logLevel fl)),
     flg_DisableAnsiColor = GlobalBool ctx (flag_Name disableAnsiColor),
     flg_ConfigurationFile = GlobalString ctx (flag_Name configurationFile),
     flg_ConfigurationApiFile = GlobalString ctx (flag_Name configurationApiFile),
     flg_SaveLogFile = GlobalBool ctx (flag_Name logSaveFile),
     flg_EnableLogName = GlobalBool ctx (flag_Name logWithLoggerName),
     flg_RestApiInterface = GlobalString ctx (flag_Name (restApiInterface fl)),
     flg_EnablePprof = GlobalBool ctx (flag_Name profileMode) \<rparr>"

section \<open>Paths\<close>

text \<open>
  \<^verbatim>\<open>path.Join\<close> of the standard library: the elements that are not empty, joined by slashes and cleaned. A
  cleaned path has no empty and no \<^verbatim>\<open>.\<close> elements, and \<^verbatim>\<open>..\<close> only at the front of a relative path. The
  elements kept so far are a stack.
\<close>

fun cleanElements :: "bool \<Rightarrow> string list \<Rightarrow> string list \<Rightarrow> string list" where
  "cleanElements rooted stack [] = rev stack"
| "cleanElements rooted stack (e # es) =
     (if e = '''' \<or> e = ''.'' then cleanElements rooted stack es
      else if e = ''..'' then
        (if stack \<noteq> [] \<and> hd stack \<noteq> ''..'' then cleanElements rooted (tl stack) es
         else if rooted then cleanElements rooted stack es
         else cleanElements rooted (''..'' # stack) es)
      else cleanElements rooted (e # stack) es)"

fun joinSlash :: "string list \<Rightarrow> string" where
  "joinSlash [] = ''''"
| "joinSlash [e] = e"
| "joinSlash (e # es) = e @ ''/'' @ joinSlash es"

definition path_Clean :: "string \<Rightarrow> string" where
  "path_Clean p =
     (let rooted = (p \<noteq> [] \<and> hd p = CHR ''/'');
          es = cleanElements rooted [] (stringsSplit (CHR ''/'') p) in
      if rooted then ''/'' @ joinSlash es else if es = [] then ''.'' else joinSlash es)"

definition path_Join :: "string list \<Rightarrow> string" where
  "path_Join es = (let es = filter (\<lambda>e. e \<noteq> '''') es in if es = [] then '''' else path_Clean (joinSlash es))"

section \<open>The memory of the process\<close>

record 'y client_memory =
  cm_ethMetrics :: statusHandlerPersistenceData
  cm_mxMetrics :: statusHandlerPersistenceData
  cm_tokens :: "bytes list"
  cm_rest :: 'y

type_synonym 'y process = "'y client_memory relayer_world"

definition eth_client_metrics :: "'y process \<Rightarrow> statusHandlerPersistenceData" where
  "eth_client_metrics w = cm_ethMetrics (rw_outside w)"

definition put_eth_client_metrics :: "statusHandlerPersistenceData \<Rightarrow> 'y process \<Rightarrow> 'y process" where
  "put_eth_client_metrics m w = w\<lparr>rw_outside := (rw_outside w)\<lparr>cm_ethMetrics := m\<rparr>\<rparr>"

definition mx_client_metrics :: "'y process \<Rightarrow> statusHandlerPersistenceData" where
  "mx_client_metrics w = cm_mxMetrics (rw_outside w)"

definition put_mx_client_metrics :: "statusHandlerPersistenceData \<Rightarrow> 'y process \<Rightarrow> 'y process" where
  "put_mx_client_metrics m w = w\<lparr>rw_outside := (rw_outside w)\<lparr>cm_mxMetrics := m\<rparr>\<rparr>"

definition put_tokens :: "bytes list \<Rightarrow> 'y process \<Rightarrow> 'y process" where
  "put_tokens ts w = w\<lparr>rw_outside := (rw_outside w)\<lparr>cm_tokens := ts\<rparr>\<rparr>"

text \<open>
  The holder of the ERC20 contracts with its bindings in the memory: which tokens it has bindings for
  determines them, since creating a binding is a function of the token.
\<close>

definition erc20_at :: "(bytes \<Rightarrow> go_error + 'w genericErc20Contract) \<Rightarrow> 'w erc20SafeContractsHolder \<Rightarrow> bytes list
    \<Rightarrow> 'w erc20SafeContractsHolder" where
  "erc20_at newGenericErc20 h tokens = h\<lparr>eh_contracts := List.map_filter (\<lambda>token.
     case newGenericErc20 token of
       Inl err \<Rightarrow> None
     | Inr binding \<Rightarrow> Some (token, \<lparr> ew_statusHandler = eh_statusHandler h, ew_erc20Contract = binding \<rparr>)) tokens\<rparr>"

definition erc20_interface :: "(bytes \<Rightarrow> go_error + 'y process genericErc20Contract) \<Rightarrow> (bytes \<Rightarrow> string)
    \<Rightarrow> 'y process erc20SafeContractsHolder \<Rightarrow> bytes \<Rightarrow> bytes \<Rightarrow> ('y process, go_error + int option) prog" where
  "erc20_interface newGenericErc20 addressString h erc20Address address w = do {
     (r, (h, w)) \<leftarrow> holder_BalanceOf newGenericErc20 addressString erc20Address address
       (erc20_at newGenericErc20 h (cm_tokens (rw_outside w)), w);
     Some (r, put_tokens (map fst (eh_contracts h)) w)
   }"

section \<open>Libraries\<close>

record ArgsProxy =
  ap_ProxyURL :: string
  ap_SameScState :: bool
  ap_ShouldBeSynced :: bool
  ap_FinalityCheck :: bool
  ap_AllowedDeltaToFinal :: int
  ap_CacheExpirationTime :: int
  ap_EntityType :: string

record P2PConfig =
  p2p_Port :: string
  p2p_MaximumExpectedPeerCount :: int
  p2p_ThresholdMinConnectedPeers :: int
  p2p_DiscoveryEnabled :: bool
  p2p_RefreshIntervalInSec :: int
  p2p_ProtocolID :: string
  p2p_InitialPeerList :: "string list"
  p2p_BucketSize :: int
  p2p_RoutingTableRefreshIntervalInSec :: int
  p2p_DiscoveryType :: string
  p2p_TargetPeerCount :: int
  p2p_MaxIntraShardValidators :: int
  p2p_MaxCrossShardValidators :: int
  p2p_MaxIntraShardObservers :: int
  p2p_MaxCrossShardObservers :: int
  p2p_SharderType :: string

text \<open>
  \<open>'m\<close> is a marshaller, \<open>'h\<close> a handler of the peers' ratings, \<open>'l\<close> a configuration struct of a library.
  The arguments of a network messenger that are library values themselves are left to the library.
\<close>

record ('m, 'h) ArgsNetworkMessenger =
  nm_Marshalizer :: 'm
  nm_P2pConfig :: P2PConfig
  nm_PeersRatingHandler :: 'h
  nm_ConnectionWatcherType :: string
  nm_P2pPrivateKey :: bytes

record ('m, 'h, 'b, 'l, 'w) main_lib =
  ml_flags :: flag_lib
  ml_NewFileLogging :: "string \<Rightarrow> string \<Rightarrow> string \<Rightarrow> ('w, go_error option) prog"
  ml_ChangeFileLifeSpan :: "int \<Rightarrow> u64 \<Rightarrow> ('w, go_error option) prog"
  ml_SetDisplayByteSliceToHex :: "('w, go_error option) prog"
  ml_ToggleLoggerName :: "bool \<Rightarrow> 'w \<Rightarrow> 'w"
  ml_SetLogLevel :: "string \<Rightarrow> ('w, go_error option) prog"
  ml_RemoveStdoutObserver :: "('w, go_error option) prog"
  ml_AddPlainStdoutObserver :: "('w, go_error option) prog"
  ml_LoadConfig :: "string \<Rightarrow> ('w, go_error + 'l Config) prog"
  ml_LoadApiConfig :: "string \<Rightarrow> ('w, go_error + ApiRoutesConfig) prog"
  ml_DB_FilePath :: "'l \<Rightarrow> string"
  ml_NewStorageUnit :: "'l \<Rightarrow> string \<Rightarrow> ('w, go_error + ('b, 'w) Storer) prog"
  ml_NewProxy :: "ArgsProxy \<Rightarrow> ('w, go_error + 'w Proxy) prog"
  ml_Dial :: "string \<Rightarrow> ('w, go_error + 'w blockchainClient) prog"
  ml_NewBridge :: "bytes \<Rightarrow> 'w blockchainClient \<Rightarrow> go_error + 'w multiSigContract"
  ml_NewGenericErc20 :: "'w blockchainClient \<Rightarrow> bytes \<Rightarrow> go_error + 'w genericErc20Contract"
  ml_addressString :: "bytes \<Rightarrow> string"
  ml_NewMarshalizer :: "'l \<Rightarrow> go_error + 'm"
  ml_NewLRUCache :: "int \<Rightarrow> go_error option"
  ml_NewPeersRatingHandler :: "int \<Rightarrow> int \<Rightarrow> go_error + 'h"
  ml_GeneratePair :: "('w, bytes) prog"
  ml_NewNetworkMessenger :: "('m, 'h) ArgsNetworkMessenger \<Rightarrow> ('w, go_error + 'w NetMessenger) prog"
  ml_NewPersistentStatusHandler :: "'m \<Rightarrow> go_error option"
  ml_NewAppStatusFacade :: "go_error option"
  ml_waitSignal :: "'w \<Rightarrow> 'w option"

text \<open>Go's early return in a function that gives a value or an error.\<close>

definition onOk :: "('w, go_error + 'a) prog \<Rightarrow> ('a \<Rightarrow> ('w, go_error + 'c) prog) \<Rightarrow> ('w, go_error + 'c) prog" where
  "onOk m k w = do {
     (r, w) \<leftarrow> m w;
     (case r of Inl err \<Rightarrow> Some (Inl err, w) | Inr a \<Rightarrow> k a w)
   }"

definition onNil :: "('w, go_error option) prog \<Rightarrow> ('w, go_error + 'c) prog \<Rightarrow> ('w, go_error + 'c) prog" where
  "onNil m k w = do {
     (err, w) \<leftarrow> m w;
     (case err of Some e \<Rightarrow> Some (Inl e, w) | None \<Rightarrow> k w)
   }"

abbreviation (input) pure_prog :: "'a \<Rightarrow> ('w, 'a) prog" where
  "pure_prog a \<equiv> (\<lambda>w. Some (a, w))"

section \<open>Helpers of the start\<close>

definition defaultLogsPath :: string where
  "defaultLogsPath = ''logs''"

definition logFilePrefix :: string where
  "logFilePrefix = ''multiversx-eth-bridge''"

definition p2pPeerNetworkDiscoverer :: string where
  "p2pPeerNetworkDiscoverer = ''optimized''"

definition nilListSharderType :: string where
  "nilListSharderType = ''NilListSharder''"

definition disabledWatcher :: string where
  "disabledWatcher = ''disabled''"

definition dbPath :: string where
  "dbPath = ''db''"

definition timeForBootstrap :: int where
  "timeForBootstrap = second * 20"

definition timeBeforeRepeatJoin :: int where
  "timeBeforeRepeatJoin = second * 60 * 5"

definition EthClientStatusHandlerName :: string where
  "EthClientStatusHandlerName = ''eth-client''"

definition MultiversXClientStatusHandlerName :: string where
  "MultiversXClientStatusHandlerName = ''multiversx-client''"

text \<open>The result says whether there is a file logger; the error of the byte slice format is only logged.\<close>

definition attachFileLogger :: "('m, 'h, 'b, 'l, 'w) main_lib \<Rightarrow> ContextFlagsConfig \<Rightarrow> ('w, go_error + bool) prog" where
  "attachFileLogger ml flagsConfig w = do {
     (err, w) \<leftarrow> (if flg_SaveLogFile flagsConfig
       then ml_NewFileLogging ml (flg_WorkingDir flagsConfig) defaultLogsPath logFilePrefix w else Some (None, w));
     (case err of
        Some e \<Rightarrow> Some (Inl (Wrapped e '' creating a log file''), w)
      | None \<Rightarrow> do {
          (err, w) \<leftarrow> ml_SetDisplayByteSliceToHex ml w;
          let w = ml_ToggleLoggerName ml (flg_EnableLogName flagsConfig) w;
          onNil (ml_SetLogLevel ml (flg_LogLevel flagsConfig))
            (if flg_DisableAnsiColor flagsConfig
             then onNil (ml_RemoveStdoutObserver ml) (onNil (ml_AddPlainStdoutObserver ml) (pure_prog (Inr (flg_SaveLogFile flagsConfig))))
             else pure_prog (Inr (flg_SaveLogFile flagsConfig))) w
        })
   }"

definition loadConfig :: "('m, 'h, 'b, 'l, 'w) main_lib \<Rightarrow> string \<Rightarrow> ('w, go_error + 'l Config) prog" where
  "loadConfig ml filepath = ml_LoadConfig ml filepath"

definition loadApiConfig :: "('m, 'h, 'b, 'l, 'w) main_lib \<Rightarrow> string \<Rightarrow> ('w, go_error + ApiRoutesConfig) prog" where
  "loadApiConfig ml filepath = ml_LoadApiConfig ml filepath"

definition CreateUnitStorer :: "('m, 'h, 'b, 'l, 'w) main_lib \<Rightarrow> 'l \<Rightarrow> string \<Rightarrow> ('w, go_error + ('b, 'w) Storer) prog" where
  "CreateUnitStorer ml config workingDir = ml_NewStorageUnit ml config (path_Join [workingDir, ml_DB_FilePath ml config])"

definition p2pCfg :: "'l Config \<Rightarrow> P2PConfig" where
  "p2pCfg cfg = \<lparr>
     p2p_Port = pcf_Port (cfg_P2P cfg), p2p_MaximumExpectedPeerCount = 0, p2p_ThresholdMinConnectedPeers = 0,
     p2p_DiscoveryEnabled = True, p2p_RefreshIntervalInSec = 5, p2p_ProtocolID = pcf_ProtocolID (cfg_P2P cfg),
     p2p_InitialPeerList = pcf_InitialPeerList (cfg_P2P cfg), p2p_BucketSize = 0,
     p2p_RoutingTableRefreshIntervalInSec = 300, p2p_DiscoveryType = p2pPeerNetworkDiscoverer,
     p2p_TargetPeerCount = 0, p2p_MaxIntraShardValidators = 0, p2p_MaxCrossShardValidators = 0,
     p2p_MaxIntraShardObservers = 0, p2p_MaxCrossShardObservers = 0, p2p_SharderType = nilListSharderType \<rparr>"

definition buildNetMessenger :: "('m, 'h, 'b, 'l, 'w) main_lib \<Rightarrow> 'l Config \<Rightarrow> 'm \<Rightarrow> ('w, go_error + 'w NetMessenger) prog" where
  "buildNetMessenger ml cfg marshalizer =
     (let top = prc_TopRatedCacheCapacity (cfg_PeersRatingConfig cfg); bad = prc_BadRatedCacheCapacity (cfg_PeersRatingConfig cfg) in
      onNil (pure_prog (ml_NewLRUCache ml top))
     (onNil (pure_prog (ml_NewLRUCache ml bad))
     (onOk (pure_prog (ml_NewPeersRatingHandler ml top bad)) (\<lambda>peersRatingHandler w. do {
        (p2pPrivKey, w) \<leftarrow> ml_GeneratePair ml w;
        ml_NewNetworkMessenger ml \<lparr> nm_Marshalizer = marshalizer, nm_P2pConfig = p2pCfg cfg,
          nm_PeersRatingHandler = peersRatingHandler, nm_ConnectionWatcherType = disabledWatcher,
          nm_P2pPrivateKey = p2pPrivKey \<rparr> w
      }))))"

section \<open>The start\<close>

definition proxyArgs :: "MultiversXConfig \<Rightarrow> ArgsProxy" where
  "proxyArgs cfg = \<lparr> ap_ProxyURL = mcf_NetworkAddress cfg, ap_SameScState = False, ap_ShouldBeSynced = False,
     ap_FinalityCheck = mcf_ProxyFinalityCheck cfg, ap_AllowedDeltaToFinal = mcf_ProxyMaxNoncesDelta cfg,
     ap_CacheExpirationTime = duration (uint (mcf_ProxyCacherExpirationSeconds cfg)) second,
     ap_EntityType = mcf_ProxyRestAPIEntityType cfg \<rparr>"

text \<open>The configuration of the process: both files, and the life span of the log file if there is one.\<close>

definition loadConfigs :: "('m, 'h, 'b, 'l, 'w) main_lib \<Rightarrow> cli_context \<Rightarrow> ('w, go_error + 'l Configs) prog" where
  "loadConfigs ml ctx =
     (let flagsConfig = getFlagsConfig (ml_flags ml) ctx in
      onOk (attachFileLogger ml flagsConfig) (\<lambda>fileLogging.
      onNil (ml_SetLogLevel ml (flg_LogLevel flagsConfig))
     (onOk (loadConfig ml (flg_ConfigurationFile flagsConfig)) (\<lambda>cfg.
      onOk (loadApiConfig ml (flg_ConfigurationApiFile flagsConfig)) (\<lambda>apiRoutesConfig.
      onNil (if fileLogging
             then ml_ChangeFileLifeSpan ml (duration (lgc_LogFileLifeSpanInSec (cfg_Logs cfg)) second)
               (word_of_int (lgc_LogFileLifeSpanInMB (cfg_Logs cfg)))
             else pure_prog None)
        (pure_prog (Inr \<lparr> cfg_GeneralConfig = cfg, cfg_ApiRoutesConfig = apiRoutesConfig, cfg_FlagsConfig = flagsConfig \<rparr>)))))))"

text \<open>A status handler of a client, with its metrics in the memory, and its registration.\<close>

definition newClientHandler :: "'b json_marshaller \<Rightarrow> string \<Rightarrow> ('b, 'y process) Storer
    \<Rightarrow> (statusHandlerPersistenceData \<Rightarrow> 'y process \<Rightarrow> 'y process)
    \<Rightarrow> ('y process, go_error + ('b, 'y process) statusHandler) prog" where
  "newClientHandler js name storer put w =
     (case NewStatusHandler js name (Some storer) w of
        Inl err \<Rightarrow> Some (Inl err, w)
      | Inr sh \<Rightarrow> Some (Inr sh, put (sth_metrics sh) w))"

definition registerHandler :: "string \<Rightarrow> ('w \<Rightarrow> GeneralMetrics) \<Rightarrow> 'w metricsHolder \<Rightarrow> go_error + 'w metricsHolder" where
  "registerHandler name h mh = (case AddStatusHandler name h mh of (Some err, mh) \<Rightarrow> Inl err | (None, mh) \<Rightarrow> Inr mh)"

text \<open>The Ethereum side: node, contract bindings, chain wrapper and holder of the ERC20 contracts.\<close>

definition createEthSide :: "('t, 'b, 'r, 'pk, 'l, 'y process) factory_lib \<Rightarrow> ('m, 'h, 'b, 'l, 'y process) main_lib
    \<Rightarrow> EthereumConfig \<Rightarrow> 'y process StatusHandler
    \<Rightarrow> ('y process, go_error + 'y process blockchainClient \<times> 'y process multiSigContract \<times>
         (bytes \<Rightarrow> bytes \<Rightarrow> ('y process, go_error + int option) prog)) prog" where
  "createEthSide lib ml cfg ethClientStatusHandler =
     onOk (ml_Dial ml (ecf_NetworkAddress cfg)) (\<lambda>ethClient.
     onOk (pure_prog (ml_NewBridge ml (fl_HexToAddress lib (ecf_MultisigContractAddress cfg)) ethClient)) (\<lambda>multiSigInstance.
     onOk (pure_prog (NewErc20SafeContractsHolder (Some ethClient) (Some ethClientStatusHandler))) (\<lambda>erc20ContractsHolder w.
       Some (Inr (ethClient, multiSigInstance,
         erc20_interface (ml_NewGenericErc20 ml ethClient) (ml_addressString ml) erc20ContractsHolder), put_tokens [] w))))"

definition createArgs :: "('t, 'b, 'r, 'pk, 'l, 'y process) factory_lib \<Rightarrow> ('m, 'h, 'b, 'l, 'y process) main_lib \<Rightarrow> 'l Configs
    \<Rightarrow> ('y process, go_error + ('b, 'l, 'y process) ArgsEthereumToMultiversXBridge) prog" where
  "createArgs lib ml configs =
     (let cfg = cfg_GeneralConfig configs; dbFullPath = path_Join [flg_WorkingDir (cfg_FlagsConfig configs), dbPath] in
      onOk (CreateUnitStorer ml (rcf_StatusMetricsStorage (cfg_Relayer cfg)) dbFullPath) (\<lambda>statusStorer.
      onOk (newClientHandler (fl_json lib) EthClientStatusHandlerName statusStorer put_eth_client_metrics) (\<lambda>ethHandler.
      onOk (pure_prog (registerHandler EthClientStatusHandlerName
             (\<lambda>w. status_GetAllMetrics (sth_at (eth_client_metrics w) ethHandler)) NewMetricsHolder)) (\<lambda>metricsHolder.
      onOk (newClientHandler (fl_json lib) MultiversXClientStatusHandlerName statusStorer put_mx_client_metrics) (\<lambda>mxHandler.
      onOk (pure_prog (registerHandler MultiversXClientStatusHandlerName
             (\<lambda>w. status_GetAllMetrics (sth_at (mx_client_metrics w) mxHandler)) metricsHolder)) (\<lambda>metricsHolder.
      if length (mcf_NetworkAddress (cfg_MultiversX cfg)) = 0
      then pure_prog (Inl (Plain ''empty MultiversX.NetworkAddress in config file''))
      else
      let ethClientStatusHandler = status_interface eth_client_metrics put_eth_client_metrics ethHandler in
      onOk (ml_NewProxy ml (proxyArgs (cfg_MultiversX cfg))) (\<lambda>proxy.
      onOk (createEthSide lib ml (cfg_Eth cfg) ethClientStatusHandler) (\<lambda>(ethClient, multiSigInstance, erc20ContractsHolder).
      onOk (pure_prog (ml_NewMarshalizer ml (rcf_Marshalizer (cfg_Relayer cfg)))) (\<lambda>marshaller.
      onOk (buildNetMessenger ml cfg marshaller) (\<lambda>messenger.
      onOk (pure_prog (NewEthereumChainWrapper \<lparr> arg_ecw_StatusHandler = Some ethClientStatusHandler,
             arg_ecw_MultiSigContract = Some multiSigInstance, arg_ecw_BlockchainClient = Some ethClient \<rparr>)) (\<lambda>clientWrapper.
      onNil (pure_prog (ml_NewPersistentStatusHandler ml marshaller))
     (onNil (pure_prog (ml_NewAppStatusFacade ml))
        (pure_prog (Inr \<lparr> fa_Configs = configs, fa_Messenger = Some messenger, fa_StatusStorer = Some statusStorer,
           fa_Proxy = Some proxy,
           fa_MultiversXClientStatusHandler = Some (status_interface mx_client_metrics put_mx_client_metrics mxHandler),
           fa_Erc20ContractsHolder = Some erc20ContractsHolder, fa_ClientWrapper = Some (chain_wrapper clientWrapper),
           fa_TimeForBootstrap = timeForBootstrap, fa_TimeBeforeRepeatJoin = timeBeforeRepeatJoin,
           fa_MetricsHolder = Some metricsHolder, fa_AppStatusHandler = Some () \<rparr>))))))))))))))"

text \<open>Everything up to the running server; the server asks the holder that the factory has extended.\<close>

definition createRelay :: "('t, 'b, 'r, 'pk, 'l, 'y process) factory_lib \<Rightarrow> ('m, 'h, 'b, 'l, 'y process) main_lib
    \<Rightarrow> 'y process rest_lib \<Rightarrow> 'y process groups_order \<Rightarrow> cli_context
    \<Rightarrow> ('y process, go_error + ('t, 'b, 'y process) components \<times> 'y process webServer) prog" where
  "createRelay lib ml rl ord ctx =
     onOk (loadConfigs ml ctx) (\<lambda>configs.
     onOk (createArgs lib ml configs) (\<lambda>args.
     onOk (NewEthMultiversXBridgeComponents lib args) (\<lambda>components.
     onOk (StartWebServer rl ord configs (Some (cmp_metricsHolder components))) (\<lambda>webServer.
       pure_prog (Inr (components, webServer))))))"

text \<open>
  After the start the process waits for a signal; the goroutines that run meanwhile are
  \<open>meanwhile\<close>, which may also store the function that cancels the join messages.
\<close>

definition startRelay :: "('t, 'b, 'r, 'pk, 'l, 'y process) factory_lib \<Rightarrow> ('m, 'h, 'b, 'l, 'y process) main_lib
    \<Rightarrow> 'y process rest_lib \<Rightarrow> 'y process groups_order
    \<Rightarrow> (('t, 'b, 'y client_memory) cmp_state \<Rightarrow> ('t, 'b, 'y client_memory) cmp_state) \<Rightarrow> cli_context
    \<Rightarrow> ('y process, go_error option) prog" where
  "startRelay lib ml rl ord meanwhile ctx w = do {
     (r, w) \<leftarrow> createRelay lib ml rl ord ctx w;
     (case r of
        Inl err \<Rightarrow> Some (Some err, w)
      | Inr (components, webServer) \<Rightarrow> do {
          (err, (components, w)) \<leftarrow> Start lib (components, w);
          (if err \<noteq> None then Some (err, w) else do {
             let (components, w) = meanwhile (components, w);
             w \<leftarrow> ml_waitSignal ml w;
             (err, w) \<leftarrow> components_Close lib components w;
             let lastErr = err;
             (err, w) \<leftarrow> ws_Close rl webServer w;
             Some (if err \<noteq> None then err else lastErr, w)
           })
        })
   }"

section \<open>Lemmas\<close>

text \<open>A cleaned path has no empty and no \<^verbatim>\<open>.\<close> elements, and a rooted one does not go up.\<close>

lemma notin_tl: "x \<notin> set xs \<Longrightarrow> x \<notin> set (tl xs)"
  by (cases xs) auto

lemma cleanElements_plain: "{'''', ''.''} \<inter> set stack = {} \<Longrightarrow> {'''', ''.''} \<inter> set (cleanElements rooted stack es) = {}"
  by (induction rooted stack es rule: cleanElements.induct) (auto simp: notin_tl split: if_splits)

lemma cleanElements_rooted: "''..'' \<notin> set stack \<Longrightarrow> ''..'' \<notin> set (cleanElements True stack es)"
  by (induction True stack es rule: cleanElements.induct) (auto simp: notin_tl)

lemma onOk_success: "onOk m k w = Some (Inr c, w') \<longleftrightarrow> (\<exists>a v. m w = Some (Inr a, v) \<and> k a v = Some (Inr c, w'))"
  by (auto simp: onOk_def bind_Some_conv split: sum.split_asm)

lemma onNil_success: "onNil m k w = Some (Inr c, w') \<longleftrightarrow> (\<exists>v. m w = Some (None, v) \<and> k v = Some (Inr c, w'))"
  by (auto simp: onNil_def bind_Some_conv split: option.split_asm)

lemma registerHandler_success: "registerHandler name h mh = Inr mh' \<longleftrightarrow> gm_get mh name = None \<and> mh' = gm_set name h mh"
  by (auto simp: registerHandler_def AddStatusHandler_def)

lemma newClientHandler_success:
  "newClientHandler js name storer put w = Some (Inr sh, w') \<longleftrightarrow> NewStatusHandler js name (Some storer) w = Inr sh \<and> w' = put (sth_metrics sh) w"
  by (auto simp: newClientHandler_def split: sum.split)

lemmas relay_success = onOk_success onNil_success registerHandler_success newClientHandler_success

text \<open>The arguments that the process hands to the factory.\<close>

lemma createArgs_success:
  assumes "createArgs lib ml configs w = Some (Inr args, w')"
  obtains storer ethHandler mxHandler proxy node multisig messenger where
    "fa_Configs args = configs" "fa_StatusStorer args = Some storer" "fa_Proxy args = Some proxy" "fa_Messenger args = Some messenger"
    "fa_MultiversXClientStatusHandler args = Some (status_interface mx_client_metrics put_mx_client_metrics mxHandler)"
    "fa_ClientWrapper args = Some (chain_wrapper \<lparr> ecw_StatusHandler = status_interface eth_client_metrics put_eth_client_metrics ethHandler,
       ecw_multiSigContract = multisig, ecw_blockchainClient = node \<rparr>)"
    "fa_Erc20ContractsHolder args = Some (erc20_interface (ml_NewGenericErc20 ml node) (ml_addressString ml)
       \<lparr> eh_contracts = [], eh_statusHandler = status_interface eth_client_metrics put_eth_client_metrics ethHandler \<rparr>)"
    "fa_MetricsHolder args = Some [(EthClientStatusHandlerName, \<lambda>w. reported (eth_client_metrics w)),
       (MultiversXClientStatusHandlerName, \<lambda>w. reported (mx_client_metrics w))]"
    "sth_storer ethHandler = storer" "sth_storer mxHandler = storer"
    "mcf_NetworkAddress (cfg_MultiversX (cfg_GeneralConfig configs)) \<noteq> ''''"
    "\<exists>u u'. ml_NewProxy ml (proxyArgs (cfg_MultiversX (cfg_GeneralConfig configs))) u = Some (Inr proxy, u')"
    "ml_NewBridge ml (fl_HexToAddress lib (ecf_MultisigContractAddress (cfg_Eth (cfg_GeneralConfig configs)))) node = Inr multisig"
    "\<exists>u u'. ml_Dial ml (ecf_NetworkAddress (cfg_Eth (cfg_GeneralConfig configs))) u = Some (Inr node, u')"
    "\<exists>dir u u'. CreateUnitStorer ml (rcf_StatusMetricsStorage (cfg_Relayer (cfg_GeneralConfig configs))) dir u = Some (Inr storer, u')"
proof -
  let ?cfg = "cfg_GeneralConfig configs" and ?eth = "status_interface eth_client_metrics put_eth_client_metrics"
  from assms obtain storer ethHandler mxHandler proxy node multisig messenger dir v1 v2 u u' d d' t t' where r:
    "NewStatusHandler (fl_json lib) EthClientStatusHandlerName (Some storer) v1 = Inr ethHandler"
    "NewStatusHandler (fl_json lib) MultiversXClientStatusHandlerName (Some storer) v2 = Inr mxHandler"
    "mcf_NetworkAddress (cfg_MultiversX ?cfg) \<noteq> ''''"
    "ml_NewProxy ml (proxyArgs (cfg_MultiversX ?cfg)) u = Some (Inr proxy, u')"
    "ml_NewBridge ml (fl_HexToAddress lib (ecf_MultisigContractAddress (cfg_Eth ?cfg))) node = Inr multisig"
    "ml_Dial ml (ecf_NetworkAddress (cfg_Eth ?cfg)) d = Some (Inr node, d')"
    "CreateUnitStorer ml (rcf_StatusMetricsStorage (cfg_Relayer ?cfg)) dir t = Some (Inr storer, t')"
    "args = \<lparr> fa_Configs = configs, fa_Messenger = Some messenger, fa_StatusStorer = Some storer, fa_Proxy = Some proxy,
       fa_MultiversXClientStatusHandler = Some (status_interface mx_client_metrics put_mx_client_metrics mxHandler),
       fa_Erc20ContractsHolder = Some (erc20_interface (ml_NewGenericErc20 ml node) (ml_addressString ml)
         \<lparr> eh_contracts = [], eh_statusHandler = ?eth ethHandler \<rparr>),
       fa_ClientWrapper = Some (chain_wrapper \<lparr> ecw_StatusHandler = ?eth ethHandler, ecw_multiSigContract = multisig,
         ecw_blockchainClient = node \<rparr>),
       fa_TimeForBootstrap = timeForBootstrap, fa_TimeBeforeRepeatJoin = timeBeforeRepeatJoin,
       fa_MetricsHolder = Some [(EthClientStatusHandlerName, \<lambda>w. reported (eth_client_metrics w)),
         (MultiversXClientStatusHandlerName, \<lambda>w. reported (mx_client_metrics w))], fa_AppStatusHandler = Some () \<rparr>"
    by (auto simp: createArgs_def createEthSide_def Let_def relay_success NewMetricsHolder_def NewErc20SafeContractsHolder_def
      NewEthereumChainWrapper_def ecw_checkArgs_def reported_sth_at EthClientStatusHandlerName_def MultiversXClientStatusHandlerName_def
      split: if_splits prod.split_asm)
  show thesis
    by (rule that [of storer proxy messenger mxHandler ethHandler multisig node])
       (use r in \<open>auto simp: NewStatusHandler_storer [OF r(1)] NewStatusHandler_storer [OF r(2)]\<close>)
qed

lemma createRelay_success:
  assumes "createRelay lib ml rl ord ctx w = Some (Inr (c, ws), w')"
  obtains configs args v1 v2 v3 where "loadConfigs ml ctx w = Some (Inr configs, v1)"
    "createArgs lib ml configs v1 = Some (Inr args, v2)"
    "NewEthMultiversXBridgeComponents lib args v2 = Some (Inr c, v3)"
    "StartWebServer rl ord configs (Some (cmp_metricsHolder c)) v3 = Some (Inr ws, w')"
  using assms by (auto simp: createRelay_def onOk_success)

text \<open>The server of the process reports the two clients and the two half-bridges, and nothing else.\<close>

lemma relay_holder:
  assumes "createArgs lib ml configs v = Some (Inr args, v')" "NewEthMultiversXBridgeComponents lib args v'' = Some (Inr c, w')"
    "chain = ecf_Chain (cfg_Eth (cfg_GeneralConfig configs))"
  shows "gm_get (cmp_metricsHolder c) name =
    (if name = MultiversXToEvmCompatibleChainName chain then Some (\<lambda>w. reported (rw_mxMetrics w))
     else if name = EvmCompatibleChainToMultiversXName chain then Some (\<lambda>w. reported (rw_ethMetrics w))
     else if name = EthClientStatusHandlerName then Some (\<lambda>w. reported (eth_client_metrics w))
     else if name = MultiversXClientStatusHandlerName then Some (\<lambda>w. reported (mx_client_metrics w))
     else None)"
proof -
  have given: "the (fa_MetricsHolder args) = [(EthClientStatusHandlerName, \<lambda>w. reported (eth_client_metrics w)),
      (MultiversXClientStatusHandlerName, \<lambda>w. reported (mx_client_metrics w))]" "fa_Configs args = configs"
    by (rule createArgs_success [OF assms(1)]; simp)+
  show ?thesis
    using construction_registers(1) [OF assms(2)] assms(3) given by simp
qed

text \<open>
  The holder of the ERC20 contracts in the memory answers as the binding of the token does, after
  counting a request.
\<close>

lemma set_map_filter: "y \<in> set (List.map_filter f xs) \<longleftrightarrow> (\<exists>x \<in> set xs. f x = Some y)"
  by (induction xs) (auto simp: List.map_filter_simps split: option.split)

lemma erc20_at_holds_own: "holds_own new (erc20_at new h tokens)"
proof -
  have "new a = Inr (ew_erc20Contract k) \<and> ew_statusHandler k = eh_statusHandler h"
    if "map_of (eh_contracts (erc20_at new h tokens)) a = Some k" for a k
  proof -
    from map_of_SomeD [OF that] obtain token where "(case new token of Inl err \<Rightarrow> None
        | Inr binding \<Rightarrow> Some (token, \<lparr> ew_statusHandler = eh_statusHandler h, ew_erc20Contract = binding \<rparr>)) = Some (a, k)"
      by (auto simp: erc20_at_def set_map_filter)
    then show ?thesis by (cases "new token") auto
  qed
  moreover have "eh_statusHandler (erc20_at new h tokens) = eh_statusHandler h"
    by (simp add: erc20_at_def)
  ultimately show ?thesis by (simp add: holds_own_def)
qed

lemma erc20_interface_answers:
  assumes "new token = Inr binding"
  shows "\<exists>tokens. erc20_interface new addressString h token account w =
    map_option (\<lambda>(r, w'). (r, put_tokens tokens w'))
      (binding account (sh_AddIntMetric (eh_statusHandler h) MetricNumEthClientRequests 1 w))"
proof -
  let ?h = "erc20_at new h (cm_tokens (rw_outside w))"
  obtain h' where "holder_BalanceOf new addressString token account (?h, w) =
      map_option (\<lambda>(r, w'). (r, (h', w'))) (binding account (sh_AddIntMetric (eh_statusHandler ?h) MetricNumEthClientRequests 1 w))"
    using holder_transparent [where new = new and token = token, OF erc20_at_holds_own assms, of addressString account h _ w] by blast
  then show ?thesis
    by (intro exI [of _ "map fst (eh_contracts h')"]; cases "binding account (sh_AddIntMetric (eh_statusHandler h) MetricNumEthClientRequests 1 w)")
       (auto simp: erc20_interface_def erc20_at_def)
qed

text \<open>Without a binding the holder answers the error of the library.\<close>

lemma erc20_interface_error:
  assumes "new token = Inl err"
  shows "\<exists>tokens. erc20_interface new addressString h token account w =
    Some (Inl (Wrapped err ('' for '' @ addressString token)), put_tokens tokens w)"
proof -
  have "gm_get (eh_contracts (erc20_at new h (cm_tokens (rw_outside w)))) token = None"
    using erc20_at_holds_own [of new h "cm_tokens (rw_outside w)"] assms
    by (cases "gm_get (eh_contracts (erc20_at new h (cm_tokens (rw_outside w)))) token") (auto simp: holds_own_def)
  then show ?thesis
    using assms by (auto simp: erc20_interface_def holder_BalanceOf_def)
qed

section \<open>Confinement\<close>

definition contract_within :: "('w \<Rightarrow> 'w \<Rightarrow> bool) \<Rightarrow> 'w multiSigContract \<Rightarrow> bool" where
  "contract_within R ms \<longleftrightarrow> (\<forall>n. within R (ms_GetBatch ms n)) \<and> (\<forall>n. within R (ms_GetBatchDeposits ms n)) \<and>
     within R (ms_GetRelayers ms) \<and> (\<forall>n. within R (ms_WasBatchExecuted ms n)) \<and>
     (\<forall>opts l n sigs. within R (ms_ExecuteTransfer ms opts l n sigs)) \<and> within R (ms_Quorum ms) \<and>
     (\<forall>n. within R (ms_GetStatusesAfterExecution ms n)) \<and> within R (ms_Paused ms)"

definition node_within :: "('w \<Rightarrow> 'w \<Rightarrow> bool) \<Rightarrow> 'w blockchainClient \<Rightarrow> bool" where
  "node_within R n \<longleftrightarrow> within R (bcl_BlockNumber n) \<and> (\<forall>a b. within R (bcl_NonceAt n a b)) \<and> within R (bcl_ChainID n) \<and>
     (\<forall>a. within R (bcl_BalanceAt n a))"

context world_effects
begin

lemma counted_within:
  assumes "handler_within R sh" "within R f"
  shows "within R (\<lambda>w. f (sh_AddIntMetric sh metric n w))"
  using assms unfolding within_def handler_within_def by (meson R_trans)

lemma chain_wrapper_within:
  assumes "handler_within R sh" "contract_within R ms" "node_within R n"
  shows "wrapper_within R (chain_wrapper \<lparr> ecw_StatusHandler = sh, ecw_multiSigContract = ms, ecw_blockchainClient = n \<rparr>)"
proof -
  let ?w = "\<lparr> ecw_StatusHandler = sh, ecw_multiSigContract = ms, ecw_blockchainClient = n \<rparr>"
  have "within R (ecw_BlockNumber ?w)"
  proof (rule withinI)
    have "R w (sh_AddIntMetric sh MetricNumEthClientRequests 1 w)" "R w (sh_SetIntMetric sh k i w)" for w k i
      using assms(1) by (auto simp: handler_within_def)
    then show "wlp (ecw_BlockNumber ?w w) (\<lambda>(r, w'). R w w')" for w
      using assms(3) by (auto simp: ecw_BlockNumber_def ecw_count_def wp_simps node_within_def split: sum.split
        intro!: within_call intro: R_trans)
  qed
  then show ?thesis
    using assms unfolding wrapper_within_def contract_within_def node_within_def chain_wrapper_def
    by (auto simp: ecw_GetBatch_def [abs_def] ecw_GetBatchDeposits_def [abs_def] ecw_GetRelayers_def [abs_def]
      ecw_WasBatchExecuted_def [abs_def] ecw_ChainID_def [abs_def] ecw_NonceAt_def [abs_def] ecw_ExecuteTransfer_def [abs_def]
      ecw_Quorum_def [abs_def] ecw_GetStatusesAfterExecution_def [abs_def] ecw_BalanceAt_def [abs_def] ecw_IsPaused_def [abs_def]
      ecw_count_def intro!: counted_within)
qed

end

text \<open>
  What the libraries of the process promise: their objects do not reach into the memory of the relayer.
\<close>

definition libraries_outside :: "('m, 'h, 'b, 'l, 'y process) main_lib \<Rightarrow> bool" where
  "libraries_outside ml \<longleftrightarrow>
     (\<forall>url u node u'. ml_Dial ml url u = Some (Inr node, u') \<longrightarrow> node_within outside_only node \<and>
        (\<forall>a ms. ml_NewBridge ml a node = Inr ms \<longrightarrow> contract_within outside_only ms) \<and>
        (\<forall>t k a. ml_NewGenericErc20 ml node t = Inr k \<longrightarrow> within outside_only (k a))) \<and>
     (\<forall>a u p u'. ml_NewProxy ml a u = Some (Inr p, u') \<longrightarrow> proxy_within outside_only p) \<and>
     (\<forall>c path u st u'. ml_NewStorageUnit ml c path u = Some (Inr st, u') \<longrightarrow> (\<forall>k v w. outside_only w (snd (st_Put st k v w))))"

lemma puts_outside:
  "outside_only w (put_eth_client_metrics m w)" "outside_only w (put_mx_client_metrics m w)" "outside_only w (put_tokens ts w)"
  by (auto simp: outside_only_def put_eth_client_metrics_def put_mx_client_metrics_def put_tokens_def)

lemma erc20_interface_within:
  assumes "handler_within outside_only (eh_statusHandler h)" "\<And>k. new token = Inr k \<Longrightarrow> within outside_only (k account)"
  shows "within outside_only (erc20_interface new addressString h token account)"
  unfolding within_def
proof (intro allI impI)
  fix w r w'
  assume run: "erc20_interface new addressString h token account w = Some (r, w')"
  show "outside_only w w'"
  proof (cases "new token")
    case (Inl err)
    with erc20_interface_error [where new = new and token = token, OF Inl, of addressString h account w] run show ?thesis by (auto intro: puts_outside)
  next
    case (Inr k)
    obtain ts v where v: "k account (sh_AddIntMetric (eh_statusHandler h) MetricNumEthClientRequests 1 w) = Some (r, v)" "w' = put_tokens ts v"
      using erc20_interface_answers [where new = new and token = token, OF Inr, of addressString h account w] run
      by (cases "k account (sh_AddIntMetric (eh_statusHandler h) MetricNumEthClientRequests 1 w)") auto
    have "outside_only w v"
      using outside.counted_within [OF assms(1) assms(2) [OF Inr]] v(1) by (rule withinD)
    then show ?thesis
      unfolding v(2) by (rule outside.R_trans) (rule puts_outside)
  qed
qed

lemma within_parts_mono:
  assumes "R \<le> S"
  shows "proxy_within R p \<Longrightarrow> proxy_within S p" "wrapper_within R cw \<Longrightarrow> wrapper_within S cw"
  unfolding proxy_within_def wrapper_within_def
  by (meson within_mono [OF _ assms] handler_within_mono [OF _ assms])+

text \<open>
  So the arguments that the process builds keep the promises that a run of the relayer asks for: its
  wrappers, handlers and holders write their own memory only.
\<close>

lemma relay_args_confined:
  assumes "createArgs lib ml configs v = Some (Inr args, v')" "libraries_outside ml" "outside_only \<le> R"
  shows "proxy_within R (the (fa_Proxy args)) \<and> wrapper_within R (the (fa_ClientWrapper args)) \<and>
    (\<forall>t a. within R (the (fa_Erc20ContractsHolder args) t a)) \<and>
    handler_within R (the (fa_MultiversXClientStatusHandler args)) \<and> (\<forall>k v w. R w (snd (st_Put (the (fa_StatusStorer args)) k v w)))"
proof -
  let ?eth = "status_interface eth_client_metrics put_eth_client_metrics"
  obtain storer ethHandler mxHandler proxy node multisig where a: "fa_StatusStorer args = Some storer" "fa_Proxy args = Some proxy"
    "fa_MultiversXClientStatusHandler args = Some (status_interface mx_client_metrics put_mx_client_metrics mxHandler)"
    "fa_ClientWrapper args = Some (chain_wrapper \<lparr> ecw_StatusHandler = ?eth ethHandler, ecw_multiSigContract = multisig,
       ecw_blockchainClient = node \<rparr>)"
    "fa_Erc20ContractsHolder args = Some (erc20_interface (ml_NewGenericErc20 ml node) (ml_addressString ml)
       \<lparr> eh_contracts = [], eh_statusHandler = ?eth ethHandler \<rparr>)"
    "sth_storer ethHandler = storer" "sth_storer mxHandler = storer"
    "\<exists>u u'. ml_NewProxy ml (proxyArgs (cfg_MultiversX (cfg_GeneralConfig configs))) u = Some (Inr proxy, u')"
    "ml_NewBridge ml (fl_HexToAddress lib (ecf_MultisigContractAddress (cfg_Eth (cfg_GeneralConfig configs)))) node = Inr multisig"
    "\<exists>u u'. ml_Dial ml (ecf_NetworkAddress (cfg_Eth (cfg_GeneralConfig configs))) u = Some (Inr node, u')"
    "\<exists>dir u u'. CreateUnitStorer ml (rcf_StatusMetricsStorage (cfg_Relayer (cfg_GeneralConfig configs))) dir u = Some (Inr storer, u')"
    by (rule createArgs_success [OF assms(1)]) (rule that; assumption)
  have put: "outside_only w (snd (st_Put storer k x w))" for k x w
    using assms(2) a(11) unfolding libraries_outside_def CreateUnitStorer_def by blast
  have h: "handler_within outside_only (?eth ethHandler)"
    "handler_within outside_only (status_interface mx_client_metrics put_mx_client_metrics mxHandler)"
    using put by (auto intro!: status_acts puts_outside outside.world_effects_axioms simp: a(6,7))
  obtain u u' where dial: "ml_Dial ml (ecf_NetworkAddress (cfg_Eth (cfg_GeneralConfig configs))) u = Some (Inr node, u')"
    using a(10) by blast
  have node: "node_within outside_only node" "contract_within outside_only multisig"
    "\<And>t k acc. ml_NewGenericErc20 ml node t = Inr k \<Longrightarrow> within outside_only (k acc)"
    using assms(2) [unfolded libraries_outside_def, THEN conjunct1, rule_format, OF dial] a(9) by auto
  have "within outside_only (the (fa_Erc20ContractsHolder args) t acc)" for t acc
    unfolding a(5) option.sel by (rule erc20_interface_within) (use h(1) node(3) in auto)
  moreover have "wrapper_within outside_only (the (fa_ClientWrapper args))"
    unfolding a(4) option.sel by (rule outside.chain_wrapper_within [OF h(1) node(2,1)])
  moreover have "proxy_within outside_only (the (fa_Proxy args))"
    unfolding a(2) option.sel using assms(2) [unfolded libraries_outside_def, THEN conjunct2, THEN conjunct1] a(8) by blast
  moreover have "R w (snd (st_Put storer k x w))" for k x w
    by (rule predicate2D [OF assms(3) put])
  ultimately show ?thesis
    using handler_within_mono [OF h(2) assms(3)]
    by (simp add: a(1,3) within_parts_mono [OF assms(3)] within_mono [OF _ assms(3)])
qed

text \<open>The argument check of the factory accepts what the process builds.\<close>

lemma relay_args_checked:
  assumes "createArgs lib ml configs v = Some (Inr args, v')"
  shows "checkArgsEthereumToMultiversXBridge lib args = None"
  using assms
  by (auto simp: createArgs_def Let_def relay_success checkArgsEthereumToMultiversXBridge_def timeForBootstrap_def timeBeforeRepeatJoin_def
    minTimeForBootstrap_def minTimeBeforeRepeatJoin_def second_def millisecond_def split: if_splits prod.split_asm)

text \<open>After a signal the process closes the relayer and then the server, and returns the last error.\<close>

lemma startRelay_closes:
  assumes "createRelay lib ml rl ord ctx w = Some (Inr (c, ws), w1)" "Start lib (c, w1) = Some (None, s2)"
    "meanwhile s2 = (c3, w3)" "ml_waitSignal ml w3 = Some w4"
  shows "startRelay lib ml rl ord meanwhile ctx w = closed_in_order [components_Close lib c3, ws_Close rl ws] w4"
proof (cases "components_Close lib c3 w4")
  case None
  with assms show ?thesis by (cases s2) (simp add: startRelay_def Let_def)
next
  case (Some r)
  with assms show ?thesis
    by (cases s2; cases r; cases "ws_Close rl ws (snd r)") (auto simp: startRelay_def Let_def)
qed

end
