(* ===== verification/Demo_Run.thy ===== *)
theory Demo_Run
  imports Half_Bridge_Runs
begin

text \<open>
  A relayer over trivial clients that always succeed, run for one round in each direction: a concrete
  run on which the properties of the half-bridges apply.
\<close>

definition demo_batch :: TransferBatch where
  "demo_batch = \<lparr> ID = 5, Deposits = [\<lparr> Nonce = 8, ToBytes = [1], DisplayableTo = ''to'',
     FromBytes = [2], DisplayableFrom = ''from'', TokenBytes = [3], ConvertedTokenBytes = [4],
     DisplayableToken = ''tok'', Amount = Some 10 \<rparr>], Statuses = [0] \<rparr>"

definition answer :: "'a \<Rightarrow> (unit, 'a) prog" where
  "answer r = (\<lambda>w. Some (r, w))"

definition demo_mx :: "unit MultiversXClient" where
  "demo_mx =
     \<lparr> mx_GetPending = answer (Inr (Some demo_batch)),
       mx_WasProposedTransfer = (\<lambda>_. answer (Inr False)),
       mx_QuorumReached = (\<lambda>_. answer (Inr True)),
       mx_WasExecuted = (\<lambda>_. answer (Inr False)),
       mx_GetActionIDForProposeTransfer = (\<lambda>_. answer (Inr 3)),
       mx_WasProposedSetStatus = (\<lambda>_. answer (Inr False)),
       mx_GetActionIDForSetStatusOnPendingTransfer = (\<lambda>_. answer (Inr 4)),
       mx_GetLastExecutedEthBatchID = answer (Inr 4),
       mx_GetLastExecutedEthTxID = answer (Inr 7),
       mx_ProposeSetStatus = (\<lambda>_. answer (Inr ''hash'')),
       mx_ProposeTransfer = (\<lambda>_. answer (Inr ''hash'')),
       mx_Sign = (\<lambda>_. answer (Inr ''hash'')),
       mx_WasSigned = (\<lambda>_. answer (Inr False)),
       mx_PerformAction = (\<lambda>_ _. answer (Inr ''hash'')),
       mx_CheckClientAvailability = answer None \<rparr>"

definition demo_eth :: "unit EthereumClient" where
  "demo_eth =
     \<lparr> eth_GetBatch = (\<lambda>_. answer (Inr (Some demo_batch))),
       eth_WasExecuted = (\<lambda>_. answer (Inr False)),
       eth_GenerateMessageHash = (\<lambda>_. Some (Inr [9])),
       eth_BroadcastSignatureForMessageHash = (\<lambda>_. answer ()),
       eth_ExecuteTransfer = (\<lambda>_ _ _. answer (Inr ''hash'')),
       eth_GetTransactionsStatuses = (\<lambda>_. answer (Inr [3])),
       eth_GetQuorumSize = answer (Inr 2),
       eth_IsQuorumReached = (\<lambda>_. answer (Inr True)),
       eth_CheckClientAvailability = answer None \<rparr>"

text \<open>The same client on a chain where the transfer has been executed.\<close>

definition demo_eth_done :: "unit EthereumClient" where
  "demo_eth_done = demo_eth\<lparr> eth_WasExecuted := (\<lambda>_. answer (Inr True)) \<rparr>"

definition demo_handler :: "unit StatusHandler" where
  "demo_handler = \<lparr> sh_SetIntMetric = (\<lambda>_ _ w. w), sh_AddIntMetric = (\<lambda>_ _ w. w),
     sh_SetStringMetric = (\<lambda>_ _ w. w) \<rparr>"

definition demo_args :: "unit EthereumClient \<Rightarrow> unit ArgsBridgeExecutor" where
  "demo_args eth =
     \<lparr> arg_Log = Some (\<lambda>_. ''level''),
       arg_TopologyProvider = Some (answer True),
       arg_MultiversXClient = Some demo_mx,
       arg_EthereumClient = Some eth,
       arg_TimeForWaitOnEthereum = second,
       arg_WaitTimer = (\<lambda>_. answer True),
       arg_StatusHandler = Some demo_handler,
       arg_SignaturesHolder = Some (\<lambda>w. w),
       arg_BatchValidator = Some (\<lambda>_. answer (Inr True)),
       arg_MaxQuorumRetriesOnEthereum = 3,
       arg_MaxQuorumRetriesOnMultiversX = 3,
       arg_MaxRestriesOnWasProposed = 3 \<rparr>"

section \<open>Executing a machine several times\<close>

fun runs :: "nat \<Rightarrow> 's stateMachine \<times> 's \<Rightarrow> ('s stateMachine \<times> 's) option" where
  "runs 0 c = Some c"
| "runs (Suc n) c = (case Execute c of None \<Rightarrow> None | Some (err, c') \<Rightarrow> runs n c')"

lemma runs_reachable: "runs n c = Some c' \<Longrightarrow> reachable env c0 c \<Longrightarrow> reachable env c0 c'"
proof (induction n arbitrary: c)
  case (Suc n)
  then show ?case by (auto split: option.splits intro: reachable_exec)
qed simp

definition eth_demo_start :: "unit EthereumClient \<Rightarrow> unit config" where
  "eth_demo_start eth = (start_machine (eth_machineStates (\<lambda>_. '''')) GettingPendingBatchFromEthereum
       (machineSH demo_handler), (traceExecutor (createBridgeExecutor (demo_args eth)), ((), [])))"

definition mx_demo_start :: "unit EthereumClient \<Rightarrow> unit config" where
  "mx_demo_start eth = (start_machine (mx_machineStates (\<lambda>_. '''')) GettingPendingBatchFromMultiversX
       (machineSH demo_handler), (traceExecutor (createBridgeExecutor (demo_args eth)), ((), [])))"

lemma demo_NewBridgeExecutor: "NewBridgeExecutor (demo_args eth) = Inr (createBridgeExecutor (demo_args eth))"
  by (simp add: NewBridgeExecutor_def checkArgs_def demo_args_def durationLimit_def minRetries_def)

lemma eth_demo_initial: "eth_initial (demo_args eth) (eth_demo_start eth)"
  unfolding eth_demo_start_def by (rule eth_start [OF demo_NewBridgeExecutor])

lemma mx_demo_initial: "mx_initial (demo_args eth) (mx_demo_start eth)"
  unfolding mx_demo_start_def by (rule mx_start [OF demo_NewBridgeExecutor])

definition demo_calls :: "('w config) option \<Rightarrow> event list" where
  "demo_calls c = (case c of None \<Rightarrow> [] | Some c \<Rightarrow> calls (snd c))"

lemma eth_demo_calls: "demo_calls (runs 5 (eth_demo_start demo_eth)) =
   [EvPerformAction 3 (Some demo_batch) (Inr ''hash''), EvLeader True, EvWasExecuted 3 (Inr False),
    EvQuorumReached 3 (Inr True),
    EvSign 3 (Inr ''hash''), EvWasSigned 3 (Inr False), EvActionIDForTransfer (Some demo_batch) (Inr 3),
    EvProposeTransfer (Some demo_batch) (Inr ''hash''), EvLeader True,
    EvWasProposedTransfer (Some demo_batch) (Inr False),
    EvLastEthTxID (Inr 7), EvValidate demo_batch (Inr True), EvGetBatch 5 (Inr (Some demo_batch)),
    EvLastEthBatchID (Inr 4), EvEthAvailable None, EvMxAvailable None]"
  by code_simp

lemma mx_demo_calls: "demo_calls (runs 4 (mx_demo_start demo_eth)) =
   [EvExecuteTransfer [9] (Some demo_batch) 2 (Inr ''hash''), EvQuorumSize (Inr 2), EvLeader True,
    EvWasTransferExecuted 5 (Inr False), EvIsQuorumReached [9] (Inr True), EvBroadcast [9],
    EvWasTransferExecuted 5 (Inr False), EvValidate demo_batch (Inr True),
    EvGetPending (Inr (Some demo_batch)), EvEthAvailable None, EvMxAvailable None]"
  by code_simp

definition demo_resolved :: TransferBatch where
  "demo_resolved = demo_batch\<lparr> Statuses := [3] \<rparr>"

lemma mx_demo_done_calls: "demo_calls (runs 6 (mx_demo_start demo_eth_done)) =
   [EvPerformAction 4 (Some demo_resolved) (Inr ''hash''), EvLeader True, EvWasExecuted 4 (Inr False),
    EvQuorumReached 4 (Inr True),
    EvSign 4 (Inr ''hash''), EvWasSigned 4 (Inr False), EvActionIDForSetStatus (Some demo_resolved) (Inr 4),
    EvProposeSetStatus (Some demo_resolved) (Inr ''hash''), EvLeader True,
    EvWasProposedSetStatus (Some demo_resolved) (Inr False),
    EvGetStatuses 5 (Inr [3]), EvGetPending (Inr (Some demo_batch)),
    EvWasTransferExecuted 5 (Inr True), EvValidate demo_batch (Inr True),
    EvGetPending (Inr (Some demo_batch)), EvEthAvailable None, EvMxAvailable None]"
  by code_simp

text \<open>The configurations these runs end in.\<close>

lemma demo_config:
  "demo_calls (runs n c0) \<noteq> [] \<Longrightarrow>
     \<exists>sm s. runs n c0 = Some (sm, s) \<and> calls s = demo_calls (runs n c0)"
  by (auto simp: demo_calls_def split: option.splits)

lemma run_calls:
  assumes "demo_calls (runs n c0) = l" "l \<noteq> []"
  shows "eth_initial args c0 \<Longrightarrow> \<exists>sm s. eth_run args (sm, s) \<and> calls s = l"
    and "mx_initial args c0 \<Longrightarrow> \<exists>sm s. mx_run args (sm, s) \<and> calls s = l"
  using assms demo_config [of n c0] runs_reachable [of n c0 _ other_goroutines c0] reachable_init
  unfolding eth_run_def mx_run_def by metis+

lemma eth_run_event:
  assumes "eth_initial args c0" "e \<in> set (demo_calls (runs n c0))"
  obtains sm s newer older where "eth_run args (sm, s)" "calls s = newer @ e # older"
proof -
  obtain newer older where l: "demo_calls (runs n c0) = newer @ e # older"
    using split_list [OF assms(2)] by blast
  then show thesis using run_calls(1) [OF l _ assms(1)] that by auto
qed

lemma mx_run_event:
  assumes "mx_initial args c0" "e \<in> set (demo_calls (runs n c0))"
  obtains sm s newer older where "mx_run args (sm, s)" "calls s = newer @ e # older"
proof -
  obtain newer older where l: "demo_calls (runs n c0) = newer @ e # older"
    using split_list [OF assms(2)] by blast
  then show thesis using run_calls(2) [OF l _ assms(1)] that by auto
qed

lemmas eth_demo_run = run_calls(1) [OF _ _ eth_demo_initial]
lemmas mx_demo_run = run_calls(2) [OF _ _ mx_demo_initial]
lemmas eth_demo_event = eth_run_event [OF eth_demo_initial]
lemmas mx_demo_event = mx_run_event [OF mx_demo_initial]

lemma demo_safe: "safe_clients (createBridgeExecutor (demo_args demo_eth))"
  by (simp add: safe_clients_def createBridgeExecutor_def demo_args_def demo_mx_def demo_eth_def
    answer_def never_panics_def never_nil_def demo_batch_def hashes_pending_def executes_hashed_def
    sensible_quorum_def bigInt64_small)

end
