(* ===== verification/Relayer_Runs.thy ===== *)
theory Relayer_Runs
  imports Relayer_Clients Demo_Run
begin

text \<open>
  The relayer with both modelled clients, run over small contracts: it proposes a batch fetched from
  Ethereum, and executes on Ethereum a batch pending on MultiversX.
\<close>

definition demo_metrics :: "nat StatusHandler" where
  "demo_metrics = \<lparr> sh_SetIntMetric = (\<lambda>k v w. w), sh_AddIntMetric = (\<lambda>k v w. w), sh_SetStringMetric = (\<lambda>k v w. w) \<rparr>"

definition mx_relayer_start :: "nat config" where
  "mx_relayer_start = (start_machine (mx_machineStates (\<lambda>_. [])) GettingPendingBatchFromMultiversX (machineSH demo_metrics),
     (traceExecutor (createBridgeExecutor demo_relayer_args), (0, [])))"

definition eth_relayer_start :: "nat config" where
  "eth_relayer_start = (start_machine (eth_machineStates (\<lambda>_. [])) GettingPendingBatchFromEthereum (machineSH demo_metrics),
     (traceExecutor (createBridgeExecutor demo_relayer_args), (0, [])))"

definition demo_fetched :: TransferBatch where
  "demo_fetched = \<lparr> ID = 1, Deposits = [\<lparr> Nonce = 1, ToBytes = [5], DisplayableTo = ''05'', FromBytes = [3], DisplayableFrom = ''03'',
     TokenBytes = [1, 2], ConvertedTokenBytes = [2, 1], DisplayableToken = ''0102'', Amount = Some 10 \<rparr>], Statuses = [0] \<rparr>"

definition demo_pending :: TransferBatch where
  "demo_pending = \<lparr> ID = 7, Deposits = [\<lparr> Nonce = 4, ToBytes = [3], DisplayableTo = ''0x03'', FromBytes = [1, 2],
     DisplayableFrom = ''0102'', TokenBytes = [65, 66], ConvertedTokenBytes = [66, 65], DisplayableToken = ''AB'',
     Amount = Some 5 \<rparr>], Statuses = [0] \<rparr>"

definition demo_hash :: bytes where
  "demo_hash = messagePrefix @ [3, 66, 65, 5, 4, 7]"

lemma relayer_starts:
  "eth_initial demo_relayer_args eth_relayer_start" "mx_initial demo_relayer_args mx_relayer_start"
  unfolding eth_relayer_start_def mx_relayer_start_def
  by (rule eth_start [OF demo_relayer_executor] mx_start [OF demo_relayer_executor])+

lemma eth_relayer_proposes: "take 1 (demo_calls (runs 2 eth_relayer_start)) = [EvProposeTransfer (Some demo_fetched) (Inr ''hash'')]"
  by code_simp

lemma mx_relayer_executes: "take 1 (demo_calls (runs 4 mx_relayer_start)) = [EvExecuteTransfer demo_hash (Some demo_pending) 2 (Inr ''hash'')]"
  by code_simp

lemma relayer_events:
  "EvProposeTransfer (Some demo_fetched) (Inr ''hash'') \<in> set (demo_calls (runs 2 eth_relayer_start))"
  "EvExecuteTransfer demo_hash (Some demo_pending) 2 (Inr ''hash'') \<in> set (demo_calls (runs 4 mx_relayer_start))"
  by (rule in_set_takeD [of _ 1], unfold eth_relayer_proposes mx_relayer_executes, rule list.set_intros)+

end
