(* ===== verification/Demo_Relayer.thy ===== *)
theory Demo_Relayer
  imports Relayer_Correct Rest_Api Relayer_Runs
begin

text \<open>
  A whole relayer, built by the factory over small libraries, contracts and a network that always
  answer: the factory succeeds, two signatures of other relayers arrive, and the relayer executes the
  batch pending on MultiversX.
\<close>

section \<open>Libraries\<close>

definition answers :: "'a \<Rightarrow> ('w, 'a) prog" where
  "answers r w = Some (r, w)"

definition quiet_handler :: "'w StatusHandler" where
  "quiet_handler = \<lparr> sh_SetIntMetric = (\<lambda>k v w. w), sh_AddIntMetric = (\<lambda>k v w. w), sh_SetStringMetric = (\<lambda>k v w. w) \<rparr>"

definition net_proxy :: "'w Proxy" where
  "net_proxy = \<lparr>
     ExecuteVMQuery = (\<lambda>request. answers (Inr (Some \<lparr> ReturnCode = ''ok'', ReturnMessage = [],
       ReturnData = (if req_FuncName request = getCurrentTxBatchFuncName
                     then topEncode 7 # encode_transfer demo_transfer
                     else if req_FuncName request = isPausedFuncName then [[0]]
                     else if req_FuncName request = getErc20AddressForTokenIdFuncName then [[66, 65]]
                     else if req_FuncName request = getAllStakedRelayersFuncName then [[5], [6], [7]] else []) \<rparr>))),
     GetNetworkStatus = (\<lambda>shard. answers (Inr (Some 11))),
     GetShardOfAddress = (\<lambda>a. answers (1, None)),
     GetNetworkConfig = answers (Inr (Some \<lparr> nc_ChainID = ''D'', nc_MinTransactionVersion = 1, nc_MinGasPrice = 10 \<rparr>)),
     ToVmValueRequest = (\<lambda>b. Inr (Some \<lparr> req_Address = [], req_FuncName = func_name b, req_CallerAddr = [], req_Args = [] \<rparr>)) \<rparr>"

definition net_wrapper :: "'w ClientWrapper" where
  "net_wrapper = \<lparr>
     cw_StatusHandler = quiet_handler,
     cw_GetBatch = (\<lambda>n. answers (Inr \<lparr> cb_Nonce = Some n, cb_BlockNumber = 1, cb_LastUpdatedBlockNumber = 1, cb_DepositsCount = 1 \<rparr>)),
     cw_GetBatchDeposits = (\<lambda>n. answers (Inr [demo_deposit])), cw_GetRelayers = answers (Inr [[15], [16], [17]]),
     cw_WasBatchExecuted = (\<lambda>n. answers (Inr False)), cw_ChainID = answers (Inr (Some 1)),
     cw_BlockNumber = answers (Inr 7), cw_NonceAt = (\<lambda>a b. answers (Inr 0)),
     cw_ExecuteTransfer = (\<lambda>opts l n sigs. answers (Inr (Some ''hash''))), cw_Quorum = answers (Inr (Some 2)),
     cw_GetStatusesAfterExecution = (\<lambda>n. answers (Inr [3])), cw_BalanceAt = (\<lambda>a. answers (Inr (Some 1000000))),
     cw_IsPaused = answers (Inr False) \<rparr>"

definition net_sdk :: "'w mx_sdk" where
  "net_sdk = \<lparr> sdk_NewNonceTransactionHandler = (\<lambda>p t. Inr \<lparr> nth_GetNonce = (\<lambda>a. answers (Inr 0)),
       nth_SendTransaction = (\<lambda>tx. answers (Inr ''hash'')), nth_Close = answers None \<rparr>),
     sdk_NewAddressFromBytes = demo_address, sdk_NewBech32PubkeyConverter = Inr hexEncode,
     sdk_ToDataBytes = (\<lambda>b. Inr []), sdk_marshalTx = (\<lambda>tx. Inr []) \<rparr>"

definition net_messenger :: "'w NetMessenger" where
  "net_messenger = \<lparr> net_ID = [1], net_Bootstrap = answers None, net_CreateTopic = (\<lambda>t b. answers None),
     net_RegisterMessageProcessor = (\<lambda>t i. answers None), net_Broadcast = (\<lambda>t d w. w),
     net_SendToConnectedPeer = (\<lambda>t d p. answers None), net_SetPeerDenialEvaluator = (\<lambda>e. answers None),
     net_Close = answers None \<rparr>"

definition net_antiflood :: "'w AntiFloodComponents" where
  "net_antiflood = \<lparr> afl_CanProcessMessage = (\<lambda>m p. answers None), afl_CanProcessMessagesOnTopic = (\<lambda>p t n k q. answers None),
     afl_InvalidMessageBlacklistDuration = 3600000000000, afl_BlacklistPeer = (\<lambda>p r d w. w), afl_BlacklistHandler = Some (\<lambda>w p. False, \<lambda>p t. answers None),
     afl_PubKeysCacher = Some (\<lambda>w p. False) \<rparr>"

text \<open>
  A message is its sender's key, which is also its signature, then the payload: the signature of the
  hash, which is also the recovered key, then the hash.
\<close>

definition net_crypto :: "bytes eth_crypto" where
  "net_crypto = \<lparr> Ecrecover = (\<lambda>h s. Inr s), UnmarshalPubkey = Inr, PubkeyToAddress = id, VerifySignature = (\<lambda>k h s. s = k) \<rparr>"

text \<open>The hash of a transfer is the number of its bytes.\<close>

definition net_eth_lib :: "string eth_lib" where
  "net_eth_lib = demo_eth_lib\<lparr>lib_Keccak256Hash := (\<lambda>b. [take_bit 8 (of_nat (length b))])\<rparr>"

definition net_hash :: bytes where
  "net_hash = [29]"

definition net_lib :: "(string, statusHandlerPersistenceData, unit, bytes, unit, 'x relayer_world) factory_lib" where
  "net_lib = \<lparr>
     fl_NewSyncTime = (\<lambda>cfg. \<lparr> sync_CurrentTimeUnix = (\<lambda>w. 100), sync_StartSyncingTime = (\<lambda>w. w), sync_Close = answers None \<rparr>),
     fl_LoadPrivateKeyFromPemFile = (\<lambda>f. Inr [5]), fl_PrivateKeyFromByteArray = Inr,
     fl_GetAddressFromPrivateKey = (\<lambda>k. Inr (demo_address k)), fl_NewAddressFromBech32String = (\<lambda>s. Inr (demo_address [9])),
     fl_sdk = net_sdk, fl_toPublic = Inr, fl_Sign = (\<lambda>k m. Inr k),
     fl_Verify = (\<lambda>k m s. if s = k then None else Some ErrInvalidSignature), fl_PublicKeyFromByteArray = Inr,
     fl_marshalSigned = (\<lambda>m. Inr (msg_PublicKeyBytes m @ msg_Payload m)),
     fl_unmarshalSigned = (\<lambda>d. Inr \<lparr> msg_Payload = drop 1 d, msg_PublicKeyBytes = take 1 d, msg_Signature = take 1 d, msg_Nonce = 1 \<rparr>),
     fl_marshalEth = (\<lambda>e. Inr (eth_Signature e @ eth_MessageHash e)),
     fl_unmarshalEth = (\<lambda>d. Inr \<lparr> eth_Signature = take 1 d, eth_MessageHash = drop 1 d \<rparr>),
     fl_crypto = net_crypto,
     fl_NewPollingHandler = (\<lambda>ph. None), fl_StartProcessingLoop = (\<lambda>ph. answers None), fl_ClosePollingHandler = (\<lambda>ph. answers None),
     fl_quote = id, fl_durationString = (\<lambda>d. ''''),
     fl_gasEnv = \<lparr> gas_newRequest = (\<lambda>u. Inr ()), gas_do = (\<lambda>t r. answers (Inl ErrInvalidSignature)), gas_closeBody = (\<lambda>r w. w),
       gas_decode = (\<lambda>s. Inl ErrInvalidSignature), gas_quote = id \<rparr>,
     fl_bvEnv = \<lparr> bv_marshal = (\<lambda>b. Inr ''''), bv_newRequest = (\<lambda>u b. Inr ()), bv_do = (\<lambda>t r. answers (Inl ErrInvalidSignature)),
       bv_closeBody = (\<lambda>r w. w), bv_unmarshal = (\<lambda>s. Inl ErrInvalidSignature), bv_unmarshalBad = (\<lambda>s. Inl ErrInvalidSignature) \<rparr>,
     fl_NewP2PAntiFloodComponents = (\<lambda>cfg i. answers (Inr net_antiflood)), fl_cancelAntiflood = (\<lambda>w. w), fl_nowNano = 1000,
     fl_ReadFile = (\<lambda>f. Inr ''15''), fl_HexToECDSA = (\<lambda>s. Inr [15]), fl_KeyToAddress = id, fl_HexToAddress = (\<lambda>s. [8]),
     fl_ethLib = (\<lambda>k. net_eth_lib),
     fl_json = \<lparr> js_Marshal = Inr, js_Unmarshal = Inr \<rparr>, fl_sha256 = (\<lambda>b. replicate 32 0), fl_levelString = (\<lambda>l. ''level''),
     fl_marshalBatch = (\<lambda>b. ''''), fl_waitTimer = (\<lambda>d. answers True), fl_cancelJoin = (\<lambda>w. w),
     fl_Sleep = (\<lambda>d w. w), fl_ordKeys = rev, fl_ordMessages = rev, fl_ordAmounts = rev, fl_ordSteps = id \<rparr>"

section \<open>Configuration\<close>

definition net_config :: "unit Config" where
  "net_config = \<lparr>
     cfg_Eth = \<lparr> ecf_Chain = ''Ethereum'', ecf_NetworkAddress = '''', ecf_MultisigContractAddress = '''', ecf_SafeContractAddress = '''',
       ecf_PrivateKeyFile = ''eth.sk'', ecf_IntervalToResendTxsInSeconds = 60, ecf_GasLimitBase = 100, ecf_GasLimitForEach = 20,
       ecf_GasStation = \<lparr> gsc_Enabled = False, gsc_URL = '''', gsc_PollingIntervalInSeconds = 60, gsc_RequestRetryDelayInSeconds = 5,
         gsc_MaxFetchRetries = 3, gsc_RequestTimeInSeconds = 2, gsc_MaximumAllowedGasPrice = 100, gsc_GasPriceSelector = '''',
         gsc_GasPriceMultiplier = 1 \<rparr>,
       ecf_MaxRetriesOnQuorumReached = 3, ecf_IntervalToWaitForTransferInSeconds = 600, ecf_MaxBlocksDelta = 10 \<rparr>,
     cfg_MultiversX = \<lparr> mcf_NetworkAddress = '''', mcf_MultisigContractAddress = '''', mcf_PrivateKeyFile = ''mx.pem'',
       mcf_IntervalToResendTxsInSeconds = 60, mcf_GasMap = demo_gas_map, mcf_MaxRetriesOnQuorumReached = 3,
       mcf_MaxRetriesOnWasTransferProposed = 3, mcf_ProxyCacherExpirationSeconds = 600, mcf_ProxyRestAPIEntityType = ''observer'',
       mcf_ProxyMaxNoncesDelta = 7, mcf_ProxyFinalityCheck = True \<rparr>,
     cfg_P2P = \<lparr> pcf_Port = ''10010'', pcf_InitialPeerList = [], pcf_ProtocolID = ''/erd/relay'', pcf_AntifloodConfig = () \<rparr>,
     cfg_StateMachine = [(''EthereumToMultiversX'', \<lparr> smc_StepDurationInMillis = 12000, smc_IntervalForLeaderInSeconds = 720 \<rparr>),
       (''MultiversXToEthereum'', \<lparr> smc_StepDurationInMillis = 12000, smc_IntervalForLeaderInSeconds = 720 \<rparr>)],
     cfg_Relayer = \<lparr> rcf_Marshalizer = (), rcf_RoleProvider = \<lparr> rpc_PollingIntervalInMillis = 60000 \<rparr>, rcf_StatusMetricsStorage = () \<rparr>,
     cfg_Logs = \<lparr> lgc_LogFileLifeSpanInSec = 86400, lgc_LogFileLifeSpanInMB = 1024 \<rparr>,
     cfg_Antiflood = \<lparr> afc_Enabled = True, afc_WebServer = \<lparr> wac_SimultaneousRequests = 100, wac_SameSourceRequests = 10000,
       wac_SameSourceResetIntervalInSec = 1 \<rparr> \<rparr>,
     cfg_BatchValidator = \<lparr> bvc_Enabled = False, bvc_URL = '''', bvc_RequestTimeInSeconds = 2 \<rparr>,
     cfg_PeersRatingConfig = \<lparr> prc_TopRatedCacheCapacity = 5000, prc_BadRatedCacheCapacity = 5000 \<rparr> \<rparr>"

definition net_args :: "(statusHandlerPersistenceData, unit, nat relayer_world) ArgsEthereumToMultiversXBridge" where
  "net_args = \<lparr>
     fa_Configs = \<lparr> cfg_GeneralConfig = net_config,
       cfg_ApiRoutesConfig = \<lparr> arc_Logging = \<lparr> alc_LoggingEnabled = False, alc_ThresholdInMicroSeconds = 0 \<rparr>, arc_APIPackages = [(''node'', \<lparr> apc_Routes =
         [\<lparr> rte_Name = ''/status'', rte_Open = True \<rparr>, \<lparr> rte_Name = ''/status/list'', rte_Open = False \<rparr>] \<rparr>)] \<rparr>,
       cfg_FlagsConfig = \<lparr> flg_WorkingDir = '''', flg_LogLevel = '''', flg_DisableAnsiColor = False, flg_ConfigurationFile = '''',
         flg_ConfigurationApiFile = '''', flg_SaveLogFile = False, flg_EnableLogName = False, flg_RestApiInterface = '':8080'',
         flg_EnablePprof = False \<rparr> \<rparr>,
     fa_Messenger = Some net_messenger, fa_StatusStorer = Some \<lparr> st_Get = (\<lambda>k w. Inl ErrInvalidSignature), st_Put = (\<lambda>k v w. (None, w)) \<rparr>,
     fa_Proxy = Some net_proxy, fa_MultiversXClientStatusHandler = Some quiet_handler,
     fa_Erc20ContractsHolder = Some (\<lambda>t a. answers (Inr (Some 50))), fa_ClientWrapper = Some net_wrapper,
     fa_TimeForBootstrap = second, fa_TimeBeforeRepeatJoin = second * 60, fa_MetricsHolder = Some [], fa_AppStatusHandler = Some () \<rparr>"

definition no_metrics :: statusHandlerPersistenceData where
  "no_metrics = \<lparr> IntMetrics = [], StringMetrics = [] \<rparr>"

definition net_world :: "nat relayer_world" where
  "net_world = \<lparr> rw_mxRelayers = [], rw_ethRelayers = [], rw_counter = 0, rw_nonces = newNoncesOfPublicKeys,
     rw_signatures = NewSignatureHolder, rw_gas = DisabledGasStation, rw_ethMetrics = no_metrics, rw_mxMetrics = no_metrics,
     rw_mxCells = \<lparr> cell_wasShardIDFetched = False, cell_shardID = 0, cell_lastNonce = 0, cell_mxRetries = 0 \<rparr>,
     rw_ethCells = \<lparr> cell_lastBlockNumber = 0, cell_ethRetries = 0 \<rparr>, rw_received = [], rw_outside = 0 \<rparr>"

section \<open>The construction\<close>

text \<open>The parts that the methods read.\<close>

lemma net_lib_fields [simp]:
  "fl_NewSyncTime net_lib = (\<lambda>cfg. \<lparr> sync_CurrentTimeUnix = (\<lambda>w. 100), sync_StartSyncingTime = (\<lambda>w. w), sync_Close = answers None \<rparr>)"
  "fl_LoadPrivateKeyFromPemFile net_lib = (\<lambda>f. Inr [5])"
  "fl_PrivateKeyFromByteArray net_lib = Inr"
  "fl_GetAddressFromPrivateKey net_lib = (\<lambda>k. Inr (demo_address k))"
  "fl_NewAddressFromBech32String net_lib = (\<lambda>s. Inr (demo_address [9]))"
  "fl_sdk net_lib = net_sdk"
  "fl_toPublic net_lib = Inr"
  "fl_Sign net_lib = (\<lambda>k m. Inr k)"
  "fl_Verify net_lib = (\<lambda>k m s. if s = k then None else Some ErrInvalidSignature)"
  "fl_PublicKeyFromByteArray net_lib = Inr"
  "fl_marshalSigned net_lib = (\<lambda>m. Inr (msg_PublicKeyBytes m @ msg_Payload m))"
  "fl_unmarshalSigned net_lib = (\<lambda>d. Inr \<lparr> msg_Payload = drop 1 d, msg_PublicKeyBytes = take 1 d, msg_Signature = take 1 d, msg_Nonce = 1 \<rparr>)"
  "fl_marshalEth net_lib = (\<lambda>e. Inr (eth_Signature e @ eth_MessageHash e))"
  "fl_unmarshalEth net_lib = (\<lambda>d. Inr \<lparr> eth_Signature = take 1 d, eth_MessageHash = drop 1 d \<rparr>)"
  "fl_crypto net_lib = net_crypto"
  "fl_NewPollingHandler net_lib = (\<lambda>ph. None)"
  "fl_StartProcessingLoop net_lib = (\<lambda>ph. answers None)"
  "fl_ClosePollingHandler net_lib = (\<lambda>ph. answers None)"
  "fl_quote net_lib = id"
  "fl_durationString net_lib = (\<lambda>d. '''')"
  "fl_gasEnv net_lib = \<lparr> gas_newRequest = (\<lambda>u. Inr ()), gas_do = (\<lambda>t r. answers (Inl ErrInvalidSignature)), gas_closeBody = (\<lambda>r w. w), gas_decode = (\<lambda>s. Inl ErrInvalidSignature), gas_quote = id \<rparr>"
  "fl_bvEnv net_lib = \<lparr> bv_marshal = (\<lambda>b. Inr ''''), bv_newRequest = (\<lambda>u b. Inr ()), bv_do = (\<lambda>t r. answers (Inl ErrInvalidSignature)), bv_closeBody = (\<lambda>r w. w), bv_unmarshal = (\<lambda>s. Inl ErrInvalidSignature), bv_unmarshalBad = (\<lambda>s. Inl ErrInvalidSignature) \<rparr>"
  "fl_NewP2PAntiFloodComponents net_lib = (\<lambda>cfg i. answers (Inr net_antiflood))"
  "fl_cancelAntiflood net_lib = (\<lambda>w. w)"
  "fl_nowNano net_lib = 1000"
  "fl_ReadFile net_lib = (\<lambda>f. Inr ''15'')"
  "fl_HexToECDSA net_lib = (\<lambda>s. Inr [15])"
  "fl_KeyToAddress net_lib = id"
  "fl_HexToAddress net_lib = (\<lambda>s. [8])"
  "fl_ethLib net_lib = (\<lambda>k. net_eth_lib)"
  "fl_json net_lib = \<lparr> js_Marshal = Inr, js_Unmarshal = Inr \<rparr>"
  "fl_sha256 net_lib = (\<lambda>b. replicate 32 0)"
  "fl_levelString net_lib = (\<lambda>l. ''level'')"
  "fl_marshalBatch net_lib = (\<lambda>b. '''')"
  "fl_waitTimer net_lib = (\<lambda>d. answers True)"
  "fl_cancelJoin net_lib = (\<lambda>w. w)"
  "fl_Sleep net_lib = (\<lambda>d w. w)"
  "fl_ordKeys net_lib = rev"
  "fl_ordMessages net_lib = rev"
  "fl_ordAmounts net_lib = rev"
  "fl_ordSteps net_lib = id"
  by (simp_all add: net_lib_def)

lemma net_args_fields [simp]:
  "fa_Messenger net_args = Some net_messenger"
  "fa_StatusStorer net_args = Some \<lparr> st_Get = (\<lambda>k w. Inl ErrInvalidSignature), st_Put = (\<lambda>k v w. (None, w)) \<rparr>"
  "fa_Proxy net_args = Some net_proxy"
  "fa_MultiversXClientStatusHandler net_args = Some quiet_handler"
  "fa_Erc20ContractsHolder net_args = Some (\<lambda>t a. answers (Inr (Some 50)))"
  "fa_ClientWrapper net_args = Some net_wrapper"
  "fa_TimeForBootstrap net_args = second"
  "fa_TimeBeforeRepeatJoin net_args = second * 60"
  "fa_MetricsHolder net_args = Some []"
  "fa_AppStatusHandler net_args = Some ()"
  "cfg_GeneralConfig (fa_Configs net_args) = net_config"
  by (simp_all add: net_args_def)

lemma net_config_fields [simp]:
  "gm_get (cfg_StateMachine net_config) ''EthereumToMultiversX'' = Some \<lparr> smc_StepDurationInMillis = 12000, smc_IntervalForLeaderInSeconds = 720 \<rparr>"
  "gm_get (cfg_StateMachine net_config) ''MultiversXToEthereum'' = Some \<lparr> smc_StepDurationInMillis = 12000, smc_IntervalForLeaderInSeconds = 720 \<rparr>"
  "ecf_Chain (cfg_Eth net_config) = ''Ethereum''" "gsc_Enabled (ecf_GasStation (cfg_Eth net_config)) = False"
  "bvc_Enabled (cfg_BatchValidator net_config) = False"
  by (simp_all add: net_config_def)

definition net_converter :: AddressConverter where
  "net_converter = \<lparr> ToHexString = ac_ToHexString, ToHexStringWithPrefix = ac_ToHexStringWithPrefix, ToBech32String = hexEncode \<rparr>"

definition net_getter :: "nat relayer_world mxClientDataGetter" where
  "net_getter = \<lparr> dg_multisigContractAddress = demo_address [9], dg_relayerAddress = demo_address [5], dg_proxy = net_proxy,
     dg_wasShardIDFetched = False, dg_shardID = 0 \<rparr>"

definition net_mx_client :: "nat relayer_world mx_client" where
  "net_mx_client = (case mx_NewClient net_sdk
     \<lparr> ca_GasMapConfig = demo_gas_map, ca_Proxy = Some net_proxy, ca_Log = Some (),
       ca_RelayerPrivateKey = Some \<lparr> pk_publicBytes = Inr [5], pk_sign = (\<lambda>m. Inr [5]) \<rparr>,
       ca_MultisigContractAddress = Some (demo_address [9]), ca_IntervalToResendTxsInSeconds = 60,
       ca_TokensMapper = Some (multiversXToErc20_ConvertToken net_getter),
       ca_RoleProvider = Some (\<lambda>w a. mrp_whitelists (mx_provider net_getter) w (AddressBytes a)),
       ca_StatusHandler = Some quiet_handler, ca_AllowDelta = 7 \<rparr> of Inr c \<Rightarrow> c)"

definition net_broadcaster :: "nat relayer_world broadcaster" where
  "net_broadcaster = \<lparr> br_env = broadcasterEnv net_lib net_messenger net_antiflood (mx_provider net_getter) (eth_provider net_wrapper),
     br_counter = 1000, br_publicKeyBytes = [5], br_privateKey = [5], br_nonces = newNoncesOfPublicKeys,
     br_name = ''EthereumToMultiversX'', br_clients = [], br_joinTopicName = ''EthereumToMultiversX'' @ joinTopicSuffix,
     br_signTopicName = ''EthereumToMultiversX'' @ signTopicSuffix \<rparr>"

definition net_joined :: "nat relayer_world broadcaster" where
  "net_joined = net_broadcaster\<lparr>br_clients := [holder_client rev]\<rparr>"

definition net_eth_client :: "(string, nat relayer_world) eth_client" where
  "net_eth_client = \<lparr> ec_lib = net_eth_lib, ec_clientWrapper = net_wrapper, ec_BalanceOf = (\<lambda>t a. answers (Inr (Some 50))),
     ec_addressConverter = net_converter, ec_BroadcastSignature = (\<lambda>sig h. br_call (BroadcastSignature sig h) net_joined),
     ec_relayerAddress = [15], ec_tokensMapper = erc20ToMultiversX_ConvertToken net_getter, ec_Signatures = held_signatures rev,
     ec_safeContractAddress = [8], ec_GetCurrentGasPrice = current_gas_price, ec_transferGasLimitBase = 100,
     ec_transferGasLimitForEach = 20, ec_allowDelta = 10, ec_lastBlockNumber = 0, ec_retriesAvailabilityCheck = 0 \<rparr>"

lemma net_peers:
  "afl_BlacklistHandler net_antiflood = Some (\<lambda>w p. False, \<lambda>p t. answers None)" "afl_PubKeysCacher net_antiflood = Some (\<lambda>w p. False)"
  "net_SetPeerDenialEvaluator net_messenger e w = Some (None, w)"
  by (simp_all add: net_antiflood_def net_messenger_def answers_def)

lemmas net_control = tryOk_def tryNil_def andThen_def notNil_def

lemma net_keys:
  "createMultiversXKeysAndAddresses net_lib cfg (c, w) = Some (None, (c\<lparr>cmp_multiversXRelayerPrivateKey := Some [5],
     cmp_multiversXRelayerAddress := Some (demo_address [5]), cmp_multiversXMultisigContractAddress := Some (demo_address [9])\<rparr>, w))"
  by (simp add: createMultiversXKeysAndAddresses_def net_control)

lemma net_data_getter:
  assumes "cmp_multiversXMultisigContractAddress c = Some (demo_address [9])" "cmp_multiversXRelayerAddress c = Some (demo_address [5])"
    "cmp_proxy c = net_proxy"
  shows "createDataGetter (c, w) = Some (None, (c\<lparr>cmp_mxDataGetter := Some net_getter\<rparr>, w))"
  by (simp add: createDataGetter_def net_control NewMXClientDataGetter_def assms net_getter_def)

lemma net_mx_roles:
  assumes "cmp_mxDataGetter c = Some net_getter"
  shows "createMultiversXRoleProvider net_lib net_args (c, w) = Some (None, (registered (mx_role_handler net_args)
    (c\<lparr>cmp_multiversXRoleProvider := Some (mx_provider net_getter)\<rparr>), w\<lparr>rw_mxRelayers := []\<rparr>))"
  by (simp add: createMultiversXRoleProvider_def addPollingHandler_def net_control NewMultiversXRoleProvider_def assms
    checkMultiversXRoleProviderSpecificArgs_def mx_provider_def registered_def mx_role_handler_def addClosableComponent_def)

lemma net_eth_roles:
  assumes "cmp_evmCompatibleChain c = ''Ethereum''"
  shows "createEthereumRoleProvider net_lib net_args (c, w) = Some (None, (registered (eth_role_handler net_args ''Ethereum'')
    (c\<lparr>cmp_ethereumRoleProvider := Some (eth_provider net_wrapper)\<rparr>), w\<lparr>rw_ethRelayers := []\<rparr>))"
  by (simp add: createEthereumRoleProvider_def addPollingHandler_def net_control NewEthereumRoleProvider_def assms
    checkEthereumRoleProviderSpecificArgs_def eth_provider_def registered_def eth_role_handler_def addClosableComponent_def)

lemma net_mx_client_created:
  assumes "cmp_mxDataGetter c = Some net_getter" "cmp_multiversXRelayerPrivateKey c = Some [5]"
    "cmp_multiversXMultisigContractAddress c = Some (demo_address [9])" "cmp_multiversXRoleProvider c = Some (mx_provider net_getter)"
  shows "createMultiversXClient net_lib net_args (c, w) = Some (None, (addClosableComponent (Some CloseMultiversXClient)
    (c\<lparr>cmp_multiversXClient := Some net_mx_client\<rparr>), mxCells_put (mx_store net_mx_client) w))"
proof -
  have "mx_NewClient (fl_sdk net_lib) (mxClientArgs net_lib net_args (multiversXToErc20_ConvertToken net_getter) c) = Inr net_mx_client"
    by (simp add: net_mx_client_def mx_NewClient_def mx_checkArgs_def checkGasMapValues_def gasMapFields_def mxClientArgs_def
      net_config_def demo_gas_map_def net_sdk_def NewMXClientDataGetter_def NewAddressConverter_def mx_minAllowedDelta_def Let_def
      relayerKey_def assms)
  then show ?thesis
    by (simp add: createMultiversXClient_def net_control NewMultiversXToErc20Mapper_def assms)
qed

lemma net_broadcaster_created:
  assumes "cmp_messenger c = net_messenger" "cmp_multiversXRoleProvider c = Some (mx_provider net_getter)"
    "cmp_ethereumRoleProvider c = Some (eth_provider net_wrapper)" "cmp_multiversXRelayerPrivateKey c = Some [5]"
    "cmp_evmCompatibleChain c = ''Ethereum''"
  shows "createBroadcaster net_lib net_args (c, w) = Some (None, (c\<lparr>cmp_broadcaster := Some net_broadcaster\<rparr>,
    br_put net_broadcaster (w\<lparr>rw_gas := DisabledGasStation\<rparr>)))"
proof -
  have "NewBroadcaster 1000 Inr (broadcasterArgs net_lib net_antiflood c) = Inr net_broadcaster"
    by (simp add: NewBroadcaster_def p2p_checkArgs_def broadcasterArgs_def present_def assms net_broadcaster_def
      EvmCompatibleChainToMultiversXName_def)
  then show ?thesis
    by (simp add: createBroadcaster_def net_control CreateGasStation_def createAntifloodComponents_def answers_def Let_def
      NewPeerDenialEvaluator_def net_peers assms)
qed

lemma net_eth_client_created:
  assumes "cmp_messenger c = net_messenger" "cmp_multiversXRoleProvider c = Some (mx_provider net_getter)"
    "cmp_ethereumRoleProvider c = Some (eth_provider net_wrapper)" "cmp_multiversXRelayerPrivateKey c = Some [5]"
    "cmp_evmCompatibleChain c = ''Ethereum''" "cmp_mxDataGetter c = Some net_getter" "cmp_addressConverter c = Some net_converter"
  shows "createEthereumClient net_lib net_args (c, w) = Some (None, (c\<lparr>cmp_broadcaster := Some net_joined,
    cmp_ethereumRelayerAddress := [15], cmp_ethToMultiversXSignaturesHolder := Some (), cmp_ethClient := Some net_eth_client\<rparr>,
    ethCells_put (eth_store net_eth_client) ((br_put net_broadcaster (w\<lparr>rw_gas := DisabledGasStation\<rparr>))\<lparr>rw_signatures := NewSignatureHolder\<rparr>)))"
proof -
  have new: "NewEthereumClient net_eth_lib (ethClientArgs net_lib net_args [15] (erc20ToMultiversX_ConvertToken net_getter) d) = Inr net_eth_client"
    if "cmp_addressConverter d = Some net_converter" "cmp_broadcaster d = Some net_joined" for d
    by (simp add: NewEthereumClient_def eth_checkArgs_def ethClientArgs_def that net_eth_client_def net_config_def Let_def
      eth_minAllowedDelta_def)
  have joins: "AddBroadcastClient (Some (holder_client rev)) net_broadcaster = (None, net_joined)"
    by (simp add: AddBroadcastClient_def net_joined_def net_broadcaster_def)
  show ?thesis
    by (simp add: createEthereumClient_def net_broadcaster_created assms net_control NewErc20ToMultiversXMapper_def Let_def
      joins new)
qed

text \<open>The executors.\<close>

definition net_topology :: "nat relayer_world topologyHandler" where
  "net_topology = \<lparr> top_publicKeysProvider = mrp_keys rev (mx_provider net_getter), top_timer = (\<lambda>w. 100),
     top_intervalForLeader = 720 * second, top_addressBytes = [5] \<rparr>"

definition net_status :: "string \<Rightarrow> (statusHandlerPersistenceData, nat relayer_world) statusHandler" where
  "net_status name = \<lparr> sth_json = \<lparr> js_Marshal = Inr, js_Unmarshal = Inr \<rparr>, sth_intMetrics = [], sth_stringMetrics = [],
     sth_storer = \<lparr> st_Get = (\<lambda>k w. Inl ErrInvalidSignature), st_Put = (\<lambda>k v w. (None, w)) \<rparr>, sth_name = name \<rparr>"

definition net_executor_args :: "nat relayer_world StatusHandler \<Rightarrow> (nat relayer_world \<Rightarrow> nat relayer_world)
    \<Rightarrow> nat relayer_world ArgsBridgeExecutor" where
  "net_executor_args handler clear = \<lparr>
     arg_Log = Some (\<lambda>l. ''level''),
     arg_TopologyProvider = Some (topology_MyTurnAsLeader (\<lambda>b. replicate 32 0) net_topology),
     arg_MultiversXClient = Some (mx_client_interface rw_mxCells mxCells_put net_mx_client),
     arg_EthereumClient = Some (eth_client_interface rev rw_ethCells ethCells_put net_eth_client),
     arg_TimeForWaitOnEthereum = 600 * second, arg_WaitTimer = (\<lambda>d. answers True), arg_StatusHandler = Some handler,
     arg_SignaturesHolder = Some clear, arg_BatchValidator = Some (\<lambda>batch. disabled_ValidateBatch (Some batch)),
     arg_MaxQuorumRetriesOnEthereum = 3, arg_MaxQuorumRetriesOnMultiversX = 3, arg_MaxRestriesOnWasProposed = 3 \<rparr>"

definition net_eth_executor :: "nat relayer_world bridgeExecutor" where
  "net_eth_executor = createBridgeExecutor (net_executor_args
     (status_interface rw_ethMetrics ethMetrics_put (net_status ''EthereumToMultiversX'')) (\<lambda>w. w))"

definition net_mx_executor :: "nat relayer_world bridgeExecutor" where
  "net_mx_executor = createBridgeExecutor (net_executor_args
     (status_interface rw_mxMetrics mxMetrics_put (net_status ''MultiversXToEthereum'')) clear_signatures)"

text \<open>What the bridges read of the components.\<close>

definition net_wired :: "(string, statusHandlerPersistenceData, nat relayer_world) components \<Rightarrow> bool" where
  "net_wired c \<longleftrightarrow> cmp_multiversXRoleProvider c = Some (mx_provider net_getter) \<and> cmp_evmCompatibleChain c = ''Ethereum'' \<and>
     cmp_addressConverter c = Some net_converter \<and> cmp_multiversXRelayerAddress c = Some (demo_address [5]) \<and>
     cmp_multiversXClient c = Some net_mx_client \<and> cmp_ethClient c = Some net_eth_client \<and>
     cmp_ethToMultiversXSignaturesHolder c = Some () \<and> cmp_statusStorer c = the (fa_StatusStorer net_args) \<and>
     cmp_timer c = NewNTPTimer (fl_NewSyncTime net_lib)"

lemma net_parts:
  assumes "net_wired c"
  shows "NewTopologyHandler (topologyArgs net_lib \<lparr> smc_StepDurationInMillis = 12000, smc_IntervalForLeaderInSeconds = 720 \<rparr>
      (demo_address [5]) c) = Inr net_topology"
    "NewStatusHandler (fl_json net_lib) name (Some (cmp_statusStorer c)) w = (if name = [] then Inl status_ErrEmptyName else Inr (net_status name))"
    "executorArgs net_lib net_args c net_topology handler (Some clear) disabled_ValidateBatch = net_executor_args handler clear"
    "createBatchValidator net_lib src dst (cfg_BatchValidator net_config) = Inr disabled_ValidateBatch"
  using assms
  by (simp_all add: net_wired_def NewTopologyHandler_def topology_checkArgs_def topologyArgs_def NewNTPTimer_def NowUnix_def
    duration_def bigInt64_small second_def seconds_def demo_address_def net_topology_def NewStatusHandler_def tryLoadPersistedData_def
    net_status_def executorArgs_def net_executor_args_def net_config_def Let_def createBatchValidator_def CreateBatchValidator_def)

lemma net_executor:
  "NewBridgeExecutor (net_executor_args handler clear) = Inr (createBridgeExecutor (net_executor_args handler clear))"
  by (simp add: NewBridgeExecutor_def checkArgs_def net_executor_args_def durationLimit_def minRetries_def second_def)

text \<open>The steps of the machines, and the metrics of a status handler that has none yet.\<close>

lemma net_machines:
  "eth_CreateSteps marshal (Some ex) = Inr (eth_machineStates marshal)" "mx_CreateSteps marshal (Some ex) = Inr (mx_machineStates marshal)"
  "sth_metrics (net_status name) = no_metrics"
  by (simp_all add: eth_CreateSteps_def eth_createMachineStates_eq mx_CreateSteps_def mx_createMachineStates_eq sth_metrics_def
    net_status_def no_metrics_def)

definition net_metrics :: "(nat relayer_world \<Rightarrow> statusHandlerPersistenceData) \<Rightarrow> string \<Rightarrow> nat relayer_world \<Rightarrow> GeneralMetrics" where
  "net_metrics get name w = status_GetAllMetrics (sth_at (get w) (net_status name))"

lemma net_wired_fields:
  assumes "net_wired c"
  shows "cmp_evmCompatibleChain c = ''Ethereum''" "cmp_multiversXRelayerAddress c = Some (demo_address [5])"
    "cmp_ethToMultiversXSignaturesHolder c = Some ()"
    "NewStatusHandler (fl_json net_lib) ''EthereumToMultiversX'' (Some (cmp_statusStorer c)) w = Inr (net_status ''EthereumToMultiversX'')"
    "NewStatusHandler (fl_json net_lib) ''MultiversXToEthereum'' (Some (cmp_statusStorer c)) w = Inr (net_status ''MultiversXToEthereum'')"
  using net_parts(2) [OF assms] assms by (simp_all add: net_wired_def)

lemma net_eth_bridge:
  assumes "net_wired c" "cmp_metricsHolder c = []"
  shows "createEthereumToMultiversXBridge net_lib net_args (c, w) = Some (None, (c\<lparr>cmp_ethToMultiversXStepDuration := duration 12000 millisecond,
      cmp_ethToMultiversXStatusHandler := Some (net_status ''EthereumToMultiversX''),
      cmp_metricsHolder := [(''EthereumToMultiversX'', net_metrics rw_ethMetrics ''EthereumToMultiversX'')],
      cmp_ethToMultiversXExecutor := Some net_eth_executor,
      cmp_ethToMultiversXMachineStates := Some (eth_machineStates (\<lambda>b. ''''))\<rparr>,
      ethMetrics_put no_metrics w))"
proof -
  have wired: "net_wired (c\<lparr>cmp_ethToMultiversXStepDuration := d\<rparr>)"
    "net_wired (c\<lparr>cmp_ethToMultiversXStepDuration := d, cmp_ethToMultiversXStatusHandler := sh, cmp_metricsHolder := holder\<rparr>)" for d sh holder
    using assms(1) by (simp_all add: net_wired_def)
  show ?thesis
    unfolding createEthereumToMultiversXBridge_def EvmCompatibleChainToMultiversXName_def net_control Let_def
    by (simp add: net_wired_fields [OF assms(1)] net_parts(1) [OF wired(1)] net_parts(4) [OF assms(1)] net_parts(3) [OF wired(2)]
      AddStatusHandler_def assms(2) net_executor net_machines(1) del: net_lib_fields)
      (simp add: net_eth_executor_def net_metrics_def [abs_def] net_machines)
qed

lemma net_mx_bridge:
  assumes "net_wired c" "cmp_metricsHolder c = [(''EthereumToMultiversX'', g)]"
  shows "createMultiversXToEthereumBridge net_lib net_args (c, w) = Some (None, (c\<lparr>cmp_multiversXToEthStepDuration := duration 12000 millisecond,
      cmp_multiversXToEthStatusHandler := Some (net_status ''MultiversXToEthereum''),
      cmp_metricsHolder := gm_set ''MultiversXToEthereum'' (net_metrics rw_mxMetrics ''MultiversXToEthereum'') [(''EthereumToMultiversX'', g)],
      cmp_multiversXToEthExecutor := Some net_mx_executor,
      cmp_multiversXToEthMachineStates := Some (mx_machineStates (\<lambda>b. ''''))\<rparr>,
      mxMetrics_put no_metrics w))"
proof -
  have wired: "net_wired (c\<lparr>cmp_multiversXToEthStepDuration := d\<rparr>)"
    "net_wired (c\<lparr>cmp_multiversXToEthStepDuration := d, cmp_multiversXToEthStatusHandler := sh, cmp_metricsHolder := holder\<rparr>)" for d sh holder
    using assms(1) by (simp_all add: net_wired_def)
  show ?thesis
    unfolding createMultiversXToEthereumBridge_def MultiversXToEvmCompatibleChainName_def net_control Let_def
    by (simp add: net_wired_fields [OF assms(1)] net_parts(1) [OF wired(1)] net_parts(4) [OF assms(1)] net_parts(3) [OF wired(2)]
      AddStatusHandler_def assms(2) net_executor net_machines(2) del: net_lib_fields)
      (simp add: net_mx_executor_def net_metrics_def [abs_def] net_machines)
qed

lemma net_eth_machine:
  assumes "net_wired c" "cmp_ethToMultiversXMachineStates c = Some (eth_machineStates (\<lambda>b. ''''))"
    "cmp_ethToMultiversXStatusHandler c = Some sh"
  shows "\<exists>ph machine. createEthStateMachine net_lib (c, w) =
    Some (None, (registered ph (c\<lparr>cmp_ethToMultiversXStateMachine := Some machine\<rparr>), w))"
  by (simp add: createEthStateMachine_def net_control assms(2,3) NewStateMachine_def sm_checkArgs_def firstNilStep_None
    eth_machineStates_def eth_stepsSlice_def getNextStep_def Let_def addPollingHandler_def addClosableComponent_def registered_def) blast

lemma net_mx_machine:
  assumes "net_wired c" "cmp_multiversXToEthMachineStates c = Some (mx_machineStates (\<lambda>b. ''''))"
    "cmp_multiversXToEthStatusHandler c = Some sh"
  shows "\<exists>ph machine. createMxStateMachine net_lib (c, w) =
    Some (None, (registered ph (c\<lparr>cmp_multiversXToEthStateMachine := Some machine\<rparr>), w))"
  by (simp add: createMxStateMachine_def net_control assms(2,3) NewStateMachine_def sm_checkArgs_def firstNilStep_None
    mx_machineStates_def mx_stepsSlice_def getNextStep_def Let_def addPollingHandler_def addClosableComponent_def registered_def) blast

text \<open>The relayer that the factory builds, and the world it starts in.\<close>

definition net_start :: "nat relayer_world" where
  "net_start = net_world\<lparr>rw_counter := 1000, rw_mxCells := mx_store net_mx_client, rw_ethCells := eth_store net_eth_client\<rparr>"

text \<open>The first six methods create what the bridges read.\<close>

definition net_initial :: "(string, statusHandlerPersistenceData, nat relayer_world) components" where
  "net_initial = addClosableComponent (Some CloseTimer) ((initialComponents net_lib net_args)\<lparr>cmp_addressConverter := Some net_converter\<rparr>)"

lemma net_clients:
  obtains c1 c2 c3 c4 c5 c6 w3 w4 w5 w6 where
    "createMultiversXKeysAndAddresses net_lib cfg (net_initial, net_world) = Some (None, (c1, net_world))"
    "createDataGetter (c1, net_world) = Some (None, (c2, net_world))"
    "createMultiversXRoleProvider net_lib net_args (c2, net_world) = Some (None, (c3, w3))"
    "createMultiversXClient net_lib net_args (c3, w3) = Some (None, (c4, w4))"
    "createEthereumRoleProvider net_lib net_args (c4, w4) = Some (None, (c5, w5))"
    "createEthereumClient net_lib net_args (c5, w5) = Some (None, (c6, w6))" "w6 = net_start"
    "net_wired c6" "cmp_metricsHolder c6 = []" "cmp_broadcaster c6 = Some net_joined" "cmp_mxDataGetter c6 = Some net_getter"
proof -
  note fields = net_initial_def addClosableComponent_def initialComponents_def registered_def
  note world = net_start_def net_world_def mxCells_put_def ethCells_put_def br_put_def net_broadcaster_def
  show thesis
    by (rule that [OF net_keys net_data_getter net_mx_roles net_mx_client_created net_eth_roles net_eth_client_created])
       (simp_all add: fields net_wired_def world)
qed

lemma net_builds:
  obtains c where "NewEthMultiversXBridgeComponents net_lib net_args net_world = Some (Inr c, net_start)"
    "cmp_broadcaster c = Some net_joined" "cmp_mxDataGetter c = Some net_getter" "net_wired c"
    "cmp_ethToMultiversXExecutor c = Some net_eth_executor" "cmp_multiversXToEthExecutor c = Some net_mx_executor"
    "cmp_ethToMultiversXStatusHandler c = Some (net_status ''EthereumToMultiversX'')"
    "cmp_multiversXToEthStatusHandler c = Some (net_status ''MultiversXToEthereum'')"
proof -
  obtain c1 c2 c3 c4 c5 c6 w3 w4 w5 where c: 
    "createMultiversXKeysAndAddresses net_lib (cfg_MultiversX net_config) (net_initial, net_world) = Some (None, (c1, net_world))"
    "createDataGetter (c1, net_world) = Some (None, (c2, net_world))"
    "createMultiversXRoleProvider net_lib net_args (c2, net_world) = Some (None, (c3, w3))"
    "createMultiversXClient net_lib net_args (c3, w3) = Some (None, (c4, w4))"
    "createEthereumRoleProvider net_lib net_args (c4, w4) = Some (None, (c5, w5))"
    "createEthereumClient net_lib net_args (c5, w5) = Some (None, (c6, net_start))"
    "net_wired c6" "cmp_metricsHolder c6 = []" "cmp_broadcaster c6 = Some net_joined" "cmp_mxDataGetter c6 = Some net_getter"
    using net_clients by metis
  have same: "ethMetrics_put no_metrics net_start = net_start" "mxMetrics_put no_metrics net_start = net_start"
    by (simp_all add: net_start_def net_world_def ethMetrics_put_def mxMetrics_put_def)
  note b7 = net_eth_bridge [OF c(7,8), of net_start, unfolded same]
  obtain c7 where c7: "createEthereumToMultiversXBridge net_lib net_args (c6, net_start) = Some (None, (c7, net_start))" "net_wired c7"
    "cmp_broadcaster c7 = Some net_joined" "cmp_mxDataGetter c7 = Some net_getter" "cmp_ethToMultiversXExecutor c7 = Some net_eth_executor"
    "cmp_ethToMultiversXStatusHandler c7 = Some (net_status ''EthereumToMultiversX'')"
    "cmp_ethToMultiversXMachineStates c7 = Some (eth_machineStates (\<lambda>b. ''''))" "\<exists>g. cmp_metricsHolder c7 = [(''EthereumToMultiversX'', g)]"
    using b7 c(7-10) by (simp add: net_wired_def)
  obtain c8 where c8: "createEthStateMachine net_lib (c7, net_start) = Some (None, (c8, net_start))" "net_wired c8"
    "cmp_broadcaster c8 = Some net_joined" "cmp_mxDataGetter c8 = Some net_getter" "cmp_ethToMultiversXExecutor c8 = Some net_eth_executor"
    "cmp_ethToMultiversXStatusHandler c8 = Some (net_status ''EthereumToMultiversX'')" "cmp_metricsHolder c8 = cmp_metricsHolder c7"
    using net_eth_machine [OF c7(2,7,6), of net_start] c7(2-6) by (force simp: net_wired_def registered_def)
  obtain c9 where c9: "createMultiversXToEthereumBridge net_lib net_args (c8, net_start) = Some (None, (c9, net_start))" "net_wired c9"
    "cmp_broadcaster c9 = Some net_joined" "cmp_mxDataGetter c9 = Some net_getter" "cmp_ethToMultiversXExecutor c9 = Some net_eth_executor"
    "cmp_ethToMultiversXStatusHandler c9 = Some (net_status ''EthereumToMultiversX'')"
    "cmp_multiversXToEthMachineStates c9 = Some (mx_machineStates (\<lambda>b. ''''))" "cmp_multiversXToEthExecutor c9 = Some net_mx_executor"
    "cmp_multiversXToEthStatusHandler c9 = Some (net_status ''MultiversXToEthereum'')"
    using c7(8) net_mx_bridge [OF c8(2), of _ net_start] c8(2-7) by (force simp: net_wired_def same)
  obtain ph machine where c10: "createMxStateMachine net_lib (c9, net_start) =
      Some (None, (registered ph (c9\<lparr>cmp_multiversXToEthStateMachine := Some machine\<rparr>), net_start))"
    using net_mx_machine [OF c9(2,7,9), of net_start] by blast
  have "createComponents net_lib net_args (net_initial, net_world) =
      Some (None, (registered ph (c9\<lparr>cmp_multiversXToEthStateMachine := Some machine\<rparr>), net_start))"
    by (simp add: createComponents_def andThen_def tryNil_def c(1-6) c7(1) c8(1) c9(1) c10)
  then have "NewEthMultiversXBridgeComponents net_lib net_args net_world =
      Some (Inr (registered ph (c9\<lparr>cmp_multiversXToEthStateMachine := Some machine\<rparr>)), net_start)"
    by (simp add: NewEthMultiversXBridgeComponents_def checkArgsEthereumToMultiversXBridge_def minTimeForBootstrap_def
      millisecond_def second_def minTimeBeforeRepeatJoin_def NewAddressConverter_def net_initial_def net_converter_def net_sdk_def)
  then show thesis
    by (rule that) (use c9 in \<open>simp_all add: registered_def net_wired_def\<close>)
qed

text \<open>The parts written out, for evaluation.\<close>

definition net_env :: "nat relayer_world p2p_env" where
  "net_env = \<lparr> marshalSigned = (\<lambda>m. Inr (msg_PublicKeyBytes m @ msg_Payload m)),
     unmarshalSigned = (\<lambda>d. Inr \<lparr> msg_Payload = drop 1 d, msg_PublicKeyBytes = take 1 d, msg_Signature = take 1 d, msg_Nonce = 1 \<rparr>),
     marshalEth = (\<lambda>e. Inr (eth_Signature e @ eth_MessageHash e)),
     unmarshalEth = (\<lambda>d. Inr \<lparr> eth_Signature = take 1 d, eth_MessageHash = drop 1 d \<rparr>),
     PublicKeyFromByteArray = Inr, singleSigner_Verify = (\<lambda>k m s. if s = k then None else Some ErrInvalidSignature),
     singleSigner_Sign = (\<lambda>k m. Inr k),
     CanProcessMessage = (\<lambda>m p. answers None), CanProcessMessagesOnTopic = (\<lambda>p t n k q. answers None), 
     InvalidMessageBlacklistDuration = 3600000000000, BlacklistPeer = (\<lambda>p r d w. w),
     messenger_CreateTopic = (\<lambda>t b. answers None), messenger_RegisterMessageProcessor = (\<lambda>t i. answers None),
     messenger_Broadcast = (\<lambda>t d w. w), messenger_SendToConnectedPeer = (\<lambda>t d p. answers None), messenger_Close = answers None,
     env_IsWhitelisted = (\<lambda>w pk. gm_get (rw_mxRelayers w) pk \<noteq> None),
     env_VerifyEthSignature = erp_verifies net_crypto (eth_provider net_wrapper :: nat relayer_world ethereumRoleProvider) \<rparr>"

lemma net_code [code]:
  "net_joined = \<lparr> br_env = net_env, br_counter = 1000, br_publicKeyBytes = [5], br_privateKey = [5], br_nonces = [],
     br_name = ''EthereumToMultiversX'', br_clients = [holder_client rev], br_joinTopicName = ''EthereumToMultiversX_join'',
     br_signTopicName = ''EthereumToMultiversX_sign'' \<rparr>"
  "net_mx_client = \<lparr> mc_getter = net_getter, mc_txHandler = \<lparr> th_proxy = net_proxy, th_relayerAddress = demo_address [5],
       th_multisigAddressAsBech32 = ''09'', th_nonceTxHandler = \<lparr> nth_GetNonce = (\<lambda>a. answers (Inr 0)),
         nth_SendTransaction = (\<lambda>tx. answers (Inr ''hash'')), nth_Close = answers None \<rparr>,
       th_signWithPrivateKey = (\<lambda>m. Inr [5]), th_IsWhitelisted = (\<lambda>w a. mrp_whitelists (mx_provider net_getter) w (AddressBytes a)),
       th_ToDataBytes = (\<lambda>b. Inr []), th_marshalTx = (\<lambda>tx. Inr []) \<rparr>,
     mc_tokensMapper = multiversXToErc20_ConvertToken net_getter, mc_gasMapConfig = demo_gas_map, mc_addressConverter = net_converter,
     mc_statusHandler = quiet_handler, mc_allowDelta = 7, mc_lastNonce = 0, mc_retriesAvailabilityCheck = 0 \<rparr>"
proof -
  have "''09'' = AddressAsBech32String (demo_address [9])"
    by code_simp
  then show "net_mx_client = \<lparr> mc_getter = net_getter, mc_txHandler = \<lparr> th_proxy = net_proxy, th_relayerAddress = demo_address [5],
       th_multisigAddressAsBech32 = ''09'', th_nonceTxHandler = \<lparr> nth_GetNonce = (\<lambda>a. answers (Inr 0)),
         nth_SendTransaction = (\<lambda>tx. answers (Inr ''hash'')), nth_Close = answers None \<rparr>,
       th_signWithPrivateKey = (\<lambda>m. Inr [5]), th_IsWhitelisted = (\<lambda>w a. mrp_whitelists (mx_provider net_getter) w (AddressBytes a)),
       th_ToDataBytes = (\<lambda>b. Inr []), th_marshalTx = (\<lambda>tx. Inr []) \<rparr>,
     mc_tokensMapper = multiversXToErc20_ConvertToken net_getter, mc_gasMapConfig = demo_gas_map, mc_addressConverter = net_converter,
     mc_statusHandler = quiet_handler, mc_allowDelta = 7, mc_lastNonce = 0, mc_retriesAvailabilityCheck = 0 \<rparr>"
    by (simp only:) (simp add: net_mx_client_def mx_NewClient_def mx_checkArgs_def checkGasMapValues_def gasMapFields_def net_getter_def net_converter_def
      demo_gas_map_def net_sdk_def NewMXClientDataGetter_def NewAddressConverter_def mx_minAllowedDelta_def Let_def)
qed (simp add: net_joined_def net_broadcaster_def broadcasterEnv_def net_antiflood_def net_messenger_def net_env_def
    newNoncesOfPublicKeys_def joinTopicSuffix_def signTopicSuffix_def mrp_whitelists_def mrp_at_def mrp_IsWhitelisted_def mx_provider_def fun_eq_iff)

lemma net_closes: "mxc_Close net_mx_client = answers None"
  by (simp add: mxc_Close_def net_mx_client_def mx_NewClient_def mx_checkArgs_def checkGasMapValues_def gasMapFields_def
    demo_gas_map_def net_sdk_def NewMXClientDataGetter_def NewAddressConverter_def mx_minAllowedDelta_def Let_def)

section \<open>The run\<close>

definition net_eth_half :: "nat relayer_world half" where
  "net_eth_half = ((start_machine (eth_machineStates (\<lambda>b. '''')) GettingPendingBatchFromEthereum
     (machineSH (status_interface rw_ethMetrics ethMetrics_put (net_status ''EthereumToMultiversX''))))
       \<lparr>sm_stateMachineName := ''EthereumToMultiversX''\<rparr>, traceExecutor net_eth_executor, [])"

definition net_mx_half :: "nat relayer_world half" where
  "net_mx_half = ((start_machine (mx_machineStates (\<lambda>b. '''')) GettingPendingBatchFromMultiversX
     (machineSH (status_interface rw_mxMetrics mxMetrics_put (net_status ''MultiversXToEthereum''))))
       \<lparr>sm_stateMachineName := ''MultiversXToEthereum''\<rparr>, traceExecutor net_mx_executor, [])"

text \<open>The messages of two other relayers with their signatures for the hash of the pending batch.\<close>

definition net_message :: "byte \<Rightarrow> MessageP2P" where
  "net_message k = \<lparr> p2p_Data = k # (k + 10) # net_hash, p2p_Topic = ''EthereumToMultiversX'' @ signTopicSuffix, p2p_Peer = [2], p2p_SeqNo = [] \<rparr>"

definition net_polled :: "nat relayer_world" where
  "net_polled = net_start\<lparr>rw_mxRelayers := [([5], ()), ([6], ()), ([7], ())], rw_ethRelayers := [([15], ()), ([16], ()), ([17], ())]\<rparr>"

definition net_signed :: "byte \<Rightarrow> bytes \<times> SignedMessage" where
  "net_signed k = (k # (k + 10) # net_hash,
     \<lparr> msg_Payload = (k + 10) # net_hash, msg_PublicKeyBytes = [k], msg_Signature = [k], msg_Nonce = 1 \<rparr>)"

definition net_first :: "nat relayer_world" where
  "net_first = net_polled\<lparr>rw_nonces := [([6], 1)], rw_received := [net_message 6], rw_signatures :=
     \<lparr> signedMessages = [net_signed 6], ethMessages = [\<lparr> eth_Signature = [16], eth_MessageHash = net_hash \<rparr>] \<rparr>\<rparr>"

definition net_ready :: "nat relayer_world" where
  "net_ready = net_polled\<lparr>rw_nonces := [([6], 1), ([7], 1)], rw_received := [net_message 7, net_message 6], rw_signatures :=
     \<lparr> signedMessages = [net_signed 6, net_signed 7],
       ethMessages = [\<lparr> eth_Signature = [16], eth_MessageHash = net_hash \<rparr>, \<lparr> eth_Signature = [17], eth_MessageHash = net_hash \<rparr>] \<rparr>\<rparr>"

lemma net_receives:
  "br_receive rev net_joined (net_message 6) [2] net_polled = Some (None, net_first)"
  "br_receive rev net_joined (net_message 7) [2] net_first = Some (None, net_ready)"
  by code_simp+

lemma net_executes:
  "take 1 (demo_calls (runs 4 (half_config net_mx_half net_ready))) = [EvExecuteTransfer net_hash (Some demo_pending) 2 (Inr ''hash'')]"
  by code_simp

lemma answers_within: "within (actions_of lib args c)\<^sup>*\<^sup>* (answers r)" "within outside_only (answers r)"
  by (simp_all add: within_def answers_def outside.R_refl)

lemma net_confined:
  assumes "cmp_broadcaster c = Some net_joined" "cmp_statusStorer c = the (fa_StatusStorer net_args)"
  shows "libraries_confined net_lib net_args c"
proof -
  have "network_outside net_lib net_messenger"
    by (auto simp: network_outside_def network_created_def answers_def net_peers outside.R_refl)
  moreover have "p2p_outside (br_env net_joined)"
    by (simp add: p2p_outside_def net_joined_def net_broadcaster_def broadcasterEnv_def net_antiflood_def net_messenger_def
      answers_within outside.R_refl)
  moreover have "outside_calls (actions_of net_lib net_args c)\<^sup>*\<^sup>* net_lib net_args c"
    using assms(2) by (simp add: outside_calls_def proxy_within_def wrapper_within_def handler_within_def net_proxy_def net_wrapper_def
      quiet_handler_def net_sdk_def answers_within)
  ultimately show ?thesis
    using assms(1) by (simp add: libraries_confined_def)
qed

lemma relayer_run_mx_runs:
  "relayer_run W c0 e m w \<Longrightarrow> runs n (half_config m w) = Some c \<Longrightarrow> relayer_run W c0 e (half_of c) (world_of c)"
proof (induction n arbitrary: m w)
  case 0
  then have "c = half_config m w" by simp
  then have "half_of c = m" "world_of c = w"
    by (simp_all add: half_config_def half_of_def world_of_def)
  with 0 show ?case by simp
next
  case (Suc n)
  then obtain err d where d: "Execute (half_config m w) = Some (err, d)" "runs n d = Some c"
    by (auto split: option.splits)
  from Suc.IH [OF run_mx [OF Suc.prems(1) d(1)]] d(2) show ?case by simp
qed

lemma net_answers:
  "answered (GetAllStakedRelayers net_getter) (Inr [[5], [6], [7]])" "answered (cw_GetRelayers net_wrapper) (Inr [[15], [16], [17]])"
proof -
  have "GetAllStakedRelayers net_getter net_start = Some (Inr [[5], [6], [7]], net_start)"
    by code_simp
  then show "answered (GetAllStakedRelayers net_getter) (Inr [[5], [6], [7]])"
    by (auto simp: answered_def)
  show "answered (cw_GetRelayers net_wrapper) (Inr [[15], [16], [17]])"
    by (simp add: answered_def net_wrapper_def answers_def)
qed

lemma net_polls:
  "mrp_finish (\<lambda>_. True) (mx_provider net_getter) (Inr [[5], [6], [7]]) net_start =
     Some (None, net_start\<lparr>rw_mxRelayers := [([5], ()), ([6], ()), ([7], ())]\<rparr>)"
  "erp_finish (eth_provider net_wrapper) (Inr [[15], [16], [17]]) (net_start\<lparr>rw_mxRelayers := [([5], ()), ([6], ()), ([7], ())]\<rparr>) =
     Some (None, net_polled)"
  by code_simp+

text \<open>The whitelists are polled, the two messages arrive and the machine executes four times.\<close>

lemma net_prepares: "relayer_run (relayer_action rev net_joined net_getter net_wrapper) (e, m, net_start) e m net_ready"
proof -
  let ?run = "relayer_run (relayer_action rev net_joined net_getter net_wrapper) (e, m, net_start) e m"
  have "?run net_start"
    by (rule run_start) simp
  from run_others [OF this mx_relayers_polled [OF net_answers(1) net_polls(1)]]
  have "?run (net_start\<lparr>rw_mxRelayers := [([5], ()), ([6], ()), ([7], ())]\<rparr>)" .
  from run_others [OF this eth_relayers_polled [OF net_answers(2) net_polls(2)]] have "?run net_polled" .
  from run_others [OF this message_received [OF net_receives(1)]] have "?run net_first" .
  from run_others [OF this message_received [OF net_receives(2)]] show "?run net_ready" .
qed

lemma net_halves:
  assumes "NewEthMultiversXBridgeComponents net_lib net_args net_world = Some (Inr c, net_start)" "net_wired c"
    "cmp_ethToMultiversXExecutor c = Some net_eth_executor" "cmp_multiversXToEthExecutor c = Some net_mx_executor"
    "cmp_ethToMultiversXStatusHandler c = Some (net_status ''EthereumToMultiversX'')"
    "cmp_multiversXToEthStatusHandler c = Some (net_status ''MultiversXToEthereum'')"
  shows "eth_half_started net_lib c net_eth_half" "mx_half_started net_lib c net_mx_half"
proof -
  let ?eth = "machineSH (status_interface rw_ethMetrics ethMetrics_put (net_status ''EthereumToMultiversX''))"
    and ?mx = "machineSH (status_interface rw_mxMetrics mxMetrics_put (net_status ''MultiversXToEthereum''))"
  note machines = NewStateMachine_def sm_checkArgs_def getNextStep_def start_machine_def
  obtain ae am where "eth_half_assembled net_lib net_args c ae" "mx_half_assembled net_lib net_args c am"
    by (rule construction [OF assms(1)])
  then obtain em mm where em: "cmp_ethToMultiversXStateMachine c = Some em" "createEthereumToMultiversXStateMachine (fl_ordSteps net_lib)
      ''EthereumToMultiversX'' (eth_machineStates (fl_marshalBatch net_lib))
      (on_world (status_interface rw_ethMetrics ethMetrics_put (net_status ''EthereumToMultiversX''))) = Inr em"
    and mm: "cmp_multiversXToEthStateMachine c = Some mm" "createMultiversXToEthereumStateMachine (fl_ordSteps net_lib)
      ''MultiversXToEthereum'' (mx_machineStates (fl_marshalBatch net_lib))
      (on_world (status_interface rw_mxMetrics mxMetrics_put (net_status ''MultiversXToEthereum''))) = Inr mm"
    using assms(2,5,6) by (auto simp: eth_half_assembled_def mx_half_assembled_def net_wired_def EvmCompatibleChainToMultiversXName_def
      MultiversXToEvmCompatibleChainName_def)
  have "createEthereumToMultiversXStateMachine id ''EthereumToMultiversX'' (eth_machineStates (fl_marshalBatch net_lib)) ?eth = Inr (fst net_eth_half)"
    by (simp add: net_eth_half_def createEthereumToMultiversXStateMachine_def machines eth_machineStates_def eth_stepsSlice_def)
  with recorded_eth_machine [OF em(2), of ?eth]
  have "recorded (eth_machineStates (fl_marshalBatch net_lib)) ?eth em = fst net_eth_half" by simp
  with em(1) assms(3,5) show "eth_half_started net_lib c net_eth_half"
    by (simp add: eth_half_started_def) (simp add: net_eth_half_def)
  have "createMultiversXToEthereumStateMachine id ''MultiversXToEthereum'' (mx_machineStates (fl_marshalBatch net_lib)) ?mx = Inr (fst net_mx_half)"
    by (simp add: net_mx_half_def createMultiversXToEthereumStateMachine_def machines mx_machineStates_def mx_stepsSlice_def)
  with recorded_mx_machine [OF mm(2), of ?mx]
  have "recorded (mx_machineStates (fl_marshalBatch net_lib)) ?mx mm = fst net_mx_half" by simp
  with mm(1) assms(4,6) show "mx_half_started net_lib c net_mx_half"
    by (simp add: mx_half_started_def) (simp add: net_mx_half_def)
qed

lemma net_event: "EvExecuteTransfer net_hash (Some demo_pending) 2 (Inr ''hash'') \<in> set (demo_calls (runs 4 (half_config net_mx_half net_ready)))"
  by (rule in_set_takeD [of _ 1], unfold net_executes, rule list.set_intros)

lemma net_run:
  obtains c m w newer older where "constructed_run net_lib net_args c net_start net_eth_half m w" "libraries_confined net_lib net_args c"
    "snd (snd m) = newer @ EvExecuteTransfer net_hash (Some demo_pending) 2 (Inr ''hash'') # older"
    "cmp_multiversXClient c = Some net_mx_client" "cmp_ethClient c = Some net_eth_client" "cmp_mxDataGetter c = Some net_getter"
proof -
  obtain c where c: "NewEthMultiversXBridgeComponents net_lib net_args net_world = Some (Inr c, net_start)"
    "cmp_broadcaster c = Some net_joined" "cmp_mxDataGetter c = Some net_getter" "net_wired c"
    "cmp_ethToMultiversXExecutor c = Some net_eth_executor" "cmp_multiversXToEthExecutor c = Some net_mx_executor"
    "cmp_ethToMultiversXStatusHandler c = Some (net_status ''EthereumToMultiversX'')"
    "cmp_multiversXToEthStatusHandler c = Some (net_status ''MultiversXToEthereum'')"
    by (rule net_builds)
  have "eth_half_started net_lib c net_eth_half" "mx_half_started net_lib c net_mx_half"
    using net_halves [OF c(1,4,5-8)] by simp_all
  moreover have "relayer_run (actions_of net_lib net_args c) (net_eth_half, net_mx_half, net_start) net_eth_half net_mx_half net_ready"
    using net_prepares by (simp add: actions_of_def c)
  moreover obtain d where d: "runs 4 (half_config net_mx_half net_ready) = Some d"
    "EvExecuteTransfer net_hash (Some demo_pending) 2 (Inr ''hash'') \<in> set (calls (snd d))"
    using net_event by (cases "runs 4 (half_config net_mx_half net_ready)") (auto simp: demo_calls_def)
  ultimately have "constructed_run net_lib net_args c net_start net_eth_half (half_of d) (world_of d)"
    unfolding constructed_run_def using c(1) relayer_run_mx_runs [OF _ d(1)] by blast
  moreover obtain newer older where "calls (snd d) = newer @ EvExecuteTransfer net_hash (Some demo_pending) 2 (Inr ''hash'') # older"
    using split_list [OF d(2)] by blast
  ultimately show thesis
    using that net_confined [of c] c by (simp add: half_of_def net_wired_def)
qed

section \<open>Its REST server\<close>

definition net_rest :: "nat relayer_world rest_lib" where
  "net_rest = \<lparr> rl_ErrNilFacadeHandler = Plain ''nil facade handler'', rl_ErrNilHttpServer = Plain ''nil http server'',
     rl_ReturnCodeSuccess = ''successful'', rl_ReturnCodeInternalError = ''internal_issue'',
     rl_nilAntiFloodConfig = (\<lambda>c. False), rl_nilApiConfig = (\<lambda>c. False), rl_setupGin = (\<lambda>w. w), rl_BasePath = id,
     rl_NewSourceThrottler = (\<lambda>n. None), rl_NewGlobalThrottler = (\<lambda>n. None),
     rl_Reset = (\<lambda>w. w), rl_cancelReset = (\<lambda>w. w), rl_ListenAndServe = (\<lambda>s. answers None), rl_Shutdown = (\<lambda>s d. answers None),
     rl_Trace = (\<lambda>m l w. w) \<rparr>"

lemma net_serves:
  obtains ws where "StartWebServer net_rest ord (fa_Configs net_args) (Some holder) w = Some (Inr ws, w)"
  by (simp add: StartWebServer_def NewRelayerFacade_def NewWebServerHandler_def ws_checkArgs_def StartHttpServer_def createGroups_def
    NewNodeGroup_def tryNil_def tryOk_def createMiddlewareLimiters_def createAntifloodLimiters_def NewHttpServer_def net_rest_def Let_def
    net_args_def net_config_def WebServerOffString_def)

end
