(* ===== verification/Demo_Process.thy ===== *)
theory Demo_Process
  imports Relay_Main Demo_Relayer
begin

text \<open>
  The libraries of a process, on which the arguments of the factory are built: a node and a contract
  with the answers of \<open>Demo_Relayer\<close>, and a storer without entries.
\<close>

definition net_node :: "'w blockchainClient" where
  "net_node = \<lparr> bcl_BlockNumber = cw_BlockNumber net_wrapper, bcl_NonceAt = cw_NonceAt net_wrapper,
     bcl_ChainID = cw_ChainID net_wrapper, bcl_BalanceAt = cw_BalanceAt net_wrapper \<rparr>"

definition net_contract :: "'w multiSigContract" where
  "net_contract = \<lparr> ms_GetBatch = cw_GetBatch net_wrapper, ms_GetBatchDeposits = cw_GetBatchDeposits net_wrapper,
     ms_GetRelayers = cw_GetRelayers net_wrapper, ms_WasBatchExecuted = cw_WasBatchExecuted net_wrapper,
     ms_ExecuteTransfer = cw_ExecuteTransfer net_wrapper, ms_Quorum = cw_Quorum net_wrapper,
     ms_GetStatusesAfterExecution = cw_GetStatusesAfterExecution net_wrapper, ms_Paused = cw_IsPaused net_wrapper \<rparr>"

definition net_main :: "(unit, unit, statusHandlerPersistenceData, unit, unit process) main_lib" where
  "net_main = \<lparr>
     ml_flags = \<lparr> LogDebug_String = ''DEBUG'', DefaultRestInterface = ''localhost:8080'' \<rparr>,
     ml_NewFileLogging = (\<lambda>d p f. answers None), ml_ChangeFileLifeSpan = (\<lambda>t s. answers None),
     ml_SetDisplayByteSliceToHex = answers None, ml_ToggleLoggerName = (\<lambda>b w. w), ml_SetLogLevel = (\<lambda>l. answers None),
     ml_RemoveStdoutObserver = answers None, ml_AddPlainStdoutObserver = answers None,
     ml_LoadConfig = (\<lambda>f. answers (Inr net_config)), ml_LoadApiConfig = (\<lambda>f. answers (Inr (cfg_ApiRoutesConfig (fa_Configs net_args)))),
     ml_DB_FilePath = (\<lambda>c. ''metrics''),
     ml_NewStorageUnit = (\<lambda>c d. answers (Inr \<lparr> st_Get = (\<lambda>k w. Inl ErrInvalidSignature), st_Put = (\<lambda>k v w. (None, w)) \<rparr>)),
     ml_NewProxy = (\<lambda>a. answers (Inr net_proxy)), ml_Dial = (\<lambda>u. answers (Inr net_node)),
     ml_NewBridge = (\<lambda>a n. Inr net_contract), ml_NewGenericErc20 = (\<lambda>n t. Inr (\<lambda>a. answers (Inr (Some 50)))),
     ml_addressString = hexEncode, ml_NewMarshalizer = Inr, ml_NewLRUCache = (\<lambda>n. None), ml_NewPeersRatingHandler = (\<lambda>t b. Inr ()),
     ml_GeneratePair = answers [1], ml_NewNetworkMessenger = (\<lambda>a. answers (Inr net_messenger)),
     ml_NewPersistentStatusHandler = (\<lambda>m. None), ml_NewAppStatusFacade = None, ml_waitSignal = Some \<rparr>"

definition net_configs :: "unit Configs" where
  "net_configs = (fa_Configs net_args)\<lparr>cfg_GeneralConfig := net_config\<lparr>cfg_MultiversX :=
     (cfg_MultiversX net_config)\<lparr>mcf_NetworkAddress := ''localhost:7950''\<rparr>\<rparr>\<rparr>"

definition net_process :: "unit process" where
  "net_process = \<lparr> rw_mxRelayers = [], rw_ethRelayers = [], rw_counter = 0, rw_nonces = newNoncesOfPublicKeys,
     rw_signatures = NewSignatureHolder, rw_gas = DisabledGasStation, rw_ethMetrics = no_metrics, rw_mxMetrics = no_metrics,
     rw_mxCells = \<lparr> cell_wasShardIDFetched = False, cell_shardID = 0, cell_lastNonce = 0, cell_mxRetries = 0 \<rparr>,
     rw_ethCells = \<lparr> cell_lastBlockNumber = 0, cell_ethRetries = 0 \<rparr>, rw_received = [],
     rw_outside = \<lparr> cm_ethMetrics = no_metrics, cm_mxMetrics = no_metrics, cm_tokens = [], cm_rest = () \<rparr> \<rparr>"

lemma net_process_outside: "libraries_outside net_main"
  by (auto simp: libraries_outside_def net_main_def answers_def node_within_def contract_within_def net_node_def net_contract_def
    net_wrapper_def proxy_within_def net_proxy_def within_def outside.R_refl)

lemma net_process_args: "\<exists>args w. createArgs net_lib net_main net_configs net_process = Some (Inr args, w)"
  by (simp add: createArgs_def createEthSide_def buildNetMessenger_def CreateUnitStorer_def onOk_def onNil_def newClientHandler_def
    NewStatusHandler_def tryLoadPersistedData_def registerHandler_def AddStatusHandler_def NewMetricsHolder_def
    EthClientStatusHandlerName_def MultiversXClientStatusHandlerName_def NewErc20SafeContractsHolder_def
    NewEthereumChainWrapper_def ecw_checkArgs_def net_main_def net_configs_def answers_def Let_def)

end
