(* ===== verification/Spec2Isabelle.thy ===== *)
theory Spec2Isabelle
  imports Demo_Process
begin

text \<open>
  A verification library of the relayer under \<^verbatim>\<open>src/bridge\<close>, which moves deposits between Ethereum
  (or another EVM chain) and MultiversX. A relayer runs two half-bridges. Each is a state machine whose
  steps call a bridge executor; the executor calls a client per chain, the leader election, a batch
  validator and the holder of the signatures that the relayers exchange over a peer-to-peer network.
  Contracts on both chains act only when a quorum of relayers agreed.

  \<^bold>\<open>How the code is modelled.\<close> A struct is a record with the fields of the struct, an interface is
  a record of functions, a nil-able pointer an option, a pair of a value and an error a sum
  (a pair where the value beside an error matters). Code
  that has effects has type \<open>('w, 'a) prog\<close>: it takes the world \<open>'w\<close> and returns a result with the
  next world, or \<open>None\<close> when the Go code panics (nil dereference, index out of range). The world is a
  type parameter: whatever is outside the source (nodes, contracts, SDK, HTTP, JSON, the network) is
  a function argument on it, so every theorem holds for all of its behaviours that the hypotheses
  allow. \<^verbatim>\<open>uint64\<close> values are 64-bit words and wrap; \<^verbatim>\<open>big.Int\<close> values are integers, and their
  conversions to \<^verbatim>\<open>int64\<close> and \<^verbatim>\<open>uint64\<close> are written out. The order in which Go walks a map is an argument
  (\<open>range_order\<close>). Locks do not appear: an operation under a lock is one step, and what other
  goroutines do between two steps is the relation \<open>other_goroutines\<close>, which may change the world
  arbitrarily but not the executor's own fields. Log lines appear only where their text is stored in a
  metric.

  \<^bold>\<open>Theories and source files.\<close>
  \<^item> \<open>Bridge_Prelude\<close>: errors, maps, bytes, numbers, and the weakest preconditions \<open>wpg b m Q\<close> that the
    step proofs use (\<open>b\<close> says whether a panic is admitted).
  \<^item> \<open>Transfer_Batch\<close> (\<^verbatim>\<open>clients/batch.go\<close>), \<open>Core_Types\<close> (\<^verbatim>\<open>core\<close>).
  \<^item> \<open>Bridge_Executor\<close> (\<^verbatim>\<open>bridges/ethMultiversX/bridgeExecutor.go\<close>): the executor with every operation.
  \<^item> \<open>Eth_To_Mx_Steps\<close>, \<open>Mx_To_Eth_Steps\<close> (\<^verbatim>\<open>bridges/ethMultiversX/steps\<close>): the five and ten steps and
    their factories; \<open>State_Machine\<close> (\<^verbatim>\<open>stateMachine\<close>): the machine, its reachable configurations, and
    the locale \<open>step_map\<close>, the contract between a machine and its steps.
  \<^item> \<open>Executor_Rules\<close>, \<open>Call_Trace\<close>, \<open>Trace_Rules\<close>: an executor whose interfaces record every call, and
    one rule per operation; \<open>Eth_To_Mx_Safety\<close>, \<open>Mx_To_Eth_Safety\<close>: the invariants of the two machines
    and their interpretations of \<open>step_map\<close>; \<open>Half_Bridge_Runs\<close>: runs from the assembly on
    (\<^verbatim>\<open>factory/ethMultiversXBridgeComponents.go\<close>, the two state machines); \<open>Demo_Run\<close>: concrete runs.
  \<^item> \<open>Signatures_Holder\<close> (\<^verbatim>\<open>bridges/ethMultiversX/signaturesHolder.go\<close>), \<open>Leader_Topology\<close> (\<^verbatim>\<open>topology\<close>),
    \<open>Role_Providers\<close> (\<^verbatim>\<open>clients/roleProviders\<close>), \<open>Relayer_P2P\<close> (\<^verbatim>\<open>p2p\<close>), \<open>Status_Metrics\<close> (\<^verbatim>\<open>status\<close>,
    \<^verbatim>\<open>facade\<close>), \<open>Gas_Station\<close> (\<^verbatim>\<open>clients/gasManagement\<close>), \<open>Batch_Validator\<close> (\<^verbatim>\<open>clients/batchValidator\<close>,
    \<^verbatim>\<open>clients/chain\<close>, \<^verbatim>\<open>core/converters\<close>).
  \<^item> \<open>Mx_Data_Getter\<close>, \<open>Mx_Client\<close>, \<open>Mx_Client_Correct\<close> (\<^verbatim>\<open>clients/multiversx\<close>): queries with their
    decoding, the token mappers (locale \<open>tokens_mapper\<close>), the client and its transactions.
  \<^item> \<open>Eth_Wrappers\<close>, \<open>Eth_Client\<close>, \<open>Eth_Client_Correct\<close> (\<^verbatim>\<open>clients/ethereum\<close>): the counting wrappers, the
    ERC20 holder, the client; \<open>Stall_Detector\<close>: the locale of an availability check, interpreted for
    both clients.
  \<^item> \<open>Relayer_Clients\<close>, \<open>Relayer_Runs\<close>: the executor on both modelled clients.
  \<^item> \<open>Relayer_Config\<close> (\<^verbatim>\<open>config\<close>, \<^verbatim>\<open>core/loggerWithIdentifier.go\<close>, \<^verbatim>\<open>core/timer\<close>), \<open>Relayer_World\<close> (the
    mutable memory the parts of one relayer share: executors, clients, topologies, role providers,
    broadcaster, signatures holder, gas station), \<open>Bridge_Components\<close> and \<open>Bridge_Factory\<close>
    (\<^verbatim>\<open>factory/ethMultiversXBridgeComponents.go\<close>): the construction, start and closing of a relayer;
    \<open>Bridge_Factory_Correct\<close>: what a successful construction has built.
  \<^item> \<open>Executor_Effects\<close>, \<open>Client_Effects\<close>: the parts of the shared memory each operation may change;
    \<open>Relayer_Actions\<close>, \<open>Relayer_System\<close>: the goroutines of a constructed relayer and the step relation
    that interleaves them; \<open>Relayer_Correct\<close>: its invariants; \<open>Relayer_Lifecycle\<close>: the loop of the join
    messages and \<^verbatim>\<open>Close\<close>; \<open>Demo_Relayer\<close>: a relayer built and run on concrete libraries.
  \<^item> \<open>Rest_Api\<close> (\<^verbatim>\<open>api\<close>, \<^verbatim>\<open>factory/webServer.go\<close>): the REST server; \<open>Relayer_Reporting\<close>: the metrics that the
    factory registers with it; \<open>Relay_Main\<close> (\<^verbatim>\<open>cmd/bridge\<close>, \<^verbatim>\<open>factory/storageFactory.go\<close>): flags, start and end
    of the process, and that its wrappers around the libraries write no memory of the relayer, with
    concrete libraries in \<open>Demo_Process\<close>.
  \<^item> \<open>Timer_Loop\<close>: goroutines that loop around a \<^verbatim>\<open>select\<close> between a timer and the end of a context, as steps
    that interleave with the clock, the timer and a cancelling goroutine. The loops of the join messages
    (\<open>Relayer_Lifecycle\<close>) and of the request limiter (\<open>Rest_Api\<close>) interpret its locale \<open>timer_loop\<close>.

  \<^bold>\<open>What is shown.\<close> The safety properties of the two machines state, for every call that changes a
  chain, which calls with which results must have come before it, in every run with arbitrary clients;
  the bounds limit the queries of a round by the configured retries; no machine loses its current step.
  The clients are characterised by what the contracts answered and what was sent. On the relayer
  assembled from executor and clients these combine: a transfer executed on one chain is the batch
  read from the other one, with the signatures, funds and arguments that belong to it, and the
  relayer keeps running as long as its environment answers. The peer-to-peer layer accepts only
  authentic messages and no replays, and exactly one of the relayers that agree on the keys and on the
  time slot is the leader. The remaining components have functional characterisations, round trips and bounds. Everything comes
  together in the last section: for a relayer that the factory built, in every interleaving of its two
  machines, role providers, network messages and gas station over the shared memory, each whitelist is
  the list of one answer of its contract, held signatures are authentic, and a
  transfer that was executed on Ethereum is the validated pending batch with a quorum of signatures of
  staked relayers. Closing reaches every registered part, the join messages are sent at most
  once per interval and not after their loop was cancelled and returned, and the REST server serves the open routes only and reports the metrics as
  they are at the moment of the request.

  \<^bold>\<open>Bounds.\<close> The two waiting loops of the executor poll at most \<open>splits\<close> times and are recursive on that
  number, so no fuel is needed; the loops of the pollers are single steps here, repeated by
  \<open>reachable\<close> and by the step relation of \<open>Relayer_System\<close>. The loops of the join messages and of the
  request limiter are step functions, repeated by \<open>loop_steps\<close>; that they run forever unless cancelled is
  their purpose, and what is shown of them holds at every step. No proof depends on a fuel value.

  \<^bold>\<open>Not modelled.\<close> The generated contract bindings, the contracts themselves under \<^verbatim>\<open>sol\<close> and \<^verbatim>\<open>rs\<close>
  (other languages; they appear through their answers), and test code. Of the REST server, the routing
  of gin and the sending of log lines over the web socket; of the process, the function \<^verbatim>\<open>main\<close>, which only
  calls the command line library. Contexts and their cancellation appear only where the code acts on
  them (the waiting timers and the two loops).
\<close>

section \<open>Ethereum to MultiversX\<close>

text \<open>
  C7. In every run of the Ethereum to MultiversX half-bridge, whatever its clients answer and
  whatever other goroutines do, a transfer is proposed on MultiversX only for a batch that was fetched
  from Ethereum under the number after the last executed one, is not empty, was accepted by the
  validator and continues the executed deposit nonces; and only right after the contract said that it
  was not proposed yet and the topology said that this relayer is the leader.
\<close>

theorem eth_proposes_only_checked:
  assumes "eth_run args (sm, s)" and "calls s = newer @ EvProposeTransfer bo r # older"
  shows "\<exists>bt rest. bo = Some bt \<and> checked_batch older bt \<and>
    older = EvLeader True # EvWasProposedTransfer bo (Inr False) # rest"
  using eth_run_justified [OF assms] by simp

theorem eth_proposes_only_checked_witness:
  "\<exists>sm s newer older. eth_run (demo_args demo_eth) (sm, s) \<and>
     calls s = newer @ EvProposeTransfer (Some demo_batch) (Inr ''hash'') # older \<and> checked_batch older demo_batch"
proof -
  have "EvProposeTransfer (Some demo_batch) (Inr ''hash'') \<in> set (demo_calls (runs 5 (eth_demo_start demo_eth)))"
    by (simp add: eth_demo_calls)
  then obtain sm s newer older where s: "eth_run (demo_args demo_eth) (sm, s)"
    "calls s = newer @ EvProposeTransfer (Some demo_batch) (Inr ''hash'') # older"
    by (rule eth_demo_event)
  from s eth_proposes_only_checked [OF s] show ?thesis by blast
qed

text \<open>
  C8. The half-bridge signs an action only if it is the valid action the contract returned for a
  batch checked as above that is proposed there, and right after the contract said that this relayer
  had not signed it.
\<close>

theorem eth_signs_only_proposed:
  assumes "eth_run args (sm, s)" and "calls s = newer @ EvSign a r # older"
  shows "a \<noteq> 0 \<and> (\<exists>bt rest. EvActionIDForTransfer (Some bt) (Inr a) \<in> set older \<and>
    checked_batch older bt \<and> transfer_proposed older bt \<and> older = EvWasSigned a (Inr False) # rest)"
  using eth_run_justified [OF assms] by (auto simp: transfer_action_def InvalidActionID_def)

theorem eth_signs_only_proposed_witness:
  "\<exists>sm s newer older. eth_run (demo_args demo_eth) (sm, s) \<and>
     calls s = newer @ EvSign 3 (Inr ''hash'') # older \<and> (\<exists>bt. checked_batch older bt \<and> transfer_proposed older bt)"
proof -
  have "EvSign 3 (Inr ''hash'') \<in> set (demo_calls (runs 5 (eth_demo_start demo_eth)))"
    by (simp add: eth_demo_calls)
  then obtain sm s newer older where s: "eth_run (demo_args demo_eth) (sm, s)"
    "calls s = newer @ EvSign 3 (Inr ''hash'') # older"
    by (rule eth_demo_event)
  from s eth_signs_only_proposed [OF s] show ?thesis by blast
qed

text \<open>
  C9. The half-bridge performs an action on MultiversX only for the batch the contract gave the
  action for, checked and proposed as above, only after the contract reported the quorum for this
  very action, and right after the contract said that it was not executed and the topology said that
  this relayer is the leader.
\<close>

theorem eth_performs_only_with_quorum:
  assumes "eth_run args (sm, s)" and "calls s = newer @ EvPerformAction a bo r # older"
  shows "a \<noteq> 0 \<and> EvQuorumReached a (Inr True) \<in> set older \<and>
    (\<exists>bt rest. bo = Some bt \<and> EvActionIDForTransfer (Some bt) (Inr a) \<in> set older \<and>
       checked_batch older bt \<and> transfer_proposed older bt \<and>
       older = EvLeader True # EvWasExecuted a (Inr False) # rest)"
  using eth_run_justified [OF assms] by (auto simp: transfer_action_def InvalidActionID_def)

theorem eth_performs_only_with_quorum_witness:
  "\<exists>sm s newer older. eth_run (demo_args demo_eth) (sm, s) \<and>
     calls s = newer @ EvPerformAction 3 (Some demo_batch) (Inr ''hash'') # older \<and> EvQuorumReached 3 (Inr True) \<in> set older \<and> checked_batch older demo_batch"
proof -
  have "EvPerformAction 3 (Some demo_batch) (Inr ''hash'') \<in> set (demo_calls (runs 5 (eth_demo_start demo_eth)))"
    by (simp add: eth_demo_calls)
  then obtain sm s newer older where s: "eth_run (demo_args demo_eth) (sm, s)"
    "calls s = newer @ EvPerformAction 3 (Some demo_batch) (Inr ''hash'') # older"
    by (rule eth_demo_event)
  from s eth_performs_only_with_quorum [OF s] show ?thesis by blast
qed

text \<open>
  C16. Between two checks of the pending batch the half-bridge asks the contract for the quorum at
  most as often as \<^verbatim>\<open>MaxQuorumRetriesOnMultiversX\<close> says, so it cannot wait for a quorum forever.
\<close>

theorem eth_quorum_queries_bounded:
  assumes "eth_run args (sm, s)"
  shows "in_round is_quorum_query (calls s) \<le> unat (arg_MaxQuorumRetriesOnMultiversX args)"
  using eth_run_inv [OF assms] by (auto simp: eth_inv_def createBridgeExecutor_def word_le_nat_alt)

theorem eth_quorum_queries_bounded_witness:
  "\<exists>sm s. eth_run (demo_args demo_eth) (sm, s) \<and> in_round is_quorum_query (calls s) = 1 \<and>
     in_round is_quorum_query (calls s) \<le> 3"
proof -
  obtain sm s where s: "eth_run (demo_args demo_eth) (sm, s)"
    "calls s = demo_calls (runs 5 (eth_demo_start demo_eth))"
    using eth_demo_run [OF refl, of 5 demo_eth] by (auto simp: eth_demo_calls)
  from s eth_quorum_queries_bounded [OF s(1)] show ?thesis
    by (intro exI [of _ sm] exI [of _ s]) (simp add: eth_demo_calls demo_args_def)
qed

text \<open>
  C14. In no run does the machine lose its current step: every execution that returns returns no
  error (in particular never \<^verbatim>\<open>ErrStepNotFound\<close>); and when the clients do not panic and never return
  a nil batch without an error, every execution returns.
\<close>

theorem eth_machine_never_fails:
  assumes "eth_run args c"
  shows "(\<forall>err c'. Execute c = Some (err, c') \<longrightarrow> err = None) \<and>
    (safe_clients (createBridgeExecutor args) \<longrightarrow> (\<exists>c'. Execute c = Some (None, c')))"
  using eth_run_executes [OF assms, of True] eth_run_executes [OF assms, of False] by (auto simp: wlp_iff wp_iff)

theorem eth_machine_never_fails_witness:
  "\<exists>c c'. eth_run (demo_args demo_eth) c \<and> Execute c = Some (None, c')"
proof -
  obtain sm s where s: "eth_run (demo_args demo_eth) (sm, s)"
    using eth_demo_run [OF refl, of 5 demo_eth] by (auto simp: eth_demo_calls)
  with eth_machine_never_fails [OF s] demo_safe show ?thesis by blast
qed

section \<open>MultiversX to Ethereum\<close>

text \<open>
  C10. A relayer broadcasts its signature for a message hash only when the hash is the one of a
  batch that is pending on MultiversX and accepted by the validator, right after Ethereum said that
  the batch was not executed.
\<close>

theorem mx_broadcasts_only_validated:
  assumes "mx_run args (sm, s)" and "calls s = newer @ EvBroadcast h # older"
  shows "\<exists>bt rest. pending_batch older bt \<and>
    eth_GenerateMessageHash (ex_ethereumClient (createBridgeExecutor args)) (Some bt) = Some (Inr h) \<and>
    older = EvWasTransferExecuted (ID bt) (Inr False) # rest"
  using mx_run_justified [OF assms] by simp

theorem mx_broadcasts_only_validated_witness:
  "\<exists>sm s newer older. mx_run (demo_args demo_eth) (sm, s) \<and>
     calls s = newer @ EvBroadcast [9] # older \<and> (\<exists>bt. pending_batch older bt)"
proof -
  have "EvBroadcast [9] \<in> set (demo_calls (runs 4 (mx_demo_start demo_eth)))"
    by (simp add: mx_demo_calls)
  then obtain sm s newer older where s: "mx_run (demo_args demo_eth) (sm, s)"
    "calls s = newer @ EvBroadcast [9] # older"
    by (rule mx_demo_event)
  from s mx_broadcasts_only_validated [OF s] show ?thesis by blast
qed

text \<open>
  C11. A transfer is sent to Ethereum only for a validated pending batch, under the hash of exactly
  that batch which this relayer broadcast its own signature for, after the quorum of signatures was
  reached for this hash, and right after Ethereum said that the batch was not executed, the topology
  said that this relayer is the leader and the contract returned the quorum that is passed on.
\<close>

theorem mx_executes_only_with_quorum:
  assumes "mx_run args (sm, s)" and "calls s = newer @ EvExecuteTransfer h bo q r # older"
  shows "\<exists>bt quorum rest. bo = Some bt \<and> pending_batch older bt \<and>
    eth_GenerateMessageHash (ex_ethereumClient (createBridgeExecutor args)) (Some bt) = Some (Inr h) \<and>
    EvBroadcast h \<in> set older \<and> EvIsQuorumReached h (Inr True) \<in> set older \<and> q = bigInt64 quorum \<and>
    older = EvQuorumSize (Inr quorum) # EvLeader True # EvWasTransferExecuted (ID bt) (Inr False) # rest"
  using mx_run_justified [OF assms] by (auto simp: signed_hash_def)

theorem mx_executes_only_with_quorum_witness:
  "\<exists>sm s newer older. mx_run (demo_args demo_eth) (sm, s) \<and>
     calls s = newer @ EvExecuteTransfer [9] (Some demo_batch) 2 (Inr ''hash'') # older \<and> pending_batch older demo_batch \<and> EvIsQuorumReached [9] (Inr True) \<in> set older"
proof -
  have "EvExecuteTransfer [9] (Some demo_batch) 2 (Inr ''hash'') \<in> set (demo_calls (runs 4 (mx_demo_start demo_eth)))"
    by (simp add: mx_demo_calls)
  then obtain sm s newer older where s: "mx_run (demo_args demo_eth) (sm, s)"
    "calls s = newer @ EvExecuteTransfer [9] (Some demo_batch) 2 (Inr ''hash'') # older"
    by (rule mx_demo_event)
  from s mx_executes_only_with_quorum [OF s] show ?thesis by blast
qed

text \<open>
  C12. The statuses of a batch are proposed on MultiversX only after Ethereum reported that the
  validated batch was executed, with exactly the non-empty statuses Ethereum returned for it, resolved
  against the batch pending on MultiversX; and right after the contract said that they were not
  proposed and the topology said that this relayer is the leader.
\<close>

theorem mx_proposes_only_final_statuses:
  assumes "mx_run args (sm, s)" and "calls s = newer @ EvProposeSetStatus bo r # older"
  shows "\<exists>bt rest. bo = Some bt \<and> resolved_batch older bt \<and>
    older = EvLeader True # EvWasProposedSetStatus bo (Inr False) # rest"
  using mx_run_justified [OF assms] by simp

theorem mx_proposes_only_final_statuses_witness:
  "\<exists>sm s newer older. mx_run (demo_args demo_eth_done) (sm, s) \<and>
     calls s = newer @ EvProposeSetStatus (Some demo_resolved) (Inr ''hash'') # older \<and> resolved_batch older demo_resolved"
proof -
  have "EvProposeSetStatus (Some demo_resolved) (Inr ''hash'') \<in> set (demo_calls (runs 6 (mx_demo_start demo_eth_done)))"
    by (simp add: mx_demo_done_calls)
  then obtain sm s newer older where s: "mx_run (demo_args demo_eth_done) (sm, s)"
    "calls s = newer @ EvProposeSetStatus (Some demo_resolved) (Inr ''hash'') # older"
    by (rule mx_demo_event)
  from s mx_proposes_only_final_statuses [OF s] show ?thesis by blast
qed

text \<open>
  C13. The set-status action is signed only when it is the valid action the contract returned for the
  resolved statuses that are proposed there, and this relayer had not signed it; it is performed only
  by the leader, after the contract reported the quorum for this very action and said that it was not
  executed.
\<close>

theorem mx_signs_and_performs_only_resolved:
  assumes "mx_run args (sm, s)" and "calls s = newer @ e # older"
  shows "(e = EvSign a r \<longrightarrow> a \<noteq> 0 \<and> (\<exists>bt rest. EvActionIDForSetStatus (Some bt) (Inr a) \<in> set older \<and>
      resolved_batch older bt \<and> status_proposed older bt \<and> older = EvWasSigned a (Inr False) # rest)) \<and>
    (e = EvPerformAction a bo r \<longrightarrow> a \<noteq> 0 \<and> EvQuorumReached a (Inr True) \<in> set older \<and>
      (\<exists>bt rest. bo = Some bt \<and> EvActionIDForSetStatus (Some bt) (Inr a) \<in> set older \<and>
        resolved_batch older bt \<and> status_proposed older bt \<and>
        older = EvLeader True # EvWasExecuted a (Inr False) # rest))"
  using mx_run_justified [OF assms] by (auto simp: status_action_def InvalidActionID_def)

theorem mx_signs_and_performs_only_resolved_witness:
  "\<exists>sm s newer older. mx_run (demo_args demo_eth_done) (sm, s) \<and>
     calls s = newer @ EvPerformAction 4 (Some demo_resolved) (Inr ''hash'') # older \<and>
     EvQuorumReached 4 (Inr True) \<in> set older \<and> resolved_batch older demo_resolved"
proof -
  have "EvPerformAction 4 (Some demo_resolved) (Inr ''hash'') \<in> set (demo_calls (runs 6 (mx_demo_start demo_eth_done)))"
    by (simp add: mx_demo_done_calls)
  then obtain sm s newer older where s: "mx_run (demo_args demo_eth_done) (sm, s)"
    "calls s = newer @ EvPerformAction 4 (Some demo_resolved) (Inr ''hash'') # older"
    by (rule mx_demo_event)
  from s mx_signs_and_performs_only_resolved [OF s, of 4 "Inr ''hash''" "Some demo_resolved"]
  show ?thesis by blast
qed

text \<open>
  C17. Between two checks of the pending batch the half-bridge asks for the quorum on Ethereum, for
  the quorum on MultiversX and whether the statuses are proposed at most as often as the three
  configured maxima say.
\<close>

theorem mx_queries_bounded:
  assumes "mx_run args (sm, s)"
  shows "in_round is_transfer_quorum_query (calls s) \<le> unat (arg_MaxQuorumRetriesOnEthereum args) \<and>
    in_round is_quorum_query (calls s) \<le> unat (arg_MaxQuorumRetriesOnMultiversX args) \<and>
    in_round is_status_proposed_query (calls s) \<le> unat (arg_MaxRestriesOnWasProposed args)"
  using mx_run_inv [OF assms]
  by (auto simp: mx_inv_def mx_counters_def createBridgeExecutor_def word_le_nat_alt)

theorem mx_queries_bounded_witness:
  "\<exists>sm s. mx_run (demo_args demo_eth) (sm, s) \<and> in_round is_transfer_quorum_query (calls s) = 1 \<and>
     in_round is_transfer_quorum_query (calls s) \<le> 3"
proof -
  obtain sm s where s: "mx_run (demo_args demo_eth) (sm, s)"
    "calls s = demo_calls (runs 4 (mx_demo_start demo_eth))"
    using mx_demo_run [OF refl, of 4 demo_eth] by (auto simp: mx_demo_calls)
  from s mx_queries_bounded [OF s(1)] show ?thesis
    by (intro exI [of _ sm] exI [of _ s]) (simp add: mx_demo_calls demo_args_def)
qed

text \<open>
  C15. The MultiversX to Ethereum machine never loses its current step either, and returns whenever
  its clients do.
\<close>

theorem mx_machine_never_fails:
  assumes "mx_run args c"
  shows "(\<forall>err c'. Execute c = Some (err, c') \<longrightarrow> err = None) \<and>
    (safe_clients (createBridgeExecutor args) \<longrightarrow> (\<exists>c'. Execute c = Some (None, c')))"
  using mx_run_executes [OF assms, of True] mx_run_executes [OF assms, of False] by (auto simp: wlp_iff wp_iff)

theorem mx_machine_never_fails_witness:
  "\<exists>c c'. mx_run (demo_args demo_eth) c \<and> Execute c = Some (None, c')"
proof -
  obtain sm s where s: "mx_run (demo_args demo_eth) (sm, s)"
    using mx_demo_run [OF refl, of 4 demo_eth] by (auto simp: mx_demo_calls)
  with mx_machine_never_fails [OF s] demo_safe show ?thesis by blast
qed

section \<open>The assembled relayer\<close>

text \<open>
  C4. A relayer built on the two clients keeps running: when the nodes, contracts and the SDK return
  from their calls without nil pointers in place of answers, and the quorum of the contract is below
  two to the power of 63, every execution of both machines returns without an error, in every run.
\<close>

theorem relayer_keeps_running:
  assumes "relayer_parts_return mc ec args" "built_on ord mc ec args"
  shows "(eth_run args c \<longrightarrow> (\<exists>c'. Execute c = Some (None, c'))) \<and> (mx_run args c \<longrightarrow> (\<exists>c'. Execute c = Some (None, c')))"
  using eth_run_executes [of args c False] mx_run_executes [of args c False] relayer_clients_safe [OF assms]
  by (auto simp: wp_iff)

theorem relayer_keeps_running_witness:
  "\<exists>c c' d d'. eth_run demo_relayer_args c \<and> Execute c = Some (None, c') \<and> mx_run demo_relayer_args d \<and> Execute d = Some (None, d')"
proof -
  have "eth_run demo_relayer_args eth_relayer_start" "mx_run demo_relayer_args mx_relayer_start"
    using relayer_starts reachable_init unfolding eth_run_def mx_run_def by blast+
  then show ?thesis
    using relayer_keeps_running [OF demo_relayer_parts demo_relayer_built] by blast
qed

text \<open>
  C2. From MultiversX to Ethereum, end to end: a transfer that a relayer built on the two clients
  executed on Ethereum, in any run, is the batch that the MultiversX contract reported as pending,
  accepted by the validator; what the Ethereum contract executed are the lists and the identifier of
  this batch, with as many of the held signatures for the hash of this very batch as the quorum asks
  for, and the safe held the amounts.
\<close>

theorem executed_transfer_end_to_end:
  assumes "built_on ord mc ec args" "range_order ord" "mx_run args (sm, s)"
    and "calls s = newer @ EvExecuteTransfer h bo q (Inr hash) # older"
  shows "\<exists>bt l auth sigs w w'. bo = Some bt \<and> answered (mxc_GetPending mc) (Inr (Some bt)) \<and> EvValidate bt (Inr True) \<in> set older \<and>
    ethc_GenerateMessageHash ec (Some bt) = Some (Inr h) \<and> extractList ec bt = Some l \<and> covered ec l \<and>
    (\<exists>v. sigs = take (nat q) (ec_Signatures ec h v)) \<and> int (length sigs) = q \<and>
    cw_ExecuteTransfer (ec_clientWrapper ec) auth l (uint (ID bt)) sigs w = Some (Inr (Some hash), w')"
proof -
  note genuine = mx_run_genuine [OF assms(3)] and client = built_on_ops [OF assms(1)]
  from mx_run_justified [OF assms(3,4)] obtain bt where bt: "bo = Some bt" "pending_batch older bt"
    "ethc_GenerateMessageHash ec (Some bt) = Some (Inr h)"
    by (auto simp: signed_hash_def client)
  then have pending: "answered (mxc_GetPending mc) (Inr (Some bt))" "EvValidate bt (Inr True) \<in> set older"
    using genuine [of "EvGetPending (Inr (Some bt))"] assms(4) by (auto simp: pending_batch_def client)
  obtain w w' where "ethc_ExecuteTransfer ord ec h (Some bt) q w = Some (Inr hash, w')"
    using genuine [of "EvExecuteTransfer h bo q (Inr hash)"] assms(4) bt(1) by (auto simp: client answered_def)
  from ExecuteTransfer_sent [OF assms(2) this] obtain l auth w2 w5 where
    "0 \<le> q" "extractList ec bt = Some l" "covered ec l"
    "cw_ExecuteTransfer (ec_clientWrapper ec) auth l (uint (ID bt)) (take (nat q) (ec_Signatures ec h w2)) w5 = Some (Inr (Some hash), w')"
    "length (take (nat q) (ec_Signatures ec h w2)) = nat q"
    by auto
  with bt pending show ?thesis
    by (intro exI [of _ bt] exI [of _ l] exI [of _ auth] exI [of _ "take (nat q) (ec_Signatures ec h w2)"] exI [of _ w5] exI [of _ w']) auto
qed

theorem executed_transfer_end_to_end_witness:
  "\<exists>sm s newer older. mx_run demo_relayer_args (sm, s) \<and>
     calls s = newer @ EvExecuteTransfer demo_hash (Some demo_pending) 2 (Inr ''hash'') # older \<and>
     answered (mxc_GetPending demo_mx_client) (Inr (Some demo_pending)) \<and>
     ethc_GenerateMessageHash demo_eth_client (Some demo_pending) = Some (Inr demo_hash)"
proof -
  obtain sm s newer older where s: "mx_run demo_relayer_args (sm, s)"
    "calls s = newer @ EvExecuteTransfer demo_hash (Some demo_pending) 2 (Inr ''hash'') # older"
    using mx_run_event [OF relayer_starts(2) relayer_events(2)] by blast
  have "answered (mxc_GetPending demo_mx_client) (Inr (Some demo_pending))"
    "ethc_GenerateMessageHash demo_eth_client (Some demo_pending) = Some (Inr demo_hash)"
    using executed_transfer_end_to_end [OF demo_relayer_built range_order_rev s] by auto
  with s show ?thesis by blast
qed

text \<open>
  C3. From Ethereum to MultiversX, end to end: a transfer that a relayer built on the two clients
  proposed on MultiversX, in any run, is the non-empty batch that the Ethereum client read from the
  contract under the number after the last executed one, accepted by the validator; and what the
  network accepted is the relayer's signed transaction with exactly the arguments of this batch, sent
  by a whitelisted relayer to a contract that is not paused.
\<close>

theorem proposed_transfer_end_to_end:
  assumes "built_on ord mc ec args" "eth_run args (sm, s)"
    and "calls s = newer @ EvProposeTransfer bo (Inr hash) # older"
  shows "\<exists>bt gas w w'. bo = Some bt \<and> Deposits bt \<noteq> [] \<and> answered (ethc_GetBatch ec (ID bt)) (Inr (Some bt)) \<and>
    EvLastEthBatchID (Inr (ID bt - 1)) \<in> set older \<and> EvValidate bt (Inr True) \<in> set older \<and>
    sends mc (BFunction ''proposeMultiTransferEsdtBatch'' # transfer_args bt) gas w hash w'"
proof -
  note genuine = eth_run_genuine [OF assms(2)] and client = built_on_ops [OF assms(1)]
  from eth_run_justified [OF assms(2,3)] obtain bt where bt: "bo = Some bt" "checked_batch older bt"
    by auto
  then have "EvLastEthBatchID (Inr (ID bt - 1)) \<in> set older" "EvGetBatch (ID bt) (Inr (Some bt)) \<in> set older"
    "Deposits bt \<noteq> []" "EvValidate bt (Inr True) \<in> set older"
    by (auto simp: checked_batch_def)
  moreover from this(2) have "answered (ethc_GetBatch ec (ID bt)) (Inr (Some bt))"
    using genuine [of "EvGetBatch (ID bt) (Inr (Some bt))"] assms(3) by (simp add: client)
  moreover obtain w w' where "mxc_ProposeTransfer mc (Some bt) w = Some (Inr hash, w')"
    using genuine [of "EvProposeTransfer bo (Inr hash)"] assms(3) bt(1) by (auto simp: client answered_def)
  moreover from this obtain gas where "sends mc (BFunction ''proposeMultiTransferEsdtBatch'' # transfer_args bt) gas w hash w'"
    using conjunct1 [OF client_sends [of mc "Some bt" w hash w']] by auto
  ultimately show ?thesis
    using bt(1) by blast
qed

theorem proposed_transfer_end_to_end_witness:
  "\<exists>sm s newer older gas w w'. eth_run demo_relayer_args (sm, s) \<and>
     calls s = newer @ EvProposeTransfer (Some demo_fetched) (Inr ''hash'') # older \<and>
     answered (ethc_GetBatch demo_eth_client 1) (Inr (Some demo_fetched)) \<and>
     sends demo_mx_client (BFunction ''proposeMultiTransferEsdtBatch'' # transfer_args demo_fetched) gas w ''hash'' w'"
proof -
  obtain sm s newer older where s: "eth_run demo_relayer_args (sm, s)"
    "calls s = newer @ EvProposeTransfer (Some demo_fetched) (Inr ''hash'') # older"
    using eth_run_event [OF relayer_starts(1) relayer_events(1)] by blast
  have "ID demo_fetched = 1" by (simp add: demo_fetched_def)
  then obtain gas w w' where "answered (ethc_GetBatch demo_eth_client 1) (Inr (Some demo_fetched))"
    "sends demo_mx_client (BFunction ''proposeMultiTransferEsdtBatch'' # transfer_args demo_fetched) gas w ''hash'' w'"
    using proposed_transfer_end_to_end [OF demo_relayer_built s] by auto
  with s show ?thesis by blast
qed

section \<open>The constructed relayer\<close>

text \<open>
  C1. A relayer as the factory built it, with its two state machines, its polls and its network handler
  interleaved in any way and the libraries not touching its memory: a transfer that it executed on
  Ethereum is the batch that the MultiversX contract reported as pending and the validator accepted,
  under the hash of this very batch, and the signatures it sent, as many different ones as the quorum
  asks for, each arrived in a message that a staked MultiversX relayer signed, with a signature of the
  hash from which the address of a relayer of the Ethereum contract is recovered.
\<close>

theorem constructed_relayer_end_to_end:
  assumes "constructed_run lib args c w0 e m w" "libraries_confined lib args c"
    "range_order (fl_ordAmounts lib)" "range_order (fl_ordKeys lib)"
    "snd (snd m) = newer @ EvExecuteTransfer h bo q (Inr hash) # older"
  shows "\<exists>bt l auth sigs v u u'. bo = Some bt \<and>
    answered (mxc_GetPending (the (cmp_multiversXClient c))) (Inr (Some bt)) \<and> EvValidate bt (Inr True) \<in> set older \<and>
    ethc_GenerateMessageHash (the (cmp_ethClient c)) (Some bt) = Some (Inr h) \<and>
    extractList (the (cmp_ethClient c)) bt = Some l \<and>
    cw_ExecuteTransfer (the (fa_ClientWrapper args)) auth l (uint (ID bt)) sigs u = Some (Inr (Some hash), u') \<and>
    reached lib args c w0 v \<and> int (length sigs) = q \<and> distinct sigs \<and>
    (\<forall>sig \<in> set sigs. \<exists>message \<in> set (rw_received v).
       authenticated lib (the (cmp_mxDataGetter c)) (the (fa_ClientWrapper args)) message \<lparr> eth_Signature = sig, eth_MessageHash = h \<rparr>)"
proof -
  obtain mc ec b am mh where c: "clients_assembled lib args c mc ec b" "built_on (fl_ordAmounts lib) mc ec am"
    "mx_run am (half_config m w)" "half_sound (reached lib args c w0) (createBridgeExecutor am) mh m"
    by (rule constructed_run_sound [OF assms(1,2)])
  obtain sm s where s: "half_config m w = (sm, s)" "calls s = snd (snd m)"
    by (simp add: half_config_def)
  note client = built_on_ops [OF c(2)] and run = c(3) [unfolded s(1)]
  from mx_run_justified [OF run s(2) [unfolded assms(5)]] obtain bt where bt: "bo = Some bt" "pending_batch older bt"
    "ethc_GenerateMessageHash ec (Some bt) = Some (Inr h)"
    by (auto simp: signed_hash_def client)
  have pending: "answered (mxc_GetPending mc) (Inr (Some bt))" "EvValidate bt (Inr True) \<in> set older"
    using mx_run_genuine [OF run, of "EvGetPending (Inr (Some bt))"] bt(2) by (auto simp: pending_batch_def client s(2) assms(5))
  obtain x x' where x: "reached lib args c w0 x" "ethc_ExecuteTransfer (fl_ordAmounts lib) ec h (Some bt) q x = Some (Inr hash, x')"
    using c(4) bt(1) by (auto simp: half_sound_def assms(5) client answered_in_def)
  have parts: "eth_parts_within (actions_of lib args c)\<^sup>*\<^sup>* ec"
    using clients_act(2) [OF c(1)] assms(2) by (simp add: libraries_confined_def)
  have wiring: "ec_Signatures ec = held_signatures (fl_ordKeys lib)" "ec_clientWrapper ec = the (fa_ClientWrapper args)"
    "cmp_multiversXClient c = Some mc" "cmp_ethClient c = Some ec"
    by (rule assembled_wiring [OF c(1)])+
  obtain l auth v u where l: "extractList ec bt = Some l" "(actions_of lib args c)\<^sup>*\<^sup>* x v"
    "length (take (nat q) (held_signatures (fl_ordKeys lib) h v)) = nat q" "0 \<le> q"
    "cw_ExecuteTransfer (the (fa_ClientWrapper args)) auth l (uint (ID bt)) (take (nat q) (held_signatures (fl_ordKeys lib) h v)) u =
      Some (Inr (Some hash), x')"
    using act_of.ExecuteTransfer_reads [OF parts assms(3) x(2)] by (auto simp: wiring)
  have v: "reached lib args c w0 v"
    using predicate2D [OF actions_reached [OF c(1) assms(2)] l(2)] x(1) by blast
  let ?sigs = "take (nat q) (held_signatures (fl_ordKeys lib) h v)"
  have "\<exists>message \<in> set (rw_received v). authenticated lib (the (cmp_mxDataGetter c)) (the (fa_ClientWrapper args)) message
    \<lparr> eth_Signature = sig, eth_MessageHash = h \<rparr>" if "sig \<in> set ?sigs" for sig
    using held_authenticated [OF v assms(4)] that by (auto dest: in_set_takeD)
  moreover have "distinct ?sigs" "int (length ?sigs) = q"
    using Signatures_distinct [OF assms(4)] l(3,4) by (simp_all add: held_signatures_def)
  ultimately show ?thesis
    using bt pending l(1,5) v wiring by (intro exI [of _ bt] exI [of _ l] exI [of _ auth] exI [of _ ?sigs] exI [of _ v] exI [of _ u] exI [of _ x']) simp
qed

theorem constructed_relayer_end_to_end_witness:
  "\<exists>c m w newer older sigs v. constructed_run net_lib net_args c net_start net_eth_half m w \<and>
     snd (snd m) = newer @ EvExecuteTransfer net_hash (Some demo_pending) 2 (Inr ''hash'') # older \<and>
     reached net_lib net_args c net_start v \<and> length sigs = 2 \<and> distinct sigs \<and>
     (\<forall>sig \<in> set sigs. \<exists>message \<in> set (rw_received v).
        authenticated net_lib net_getter net_wrapper message \<lparr> eth_Signature = sig, eth_MessageHash = net_hash \<rparr>)"
proof -
  obtain c m w newer older where run: "constructed_run net_lib net_args c net_start net_eth_half m w" "libraries_confined net_lib net_args c"
    "snd (snd m) = newer @ EvExecuteTransfer net_hash (Some demo_pending) 2 (Inr ''hash'') # older" "cmp_mxDataGetter c = Some net_getter"
    by (rule net_run)
  have "range_order (fl_ordAmounts net_lib)" "range_order (fl_ordKeys net_lib)"
    by (simp_all add: range_order_rev)
  from constructed_relayer_end_to_end [OF run(1,2) this run(3)] obtain sigs v where sigs:
    "reached net_lib net_args c net_start v" "int (length sigs) = 2" "distinct sigs"
    "\<forall>sig \<in> set sigs. \<exists>message \<in> set (rw_received v). authenticated net_lib (the (cmp_mxDataGetter c))
       (the (fa_ClientWrapper net_args)) message \<lparr> eth_Signature = sig, eth_MessageHash = net_hash \<rparr>"
    by blast
  from sigs(2) have "length sigs = 2" by simp
  with sigs run(1,3) show ?thesis
    unfolding run(4) net_args_fields option.sel by blast
qed

text \<open>
  C5. At every moment of every run of a constructed relayer, its two whitelists are the lists that the
  contracts answered to one query each (or empty, before the first such answer): the MultiversX role
  provider whitelists exactly the keys of one list of staked relayers, the keys that it gives to the
  leader election are the keys of this list in ascending order, and the Ethereum role provider
  whitelists exactly the addresses of one list of relayers. Nothing stays from an earlier poll, and a
  poll that failed changes nothing.
\<close>

theorem relayer_whitelists_one_answer:
  assumes "constructed_run lib args c w0 e m w" "libraries_confined lib args c" "range_order (fl_ordKeys lib)"
  shows "\<exists>mrp erp keys addresses. cmp_multiversXRoleProvider c = Some mrp \<and> cmp_ethereumRoleProvider c = Some erp \<and>
    (keys = [] \<or> answered (GetAllStakedRelayers (the (cmp_mxDataGetter c))) (Inr keys)) \<and>
    (\<forall>pk. mrp_whitelists mrp w pk \<longleftrightarrow> pk \<in> set keys) \<and>
    sorted (mrp_keys (fl_ordKeys lib) mrp w) \<and> set (mrp_keys (fl_ordKeys lib) mrp w) = set keys \<and>
    (addresses = [] \<or> answered (cw_GetRelayers (the (fa_ClientWrapper args))) (Inr addresses)) \<and>
    (\<forall>a. erp_isWhitelisted (erp_at w erp) a \<longleftrightarrow> a \<in> set addresses)"
proof -
  obtain mc ec b where c: "clients_assembled lib args c mc ec b" "reached lib args c w0 w"
    by (rule constructed_run_sound [OF assms(1,2)])
  obtain getter cw where parts: "cmp_multiversXRoleProvider c = Some (mx_provider getter)" "cmp_ethereumRoleProvider c = Some (eth_provider cw)"
    using c(1) by (auto simp: clients_assembled_def)
  have "authentic_world lib (the (cmp_mxDataGetter c)) (the (fa_ClientWrapper args)) w"
    using c(2) by (simp add: reached_def)
  then obtain keys addresses where lists:
    "keys = [] \<or> answered (GetAllStakedRelayers (the (cmp_mxDataGetter c))) (Inr keys)" "fst ` set (rw_mxRelayers w) = set keys"
    "addresses = [] \<or> answered (cw_GetRelayers (the (fa_ClientWrapper args))) (Inr addresses)" "fst ` set (rw_ethRelayers w) = set addresses"
    by (rule authentic_lists)
  have "\<forall>pk. mrp_whitelists (mx_provider getter) w pk \<longleftrightarrow> pk \<in> set keys" "sorted (mrp_keys (fl_ordKeys lib) (mx_provider getter) w)"
    "set (mrp_keys (fl_ordKeys lib) (mx_provider getter) w) = set keys"
    "\<forall>a. erp_isWhitelisted (erp_at w (eth_provider cw)) a \<longleftrightarrow> a \<in> set addresses"
    by (simp_all add: role_lists [OF assms(3)] lists(2,4))
  with parts lists(1,3) show ?thesis by blast
qed

theorem relayer_whitelists_one_answer_witness:
  "\<exists>c m w mrp keys. constructed_run net_lib net_args c net_start net_eth_half m w \<and> cmp_multiversXRoleProvider c = Some mrp \<and>
     (keys = [] \<or> answered (GetAllStakedRelayers net_getter) (Inr keys)) \<and> (\<forall>pk. mrp_whitelists mrp w pk \<longleftrightarrow> pk \<in> set keys)"
proof -
  obtain c m w where run: "constructed_run net_lib net_args c net_start net_eth_half m w" "libraries_confined net_lib net_args c"
    "cmp_mxDataGetter c = Some net_getter"
    by (rule net_run)
  have "range_order (fl_ordKeys net_lib)"
    by (simp add: range_order_rev)
  from relayer_whitelists_one_answer [OF run(1,2) this] run(1) show ?thesis
    unfolding run(3) option.sel by blast
qed

text \<open>
  C6. The factory wires the parts together: after a successful construction both executors use the same
  two clients, the signatures that the Ethereum client sends are those of the holder that the
  broadcaster feeds and that only the MultiversX to Ethereum executor clears, the broadcaster takes
  messages of the keys that the MultiversX role provider whitelists and signatures of the addresses
  that the Ethereum role provider whitelists, and exactly the two role providers and the two state
  machines are polled.
\<close>

theorem construction_wires:
  assumes "NewEthMultiversXBridgeComponents lib args w = Some (Inr c, w')"
  shows "\<exists>mc ec b mrp erp eex mex.
    cmp_multiversXClient c = Some mc \<and> cmp_ethClient c = Some ec \<and> cmp_broadcaster c = Some b \<and>
    cmp_multiversXRoleProvider c = Some mrp \<and> cmp_ethereumRoleProvider c = Some erp \<and>
    cmp_ethToMultiversXExecutor c = Some eex \<and> cmp_multiversXToEthExecutor c = Some mex \<and>
    (\<forall>ex \<in> {eex, mex}. ex_multiversXClient ex = mx_client_interface rw_mxCells mxCells_put mc \<and>
       ex_ethereumClient ex = eth_client_interface (fl_ordAmounts lib) rw_ethCells ethCells_put ec) \<and>
    ec_Signatures ec = held_signatures (fl_ordKeys lib) \<and> br_clients b = [holder_client (fl_ordMessages lib)] \<and>
    ex_ClearStoredSignatures mex = clear_signatures \<and> ex_ClearStoredSignatures eex = (\<lambda>w. w) \<and>
    env_IsWhitelisted (br_env b) = mrp_whitelists mrp \<and> env_VerifyEthSignature (br_env b) = erp_verifies (fl_crypto lib) erp \<and>
    ec_BroadcastSignature ec = (\<lambda>sig h. br_call (BroadcastSignature sig h) b) \<and>
    map ph_Executor (cmp_pollingHandlers c) =
      [PollMultiversXRoleProvider, PollEthereumRoleProvider, PollEthToMultiversX, PollMultiversXToEth]"
proof -
  obtain mc ec b ae am ph1 ph2 ph3 ph4 where c: "clients_assembled lib args c mc ec b" "eth_half_assembled lib args c ae"
    "mx_half_assembled lib args c am" "map ph_Executor [ph1, ph2, ph3, ph4] =
       [PollMultiversXRoleProvider, PollEthereumRoleProvider, PollEthToMultiversX, PollMultiversXToEth]"
    "handlers [ph1, ph2, ph3, ph4] [CloseTimer, ClosePollingHandler ph1, CloseMultiversXClient, ClosePollingHandler ph2,
       ClosePollingHandler ph3, ClosePollingHandler ph4] c"
    by (rule construction [OF assms])
  have ex: "cmp_ethToMultiversXExecutor c = Some (createBridgeExecutor ae)" "cmp_multiversXToEthExecutor c = Some (createBridgeExecutor am)"
    "ex_ClearStoredSignatures (createBridgeExecutor ae) = (\<lambda>w. w)" "ex_ClearStoredSignatures (createBridgeExecutor am) = clear_signatures"
    using c(2,3) by (auto simp: eth_half_assembled_def mx_half_assembled_def createBridgeExecutor_def executorArgs_def Let_def)
  show ?thesis
    using c(4,5) ex assembled_executors [OF c(1-3)] assembled_wiring [OF c(1)] assembled_network [OF c(1)]
    by (auto simp: handlers_def)
qed

theorem construction_wires_witness:
  "\<exists>c ec. NewEthMultiversXBridgeComponents net_lib net_args net_world = Some (Inr c, net_start) \<and>
     cmp_ethClient c = Some ec \<and> ec_Signatures ec = held_signatures rev \<and>
     map ph_Executor (cmp_pollingHandlers c) =
       [PollMultiversXRoleProvider, PollEthereumRoleProvider, PollEthToMultiversX, PollMultiversXToEth]"
proof -
  obtain c where c: "NewEthMultiversXBridgeComponents net_lib net_args net_world = Some (Inr c, net_start)"
    by (rule net_builds)
  with construction_wires [OF c] show ?thesis by auto
qed

text \<open>
  C29. Closing a constructed relayer stops the loop of the join messages if that had stored its cancel
  function, then closes the timer, the MultiversX client and the four polling handlers, each once and
  in the order they were created, even after an error; the last error is the one returned.
\<close>

theorem constructed_relayer_closes:
  assumes "NewEthMultiversXBridgeComponents lib args w = Some (Inr c, w')"
  shows "\<exists>ph1 ph2 ph3 ph4. cmp_pollingHandlers c = [ph1, ph2, ph3, ph4] \<and>
    components_Close lib (c\<lparr>cmp_joinLoop := j, cmp_cancelFunc := k\<rparr>) v =
      closed_in_order [timer_Close (cmp_timer c), fl_ClosePollingHandler lib ph1, mxc_Close (the (cmp_multiversXClient c)),
        fl_ClosePollingHandler lib ph2, fl_ClosePollingHandler lib ph3, fl_ClosePollingHandler lib ph4]
        (if k then fl_cancelJoin lib v else v)"
proof -
  obtain mc ec b ph1 ph2 ph3 ph4 where c: "clients_assembled lib args c mc ec b"
    "handlers [ph1, ph2, ph3, ph4] [CloseTimer, ClosePollingHandler ph1, CloseMultiversXClient, ClosePollingHandler ph2,
       ClosePollingHandler ph3, ClosePollingHandler ph4] c"
    by (rule construction [OF assms])
  have "map (closeOne lib c) [CloseTimer, ClosePollingHandler ph1, CloseMultiversXClient, ClosePollingHandler ph2, ClosePollingHandler ph3,
      ClosePollingHandler ph4] = [timer_Close (cmp_timer c), fl_ClosePollingHandler lib ph1, mxc_Close (the (cmp_multiversXClient c)),
        fl_ClosePollingHandler lib ph2, fl_ClosePollingHandler lib ph3, fl_ClosePollingHandler lib ph4]"
    using assembled_wiring(3) [OF c(1)] by (auto simp: fun_eq_iff notNil_def)
  with Close_in_order [OF c(2), of lib k j v] have "components_Close lib (c\<lparr>cmp_joinLoop := j, cmp_cancelFunc := k\<rparr>) v =
      closed_in_order [timer_Close (cmp_timer c), fl_ClosePollingHandler lib ph1, mxc_Close (the (cmp_multiversXClient c)),
        fl_ClosePollingHandler lib ph2, fl_ClosePollingHandler lib ph3, fl_ClosePollingHandler lib ph4]
        (if k then fl_cancelJoin lib v else v)"
    by (simp only:)
  with c(2) show ?thesis
    unfolding handlers_def by blast
qed

theorem constructed_relayer_closes_witness:
  "\<exists>c. NewEthMultiversXBridgeComponents net_lib net_args net_world = Some (Inr c, net_start) \<and>
     components_Close net_lib (c\<lparr>cmp_joinLoop := True, cmp_cancelFunc := True\<rparr>) net_start = Some (None, net_start)"
proof -
  obtain c where c: "NewEthMultiversXBridgeComponents net_lib net_args net_world = Some (Inr c, net_start)" "net_wired c"
    by (rule net_builds)
  have "timer_Close (cmp_timer c) = answers None" "mxc_Close (the (cmp_multiversXClient c)) = answers None"
    using c(2) by (simp_all add: net_wired_def timer_Close_def NewNTPTimer_def net_closes)
  with constructed_relayer_closes [OF c(1), of True True net_start] c(1) show ?thesis
    by (auto simp: answers_def)
qed

text \<open>
  C30. The goroutine of a constructed relayer that repeats the join message, with its timer, the clock
  and a closing goroutine taking turns in any order. Since its start it has sent at most one join
  message per configured interval, which is at least thirty seconds. While it waits, its cancel function
  is stored and a firing of its timer is pending or due within the interval; when the timer fired it
  sends one join message and goes back to resetting the timer; once its context is done it can return,
  which stops the timer, and after that it never sends again.
\<close>

theorem join_messages_paced:
  assumes "NewEthMultiversXBridgeComponents lib args v = Some (Inr c, v')"
    "loop_steps (startBroadcastJoinRetriesLoop c) (start, loop_entered False, w0) (now, g, w)"
  shows "second * 30 \<le> fa_TimeBeforeRepeatJoin args \<and> int (length (lp_acted g)) * fa_TimeBeforeRepeatJoin args \<le> now - start \<and>
    (lp_at g = LoopSelects \<longrightarrow> lp_cancelFunc g \<and>
       (lp_fired g \<or> (\<exists>d. lp_deadline g = Some d \<and> d \<le> now + fa_TimeBeforeRepeatJoin args)) \<and>
       startBroadcastJoinRetriesLoop c TimerCase now (g\<lparr>lp_fired := True\<rparr>, w) =
         Some (g\<lparr>lp_fired := False, lp_acted := now # lp_acted g, lp_at := LoopResets\<rparr>,
           snd (the (br_call BroadcastJoinTopic (the (cmp_broadcaster c)) w))) \<and>
       startBroadcastJoinRetriesLoop c DoneCase now (g\<lparr>lp_done := True\<rparr>, w) =
         Some (g\<lparr>lp_done := True, lp_deadline := None, lp_at := LoopReturned\<rparr>, w)) \<and>
    (lp_at g = LoopReturned \<longrightarrow> lp_done g \<and> lp_deadline g = None \<and>
       (\<forall>s. loop_steps (startBroadcastJoinRetriesLoop c) (now, g, w) s \<longrightarrow> lp_acted (fst (snd s)) = lp_acted g))"
proof -
  have time: "cmp_timeBeforeRepeatJoin c = fa_TimeBeforeRepeatJoin args" "second * 30 \<le> fa_TimeBeforeRepeatJoin args"
    using construction_registers(6) [OF assms(1) refl refl] construction_interval [OF assms(1)] by simp_all
  obtain b where b: "cmp_broadcaster c = Some b"
    using construction [OF assms(1)] unfolding clients_assembled_def by metis
  note loop = assms(2) [folded not_True_eq_False]
  have "int (length (lp_acted g)) * fa_TimeBeforeRepeatJoin args \<le> now - start"
    using join.paced(1) [OF loop] time by (simp add: second_def)
  moreover have "lp_cancelFunc g \<and> (lp_fired g \<or> (\<exists>d. lp_deadline g = Some d \<and> d \<le> now + fa_TimeBeforeRepeatJoin args))"
    if "lp_at g = LoopSelects"
    using join.paced(2,3) [OF loop] time(1) that by simp
  moreover have "startBroadcastJoinRetriesLoop c TimerCase now (g\<lparr>lp_fired := True\<rparr>, w) =
      Some (g\<lparr>lp_fired := False, lp_acted := now # lp_acted g, lp_at := LoopResets\<rparr>,
        snd (the (br_call BroadcastJoinTopic (the (cmp_broadcaster c)) w)))" if "lp_at g = LoopSelects"
    using br_call_join [of b w] b that by (auto simp: join.timer_case send_join_def)
  moreover have "startBroadcastJoinRetriesLoop c DoneCase now (g\<lparr>lp_done := True\<rparr>, w) =
      Some (g\<lparr>lp_done := True, lp_deadline := None, lp_at := LoopReturned\<rparr>, w)" if "lp_at g = LoopSelects"
    using that by (simp add: join.done_case)
  moreover have "lp_acted (fst (snd s)) = lp_acted g"
    if "lp_at g = LoopReturned" "loop_steps (startBroadcastJoinRetriesLoop c) (now, g, w) s" for s
    using join.returned_steps [OF that(2,1)] by (rule conjunct2)
  ultimately show ?thesis
    using time(2) join.paced(4) [OF loop] by (intro conjI impI allI) simp_all
qed

theorem join_messages_paced_witness:
  "\<exists>c g w. NewEthMultiversXBridgeComponents net_lib net_args net_world = Some (Inr c, net_start) \<and>
     loop_steps (startBroadcastJoinRetriesLoop c) (0, loop_entered False, net_start) (fa_TimeBeforeRepeatJoin net_args, g, w) \<and>
     lp_acted g = [fa_TimeBeforeRepeatJoin net_args] \<and>
     int (length (lp_acted g)) * fa_TimeBeforeRepeatJoin net_args \<le> fa_TimeBeforeRepeatJoin net_args - 0"
proof -
  obtain c where c: "NewEthMultiversXBridgeComponents net_lib net_args net_world = Some (Inr c, net_start)"
    "cmp_broadcaster c = Some net_joined"
    by (rule net_builds)
  have t: "cmp_timeBeforeRepeatJoin c = fa_TimeBeforeRepeatJoin net_args" "0 \<le> fa_TimeBeforeRepeatJoin net_args"
    using construction_registers(6) [OF c(1) refl refl] construction_interval [OF c(1)] by (simp_all add: second_def)
  then obtain g w where "loop_steps (startBroadcastJoinRetriesLoop c) (0, loop_entered False, net_start)
      (cmp_timeBeforeRepeatJoin c, g, w)" "lp_acted g = [cmp_timeBeforeRepeatJoin c]"
    using join_round [OF _ c(2)] by metis
  with join_messages_paced [OF c(1) this(1)] c(1) t(1) show ?thesis by auto
qed

text \<open>
  C36. The REST server of a constructed relayer serves exactly the routes of the node group that the
  configuration opens, behind the configured limiters, besides the log and the profiling. Asked for a
  name it answers with the metrics that the handler of this name has at that moment: those of the
  half-bridges, which the machines keep in the memory of the relayer, and those of the handlers the
  factory was given; any other name is answered with an error. The list names exactly these handlers.
  Two documents of the repository say otherwise: the route \<^verbatim>\<open>/peerinfo\<close>, which the shipped \<^verbatim>\<open>api.toml\<close>
  opens, is not one of the node group (\<open>node_routes\<close>) and is never served, and the names
  \<^verbatim>\<open>MultiversXToEth\<close> and \<^verbatim>\<open>EthToMultiversX\<close> of \<^verbatim>\<open>openapi.yaml\<close> are not those of the handlers.
\<close>

theorem relayer_reports:
  assumes "NewEthMultiversXBridgeComponents lib args w = Some (Inr c, w')"
    "StartWebServer rl gord (fa_Configs args) (Some (cmp_metricsHolder c)) w' = Some (Inr ws, w'')"
    "range_order gord" "range_order hord" "rl_BasePath rl ''/node'' = p @ ''/node''"
    "flg_RestApiInterface (cfg_FlagsConfig (fa_Configs args)) \<noteq> WebServerOffString"
    "chain = ecf_Chain (cfg_Eth (cfg_GeneralConfig (fa_Configs args)))"
  shows "\<exists>ng server. ws_groups ws = [(''node'', ng)] \<and> ws_httpServer ws = Some server \<and>
    srv_Handler server = UseCors # map UseProcessor (configured_processors (cfg_ApiRoutesConfig (fa_Configs args))
        (cfg_Antiflood (cfg_GeneralConfig (fa_Configs args)))) @
      node_routes (cfg_ApiRoutesConfig (fa_Configs args)) @ [GetLog] @
      (if flg_EnablePprof (cfg_FlagsConfig (fa_Configs args)) then [RegisterPprof] else []) \<and>
    (\<forall>name v. callHandler rl hord ng StatusMetrics [(''name'', [name])] v =
       (case (if name = EvmCompatibleChainToMultiversXName chain then Some (reported (rw_ethMetrics v))
              else if name = MultiversXToEvmCompatibleChainName chain then Some (reported (rw_mxMetrics v))
              else map_option (\<lambda>metrics. metrics v) (gm_get (the (fa_MetricsHolder args)) name)) of
          Some metrics \<Rightarrow> \<lparr> resp_Status = 200, resp_Data = Some metrics, resp_Error = '''', resp_Code = rl_ReturnCodeSuccess rl \<rparr>
        | None \<Rightarrow> \<lparr> resp_Status = 500, resp_Data = None, resp_Error = ''error getting metrics: missing status handler'',
            resp_Code = rl_ReturnCodeInternalError rl \<rparr>)) \<and>
    (\<exists>names. (\<forall>query v. resp_Data (callHandler rl hord ng StatusListMetrics query v) = Some [(availableMetrics, NamesValue names)]) \<and>
       set names = {EvmCompatibleChainToMultiversXName chain, MultiversXToEvmCompatibleChainName chain} \<union>
         fst ` set (the (fa_MetricsHolder args)) \<and> sorted (map (map (of_char :: char \<Rightarrow> nat)) names))"
proof -
  obtain ng where ng: "ws_groups ws = [(''node'', ng)]" "rf_metricsHolder (ng_facade ng) = cmp_metricsHolder c"
    "ws_httpServer ws = Some \<lparr> srv_Addr = flg_RestApiInterface (cfg_FlagsConfig (fa_Configs args)),
       srv_Handler = UseCors # map UseProcessor (configured_processors (cfg_ApiRoutesConfig (fa_Configs args))
           (cfg_Antiflood (cfg_GeneralConfig (fa_Configs args)))) @ node_routes (cfg_ApiRoutesConfig (fa_Configs args)) @ [GetLog] @
         (if flg_EnablePprof (cfg_FlagsConfig (fa_Configs args)) then [RegisterPprof] else []) \<rparr>"
    by (rule StartWebServer_success [OF assms(2,3,5,6)])
  note holder = construction_registers [OF assms(1,7) refl]
  define names where "names = GetAvailableStatusHandlers hord (cmp_metricsHolder c)"
  have "callHandler rl hord ng StatusMetrics [(''name'', [name])] v =
       (case (if name = EvmCompatibleChainToMultiversXName chain then Some (reported (rw_ethMetrics v))
              else if name = MultiversXToEvmCompatibleChainName chain then Some (reported (rw_mxMetrics v))
              else map_option (\<lambda>metrics. metrics v) (gm_get (the (fa_MetricsHolder args)) name)) of
          Some metrics \<Rightarrow> \<lparr> resp_Status = 200, resp_Data = Some metrics, resp_Error = '''', resp_Code = rl_ReturnCodeSuccess rl \<rparr>
        | None \<Rightarrow> \<lparr> resp_Status = 500, resp_Data = None, resp_Error = ''error getting metrics: missing status handler'',
            resp_Code = rl_ReturnCodeInternalError rl \<rparr>)" for name v
    by (simp add: statusMetrics_answer clientQueryParam_def ng(2) holder(1) holder(4) holder(4) [symmetric] split: option.split)
  moreover have "resp_Data (callHandler rl hord ng StatusListMetrics query v) = Some [(availableMetrics, NamesValue names)]" for query v
    by (simp add: statusListMetrics_def GetMetricsList_def ng(2) names_def)
  moreover have "set names = {EvmCompatibleChainToMultiversXName chain, MultiversXToEvmCompatibleChainName chain} \<union>
      fst ` set (the (fa_MetricsHolder args))"
    using assms(4) by (auto simp: names_def GetAvailableStatusHandlers_def holder(1))
  moreover have "sorted (map (map (of_char :: char \<Rightarrow> nat)) names)"
    by (simp add: names_def GetAvailableStatusHandlers_def)
  ultimately show ?thesis
    using ng(1,3) by (intro exI [of _ ng]) auto
qed

theorem relayer_reports_witness:
  "\<exists>c ws w'' ng server. NewEthMultiversXBridgeComponents net_lib net_args net_world = Some (Inr c, net_start) \<and>
     StartWebServer net_rest id (fa_Configs net_args) (Some (cmp_metricsHolder c)) net_start = Some (Inr ws, w'') \<and>
     ws_httpServer ws = Some server \<and> HandleRoute ''/node'' ''GET'' ''/status'' StatusMetrics \<in> set (srv_Handler server) \<and>
     resp_Data (callHandler net_rest rev ng StatusMetrics [(''name'', [''EthereumToMultiversX''])] net_start) = Some [] \<and>
     resp_Status (callHandler net_rest rev ng StatusMetrics [(''name'', [''unknown''])] net_start) = 500"
proof -
  obtain c where c: "NewEthMultiversXBridgeComponents net_lib net_args net_world = Some (Inr c, net_start)"
    by (rule net_builds)
  obtain ws where ws: "StartWebServer net_rest id (fa_Configs net_args) (Some (cmp_metricsHolder c)) net_start = Some (Inr ws, net_start)"
    by (rule net_serves)
  have orders: "range_order id" "range_order rev" by (simp_all add: range_order_rev range_order_def)
  have cfg: "flg_RestApiInterface (cfg_FlagsConfig (fa_Configs net_args)) \<noteq> WebServerOffString"
    "HandleRoute ''/node'' ''GET'' ''/status'' StatusMetrics \<in> set (node_routes (cfg_ApiRoutesConfig (fa_Configs net_args)))"
    "rl_BasePath net_rest ''/node'' = [] @ ''/node''" "''Ethereum'' = ecf_Chain (cfg_Eth (cfg_GeneralConfig (fa_Configs net_args)))"
    by (simp_all add: net_args_def net_config_def WebServerOffString_def node_routes_def route_open_def statusPath_def MethodGet_def net_rest_def)
  have empty: "reported (rw_ethMetrics net_start) = []"
    by (simp add: reported_def net_start_def net_world_def no_metrics_def)
  obtain ng server where r: "ws_httpServer ws = Some server"
    "srv_Handler server = UseCors # map UseProcessor (configured_processors (cfg_ApiRoutesConfig (fa_Configs net_args))
        (cfg_Antiflood (cfg_GeneralConfig (fa_Configs net_args)))) @
      node_routes (cfg_ApiRoutesConfig (fa_Configs net_args)) @ [GetLog] @
      (if flg_EnablePprof (cfg_FlagsConfig (fa_Configs net_args)) then [RegisterPprof] else [])" and
    answer: "\<forall>name v. callHandler net_rest rev ng StatusMetrics [(''name'', [name])] v =
       (case (if name = EvmCompatibleChainToMultiversXName ''Ethereum'' then Some (reported (rw_ethMetrics v))
              else if name = MultiversXToEvmCompatibleChainName ''Ethereum'' then Some (reported (rw_mxMetrics v))
              else map_option (\<lambda>metrics. metrics v) (gm_get (the (fa_MetricsHolder net_args)) name)) of
          Some metrics \<Rightarrow> \<lparr> resp_Status = 200, resp_Data = Some metrics, resp_Error = '''', resp_Code = rl_ReturnCodeSuccess net_rest \<rparr>
        | None \<Rightarrow> \<lparr> resp_Status = 500, resp_Data = None, resp_Error = ''error getting metrics: missing status handler'',
            resp_Code = rl_ReturnCodeInternalError net_rest \<rparr>)"
    using relayer_reports [OF c ws orders cfg(3,1,4)] by (elim exE conjE) (rule that; assumption)
  have "resp_Data (callHandler net_rest rev ng StatusMetrics [(''name'', [''EthereumToMultiversX''])] net_start) = Some []"
    "resp_Status (callHandler net_rest rev ng StatusMetrics [(''name'', [''unknown''])] net_start) = 500"
    unfolding answer [rule_format]
    by (simp_all add: EvmCompatibleChainToMultiversXName_def MultiversXToEvmCompatibleChainName_def empty)
  moreover have "HandleRoute ''/node'' ''GET'' ''/status'' StatusMetrics \<in> set (srv_Handler server)"
    unfolding r(2) using cfg(2) by simp
  ultimately show ?thesis
    using r(1) c ws by blast
qed

text \<open>
  C26. Whatever its flags and configuration files say, the arguments that the process builds pass every
  check of the factory and carry the configuration unchanged; the status handlers of the two clients are
  registered under their names and report the metrics in the memory of the process; and when the
  libraries do not touch the memory of the relayer, neither do the wrappers and handlers around them.
\<close>

theorem process_args_accepted:
  assumes "createArgs lib ml configs w = Some (Inr args, w')" "libraries_outside ml"
  shows "checkArgsEthereumToMultiversXBridge lib args = None \<and> fa_Configs args = configs \<and>
    mcf_NetworkAddress (cfg_MultiversX (cfg_GeneralConfig configs)) \<noteq> '''' \<and>
    fa_MetricsHolder args = Some [(EthClientStatusHandlerName, \<lambda>w. reported (eth_client_metrics w)),
      (MultiversXClientStatusHandlerName, \<lambda>w. reported (mx_client_metrics w))] \<and>
    proxy_within outside_only (the (fa_Proxy args)) \<and> wrapper_within outside_only (the (fa_ClientWrapper args)) \<and>
    (\<forall>t a. within outside_only (the (fa_Erc20ContractsHolder args) t a)) \<and>
    handler_within outside_only (the (fa_MultiversXClientStatusHandler args))"
proof -
  have "fa_Configs args = configs" "mcf_NetworkAddress (cfg_MultiversX (cfg_GeneralConfig configs)) \<noteq> ''''"
    "fa_MetricsHolder args = Some [(EthClientStatusHandlerName, \<lambda>w. reported (eth_client_metrics w)),
      (MultiversXClientStatusHandlerName, \<lambda>w. reported (mx_client_metrics w))]"
    by (rule createArgs_success [OF assms(1)]; assumption)+
  then show ?thesis
    using relay_args_checked [OF assms(1)] relay_args_confined [OF assms order_refl] by blast
qed

theorem process_args_accepted_witness:
  "\<exists>args w. createArgs net_lib net_main net_configs net_process = Some (Inr args, w) \<and>
     checkArgsEthereumToMultiversXBridge net_lib args = None \<and> wrapper_within outside_only (the (fa_ClientWrapper args))"
proof -
  obtain args w where args: "createArgs net_lib net_main net_configs net_process = Some (Inr args, w)"
    using net_process_args by blast
  from process_args_accepted [OF args net_process_outside] args show ?thesis by blast
qed

end
